(* ===== verification/Prelude.thy ===== *)
theory Prelude
  imports Main "HOL-Library.Word" "HOL-Library.AList"
begin

text \<open>
  Shared vocabulary of the development: the C++ integer and buffer types at their width, the
  outcome of an operation (a value, an error code, an exception, undefined behaviour or a loop
  that does not end), the sequencing of fallible steps, and the generic lemmas on lists, words
  and association lists that the component theories use.
\<close>

section \<open>Machine types\<close>

type_synonym byte = "8 word"
type_synonym u16 = "16 word"
type_synonym u32 = "32 word"
type_synonym u64 = "64 word"
type_synonym size_t = "64 word"
type_synonym buffer = "byte list"

section \<open>Outcomes\<close>

text \<open>
  The status codes the SDK's \<^verbatim>\<open>enum class Error\<close> lists, in its order.  \<open>Ok\<close> is not a
  constructor: a successful call is the right summand of \<open>outcome\<close>.
\<close>

datatype (plugins only: code) error =
    Unknown | InternalError | NotInitialized | BadArgument | AllocFailed | FeatureNotEnabled
  | XmlInitFailed | RelyingPartyPolicyMismatch | OverallResultFalse
  | RimForbidden | RimInternalError | RimConnectionError | RimNotFound | RimInvalidSignature
  | RimInvalidSchema | RimMeasurementNotFound | RimMeasurementConflict
  | NrasAttestationError | NrasTokenInvalid | NrasForbidden
  | OcspInvalidResponse | OcspServerError | OcspInvalidRequest | OcspStatusNotGood | OcspForbidden
  | PolicyEvaluationError
  | SpdmParseError | SpdmOpaqueDataParseError | SpdmMeasurementRecordParseError
  | SpdmRequestParseError | SpdmFieldNotFound
  | NvmlInitFailed | NvmlError | GpuArchitectureNotSupported | GpuEvidenceInvalid
  | GpuEvidenceNonceMismatch | GpuEvidenceDriverRimVersionMismatch
  | GpuEvidenceVbiosRimVersionMismatch | GpuEvidenceFwidMismatch | GpuEvidenceInvalidSignature
  | GpuModeNotSupported | GpuFwNotSupported
  | CertFwidNotFound | CertNotFound | CertChainVerificationFailure
  | JsonSerializationError | LibXml2Error
  | NscqInitFailed | NscqError | CorelibInitFailed | CorelibError
  | SwitchArchitectureNotSupported | SwitchEvidenceNonceMismatch
  | SwitchEvidenceVbiosRimVersionMismatch | SwitchEvidenceFwidMismatch
  | SwitchEvidenceInvalidSignature | CacheObjectNotFound

text \<open>The C++ exceptions the modelled code can throw.\<close>

datatype cpp_exn = OutOfRange | InvalidArgument | JsonException | RuntimeError

text \<open>
  \<open>UB\<close> is undefined behaviour (an access outside a buffer, a shift by the operand's width or
  more); \<open>Diverge\<close> is a loop whose iteration budget ran out.  The safety theorems show that
  the parsers reach neither.
\<close>

datatype failure = Err error | Exn cpp_exn | UB | Diverge

type_synonym 'a outcome = "failure + 'a"

definition ret :: "'a \<Rightarrow> 'a outcome" where
  "ret x = Inr x"

definition fail :: "error \<Rightarrow> 'a outcome" where
  "fail e = Inl (Err e)"

definition throw :: "cpp_exn \<Rightarrow> 'a outcome" where
  "throw x = Inl (Exn x)"

definition undefined_behaviour :: "'a outcome" where
  "undefined_behaviour = Inl UB"

definition bind :: "'a outcome \<Rightarrow> ('a \<Rightarrow> 'b outcome) \<Rightarrow> 'b outcome" where
  "bind m k = (case m of Inl f \<Rightarrow> Inl f | Inr x \<Rightarrow> k x)"

text \<open>\<^verbatim>\<open>if (!c) return e;\<close> followed by the rest of the function.\<close>

definition guard :: "error \<Rightarrow> bool \<Rightarrow> 'a outcome \<Rightarrow> 'a outcome" where
  "guard e c k = (if c then k else fail e)"

text \<open>A caller that replaces whatever error code the callee returned by its own.\<close>

definition map_error :: "error \<Rightarrow> 'a outcome \<Rightarrow> 'a outcome" where
  "map_error e m = (case m of Inl (Err _) \<Rightarrow> fail e | Inl f \<Rightarrow> Inl f | Inr x \<Rightarrow> Inr x)"

definition is_ok :: "'a outcome \<Rightarrow> bool" where
  "is_ok m = (case m of Inl _ \<Rightarrow> False | Inr _ \<Rightarrow> True)"

text \<open>A computation is defined when it neither invokes undefined behaviour nor diverges.\<close>

definition defined :: "'a outcome \<Rightarrow> bool" where
  "defined m = (m \<noteq> Inl UB \<and> m \<noteq> Inl Diverge)"

named_theorems outcome_simps "equations and inversion rules of the outcome combinators"
named_theorems refine_intros "rules that relate an offset-based reader to a list-consuming one"
named_theorems defined_intros "rules that show a computation defined"

lemma bind_simps [simp]:
  "bind (Inl f) k = Inl f"
  "bind (Inr x) k = k x"
  by (simp_all add: bind_def)

lemma bind_ret [simp]: "bind (ret x) k = k x"
  by (simp add: ret_def)

lemma bind_fail [simp]: "bind (fail e) k = fail e"
  by (simp add: fail_def)

lemma bind_eq_Inr [outcome_simps]: "bind m k = Inr y \<longleftrightarrow> (\<exists>x. m = Inr x \<and> k x = Inr y)"
  by (cases m) auto

lemma bind_eq_Inl [outcome_simps]:
  "bind m k = Inl f \<longleftrightarrow> m = Inl f \<or> (\<exists>x. m = Inr x \<and> k x = Inl f)"
  by (cases m) auto

lemma bind_assoc: "bind (bind m f) g = bind m (\<lambda>x. bind (f x) g)"
  by (cases m) auto

lemma ret_eq [outcome_simps]: "ret x = Inr y \<longleftrightarrow> x = y" "ret x \<noteq> Inl f" "Inl f \<noteq> ret x"
  by (auto simp: ret_def)

lemma fail_eq [outcome_simps]:
  "fail e \<noteq> Inr y" "fail e = Inl f \<longleftrightarrow> f = Err e" "fail e = fail e' \<longleftrightarrow> e = e'"
  by (auto simp: fail_def)

lemma throw_eq [outcome_simps]: "throw x \<noteq> Inr y" "throw x = Inl f \<longleftrightarrow> f = Exn x"
  by (auto simp: throw_def)

lemma guard_True [simp]: "guard e True k = k"
  by (simp add: guard_def)

lemma guard_False [simp]: "guard e False k = fail e"
  by (simp add: guard_def)

lemma guard_eq_Inr [outcome_simps]: "guard e c k = Inr y \<longleftrightarrow> c \<and> k = Inr y"
  by (cases c) (auto simp: fail_def)

lemma guard_eq_Inl [outcome_simps]:
  "guard e c k = Inl f \<longleftrightarrow> (\<not> c \<and> f = Err e) \<or> (c \<and> k = Inl f)"
  by (cases c) (auto simp: fail_def)

lemma map_error_simps [simp]:
  "map_error e (Inr x) = Inr x"
  "map_error e (Inl (Err e')) = fail e"
  "map_error e (Inl UB) = Inl UB"
  "map_error e (Inl Diverge) = Inl Diverge"
  "map_error e (Inl (Exn ex)) = Inl (Exn ex)"
  by (simp_all add: map_error_def)

lemma map_error_fail [simp]: "map_error e (fail e') = fail e"
  by (simp add: fail_def)

lemma map_error_eq_Inr [outcome_simps]: "map_error e m = Inr y \<longleftrightarrow> m = Inr y"
  by (auto simp: map_error_def fail_def split: sum.splits failure.splits)

lemma guard_cong [refine_intros]:
  "(c \<longleftrightarrow> c') \<Longrightarrow> (c' \<Longrightarrow> k = k') \<Longrightarrow> guard e c k = guard e c' k'"
  by (simp add: guard_def)

section \<open>Definedness\<close>

lemma defined_Inr [defined_intros, simp]: "defined (Inr x)"
  by (simp add: defined_def)

lemma defined_ret [defined_intros, simp]: "defined (ret x)"
  by (simp add: ret_def)

lemma defined_fail [defined_intros, simp]: "defined (fail e)"
  by (simp add: fail_def defined_def)

lemma defined_throw [defined_intros, simp]: "defined (throw e)"
  by (simp add: throw_def defined_def)

lemma defined_guard [defined_intros]: "(c \<Longrightarrow> defined k) \<Longrightarrow> defined (guard e c k)"
  by (simp add: guard_def)

lemma defined_bind [defined_intros]:
  "defined m \<Longrightarrow> (\<And>x. m = Inr x \<Longrightarrow> defined (k x)) \<Longrightarrow> defined (bind m k)"
  by (cases m) (auto simp: defined_def)

lemma defined_map_error [defined_intros]: "defined m \<Longrightarrow> defined (map_error e m)"
  by (auto simp: defined_def map_error_def fail_def split: sum.splits failure.splits)

lemma definedD: "defined m \<Longrightarrow> m = Inl f \<Longrightarrow> (\<exists>e. f = Err e) \<or> (\<exists>x. f = Exn x)"
  by (cases f) (auto simp: defined_def)

section \<open>Lists\<close>

lemma take_append_drop_Cons:
  "n < length xs \<Longrightarrow> drop n xs = xs ! n # drop (Suc n) xs"
  by (rule Cons_nth_drop_Suc [symmetric])

lemma map_nth_upt_drop:
  "k + n \<le> length xs \<Longrightarrow> map (\<lambda>i. xs ! (k + i)) [0..<n] = take n (drop k xs)"
  by (rule nth_equalityI) auto

lemma append_take_drop_split:
  "n \<le> length xs \<Longrightarrow> \<exists>ys zs. xs = ys @ zs \<and> length ys = n \<and> take n xs = ys \<and> drop n xs = zs"
  by (rule exI [of _ "take n xs"], rule exI [of _ "drop n xs"]) simp

section \<open>Association lists as finite maps\<close>

lemma map_of_AList_update [simp]: "map_of (AList.update k v m) = (map_of m)(k \<mapsto> v)"
  by (simp add: update_conv')

lemma distinct_keys_update:
  "distinct (map fst m) \<Longrightarrow> distinct (map fst (AList.update k v m))"
  by (rule distinct_update)

text \<open>After a run of insertions a key holds what the last insertion for it stored.\<close>

lemma map_of_fold_update:
  "map_of (fold (\<lambda>x. AList.update (key x) (val x)) xs m) i
     = (case find (\<lambda>x. key x = i) (rev xs) of Some x \<Rightarrow> Some (val x) | None \<Rightarrow> map_of m i)"
  by (induction xs rule: rev_induct) simp_all

lemma distinct_fold_update:
  "distinct (map fst m) \<Longrightarrow> distinct (map fst (fold (\<lambda>x. AList.update (key x) (val x)) xs m))"
  by (induction xs arbitrary: m) (simp_all add: distinct_keys_update)

text \<open>Copying a map under an injective renaming of its keys.\<close>

lemma map_of_fold_rename:
  assumes "inj f"
  shows "map_of (fold (\<lambda>(k, v). AList.update (f k) (g v)) xs m) (f k)
    = (case map_of (rev xs) k of Some v \<Rightarrow> Some (g v) | None \<Rightarrow> map_of m (f k))"
  using assms by (induction xs arbitrary: m rule: rev_induct) (auto simp: inj_eq)

lemma fold_rename_keys:
  "map_of (fold (\<lambda>(k, v). AList.update (f k) (g v)) xs m) i = Some y
    \<Longrightarrow> i \<in> f ` fst ` set xs \<or> map_of m i = Some y"
  by (induction xs rule: rev_induct) (auto split: if_splits)

lemma map_of_rev_distinct: "distinct (map fst xs) \<Longrightarrow> map_of (rev xs) = map_of xs"
proof (induction xs)
  case (Cons x xs)
  then have "fst x \<notin> dom (map_of xs)" by (simp add: dom_map_of_conv_image_fst)
  with Cons show ?case by (cases x) (auto simp: map_add_def fun_eq_iff split: option.splits)
qed simp

end
