(* ===== verification/Bytes.thy ===== *)
theory Bytes
  imports Prelude
begin

text \<open>
  Byte buffers as \<^verbatim>\<open>include/nv_attestation/utils.h\<close> and
  \<^verbatim>\<open>include/nv_attestation/spdm/utils.h\<close> handle them: bounds checks on 64-bit offsets that
  can wrap around, little-endian reads, bounded copies.  Every element access is explicit, so an
  access outside the buffer is the outcome \<open>UB\<close>.  The second half relates the offset-based
  readers to readers that consume a list, which is how the wire-format theorems of the SPDM
  theories are proved.
\<close>

unbundle bit_operations_syntax

section \<open>Primitive reads\<close>

text \<open>\<^verbatim>\<open>v.size()\<close> as a \<^verbatim>\<open>size_t\<close>.\<close>

definition vsize :: "'a list \<Rightarrow> size_t" where
  "vsize xs = of_nat (length xs)"

text \<open>
  A \<^verbatim>\<open>std::vector<uint8_t>\<close> holds at most \<^verbatim>\<open>PTRDIFF_MAX\<close> elements.
\<close>

definition wf_buffer :: "buffer \<Rightarrow> bool" where
  "wf_buffer buf \<longleftrightarrow> length buf < 2 ^ 63"

text \<open>The test of the code adds two \<^verbatim>\<open>size_t\<close> values, so the sum wraps.\<close>

definition can_read_buffer :: "buffer \<Rightarrow> size_t \<Rightarrow> size_t \<Rightarrow> bool" where
  "can_read_buffer buf start_offset bytes_to_read \<longleftrightarrow> start_offset + bytes_to_read \<le> vsize buf"

definition byte_at :: "buffer \<Rightarrow> size_t \<Rightarrow> byte outcome" where
  "byte_at buf i = (if unat i < length buf then ret (buf ! unat i) else undefined_behaviour)"

text \<open>
  The loop of \<^verbatim>\<open>read_little_endian\<close>.  The operand of the shift is promoted to at least 32 bits;
  shifting it by its width or more is undefined.
\<close>

fun le_loop :: "buffer \<Rightarrow> size_t \<Rightarrow> nat \<Rightarrow> nat \<Rightarrow> 'a::len word \<Rightarrow> 'a word outcome" where
  "le_loop buf offset i 0 out_value = ret out_value"
| "le_loop buf offset i (Suc n) out_value =
     bind (byte_at buf (offset + of_nat i)) (\<lambda>b.
       if max 32 LENGTH('a) \<le> i * 8 then undefined_behaviour
       else le_loop buf offset (Suc i) n (out_value OR push_bit (i * 8) (ucast b)))"

definition read_little_endian :: "buffer \<Rightarrow> size_t \<Rightarrow> size_t \<Rightarrow> 'a::len word option outcome" where
  "read_little_endian buf offset num_bytes =
     (if vsize buf < offset + num_bytes then ret None
      else bind (le_loop buf offset 0 (unat num_bytes) 0) (\<lambda>v. ret (Some v)))"

definition checked_assign :: "buffer \<Rightarrow> size_t \<Rightarrow> size_t \<Rightarrow> buffer option outcome" where
  "checked_assign source u_offset u_length =
     (if \<not> can_read_buffer source u_offset u_length then ret None
      else if sint u_offset < 0 then ret None
      else if sint u_length < 0 then ret None
      else if unat u_offset + unat u_length \<le> length source
        then ret (Some (take (unat u_length) (drop (unat u_offset) source)))
      else undefined_behaviour)"

text \<open>
  The array template parameter \<^verbatim>\<open>N\<close> is the length of the target array; the first
  \<^verbatim>\<open>u_length\<close> elements are overwritten.
\<close>

definition checked_copy_n :: "buffer \<Rightarrow> buffer \<Rightarrow> size_t \<Rightarrow> size_t \<Rightarrow> buffer option outcome" where
  "checked_copy_n target source u_offset u_length =
     (if vsize target < u_length then ret None
      else if \<not> can_read_buffer source u_offset u_length then ret None
      else if sint u_offset < 0 then ret None
      else if sint u_length < 0 then ret None
      else if unat u_offset + unat u_length \<le> length source
        then ret (Some (take (unat u_length) (drop (unat u_offset) source)
                        @ drop (unat u_length) target))
      else undefined_behaviour)"

section \<open>Field readers\<close>

text \<open>
  The parsers repeat four idioms: check and read one byte, read a little-endian integer, assign a
  vector, fill an array.  Each is followed by advancing the offset; the rest of the parser is the
  continuation \<open>k\<close>.
\<close>

definition u8_field :: "error \<Rightarrow> buffer \<Rightarrow> size_t \<Rightarrow> (byte \<Rightarrow> size_t \<Rightarrow> 'b outcome) \<Rightarrow> 'b outcome" where
  "u8_field e d off k =
     guard e (can_read_buffer d off 1) (bind (byte_at d off) (\<lambda>v. k v (off + 1)))"

definition le_field ::
  "error \<Rightarrow> buffer \<Rightarrow> size_t \<Rightarrow> size_t \<Rightarrow> ('a::len word \<Rightarrow> size_t \<Rightarrow> 'b outcome) \<Rightarrow> 'b outcome" where
  "le_field e d off n k =
     bind (read_little_endian d off n) (\<lambda>r. case r of None \<Rightarrow> fail e | Some v \<Rightarrow> k v (off + n))"

definition vec_field ::
  "error \<Rightarrow> buffer \<Rightarrow> size_t \<Rightarrow> size_t \<Rightarrow> (buffer \<Rightarrow> size_t \<Rightarrow> 'b outcome) \<Rightarrow> 'b outcome" where
  "vec_field e d off n k =
     bind (checked_assign d off n) (\<lambda>r. case r of None \<Rightarrow> fail e | Some v \<Rightarrow> k v (off + n))"

definition arr_field ::
  "error \<Rightarrow> buffer \<Rightarrow> size_t \<Rightarrow> nat \<Rightarrow> (buffer \<Rightarrow> size_t \<Rightarrow> 'b outcome) \<Rightarrow> 'b outcome" where
  "arr_field e d off N k =
     bind (checked_copy_n (replicate N 0) d off (of_nat N))
       (\<lambda>r. case r of None \<Rightarrow> fail e | Some v \<Rightarrow> k v (off + of_nat N))"

section \<open>Little-endian values\<close>

fun le_value :: "byte list \<Rightarrow> 'a::len word" where
  "le_value [] = 0"
| "le_value (b # bs) = ucast b OR push_bit 8 (le_value bs)"

definition le_bytes :: "nat \<Rightarrow> 'a::len word \<Rightarrow> byte list" where
  "le_bytes n v = map (\<lambda>i. ucast (drop_bit (8 * i) v)) [0..<n]"

lemma bit_le_value:
  "bit (le_value bs :: 'a::len word) k \<longleftrightarrow>
     k < LENGTH('a) \<and> k div 8 < length bs \<and> bit (bs ! (k div 8)) (k mod 8)"
proof (induction bs arbitrary: k)
  case Nil
  then show ?case by simp
next
  case (Cons b bs)
  show ?case
  proof (cases "k < 8")
    case True
    then show ?thesis by (auto simp: bit_simps)
  next
    case False
    then obtain j where j: "k = j + 8" by (metis add.commute le_Suc_ex not_less)
    have "\<not> bit b k" using False bit_imp_le_length [of b k] by auto
    moreover have "(j + 8) div 8 = Suc (j div 8)" by simp
    ultimately show ?thesis using Cons.IH [of j] by (auto simp: bit_simps j)
  qed
qed

lemma length_le_bytes [simp]: "length (le_bytes n v) = n"
  by (simp add: le_bytes_def)

lemma le_bytes_nth: "i < n \<Longrightarrow> le_bytes n v ! i = ucast (drop_bit (8 * i) v)"
  by (simp add: le_bytes_def)

lemma le_bytes_value:
  assumes "8 * length bs \<le> LENGTH('a::len)"
  shows "le_bytes (length bs) (le_value bs :: 'a word) = bs"
proof (rule nth_equalityI)
  fix i assume "i < length (le_bytes (length bs) (le_value bs :: 'a word))"
  then have i: "i < length bs" by simp
  show "le_bytes (length bs) (le_value bs :: 'a word) ! i = bs ! i"
  proof (rule bit_word_eqI)
    fix n assume n: "n < LENGTH(8)"
    then have "(8 * i + n) div 8 = i" "(8 * i + n) mod 8 = n" by simp_all
    moreover have "8 * i + n < LENGTH('a)" using n i assms by simp
    ultimately show "bit (le_bytes (length bs) (le_value bs :: 'a word) ! i) n = bit (bs ! i) n"
      using i n by (simp add: le_bytes_nth bit_simps bit_le_value)
  qed
qed simp

lemma le_value_bytes: "le_value (le_bytes n v) = (take_bit (8 * n) v :: 'a::len word)"
proof (rule bit_word_eqI)
  fix k assume k: "k < LENGTH('a)"
  have "8 * (k div 8) + k mod 8 = k" by simp
  then have *: "bit (drop_bit (8 * (k div 8)) v) (k mod 8) = bit v k"
    by (simp add: bit_simps)
  have "k div 8 < n \<longleftrightarrow> k < 8 * n" by (simp add: less_mult_imp_div_less div_less_iff_less_mult mult.commute)
  then show "bit (le_value (le_bytes n v) :: 'a word) k = bit (take_bit (8 * n) v) k"
    using k * by (auto simp: bit_le_value le_bytes_nth bit_simps)
qed

section \<open>Reading at a cursor\<close>

text \<open>
  \<open>cur d off rest\<close>: the offset lies within the buffer and \<open>rest\<close> is what is left of it.  Under
  this relation the wrapping bounds checks are exact, and each reader yields the next bytes.
\<close>

definition cur :: "buffer \<Rightarrow> size_t \<Rightarrow> buffer \<Rightarrow> bool" where
  "cur d off rest \<longleftrightarrow> wf_buffer d \<and> unat off \<le> length d \<and> rest = drop (unat off) d"

lemma cur_0 [refine_intros]: "wf_buffer d \<Longrightarrow> cur d 0 d"
  by (simp add: cur_def)

lemma unat_vsize: "wf_buffer d \<Longrightarrow> unat (vsize d) = length d"
  by (simp add: vsize_def wf_buffer_def unat_of_nat)

lemma unat_add_no_wrap:
  fixes a b :: size_t
  assumes "unat a < 2 ^ 63" and "unat b < 2 ^ 63"
  shows "unat (a + b) = unat a + unat b"
  using assms by (subst unat_add_lem [THEN iffD1]) simp_all

lemma sint_nonneg_unat: "0 \<le> sint (a :: size_t) \<longleftrightarrow> unat a < 2 ^ 63"
proof -
  have "0 \<le> sint a \<longleftrightarrow> \<not> bit a 63"
    using bit_last_iff [of a] by (simp add: not_less)
  also have "\<dots> \<longleftrightarrow> unat a < 2 ^ 63"
  proof -
    have "bit a 63 \<longleftrightarrow> bit (unat a) 63"
      by (simp add: bit_unsigned_iff)
    then have "bit a 63 \<longleftrightarrow> odd (unat a div 2 ^ 63)"
      by (simp only: bit_iff_odd)
    moreover have "unat a div 2 ^ 63 < 2"
      using unsigned_less [of a] by (simp add: div_less_iff_less_mult)
    ultimately show ?thesis
      by (cases "unat a div 2 ^ 63 = 0") (auto simp: div_eq_0_iff less_2_cases_iff)
  qed
  finally show ?thesis .
qed

lemma sint_negative_unat: "sint (a :: size_t) < 0 \<longleftrightarrow> \<not> unat a < 2 ^ 63"
  using sint_nonneg_unat [of a] by linarith

lemma cur_unat: "cur d off rest \<Longrightarrow> unat off < 2 ^ 63"
  by (auto simp: cur_def wf_buffer_def)

lemma cur_length: "cur d off rest \<Longrightarrow> length d = unat off + length rest"
  by (auto simp: cur_def)

text \<open>The wrapping test is exact at a cursor, unless the length itself is \<open>2 ^ 63\<close> or more.\<close>

lemma cur_prefix_wf: "cur d off rest \<Longrightarrow> rest = bs @ r \<Longrightarrow> wf_buffer bs"
proof -
  assume "cur d off rest" and "rest = bs @ r"
  then have "length bs \<le> length d" using cur_length [of d off rest] by simp
  with \<open>cur d off rest\<close> show "wf_buffer bs" by (simp add: cur_def wf_buffer_def)
qed

lemma can_read_cur:
  assumes "cur d off rest" and "unat n < 2 ^ 63"
  shows "can_read_buffer d off n \<longleftrightarrow> unat n \<le> length rest"
  using assms cur_length [OF assms(1)] cur_unat [OF assms(1)] unat_vsize [of d]
  by (auto simp: can_read_buffer_def word_le_nat_alt unat_add_no_wrap cur_def)

lemma cur_advance [refine_intros]:
  assumes "cur d off rest" and "unat n \<le> length rest"
  shows "cur d (off + n) (drop (unat n) rest)"
proof -
  have "unat n < 2 ^ 63"
    using assms by (auto simp: cur_def wf_buffer_def)
  then have "unat (off + n) = unat off + unat n"
    using cur_unat [OF assms(1)] by (simp add: unat_add_no_wrap)
  then show ?thesis
    using assms by (auto simp: cur_def add.commute)
qed

lemma byte_at_cur:
  assumes "cur d off (b # rest)"
  shows "byte_at d off = ret b"
proof -
  have "drop (unat off) d = b # rest" using assms by (simp add: cur_def)
  moreover from this have "unat off < length d" by (metis drop_eq_Nil leI list.discI)
  ultimately show ?thesis by (simp add: byte_at_def Cons_nth_drop_Suc [symmetric])
qed

lemma le_loop_in_range:
  fixes acc :: "'a::len word"
  assumes "cur d off rest" and "i + n \<le> length rest" and "8 * (i + n) \<le> max 32 LENGTH('a)"
  shows "le_loop d off i n acc = ret (acc OR push_bit (i * 8) (le_value (take n (drop i rest))))"
  using assms(2,3)
proof (induction n arbitrary: i acc)
  case 0
  then show ?case by simp
next
  case (Suc n)
  have i: "i < length rest" using Suc.prems by simp
  have "unat (of_nat i :: size_t) = i"
    using i assms(1) by (auto simp: cur_def wf_buffer_def unat_of_nat)
  then have "cur d (off + of_nat i) (rest ! i # drop (Suc i) rest)"
    using cur_advance [OF assms(1), of "of_nat i"] i by (simp add: Cons_nth_drop_Suc)
  then have b: "byte_at d (off + of_nat i) = ret (rest ! i)" by (rule byte_at_cur)
  have "take (Suc n) (drop i rest) = rest ! i # take n (drop (Suc i) rest)"
    using i by (simp add: Cons_nth_drop_Suc [symmetric])
  moreover have "(acc OR push_bit (i * 8) (ucast (rest ! i))) OR push_bit (Suc i * 8) w
      = acc OR push_bit (i * 8) (ucast (rest ! i) OR push_bit 8 w)" for w :: "'a word"
    by (simp add: push_bit_or or.assoc add.commute)
  moreover have "\<not> max 32 LENGTH('a) \<le> i * 8"
  proof -
    have "i * 8 < 8 * (i + Suc n)" by simp
    with Suc.prems(2) show ?thesis by (simp only: not_le)
  qed
  ultimately show ?case
    using Suc.IH [of "Suc i" "acc OR push_bit (i * 8) (ucast (rest ! i))"] Suc.prems
    by (simp only: le_loop.simps b bind_ret if_False le_value.simps) simp
qed

lemma read_little_endian_cur:
  fixes f :: "'a::len word \<Rightarrow> 'b"
  assumes "cur d off rest" and "8 * unat n \<le> max 32 LENGTH('a)" and "unat n < 2 ^ 63"
  shows "read_little_endian d off n
    = ret (if unat n \<le> length rest then Some (le_value (take (unat n) rest) :: 'a word) else None)"
proof -
  have "vsize d < off + n \<longleftrightarrow> \<not> unat n \<le> length rest"
    using can_read_cur [OF assms(1,3)] by (simp add: can_read_buffer_def flip: not_le)
  then show ?thesis
    using le_loop_in_range [OF assms(1), of 0 "unat n" "0 :: 'a word"] assms(2)
    by (simp add: read_little_endian_def)
qed

text \<open>Reading more bytes than the type has shifts by its width: the value is not defined.\<close>

lemma le_loop_too_long:
  fixes acc :: u64
  assumes "i + n \<le> length d" and "8 < i + n" and "0 < n" and "wf_buffer d"
  shows "le_loop d 0 i n acc = undefined_behaviour"
  using assms(1-3)
proof (induction n arbitrary: i acc)
  case (Suc n)
  have i: "i < length d" using Suc.prems by simp
  then have "unat (of_nat i :: size_t) = i"
    using assms(4) by (simp add: wf_buffer_def unat_of_nat)
  with i have "byte_at d (0 + of_nat i) = ret (d ! i)" by (simp add: byte_at_def)
  then show ?case using Suc by (cases "64 \<le> i * 8") auto
qed simp

lemma checked_assign_cur:
  assumes "cur d off rest"
  shows "checked_assign d off n
    = ret (if unat n \<le> length rest then Some (take (unat n) rest) else None)"
proof (cases "unat n < 2 ^ 63")
  case True
  have neg: "\<not> sint off < 0" "\<not> sint n < 0"
    using cur_unat [OF assms] True by (simp_all only: sint_negative_unat not_not)
  have "unat off + unat n \<le> length d \<longleftrightarrow> unat n \<le> length rest"
    by (simp add: cur_length [OF assms])
  moreover have "drop (unat off) d = rest" using assms by (simp add: cur_def)
  ultimately show ?thesis
    by (simp only: checked_assign_def can_read_cur [OF assms True] neg if_False) simp
next
  case False
  then have "sint n < 0" using sint_negative_unat by blast
  moreover have "\<not> unat n \<le> length rest"
    using False assms by (auto simp: cur_def wf_buffer_def)
  ultimately show ?thesis
    by (simp add: checked_assign_def)
qed

lemma checked_copy_n_cur:
  assumes "cur d off rest" and "N < 2 ^ 63"
  shows "checked_copy_n (replicate N 0) d off (of_nat N)
    = ret (if N \<le> length rest then Some (take N rest) else None)"
proof -
  have n: "unat (of_nat N :: size_t) = N" using assms(2) by (simp add: unat_of_nat)
  have tgt: "\<not> vsize (replicate N (0 :: byte)) < of_nat N" by (simp add: vsize_def)
  have neg: "\<not> sint off < 0" "\<not> sint (of_nat N :: size_t) < 0"
    using cur_unat [OF assms(1)] assms(2) n by (simp_all only: sint_negative_unat not_not)
  have "unat off + N \<le> length d \<longleftrightarrow> N \<le> length rest"
    by (simp add: cur_length [OF assms(1)])
  moreover have "drop (unat off) d = rest" using assms by (simp add: cur_def)
  moreover have "can_read_buffer d off (of_nat N) \<longleftrightarrow> N \<le> length rest"
    using can_read_cur [OF assms(1), of "of_nat N"] assms(2) by (simp only: n)
  ultimately show ?thesis
    by (simp only: checked_copy_n_def tgt neg n if_False) simp
qed

section \<open>No access outside a buffer\<close>

text \<open>
  \<open>can_read_buffer\<close> alone accepts a wrapped sum.  The sign tests in the bounded copies reject
  every argument for which the sum wraps, so the copies never leave the source buffer, whatever
  the offset and the length.
\<close>

lemma wrapped_sum_is_negative:
  fixes a b :: size_t
  assumes "\<not> sint a < 0" and "\<not> sint b < 0"
  shows "unat (a + b) = unat a + unat b"
  using assms by (intro unat_add_no_wrap) (simp_all only: sint_negative_unat not_not)

lemma checked_assign_defined [defined_intros]:
  "wf_buffer source \<Longrightarrow> defined (checked_assign source u_offset u_length)"
  using wrapped_sum_is_negative [of u_offset u_length] unat_vsize [of source]
  by (simp add: checked_assign_def can_read_buffer_def word_le_nat_alt)

lemma checked_copy_n_defined [defined_intros]:
  "wf_buffer source \<Longrightarrow> defined (checked_copy_n target source u_offset u_length)"
  using wrapped_sum_is_negative [of u_offset u_length] unat_vsize [of source]
  by (simp add: checked_copy_n_def can_read_buffer_def word_le_nat_alt)

section \<open>List-consuming counterparts of the field readers\<close>

definition l_u8 :: "error \<Rightarrow> buffer \<Rightarrow> (byte \<Rightarrow> buffer \<Rightarrow> 'b outcome) \<Rightarrow> 'b outcome" where
  "l_u8 e rest k = (case rest of [] \<Rightarrow> fail e | v # r \<Rightarrow> k v r)"

definition l_vec :: "error \<Rightarrow> nat \<Rightarrow> buffer \<Rightarrow> (buffer \<Rightarrow> buffer \<Rightarrow> 'b outcome) \<Rightarrow> 'b outcome" where
  "l_vec e n rest k = (if n \<le> length rest then k (take n rest) (drop n rest) else fail e)"

lemma u8_field_refine [refine_intros]:
  assumes "cur d off rest"
    and "\<And>v r. rest = v # r \<Longrightarrow> cur d (off + 1) r \<Longrightarrow> k v (off + 1) = k' v r"
  shows "u8_field e d off k = l_u8 e rest k'"
proof (cases rest)
  case Nil
  then show ?thesis
    using can_read_cur [OF assms(1), of 1] by (simp add: u8_field_def l_u8_def)
next
  case (Cons v r)
  then have "cur d (off + 1) r"
    using cur_advance [OF assms(1), of 1] by simp
  then show ?thesis
    using can_read_cur [OF assms(1), of 1] byte_at_cur [of d off v r] assms(1) Cons assms(2)
    by (simp add: u8_field_def l_u8_def)
qed

lemma le_field_refine [refine_intros]:
  fixes k :: "'a::len word \<Rightarrow> size_t \<Rightarrow> 'b outcome"
  assumes "cur d off rest" and "unat n = m" and "8 * unat n \<le> max 32 LENGTH('a)"
    and "unat n < 2 ^ 63"
    and "\<And>bs r. rest = bs @ r \<Longrightarrow> length bs = m \<Longrightarrow> cur d (off + n) r \<Longrightarrow>
           k (le_value bs) (off + n) = k' bs r"
  shows "le_field e d off n k = l_vec e m rest k'"
proof (cases "unat n \<le> length rest")
  case True
  then show ?thesis
    using read_little_endian_cur [OF assms(1,3,4)] cur_advance [OF assms(1) True] assms(2)
      assms(5) [of "take (unat n) rest" "drop (unat n) rest"]
    by (simp add: le_field_def l_vec_def)
next
  case False
  then show ?thesis
    using read_little_endian_cur [OF assms(1,3,4)] assms(2) by (simp add: le_field_def l_vec_def)
qed

lemma vec_field_refine [refine_intros]:
  assumes "cur d off rest" and "unat n = m"
    and "\<And>bs r. rest = bs @ r \<Longrightarrow> length bs = m \<Longrightarrow> cur d (off + n) r \<Longrightarrow> k bs (off + n) = k' bs r"
  shows "vec_field e d off n k = l_vec e m rest k'"
proof (cases "unat n \<le> length rest")
  case True
  then show ?thesis
    using checked_assign_cur [OF assms(1)] cur_advance [OF assms(1) True] assms(2)
      assms(3) [of "take (unat n) rest" "drop (unat n) rest"]
    by (simp add: vec_field_def l_vec_def)
next
  case False
  then show ?thesis
    using checked_assign_cur [OF assms(1)] assms(2) by (simp add: vec_field_def l_vec_def)
qed

lemma arr_field_refine [refine_intros]:
  assumes "cur d off rest" and "N < 2 ^ 63"
    and "\<And>bs r. rest = bs @ r \<Longrightarrow> length bs = N \<Longrightarrow> cur d (off + of_nat N) r \<Longrightarrow>
           k bs (off + of_nat N) = k' bs r"
  shows "arr_field e d off N k = l_vec e N rest k'"
proof (cases "N \<le> length rest")
  case True
  have "unat (of_nat N :: size_t) = N" using assms(2) by (simp add: unat_of_nat)
  then show ?thesis
    using checked_copy_n_cur [OF assms(1,2)] cur_advance [OF assms(1), of "of_nat N"] True
      assms(3) [of "take N rest" "drop N rest"]
    by (simp add: arr_field_def l_vec_def)
next
  case False
  then show ?thesis
    using checked_copy_n_cur [OF assms(1,2)] by (simp add: arr_field_def l_vec_def)
qed

lemma guard_can_read_le_field:
  "guard e (can_read_buffer d off n) (le_field e d off n k) = le_field e d off n k"
  by (auto simp: guard_def can_read_buffer_def le_field_def read_little_endian_def not_le)

lemma l_u8_eq_Inr [outcome_simps]:
  "l_u8 e rest k = Inr y \<longleftrightarrow> (\<exists>v r. rest = v # r \<and> k v r = Inr y)"
  by (cases rest) (auto simp: l_u8_def fail_def)

lemma l_vec_eq_Inr [outcome_simps]:
  "l_vec e n rest k = Inr y \<longleftrightarrow> (\<exists>bs r. rest = bs @ r \<and> length bs = n \<and> k bs r = Inr y)"
proof
  assume "l_vec e n rest k = Inr y"
  then have "n \<le> length rest" "k (take n rest) (drop n rest) = Inr y"
    by (auto simp: l_vec_def fail_def split: if_splits)
  then show "\<exists>bs r. rest = bs @ r \<and> length bs = n \<and> k bs r = Inr y"
    by (intro exI [of _ "take n rest"] exI [of _ "drop n rest"]) simp
qed (auto simp: l_vec_def)

lemma l_u8_simps [simp]: "l_u8 e (v # r) k = k v r" "l_u8 e [] k = fail e"
  by (simp_all add: l_u8_def)

lemma l_vec_append [simp]: "length bs = n \<Longrightarrow> l_vec e n (bs @ r) k = k bs r"
  by (simp add: l_vec_def)

lemma l_vec_exact [simp]: "length bs = n \<Longrightarrow> l_vec e n bs k = k bs []"
  by (simp add: l_vec_def)

lemma l_u8_defined [defined_intros]:
  "(\<And>v r. rest = v # r \<Longrightarrow> defined (k v r)) \<Longrightarrow> defined (l_u8 e rest k)"
  by (cases rest) auto

lemma l_vec_defined [defined_intros]:
  "(\<And>bs r. rest = bs @ r \<Longrightarrow> length bs = n \<Longrightarrow> defined (k bs r)) \<Longrightarrow> defined (l_vec e n rest k)"
  by (simp add: l_vec_def)

section \<open>The bounded copies\<close>

lemma checked_assign_spec:
  assumes "wf_buffer source"
  shows "checked_assign source u_offset u_length
    = ret (if unat u_offset + unat u_length \<le> length source
           then Some (take (unat u_length) (drop (unat u_offset) source)) else None)"
proof (cases "sint u_offset < 0 \<or> sint u_length < 0")
  case True
  then have "2 ^ 63 \<le> unat u_offset + unat u_length"
    unfolding sint_negative_unat by linarith
  then have "\<not> unat u_offset + unat u_length \<le> length source"
    using assms by (simp add: wf_buffer_def)
  with True show ?thesis by (auto simp: checked_assign_def)
next
  case False
  then have "unat (u_offset + u_length) = unat u_offset + unat u_length"
    by (simp add: wrapped_sum_is_negative)
  with False show ?thesis
    using unat_vsize [OF assms]
    by (simp add: checked_assign_def can_read_buffer_def word_le_nat_alt)
qed

lemma checked_copy_n_spec:
  assumes "wf_buffer source" and "wf_buffer target"
  shows "checked_copy_n target source u_offset u_length
    = (if length target < unat u_length then ret None
       else bind (checked_assign source u_offset u_length)
         (\<lambda>r. ret (map_option (\<lambda>v. v @ drop (unat u_length) target) r)))"
  using checked_assign_spec [OF assms(1), of u_offset u_length] unat_vsize [OF assms(2)]
  by (auto simp: checked_copy_n_def checked_assign_def word_less_nat_alt ret_def
      undefined_behaviour_def split: if_splits)

text \<open>
  C30 (bounded_copies_exact): \<^verbatim>\<open>checked_assign\<close> and \<^verbatim>\<open>checked_copy_n\<close> never touch a byte outside the
  source, for every 64-bit offset and length, also those whose sum wraps around in
  \<^verbatim>\<open>can_read_buffer\<close>: they copy exactly the requested range when it lies inside the source (and
  fits the target array) and report failure otherwise.  The target array keeps its length.
\<close>

theorem bounded_copies_exact:
  assumes "wf_buffer source" and "wf_buffer target"
  shows "checked_assign source u_offset u_length
      = ret (if unat u_offset + unat u_length \<le> length source
             then Some (take (unat u_length) (drop (unat u_offset) source)) else None)
    \<and> checked_copy_n target source u_offset u_length
      = ret (if unat u_length \<le> length target \<and> unat u_offset + unat u_length \<le> length source
             then Some (take (unat u_length) (drop (unat u_offset) source)
                        @ drop (unat u_length) target) else None)"
  using checked_assign_spec [OF assms(1)] checked_copy_n_spec [OF assms] by auto

theorem bounded_copies_exact_witness:
  "can_read_buffer [1, 2, 3] 0xFFFFFFFFFFFFFFFF 2
   \<and> checked_assign [1, 2, 3] 0xFFFFFFFFFFFFFFFF 2 = ret None
   \<and> checked_copy_n [9, 9, 9] [1, 2, 3] 1 2 = ret (Some [2, 3, 9])"
  using bounded_copies_exact [of "[1, 2, 3]" "[9, 9, 9]" "0xFFFFFFFFFFFFFFFF" 2]
    bounded_copies_exact [of "[1, 2, 3]" "[9, 9, 9]" 1 2]
  by (simp add: wf_buffer_def can_read_buffer_def vsize_def)

end
