(* ===== verification/Utils.thy ===== *)
theory Utils
  imports Bytes "HOL-Library.Char_ord"
begin

text \<open>
  The string helpers of \<^verbatim>\<open>include/nv_attestation/utils.h\<close> and the two C library conversions
  (\<^verbatim>\<open>strtol\<close> in base 16, \<^verbatim>\<open>std::stoi\<close>) the parsers call.  A \<^verbatim>\<open>std::string\<close> is a list of
  characters, which may contain the NUL character.
\<close>

section \<open>Characters\<close>

definition isspace :: "char \<Rightarrow> bool" where
  "isspace c \<longleftrightarrow> of_char c \<in> {32, 9, 10, 11, 12, 13 :: nat}"

definition digit_value :: "char \<Rightarrow> nat option" where
  "digit_value c =
     (let n = of_char c in
      if 48 \<le> n \<and> n \<le> 57 then Some (n - 48)
      else if 97 \<le> n \<and> n \<le> 102 then Some (n - 87)
      else if 65 \<le> n \<and> n \<le> 70 then Some (n - 55)
      else None)"

definition is_digit :: "nat \<Rightarrow> char \<Rightarrow> bool" where
  "is_digit base c = (case digit_value c of None \<Rightarrow> False | Some d \<Rightarrow> d < base)"

definition digits_value :: "nat \<Rightarrow> string \<Rightarrow> nat" where
  "digits_value base ds = foldl (\<lambda>acc c. acc * base + the (digit_value c)) 0 ds"

text \<open>The optional sign of the C conversions: the factor and what follows.\<close>

fun take_sign :: "string \<Rightarrow> int \<times> string" where
  "take_sign [] = (1, [])"
| "take_sign (c # cs) =
     (if c = CHR ''-'' then (-1, cs) else if c = CHR ''+'' then (1, cs) else (1, c # cs))"

section \<open>Hexadecimal strings\<close>

text \<open>
  \<^verbatim>\<open>strtol(s, nullptr, 16)\<close>: leading white space, a sign, an optional \<^verbatim>\<open>0x\<close> before a digit, then
  the longest run of digits; no digits give 0.  A NUL character is not a digit and ends the run.
\<close>

fun skip_0x :: "string \<Rightarrow> string" where
  "skip_0x (z # x # d # cs) =
     (if z = CHR ''0'' \<and> (x = CHR ''x'' \<or> x = CHR ''X'') \<and> is_digit 16 d then d # cs else z # x # d # cs)"
| "skip_0x cs = cs"

definition strtol16 :: "string \<Rightarrow> int" where
  "strtol16 s =
     (let (sign, t) = take_sign (dropWhile isspace s)
      in sign * int (digits_value 16 (takeWhile (is_digit 16) (skip_0x t))))"

text \<open>
  The loop takes two characters at a time, and one at the end of a string of odd length.  Its
  counter is a 32-bit integer: the model is the code for strings shorter than \<^verbatim>\<open>2^32\<close> characters.
\<close>

fun hex_string_to_bytes :: "string \<Rightarrow> buffer" where
  "hex_string_to_bytes [] = []"
| "hex_string_to_bytes [a] = [of_int (strtol16 [a])]"
| "hex_string_to_bytes (a # b # cs) = of_int (strtol16 [a, b]) # hex_string_to_bytes cs"

definition hex_digit :: "nat \<Rightarrow> char" where
  "hex_digit n = char_of (if n < 10 then 48 + n else 87 + n)"

definition byte_to_hex_string :: "byte \<Rightarrow> string" where
  "byte_to_hex_string b = [hex_digit (unat b div 16), hex_digit (unat b mod 16)]"

definition to_hex_string :: "buffer \<Rightarrow> string" where
  "to_hex_string bs = concat (map byte_to_hex_string bs)"

definition u16_to_hex_string :: "u16 \<Rightarrow> string" where
  "u16_to_hex_string v =
     (let n = unat v in
      [hex_digit (n div 4096), hex_digit (n div 256 mod 16), hex_digit (n div 16 mod 16), hex_digit (n mod 16)])"

section \<open>Decimal integers\<close>

text \<open>
  \<^verbatim>\<open>std::stoi\<close>: throws \<^verbatim>\<open>invalid_argument\<close> without digits and \<^verbatim>\<open>out_of_range\<close> beyond 32 bits.
\<close>

definition stoi :: "string \<Rightarrow> int outcome" where
  "stoi s =
     (let (sign, t) = take_sign (dropWhile isspace s);
          ds = takeWhile (is_digit 10) t;
          v = sign * int (digits_value 10 ds)
      in if ds = [] then throw InvalidArgument
         else if v < - (2 ^ 31) \<or> 2 ^ 31 \<le> v then throw OutOfRange
         else ret v)"

text \<open>\<^verbatim>\<open>std::to_string\<close> of a non-negative integer.\<close>

function to_string :: "nat \<Rightarrow> string" where
  "to_string n = (if n < 10 then [hex_digit n] else to_string (n div 10) @ [hex_digit (n mod 10)])"
  by pat_completeness auto
termination
  by (relation "measure id") auto

declare to_string.simps [simp del]

section \<open>Other helpers\<close>

definition remove_null_terminators :: "string \<Rightarrow> string" where
  "remove_null_terminators s = takeWhile (\<lambda>c. c \<noteq> char_of (0 :: nat)) s"

definition path_join :: "string \<Rightarrow> string \<Rightarrow> string" where
  "path_join path1 path2 =
     (if path1 = [] then path2
      else if path2 = [] then path1
      else if last path1 \<noteq> CHR ''/'' \<and> hd path2 \<noteq> CHR ''/'' then path1 @ [CHR ''/''] @ path2
      else path1 @ path2)"

text \<open>
  The target is a caller's array of \<^verbatim>\<open>buffer_len\<close> characters; the result is the array after the call.
\<close>

definition copy_string_to_buffer :: "string \<Rightarrow> string \<Rightarrow> string outcome" where
  "copy_string_to_buffer str target =
     (if length target < length str + 1 then fail BadArgument
      else ret (str @ [char_of (0 :: nat)] @ drop (length str + 1) target))"

definition get_env_or_default :: "(string \<Rightarrow> string option) \<Rightarrow> string \<Rightarrow> string \<Rightarrow> string" where
  "get_env_or_default env name default_value =
     (case env name of None \<Rightarrow> default_value | Some v \<Rightarrow> if v = [] then default_value else v)"

definition MIN_VALID_NONCE_LEN :: nat where "MIN_VALID_NONCE_LEN = 32"

text \<open>\<open>rand_bytes n\<close> stands for \<^verbatim>\<open>RAND_bytes\<close>: \<open>None\<close> is a result other than 1.\<close>

definition generate_nonce :: "(nat \<Rightarrow> buffer option) \<Rightarrow> buffer \<Rightarrow> buffer outcome" where
  "generate_nonce rand_bytes out_nonce =
     (if length out_nonce < MIN_VALID_NONCE_LEN then fail BadArgument
      else case rand_bytes (length out_nonce) of None \<Rightarrow> fail InternalError | Some bs \<Rightarrow> ret bs)"

text \<open>
  Base64: \<open>decode_block\<close> stands for \<^verbatim>\<open>EVP_DecodeBlock\<close>, whose output still contains the padding
  bytes; the code removes one byte per trailing \<^verbatim>\<open>=\<close> it finds in the last two characters.
\<close>

definition padding_of :: "string \<Rightarrow> nat" where
  "padding_of s =
     (let n = length s in
      if 2 \<le> n then (if s ! (n - 1) = CHR ''='' then 1 else 0) + (if s ! (n - 2) = CHR ''='' then 1 else 0)
      else 0)"

definition decode_base64 :: "(string \<Rightarrow> buffer option) \<Rightarrow> string \<Rightarrow> buffer outcome" where
  "decode_base64 decode_block base64_data =
     (case decode_block base64_data of
        None \<Rightarrow> fail InternalError
      | Some out \<Rightarrow>
          if padding_of base64_data \<le> length out
          then ret (take (length out - padding_of base64_data) out)
          else undefined_behaviour)"

definition string_of_bytes :: "buffer \<Rightarrow> string" where
  "string_of_bytes bs = map (\<lambda>b. char_of (unat b)) bs"

definition decode_base64_string :: "(string \<Rightarrow> buffer option) \<Rightarrow> string \<Rightarrow> string outcome" where
  "decode_base64_string decode_block s = bind (decode_base64 decode_block s) (\<lambda>bs. ret (string_of_bytes bs))"

text \<open>
  \<^verbatim>\<open>EVP_EncodeBlock\<close> writes four characters for every three bytes or part of them, and a
  terminating NUL.  The code gives it a buffer of twice the input length.
\<close>

definition encode_base64 :: "(buffer \<Rightarrow> string option) \<Rightarrow> buffer \<Rightarrow> string outcome" where
  "encode_base64 encode_block bs =
     (if 2 * length bs < 4 * ((length bs + 2) div 3) + 1 then undefined_behaviour
      else case encode_block bs of None \<Rightarrow> fail InternalError | Some s \<Rightarrow> ret s)"

definition bytes_of_string :: "string \<Rightarrow> buffer" where
  "bytes_of_string s = map (\<lambda>c. of_nat (of_char c)) s"

definition encode_base64_string :: "(buffer \<Rightarrow> string option) \<Rightarrow> string \<Rightarrow> string outcome" where
  "encode_base64_string encode_block s = encode_base64 encode_block (bytes_of_string s)"

text \<open>\<^verbatim>\<open>toupper\<close> in the C locale, over a string.\<close>

definition toupper :: "char \<Rightarrow> char" where
  "toupper c = (let n = of_char c :: nat in if 97 \<le> n \<and> n \<le> 122 then char_of (n - 32) else c)"

definition upper :: "string \<Rightarrow> string" where
  "upper s = map toupper s"

section \<open>Hexadecimal round trips\<close>

lemma of_char_hex_digit: "n < 16 \<Longrightarrow> of_char (hex_digit n) = (if n < 10 then 48 + n else 87 + n)"
  by (simp add: hex_digit_def)

lemma hex_digit_value [simp]: "n < 16 \<Longrightarrow> digit_value (hex_digit n) = Some n"
  by (simp add: digit_value_def of_char_hex_digit Let_def)

lemma hex_digit_neq: "n < 16 \<Longrightarrow> of_char c < (48 :: nat) \<Longrightarrow> hex_digit n \<noteq> c"
  using of_char_hex_digit [of n] by (auto split: if_splits)

lemma hex_digit_plain:
  assumes "n < 16"
  shows "is_digit 16 (hex_digit n)" "\<not> isspace (hex_digit n)"
    "hex_digit n \<noteq> CHR ''-''" "hex_digit n \<noteq> CHR ''+''"
proof -
  show "is_digit 16 (hex_digit n)" using assms by (simp add: is_digit_def)
  show "\<not> isspace (hex_digit n)"
    unfolding isspace_def of_char_hex_digit [OF assms] by simp
  show "hex_digit n \<noteq> CHR ''-''" "hex_digit n \<noteq> CHR ''+''"
    using hex_digit_neq [OF assms, of "CHR ''-''"] hex_digit_neq [OF assms, of "CHR ''+''"] by simp_all
qed

lemma strtol16_two_digits:
  assumes "a < 16" and "b < 16"
  shows "strtol16 [hex_digit a, hex_digit b] = int (a * 16 + b)"
  using assms by (simp add: strtol16_def hex_digit_plain digits_value_def)

lemma strtol16_byte: "of_int (strtol16 (byte_to_hex_string b)) = (b :: byte)"
proof -
  have "unat b < 256" using unsigned_less [of b] by simp
  then have "strtol16 (byte_to_hex_string b) = int (unat b div 16 * 16 + unat b mod 16)"
    unfolding byte_to_hex_string_def by (intro strtol16_two_digits) auto
  then have "strtol16 (byte_to_hex_string b) = int (unat b)" by simp
  then show ?thesis by simp
qed

lemma hex_string_to_bytes_append:
  "hex_string_to_bytes (byte_to_hex_string b @ s) = b # hex_string_to_bytes s"
  using strtol16_byte [of b] by (simp add: byte_to_hex_string_def)

lemma hex_round_trip [simp]: "hex_string_to_bytes (to_hex_string bs) = bs"
  by (induction bs) (simp_all add: to_hex_string_def hex_string_to_bytes_append)

lemma to_hex_string_inject: "to_hex_string a = to_hex_string b \<longleftrightarrow> a = b"
  by (metis hex_round_trip)

lemma length_to_hex_string: "length (to_hex_string bs) = 2 * length bs"
  by (induction bs) (simp_all add: to_hex_string_def byte_to_hex_string_def)

lemma length_hex_string_to_bytes: "length (hex_string_to_bytes s) = (length s + 1) div 2"
  by (induction s rule: hex_string_to_bytes.induct) auto

lemma remove_null_no_null: "char_of (0 :: nat) \<notin> set (remove_null_terminators s)"
  by (auto simp: remove_null_terminators_def dest: set_takeWhileD)

lemma remove_null_id: "char_of (0 :: nat) \<notin> set s \<Longrightarrow> remove_null_terminators s = s"
  by (auto simp: remove_null_terminators_def takeWhile_eq_all_conv)

lemma string_of_bytes_inject: "string_of_bytes a = string_of_bytes b \<longleftrightarrow> a = b"
proof -
  have "inj (\<lambda>b :: byte. char_of (unat b) :: char)"
  proof (rule injI)
    fix x y :: byte
    assume "char_of (unat x) = (char_of (unat y) :: char)"
    then have "of_char (char_of (unat x) :: char) = (of_char (char_of (unat y) :: char) :: nat)" by simp
    then have "unat x mod 256 = unat y mod 256" by simp
    moreover have "unat x < 256" "unat y < 256" using unsigned_less [of x] unsigned_less [of y] by auto
    ultimately show "x = y" by (simp add: word_unat_eq_iff)
  qed
  then show ?thesis by (simp add: string_of_bytes_def inj_map_eq_map)
qed

lemma string_of_bytes_of_string [simp]: "string_of_bytes (bytes_of_string s) = s"
proof -
  have "char_of (unat (of_nat (of_char c) :: byte)) = c" for c :: char
    by (simp add: unat_of_nat)
  then show ?thesis by (simp add: string_of_bytes_def bytes_of_string_def o_def)
qed

section \<open>Base64 round trip\<close>

text \<open>
  What OpenSSL documents of its base64 routines: decoding an encoded block gives the bytes back,
  followed by one zero byte per padding character.
\<close>

definition base64_contract :: "(buffer \<Rightarrow> string option) \<Rightarrow> (string \<Rightarrow> buffer option) \<Rightarrow> bool" where
  "base64_contract enc dec \<longleftrightarrow>
     (\<forall>bs txt. enc bs = Some txt \<longrightarrow> dec txt = Some (bs @ replicate (padding_of txt) 0))"

lemma base64_round_trip:
  "base64_contract enc dec \<Longrightarrow> encode_base64 enc bs = Inr txt \<Longrightarrow> decode_base64 dec txt = ret bs"
  by (auto simp: base64_contract_def encode_base64_def decode_base64_def outcome_simps
      undefined_behaviour_def split: if_splits option.splits)

lemma base64_string_round_trip:
  "base64_contract enc dec \<Longrightarrow> encode_base64_string enc s = Inr txt \<Longrightarrow> decode_base64_string dec txt = ret s"
  using base64_round_trip [of enc dec "bytes_of_string s"]
  by (simp add: encode_base64_string_def decode_base64_string_def)

lemma to_hex_string_no_equals: "c \<in> set (to_hex_string bs) \<Longrightarrow> c \<noteq> CHR ''=''"
proof (induction bs)
  case (Cons b bs)
  have "unat b < 256" using unsigned_less [of b] by simp
  then have d: "unat b div 16 < 16" "unat b mod 16 < 16" by auto
  have key: "hex_digit n \<noteq> CHR ''=''" if "n < 16" for n
    using of_char_hex_digit [OF that] that by (auto split: if_splits)
  have "c = hex_digit (unat b div 16) \<or> c = hex_digit (unat b mod 16) \<or> c \<in> set (to_hex_string bs)"
    using Cons.prems by (auto simp: to_hex_string_def byte_to_hex_string_def)
  then show ?case using key [OF d(1)] key [OF d(2)] Cons.IH by metis
qed (simp add: to_hex_string_def)

lemma hex_base64_contract: "base64_contract (\<lambda>bs. Some (to_hex_string bs)) (\<lambda>s. Some (hex_string_to_bytes s))"
proof -
  have "padding_of (to_hex_string bs) = 0" for bs
    using to_hex_string_no_equals [OF nth_mem, of _ bs] by (auto simp: padding_of_def Let_def)
  then show ?thesis by (simp add: base64_contract_def)
qed

section \<open>Properties\<close>

text \<open>
  Decoding the hexadecimal form of a byte vector gives the vector
  back, so two vectors with the same hexadecimal form are equal: comparing hex strings (as the
  nonce and FWID checks do) is comparing the bytes.
\<close>

theorem hex_encoding_round_trip:
  "hex_string_to_bytes (to_hex_string bs) = bs \<and> (to_hex_string bs = to_hex_string bs' \<longleftrightarrow> bs = bs')
   \<and> length (to_hex_string bs) = 2 * length bs"
  by (simp add: to_hex_string_inject length_to_hex_string)

text \<open>
  The buffer that \<^verbatim>\<open>encode_base64\<close> allocates is too small for what
  \<^verbatim>\<open>EVP_EncodeBlock\<close> writes exactly when the input has 0, 1, 2 or 4 bytes; for every other length
  the call stays in bounds.
\<close>

theorem base64_encoder_overflow:
  "encode_base64 encode_block bs = Inl UB \<longleftrightarrow> length bs \<in> {0, 1, 2, 4}"
proof -
  have "2 * n < 4 * ((n + 2) div 3) + 1 \<longleftrightarrow> n \<in> {0, 1, 2, 4}" for n :: nat
  proof (cases "n < 6")
    case True
    then have "n = 0 \<or> n = 1 \<or> n = 2 \<or> n = 3 \<or> n = 4 \<or> n = 5" by linarith
    then show ?thesis by (elim disjE) simp_all
  next
    case False
    then show ?thesis by (auto simp: not_less)
  qed
  then show ?thesis
    by (auto simp: encode_base64_def undefined_behaviour_def fail_def ret_def split: option.splits)
qed

end
