(* ===== verification/Http.thy ===== *)
theory Http
  imports Utils
begin

text \<open>
  The HTTP client (\<^verbatim>\<open>src/nv_http.cpp\<close>, \<^verbatim>\<open>include/nv_attestation/nv_http.h\<close>): choosing the CA bundle,
  setting up a request and the retry loop.  libcurl is a parameter: \<open>perform setup i\<close> is the result
  of the \<open>i\<close>-th \<^verbatim>\<open>curl_easy_perform\<close> on a handle with the options \<open>setup\<close>.  The file system and the
  environment are parameters too.
\<close>

section \<open>The CA bundle\<close>

definition CA_BUNDLE_PROBE_PATHS :: "string list" where
  "CA_BUNDLE_PROBE_PATHS =
     [''/etc/ssl/certs/ca-certificates.crt'', ''/etc/pki/tls/certs/ca-bundle.crt'', ''/etc/ssl/ca-bundle.pem'',
      ''/etc/ca-certificates/extracted/tls-ca-bundle.pem'', ''/etc/ssl/cert.pem'']"

text \<open>\<open>regular\<close>: \<^verbatim>\<open>stat\<close> succeeds on a regular file and \<^verbatim>\<open>access\<close> allows reading it.\<close>

definition is_readable_regular_file :: "(string \<Rightarrow> bool) \<Rightarrow> string \<Rightarrow> bool" where
  "is_readable_regular_file regular path \<longleftrightarrow> path \<noteq> [] \<and> regular path"

text \<open>The result of the resolution: the path, the tier that supplied it and the error code (\<open>None\<close> is Ok).\<close>

type_synonym ca_resolution = "string \<times> string \<times> error option"

definition use_authoritative_ca_bundle_path :: "(string \<Rightarrow> bool) \<Rightarrow> string \<Rightarrow> string \<Rightarrow> ca_resolution" where
  "use_authoritative_ca_bundle_path regular path tier =
     (path, tier, if is_readable_regular_file regular path then None else Some InternalError)"

fun first_environment_tier :: "(string \<Rightarrow> string option) \<Rightarrow> string list \<Rightarrow> (string \<times> string) option" where
  "first_environment_tier env [] = None"
| "first_environment_tier env (t # ts) =
     (let path = get_env_or_default env t [] in
      if path \<noteq> [] then Some (path, t) else first_environment_tier env ts)"

definition environment_tiers :: "string list" where
  "environment_tiers = [''NVAT_CA_BUNDLE'', ''CURL_CA_BUNDLE'', ''SSL_CERT_FILE'']"

definition resolve_ca_bundle_path ::
  "(string \<Rightarrow> bool) \<Rightarrow> (string \<Rightarrow> string option) \<Rightarrow> string \<Rightarrow> string \<Rightarrow> ca_resolution" where
  "resolve_ca_bundle_path regular env compiled_default explicit_path =
     (if explicit_path \<noteq> [] then use_authoritative_ca_bundle_path regular explicit_path ''--ca-bundle''
      else case first_environment_tier env environment_tiers of
        Some (path, tier) \<Rightarrow> use_authoritative_ca_bundle_path regular path tier
      | None \<Rightarrow>
          if is_readable_regular_file regular compiled_default
          then (compiled_default, ''libcurl compiled default'', None)
          else case find (is_readable_regular_file regular) CA_BUNDLE_PROBE_PATHS of
            Some probe_path \<Rightarrow> (probe_path, ''system CA bundle probe'', None)
          | None \<Rightarrow> ([], ''no readable CA bundle; provide one with --ca-bundle or NVAT_CA_BUNDLE'', Some InternalError))"

section \<open>Options and requests\<close>

record http_options =
  max_retry_count :: int
  base_backoff_ms :: int
  max_backoff_ms :: int
  connection_timeout_ms :: int
  request_timeout_ms :: int
  ca_bundle_path :: string
  ca_bundle_path_tier :: string
  ca_bundle_path_error :: "error option"

text \<open>The constructor clamps every number at 0 and resolves the CA bundle without an explicit path.\<close>

definition new_http_options :: "ca_resolution \<Rightarrow> int \<Rightarrow> int \<Rightarrow> int \<Rightarrow> int \<Rightarrow> int \<Rightarrow> http_options" where
  "new_http_options ca retry base_backoff max_backoff connection_timeout request_timeout =
     (case ca of (path, tier, err) \<Rightarrow>
      \<lparr>max_retry_count = max 0 retry, base_backoff_ms = max 0 base_backoff, max_backoff_ms = max 0 max_backoff,
       connection_timeout_ms = max 0 connection_timeout, request_timeout_ms = max 0 request_timeout,
       ca_bundle_path = path, ca_bundle_path_tier = tier, ca_bundle_path_error = err\<rparr>)"

definition is_http_status_2xx :: "int \<Rightarrow> bool" where
  "is_http_status_2xx code \<longleftrightarrow> 200 \<le> code \<and> code < 300"

definition is_http_retryable :: "int \<Rightarrow> bool" where
  "is_http_retryable code \<longleftrightarrow> code \<in> {408, 429, 500, 502, 503, 504}"

datatype http_method = HTTP_METHOD_GET | HTTP_METHOD_POST | HTTP_METHOD_PUT | HTTP_METHOD_DELETE

definition method_str :: "http_method \<Rightarrow> string" where
  "method_str m = (case m of HTTP_METHOD_GET \<Rightarrow> ''GET'' | HTTP_METHOD_POST \<Rightarrow> ''POST''
     | HTTP_METHOD_PUT \<Rightarrow> ''PUT'' | HTTP_METHOD_DELETE \<Rightarrow> ''DELETE'')"

record nv_request =
  nr_url :: string
  nr_method :: http_method
  nr_headers :: "(string \<times> string) list"
  nr_payload :: string

record http_client =
  hc_options :: http_options
  hc_service_key :: string

text \<open>What is set on the curl handle.\<close>

record curl_setup =
  cs_url :: string
  cs_method :: string
  cs_headers :: "string list"
  cs_payload :: string
  cs_cainfo :: string
  cs_connect_timeout :: int
  cs_timeout :: int

text \<open>
  \<^verbatim>\<open>CURLOPT_HTTPHEADER\<close> is set only when the request has headers of its own; the authorization
  header is appended to the same list afterwards.
\<close>

definition request_headers :: "string \<Rightarrow> (string \<times> string) list \<Rightarrow> string list" where
  "request_headers service_key headers =
     (if headers = [] then []
      else map (\<lambda>(k, v). k @ '': '' @ v) headers
           @ (if service_key \<noteq> [] then [''Authorization: Bearer '' @ service_key] else []))"

definition request_setup :: "http_client \<Rightarrow> nv_request \<Rightarrow> curl_setup" where
  "request_setup client request =
     \<lparr>cs_url = nr_url request, cs_method = method_str (nr_method request),
      cs_headers = request_headers (hc_service_key client) (nr_headers request),
      cs_payload = nr_payload request, cs_cainfo = ca_bundle_path (hc_options client),
      cs_connect_timeout = connection_timeout_ms (hc_options client),
      cs_timeout = request_timeout_ms (hc_options client)\<rparr>"

section \<open>The retry loop\<close>

datatype curl_code = COULDNT_CONNECT | COULDNT_RESOLVE_HOST | OPERATION_TIMEDOUT | OTHER_CURL_ERROR

text \<open>A transfer that fails may have delivered a part of the body.\<close>

datatype curl_attempt = Performed int string | CurlFailed curl_code string

text \<open>
  \<open>rem\<close> is \<^verbatim>\<open>max_retry_count - cur_try\<close> at the head of the loop; \<open>last_ok\<close> says that \<^verbatim>\<open>last_error\<close>
  is Ok.  The result is paired with the upper bounds of the random waits.
\<close>

fun retry_loop :: "(nat \<Rightarrow> curl_attempt) \<Rightarrow> int \<Rightarrow> nat \<Rightarrow> nat \<Rightarrow> int \<Rightarrow> int \<Rightarrow> bool \<Rightarrow> int list
    \<Rightarrow> (int \<times> string) outcome \<times> int list" where
  "retry_loop perform max_backoff rem cur_try backoff status last_ok waits =
     (let waits = (if cur_try > 0 then waits @ [backoff] else waits);
          backoff = (if cur_try > 0 then min (backoff * 2) max_backoff else backoff)
      in case perform cur_try of
           CurlFailed code part \<Rightarrow>
             if code = OTHER_CURL_ERROR then (fail InternalError, waits)
             else (case rem of
                     0 \<Rightarrow> (if last_ok then ret (status, part) else fail InternalError, waits)
                   | Suc r \<Rightarrow> retry_loop perform max_backoff r (Suc cur_try) backoff status last_ok waits)
         | Performed code body \<Rightarrow>
             if is_http_status_2xx code \<or> \<not> is_http_retryable code then (ret (code, body), waits)
             else (case rem of
                     0 \<Rightarrow> (ret (code, body), waits)
                   | Suc r \<Rightarrow> retry_loop perform max_backoff r (Suc cur_try) backoff code True waits))"

declare retry_loop.simps [simp del]

definition do_request ::
  "(curl_setup \<Rightarrow> nat \<Rightarrow> curl_attempt) \<Rightarrow> http_client \<Rightarrow> nv_request \<Rightarrow> int \<Rightarrow> (int \<times> string) outcome \<times> int list" where
  "do_request perform client request status0 =
     (let opts = hc_options client in
      if ca_bundle_path_error opts \<noteq> None \<or> ca_bundle_path opts = [] then (fail InternalError, [])
      else retry_loop (perform (request_setup client request)) (max_backoff_ms opts)
             (nat (max_retry_count opts)) 0 (base_backoff_ms opts) status0 False [])"

definition do_request_as_string ::
  "(curl_setup \<Rightarrow> nat \<Rightarrow> curl_attempt) \<Rightarrow> http_client \<Rightarrow> nv_request \<Rightarrow> (int \<times> string) outcome" where
  "do_request_as_string perform client request = fst (do_request perform client request 0)"

text \<open>The same for a body that is parsed; \<open>deserialize\<close> is \<^verbatim>\<open>deserialize_from_json\<close> at the type of the result.\<close>

definition do_request_as_json_struct ::
  "(curl_setup \<Rightarrow> nat \<Rightarrow> curl_attempt) \<Rightarrow> (string \<Rightarrow> 'a outcome) \<Rightarrow> http_client \<Rightarrow> nv_request \<Rightarrow> (int \<times> 'a) outcome" where
  "do_request_as_json_struct perform deserialize client request =
     bind (do_request_as_string perform client request) (\<lambda>(status, response).
     bind (deserialize response) (\<lambda>v. ret (status, v)))"

definition http_client_create :: "string \<Rightarrow> http_options \<Rightarrow> http_client outcome" where
  "http_client_create service_key options = ret \<lparr>hc_options = options, hc_service_key = service_key\<rparr>"

definition is_http_status_5xx :: "int \<Rightarrow> bool" where
  "is_http_status_5xx code \<longleftrightarrow> 500 \<le> code"

text \<open>
  libcurl's own CA file: \<open>None\<close> when no handle is created, else what \<^verbatim>\<open>CURLINFO_CAINFO\<close> gives, if it gives a string.
\<close>

definition compiled_default_ca_bundle_path :: "string option option \<Rightarrow> string" where
  "compiled_default_ca_bundle_path handle =
     (case handle of Some (Some ca_info) \<Rightarrow> if ca_info \<noteq> [] then ca_info else [] | _ \<Rightarrow> [])"

definition ca_bundle_resolution_error_message :: "string \<Rightarrow> string \<Rightarrow> string" where
  "ca_bundle_resolution_error_message path tier =
     (if path = [] then ''No readable CA bundle was found; provide one with --ca-bundle or NVAT_CA_BUNDLE.''
      else ''CA bundle path '' @ [CHR 0x27] @ path @ [CHR 0x27] @ '' from '' @ tier
        @ '' does not exist or is not readable; provide a readable file with --ca-bundle or NVAT_CA_BUNDLE.'')"

text \<open>
  The callback that collects a body: \<open>contents\<close> is the memory libcurl passes, and the product of the two sizes wraps at 64 bits.
\<close>

definition curl_write_callback :: "string \<Rightarrow> size_t \<Rightarrow> size_t \<Rightarrow> string \<Rightarrow> (size_t \<times> string) outcome" where
  "curl_write_callback contents sz nmemb str =
     (let total = sz * nmemb in
      if length contents < unat total then undefined_behaviour else ret (total, str @ take (unat total) contents))"

section \<open>Lemmas\<close>

text \<open>libcurl passes size 1; the callback then keeps each chunk and asks for the next, so that the chunks are joined.\<close>

lemma curl_write_chunk:
  "length contents < 2 ^ 64 \<Longrightarrow> curl_write_callback contents 1 (word_of_nat (length contents)) str
     = ret (word_of_nat (length contents), str @ contents)"
  by (simp add: curl_write_callback_def unat_of_nat)

lemma curl_write_chunks:
  "list_all (\<lambda>c. length c < 2 ^ 64) chunks \<Longrightarrow>
   foldl (\<lambda>acc c. bind acc (\<lambda>str. bind (curl_write_callback c 1 (word_of_nat (length c)) str) (\<lambda>(_, str'). ret str'))) (ret str) chunks
     = ret (str @ concat chunks)"
  by (induction chunks arbitrary: str) (simp_all add: curl_write_chunk)

lemma retryable_not_2xx: "is_http_retryable code \<Longrightarrow> \<not> is_http_status_2xx code"
  by (auto simp: is_http_retryable_def is_http_status_2xx_def)

lemmas retry_loop_0 = retry_loop.simps [where rem = 0, unfolded nat.case]
lemmas retry_loop_Suc = retry_loop.simps [where rem = "Suc r" for r, unfolded nat.case]

lemma retry_loop_waits:
  assumes "0 \<le> max_backoff" and "max_backoff \<le> bound"
    and "0 \<le> backoff" and "backoff \<le> bound" and "\<forall>w \<in> set waits. 0 \<le> w \<and> w \<le> bound"
    and "retry_loop perform max_backoff rem cur_try backoff status last_ok waits = (r, ws)"
  shows "length ws \<le> length waits + (if cur_try > 0 then 1 else 0) + rem \<and> (\<forall>w \<in> set ws. 0 \<le> w \<and> w \<le> bound)"
  using assms(3-)
proof (induction rem arbitrary: cur_try backoff status last_ok waits)
  case 0
  let ?w = "if cur_try > 0 then waits @ [backoff] else waits"
  have "ws = ?w"
    using 0(4) by (auto simp: retry_loop_0 Let_def split: curl_attempt.splits if_splits)
  then show ?case using 0 by auto
next
  case (Suc rem)
  let ?w = "if cur_try > 0 then waits @ [backoff] else waits"
  let ?b = "if cur_try > 0 then min (backoff * 2) max_backoff else backoff"
  have b: "0 \<le> ?b" "?b \<le> bound" using Suc.prems(1,2) assms(1,2) by auto
  have w: "\<forall>w \<in> set ?w. 0 \<le> w \<and> w \<le> bound" using Suc.prems(1-3) by auto
  consider "ws = ?w"
    | st ok where "retry_loop perform max_backoff rem (Suc cur_try) ?b st ok ?w = (r, ws)"
    using Suc.prems(4) by (auto simp: retry_loop_Suc Let_def split: curl_attempt.splits if_splits)
  then show ?case
  proof cases
    case 1
    then show ?thesis using w by auto
  next
    case 2
    then show ?thesis using Suc.IH [OF b w 2] by auto
  qed
qed

lemma retry_loop_2xx:
  assumes "retry_loop perform max_backoff rem cur_try backoff status last_ok waits = (Inr (code, body), ws)"
    and "is_http_status_2xx code" and "last_ok \<Longrightarrow> \<not> is_http_status_2xx status"
  shows "\<exists>i. cur_try \<le> i \<and> i \<le> cur_try + rem \<and> perform i = Performed code body"
  using assms
proof (induction rem arbitrary: cur_try backoff status last_ok waits)
  case 0
  then show ?case
    by (auto simp: retry_loop_0 Let_def outcome_simps split: curl_attempt.splits if_splits)
next
  case (Suc rem)
  consider "perform cur_try = Performed code body"
    | b st ok w where "retry_loop perform max_backoff rem (Suc cur_try) b st ok w = (Inr (code, body), ws)"
        "ok \<Longrightarrow> \<not> is_http_status_2xx st"
    using Suc.prems(1,3)
    by (auto simp: retry_loop_Suc Let_def outcome_simps split: curl_attempt.splits if_splits)
  then show ?case
  proof cases
    case 1
    then show ?thesis by auto
  next
    case 2
    then obtain i where "Suc cur_try \<le> i" "i \<le> Suc cur_try + rem" "perform i = Performed code body"
      using Suc.IH [OF 2(1) Suc.prems(2)] by blast
    then show ?thesis by (intro exI [of _ i]) auto
  qed
qed

section \<open>Properties\<close>


definition demo_client :: http_client where
  "demo_client = \<lparr>hc_options = new_http_options (''/ca'', ''t'', None) 2 10 100 1 1, hc_service_key = ''key''\<rparr>"

definition demo_perform :: "curl_setup \<Rightarrow> nat \<Rightarrow> curl_attempt" where
  "demo_perform s i = (if i = 0 then Performed 503 ''busy'' else Performed 200 ''ok'')"


text \<open>
  The service key is sent with a request exactly when it is set and the
  request has headers of its own: a request built without headers, as the RIM store does, goes out
  without the Authorization header.
\<close>

theorem service_key_sent_iff:
  "cs_headers (request_setup client request) =
     map (\<lambda>(k, v). k @ '': '' @ v) (nr_headers request)
     @ (if nr_headers request \<noteq> [] \<and> hc_service_key client \<noteq> []
        then [''Authorization: Bearer '' @ hc_service_key client] else [])"
  by (simp add: request_setup_def request_headers_def)

text \<open>
  An explicit CA bundle path, or else the first non-empty environment
  variable, decides alone: if that file is not readable the resolution fails and no other file is
  used.  Whenever the resolution succeeds, the path is a readable regular file.
\<close>

theorem ca_bundle_authoritative:
  "case resolve_ca_bundle_path regular env compiled_default explicit_path of (path, tier, err) \<Rightarrow>
     (err = None \<longleftrightarrow> path \<noteq> [] \<and> regular path) \<and>
     (if explicit_path \<noteq> [] then path = explicit_path
      else case filter (\<lambda>p. p \<noteq> []) (map (\<lambda>t. case env t of None \<Rightarrow> [] | Some v \<Rightarrow> v) environment_tiers) of
             p # ps \<Rightarrow> path = p | [] \<Rightarrow> err = None \<or> path = [])"
proof -
  have env: "first_environment_tier env ts = None \<longleftrightarrow>
      filter (\<lambda>p. p \<noteq> []) (map (\<lambda>t. case env t of None \<Rightarrow> [] | Some v \<Rightarrow> v) ts) = []" for ts
    by (induction ts) (auto simp: get_env_or_default_def Let_def split: option.splits)
  have env': "first_environment_tier env ts = Some (p, t) \<Longrightarrow>
      \<exists>ps. filter (\<lambda>p. p \<noteq> []) (map (\<lambda>t. case env t of None \<Rightarrow> [] | Some v \<Rightarrow> v) ts) = p # ps" for ts p t
    by (induction ts) (auto simp: get_env_or_default_def Let_def split: option.splits if_splits)
  have found: "find (is_readable_regular_file regular) ps = Some q \<Longrightarrow> q \<noteq> [] \<and> regular q" for ps q
    by (auto simp: find_Some_iff is_readable_regular_file_def)
  note defs = resolve_ca_bundle_path_def use_authoritative_ca_bundle_path_def is_readable_regular_file_def
  show ?thesis
  proof (cases "explicit_path = []")
    case False
    then show ?thesis by (simp add: defs)
  next
    case explicit: True
    show ?thesis
    proof (cases "first_environment_tier env environment_tiers")
      case (Some pt)
      then obtain ps where "filter (\<lambda>p. p \<noteq> []) (map (\<lambda>t. case env t of None \<Rightarrow> [] | Some v \<Rightarrow> v)
          environment_tiers) = fst pt # ps"
        using env' [of environment_tiers "fst pt" "snd pt"] by auto
      then show ?thesis using explicit Some by (simp add: defs split: prod.splits)
    next
      case None
      then have e: "filter (\<lambda>p. p \<noteq> []) (map (\<lambda>t. case env t of None \<Rightarrow> [] | Some v \<Rightarrow> v)
          environment_tiers) = []"
        using env by blast
      show ?thesis
        unfolding e
        using explicit None found [of CA_BUNDLE_PROBE_PATHS]
        by (cases "find (is_readable_regular_file regular) CA_BUNDLE_PROBE_PATHS") (simp_all add: defs)
    qed
  qed
qed

section \<open>Progress of a request\<close>

text \<open>The attempts after which the loop tries again.\<close>

definition retried :: "curl_attempt \<Rightarrow> bool" where
  "retried a = (case a of
     CurlFailed code _ \<Rightarrow> code \<noteq> OTHER_CURL_ERROR
   | Performed code _ \<Rightarrow> is_http_retryable code)"

lemma retry_loop_reaches:
  assumes "\<forall>i < n. retried (perform (cur_try + i))" and "n \<le> rem" and "\<not> retried (perform (cur_try + n))"
  shows "\<exists>ws. length ws = (if cur_try = 0 then n else Suc n) \<and> retry_loop perform max_backoff rem cur_try backoff status last_ok waits
     = (case perform (cur_try + n) of Performed code body \<Rightarrow> ret (code, body) | CurlFailed _ _ \<Rightarrow> fail InternalError, waits @ ws)"
  using assms
proof (induction n arbitrary: rem cur_try backoff status last_ok waits)
  case 0
  then show ?case
    by (subst retry_loop.simps) (auto simp: retried_def Let_def split: curl_attempt.splits intro!: exI [of _ "if cur_try = 0 then [] else [backoff]"])
next
  case (Suc n)
  then obtain r where r: "rem = Suc r" "n \<le> r" by (cases rem) auto
  let ?ws = "if cur_try = 0 then [] else [backoff]"
  let ?last = "case perform (cur_try + Suc n) of Performed code body \<Rightarrow> ret (code, body) | CurlFailed _ _ \<Rightarrow> fail InternalError"
  have tried: "retried (perform cur_try)" using Suc.prems(1) [rule_format, of 0] by simp
  let ?b = "if 0 < cur_try then min (backoff * 2) max_backoff else backoff"
  let ?st = "case perform cur_try of Performed code _ \<Rightarrow> code | CurlFailed _ _ \<Rightarrow> status"
  let ?ok = "case perform cur_try of Performed _ _ \<Rightarrow> True | CurlFailed _ _ \<Rightarrow> last_ok"
  have loop: "retry_loop perform max_backoff rem cur_try backoff status last_ok waits
      = retry_loop perform max_backoff r (Suc cur_try) ?b ?st ?ok (waits @ ?ws)"
    using tried retryable_not_2xx unfolding r(1) retry_loop_Suc by (auto simp: retried_def Let_def split: curl_attempt.splits)
  have later: "\<forall>i < n. retried (perform (Suc cur_try + i))" using Suc.prems(1) by auto
  obtain ws where "length ws = Suc n"
      "retry_loop perform max_backoff r (Suc cur_try) ?b ?st ?ok (waits @ ?ws) = (?last, (waits @ ?ws) @ ws)"
    using Suc.IH [OF later r(2), of ?b ?st ?ok "waits @ ?ws"] Suc.prems(3) by auto
  then show ?case unfolding loop by (intro exI [of _ "?ws @ ws"]) auto
qed

text \<open>
  C24 (http_request_perseveres): a request gets through when the service becomes available in time.  If the attempts before attempt n end
  in a way that is retried, attempt n does not, and n does not exceed max_retry_count, then the loop reaches attempt n, after exactly n waits,
  and returns its status and complete body, or an internal error when libcurl failed.
\<close>

theorem http_request_perseveres:
  assumes "ca_bundle_path_error (hc_options client) = None" and "ca_bundle_path (hc_options client) \<noteq> []"
    and "int n \<le> max_retry_count (hc_options client)"
    and "\<forall>i < n. retried (perform (request_setup client request) i)" and "\<not> retried (perform (request_setup client request) n)"
  shows "\<exists>waits. length waits = n \<and> do_request perform client request status0 =
     (case perform (request_setup client request) n of Performed code body \<Rightarrow> ret (code, body) | CurlFailed _ _ \<Rightarrow> fail InternalError, waits)"
proof -
  have "n \<le> nat (max_retry_count (hc_options client))" using assms(3) by linarith
  from retry_loop_reaches [of n "perform (request_setup client request)" 0, unfolded add_0, OF assms(4) this assms(5),
      of "max_backoff_ms (hc_options client)" "base_backoff_ms (hc_options client)" status0 False "[]"]
  show ?thesis using assms(1,2) by (simp add: do_request_def Let_def)
qed

text \<open>A service that is busy once.\<close>

theorem http_request_perseveres_witness:
  "\<exists>waits. length waits = 1 \<and> do_request demo_perform demo_client
      \<lparr>nr_url = ''u'', nr_method = HTTP_METHOD_GET, nr_headers = [], nr_payload = []\<rparr> 0 = (Inr (200, ''ok''), waits)"
  using http_request_perseveres [of demo_client 1 demo_perform "\<lparr>nr_url = ''u'', nr_method = HTTP_METHOD_GET, nr_headers = [], nr_payload = []\<rparr>" 0]
  by (simp add: demo_client_def new_http_options_def demo_perform_def retried_def is_http_retryable_def ret_def)

end
