(* ===== verification/Codec.thy ===== *)
theory Codec
  imports Bytes
begin

text \<open>
  The contract of a wire format: a parser that accepts exactly the encodings of the valid
  messages.  The SPDM theories interpret it on their parsers; what follows from it (a message has
  one encoding, two byte strings never parse to the same message, everything else is rejected)
  is proved once here.
\<close>

locale wire_codec =
  fixes enc :: "'a \<Rightarrow> buffer"
    and dec :: "buffer \<Rightarrow> 'a outcome"
    and valid :: "'a \<Rightarrow> bool"
  assumes dec_enc: "valid x \<Longrightarrow> wf_buffer (enc x) \<Longrightarrow> dec (enc x) = Inr x"
    and dec_sound: "wf_buffer bs \<Longrightarrow> dec bs = Inr x \<Longrightarrow> valid x \<and> enc x = bs"
    and dec_total: "wf_buffer bs \<Longrightarrow> defined (dec bs)"
begin

lemma accepts_iff: "wf_buffer bs \<Longrightarrow> dec bs = Inr x \<longleftrightarrow> valid x \<and> bs = enc x"
  using dec_enc dec_sound by blast

lemma enc_injective:
  "valid x \<Longrightarrow> valid y \<Longrightarrow> wf_buffer (enc x) \<Longrightarrow> enc x = enc y \<Longrightarrow> x = y"
  using dec_enc by (metis sum.inject(2))

lemma not_malleable:
  "wf_buffer bs \<Longrightarrow> wf_buffer bs' \<Longrightarrow> dec bs = Inr x \<Longrightarrow> dec bs' = Inr x \<Longrightarrow> bs = bs'"
  using dec_sound by metis

lemma rejects_non_encodings:
  assumes "wf_buffer bs" and "\<And>x. valid x \<Longrightarrow> enc x \<noteq> bs"
  shows "\<exists>f. dec bs = Inl f \<and> f \<noteq> UB \<and> f \<noteq> Diverge"
  using assms dec_sound [OF assms(1)] dec_total [OF assms(1)]
  by (cases "dec bs") (auto simp: defined_def)

end

lemma cur_end:
  assumes "cur d off rest"
  shows "off = vsize d \<longleftrightarrow> rest = []"
  using cur_length [OF assms] unat_vsize [of d] assms
  by (auto simp: cur_def word_unat_eq_iff)

lemma vsize_eq_iff: "wf_buffer d \<Longrightarrow> vsize d = n \<longleftrightarrow> length d = unat n"
  using unat_vsize [of d] by (auto simp: word_unat_eq_iff)

section \<open>Sequencing after a field reader\<close>

named_theorems bind_fields "moving a continuation into a field reader"

lemma bind_guard [bind_fields]: "bind (guard e c k) g = guard e c (bind k g)"
  by (simp add: guard_def)

lemma bind_u8_field [bind_fields]:
  "bind (u8_field e d off k) g = u8_field e d off (\<lambda>v p. bind (k v p) g)"
  by (simp add: u8_field_def bind_guard bind_assoc)

lemma bind_le_field [bind_fields]:
  "bind (le_field e d off n k) g = le_field e d off n (\<lambda>v p. bind (k v p) g)"
  unfolding le_field_def bind_assoc by (rule arg_cong [of _ _ "bind _"]) (auto split: option.splits)

lemma bind_vec_field [bind_fields]:
  "bind (vec_field e d off n k) g = vec_field e d off n (\<lambda>v p. bind (k v p) g)"
  unfolding vec_field_def bind_assoc by (rule arg_cong [of _ _ "bind _"]) (auto split: option.splits)

lemma bind_arr_field [bind_fields]:
  "bind (arr_field e d off n k) g = arr_field e d off n (\<lambda>v p. bind (k v p) g)"
  unfolding arr_field_def bind_assoc by (rule arg_cong [of _ _ "bind _"]) (auto split: option.splits)

lemma bind_return [bind_fields]: "bind (ret x) g = g x"
  by (rule bind_ret)

section \<open>Two-byte lengths\<close>

lemma le2_bytes: "length bs = 2 \<Longrightarrow> le_bytes 2 (le_value bs :: u16) = bs"
  using le_bytes_value [of bs, where 'a = 16] by simp

lemma le2_value: "le_value (le_bytes 2 v) = (v :: u16)"
  by (simp add: le_value_bytes take_bit_word_eq_self)

lemma unat_bounded: "unat (v :: 'a::len word) < 2 ^ LENGTH('a)"
  by (rule unsigned_less)

lemma unat_ucast_u16 [simp]: "unat (ucast (v :: u16) :: size_t) = unat v"
  using unat_bounded [of v] by (simp add: unsigned_ucast_eq take_bit_nat_eq_self_iff)

lemma unat_ucast_u32 [simp]: "unat (ucast (v :: u32) :: size_t) = unat v"
  using unat_bounded [of v] by (simp add: unsigned_ucast_eq take_bit_nat_eq_self_iff)

lemma unat_of_nat_u16: "n < 2 ^ 16 \<Longrightarrow> unat (of_nat n :: u16) = n"
  by (simp add: unat_of_nat)

lemma unat_u16_less: "unat (v :: u16) < 2 ^ 16"
  using unat_bounded [of v] by simp

lemma le2_length_iff:
  "length bs = 2 \<Longrightarrow> unat (le_value bs :: u16) = n \<longleftrightarrow> n < 2 ^ 16 \<and> bs = le_bytes 2 (of_nat n :: u16)"
  using unat_u16_less [of "le_value bs"] le2_bytes [of bs]
  by (auto simp: le2_value unat_of_nat_u16)

end
