(* ===== verification/Spdm_Request.thy ===== *)
theory Spdm_Request
  imports Codec
begin

text \<open>
  The SPDM 1.1 GET_MEASUREMENTS request (\<^verbatim>\<open>src/spdm/spdm_req.cpp\<close>): the parser of the code,
  the wire format, and that the parser accepts exactly that format.
\<close>

record spdm_request =
  req_spdm_version :: byte
  req_request_response_code :: byte
  req_param1 :: byte
  req_param2 :: byte
  req_nonce :: buffer
  req_slot_id_param :: byte

definition SPDM_VERSION_1_1 :: byte where "SPDM_VERSION_1_1 = 0x11"
definition SPDM_REQ_CODE_GET_MEASUREMENTS :: byte where "SPDM_REQ_CODE_GET_MEASUREMENTS = 0xe0"
definition SPDM_RES_CODE_MEASUREMENTS :: byte where "SPDM_RES_CODE_MEASUREMENTS = 0x60"
definition kNonceSize :: nat where "kNonceSize = 32"
definition kRequestLength :: size_t where "kRequestLength = 37"

definition parse_request :: "buffer \<Rightarrow> spdm_request outcome" where
  "parse_request d =
     guard SpdmRequestParseError (vsize d = kRequestLength)
      (u8_field SpdmRequestParseError d 0 (\<lambda>version off.
       guard SpdmRequestParseError (version = SPDM_VERSION_1_1)
      (u8_field SpdmRequestParseError d off (\<lambda>code off.
       guard SpdmRequestParseError (code = SPDM_REQ_CODE_GET_MEASUREMENTS)
      (u8_field SpdmRequestParseError d off (\<lambda>param1 off.
       u8_field SpdmRequestParseError d off (\<lambda>param2 off.
       arr_field SpdmRequestParseError d off kNonceSize (\<lambda>nonce off.
       u8_field SpdmRequestParseError d off (\<lambda>slot off.
       guard SpdmRequestParseError (off = kRequestLength)
        (ret \<lparr>req_spdm_version = version, req_request_response_code = code,
              req_param1 = param1, req_param2 = param2,
              req_nonce = nonce, req_slot_id_param = slot\<rparr>))))))))))"

definition encode_request :: "spdm_request \<Rightarrow> buffer" where
  "encode_request r =
     [req_spdm_version r, req_request_response_code r, req_param1 r, req_param2 r]
     @ req_nonce r @ [req_slot_id_param r]"

definition valid_request :: "spdm_request \<Rightarrow> bool" where
  "valid_request r \<longleftrightarrow> req_spdm_version r = SPDM_VERSION_1_1
     \<and> req_request_response_code r = SPDM_REQ_CODE_GET_MEASUREMENTS
     \<and> length (req_nonce r) = kNonceSize"

text \<open>The same parser as a consumer of the byte list.\<close>

definition l_request :: "buffer \<Rightarrow> spdm_request outcome" where
  "l_request d =
     guard SpdmRequestParseError (length d = 37)
      (l_u8 SpdmRequestParseError d (\<lambda>version r.
       guard SpdmRequestParseError (version = SPDM_VERSION_1_1)
      (l_u8 SpdmRequestParseError r (\<lambda>code r.
       guard SpdmRequestParseError (code = SPDM_REQ_CODE_GET_MEASUREMENTS)
      (l_u8 SpdmRequestParseError r (\<lambda>param1 r.
       l_u8 SpdmRequestParseError r (\<lambda>param2 r.
       l_vec SpdmRequestParseError kNonceSize r (\<lambda>nonce r.
       l_u8 SpdmRequestParseError r (\<lambda>slot r.
       guard SpdmRequestParseError (r = [])
        (ret \<lparr>req_spdm_version = version, req_request_response_code = code,
              req_param1 = param1, req_param2 = param2,
              req_nonce = nonce, req_slot_id_param = slot\<rparr>))))))))))"

lemma parse_request_refines: "wf_buffer d \<Longrightarrow> parse_request d = l_request d"
  unfolding parse_request_def l_request_def
  by (intro refine_intros refl)
    (simp_all add: kRequestLength_def kNonceSize_def vsize_eq_iff cur_end [of d, symmetric])

lemma l_request_iff: "l_request d = Inr r \<longleftrightarrow> valid_request r \<and> d = encode_request r"
proof
  assume "valid_request r \<and> d = encode_request r"
  then show "l_request d = Inr r"
    by (cases r) (auto simp: l_request_def encode_request_def valid_request_def kNonceSize_def ret_def)
next
  assume "l_request d = Inr r"
  then show "valid_request r \<and> d = encode_request r"
    by (auto simp: l_request_def encode_request_def valid_request_def outcome_simps)
qed

lemma l_request_defined: "defined (l_request d)"
  unfolding l_request_def by (intro defined_intros)

interpretation request: wire_codec encode_request parse_request valid_request
  by unfold_locales (simp_all add: parse_request_refines l_request_iff l_request_defined)

lemma parse_request_errors:
  assumes "wf_buffer d" and "parse_request d = Inl f"
  shows "f = Err SpdmRequestParseError"
  using assms(2) unfolding parse_request_refines [OF assms(1)]
  by (auto simp: l_request_def guard_def l_u8_def l_vec_def outcome_simps split: if_splits list.splits)

text \<open>
  The request parser accepts exactly the 37-byte encodings of the
  GET_MEASUREMENTS requests of SPDM 1.1, returns the request that was encoded, and answers every
  other buffer with \<^verbatim>\<open>SpdmRequestParseError\<close>.
\<close>

theorem request_wire_format:
  assumes "wf_buffer d"
  shows "(\<forall>r. parse_request d = Inr r \<longleftrightarrow> valid_request r \<and> d = encode_request r)
    \<and> (parse_request d = fail SpdmRequestParseError
        \<longleftrightarrow> (\<nexists>r. valid_request r \<and> d = encode_request r))"
  using parse_request_errors [OF assms] request.accepts_iff [OF assms]
  by (cases "parse_request d") (auto simp: fail_def)

theorem request_wire_format_witness:
  "parse_request (0x11 # 0xe0 # 1 # 0xff # replicate 32 7 @ [0])
     = Inr \<lparr>req_spdm_version = 0x11, req_request_response_code = 0xe0, req_param1 = 1,
            req_param2 = 0xff, req_nonce = replicate 32 7, req_slot_id_param = 0\<rparr>"
  by (rule request_wire_format [THEN conjunct1, rule_format, THEN iffD2])
    (simp_all add: wf_buffer_def valid_request_def encode_request_def SPDM_VERSION_1_1_def
      SPDM_REQ_CODE_GET_MEASUREMENTS_def kNonceSize_def)

end
