(* ===== verification/Spdm_Measurements.thy ===== *)
theory Spdm_Measurements
  imports Spdm_Request
begin

text \<open>
  The measurement record of a MEASUREMENTS response
  (\<^verbatim>\<open>src/spdm/spdm_measurement_records.cpp\<close>).  A parse function that returns \<^verbatim>\<open>false\<close> or a
  null pointer is the error \<open>SpdmMeasurementRecordParseError\<close>, to which the only caller maps it.
  The \<^verbatim>\<open>unordered_map\<close> of blocks is an association list with distinct keys.
\<close>

record dmtf_block =
  dmtf_type :: byte
  dmtf_value_size :: u16
  dmtf_value :: buffer

type_synonym measurement_blocks = "(byte \<times> dmtf_block) list"

abbreviation (input) RecErr :: error where "RecErr \<equiv> SpdmMeasurementRecordParseError"

definition kMeasurementSpecification :: byte where "kMeasurementSpecification = 0x01"

definition parse_dmtf :: "buffer \<Rightarrow> size_t \<Rightarrow> dmtf_block outcome" where
  "parse_dmtf d off =
     u8_field RecErr d off (\<lambda>ty off.
     le_field RecErr d off 2 (\<lambda>sz off.
     vec_field RecErr d off (ucast (sz :: u16)) (\<lambda>v off.
     ret \<lparr>dmtf_type = ty, dmtf_value_size = sz, dmtf_value = v\<rparr>)))"

definition parse_measurement_block ::
  "buffer \<Rightarrow> size_t \<Rightarrow> measurement_blocks \<Rightarrow> (measurement_blocks \<times> size_t) outcome" where
  "parse_measurement_block d off blocks =
     u8_field RecErr d off (\<lambda>index off.
     guard RecErr (1 \<le> index)
     (u8_field RecErr d off (\<lambda>spec off.
     guard RecErr (spec = kMeasurementSpecification)
     (guard RecErr (can_read_buffer d off 2)
     (le_field RecErr d off 2 (\<lambda>sz off.
     vec_field RecErr d off (ucast (sz :: u16)) (\<lambda>measurement off.
     bind (parse_dmtf measurement 0) (\<lambda>blk.
     ret (AList.update index blk blocks, off))))))))) "

fun parse_blocks ::
  "buffer \<Rightarrow> nat \<Rightarrow> size_t \<Rightarrow> measurement_blocks \<Rightarrow> (measurement_blocks \<times> size_t) outcome" where
  "parse_blocks d 0 off blocks = ret (blocks, off)"
| "parse_blocks d (Suc n) off blocks =
     bind (parse_measurement_block d off blocks) (\<lambda>(blocks', off'). parse_blocks d n off' blocks')"

definition parse_records :: "buffer \<Rightarrow> byte \<Rightarrow> measurement_blocks outcome" where
  "parse_records d num_blocks =
     guard RecErr (\<not> (num_blocks = 0 \<and> d \<noteq> []))
     (guard RecErr (\<not> (0 < num_blocks \<and> d = []))
     (if num_blocks = 0 \<and> d = [] then ret []
      else bind (parse_blocks d (unat num_blocks) 0 []) (\<lambda>(blocks, off).
           guard RecErr (off = vsize d) (ret blocks))))"

text \<open>\<^verbatim>\<open>get_dmtf_measurement_block\<close>.\<close>

definition get_dmtf_measurement_block :: "measurement_blocks \<Rightarrow> byte \<Rightarrow> dmtf_block outcome" where
  "get_dmtf_measurement_block blocks index =
     (case map_of blocks index of None \<Rightarrow> fail SpdmFieldNotFound | Some b \<Rightarrow> ret b)"

section \<open>Wire format\<close>

text \<open>
  A block on the wire.  The code reads the DMTF value from the front of the measurement and does
  not look at what follows it, so a block may carry trailing bytes.
\<close>

record wire_block =
  wb_index :: byte
  wb_type :: byte
  wb_value :: buffer
  wb_trailing :: buffer

definition wire_measurement :: "wire_block \<Rightarrow> buffer" where
  "wire_measurement w =
     [wb_type w] @ le_bytes 2 (of_nat (length (wb_value w)) :: u16) @ wb_value w @ wb_trailing w"

definition encode_block :: "wire_block \<Rightarrow> buffer" where
  "encode_block w =
     [wb_index w, kMeasurementSpecification]
     @ le_bytes 2 (of_nat (length (wire_measurement w)) :: u16) @ wire_measurement w"

definition valid_block :: "wire_block \<Rightarrow> bool" where
  "valid_block w \<longleftrightarrow> wb_index w \<noteq> 0 \<and> length (wire_measurement w) < 2 ^ 16"

definition dmtf_of :: "wire_block \<Rightarrow> dmtf_block" where
  "dmtf_of w = \<lparr>dmtf_type = wb_type w, dmtf_value_size = of_nat (length (wb_value w)),
                dmtf_value = wb_value w\<rparr>"

definition store_block :: "wire_block \<Rightarrow> measurement_blocks \<Rightarrow> measurement_blocks" where
  "store_block w m = AList.update (wb_index w) (dmtf_of w) m"

section \<open>Refinement to a list consumer\<close>

fun l_blocks :: "nat \<Rightarrow> buffer \<Rightarrow> measurement_blocks \<Rightarrow> measurement_blocks outcome" where
  "l_blocks 0 r blocks = guard RecErr (r = []) (ret blocks)"
| "l_blocks (Suc n) r blocks =
     l_u8 RecErr r (\<lambda>index r.
     guard RecErr (index \<noteq> 0)
     (l_u8 RecErr r (\<lambda>spec r.
     guard RecErr (spec = kMeasurementSpecification)
     (l_vec RecErr 2 r (\<lambda>sz r.
     l_vec RecErr (unat (le_value sz :: u16)) r (\<lambda>measurement r.
     l_u8 RecErr measurement (\<lambda>ty q.
     l_vec RecErr 2 q (\<lambda>vsz q.
     l_vec RecErr (unat (le_value vsz :: u16)) q (\<lambda>v q.
     l_blocks n r (AList.update index
        \<lparr>dmtf_type = ty, dmtf_value_size = le_value vsz, dmtf_value = v\<rparr> blocks)))))))))) "

lemma byte_ge_1: "(1 :: byte) \<le> x \<longleftrightarrow> x \<noteq> 0"
  by (simp add: word_le_nat_alt unat_eq_0 Suc_le_eq neq0_conv [symmetric])

lemma parse_blocks_refines:
  assumes "cur d off rest"
  shows "bind (parse_blocks d n off blocks) (\<lambda>(blocks, off). guard RecErr (off = vsize d) (ret blocks))
    = l_blocks n rest blocks"
  using assms
proof (induction n arbitrary: off rest blocks)
  case 0
  then show ?case by (simp add: cur_end)
next
  case (Suc n)
  show ?case
    unfolding parse_blocks.simps l_blocks.simps parse_measurement_block_def parse_dmtf_def
      guard_can_read_le_field bind_assoc bind_fields prod.case
    by (intro refine_intros Suc.IH Suc.prems) (simp_all add: byte_ge_1 cur_prefix_wf)
qed

section \<open>What the parser accepts\<close>

lemma l_blocks_encode:
  assumes "valid_block w"
  shows "l_blocks (Suc n) (encode_block w @ r) m = l_blocks n r (store_block w m)"
proof -
  have len: "length (wb_value w) < 2 ^ 16" "length (wire_measurement w) < 2 ^ 16"
    using assms by (simp_all add: valid_block_def wire_measurement_def)
  have "unat (le_value (le_bytes 2 (of_nat (length (wire_measurement w)) :: u16)) :: u16)
      = length (wire_measurement w)"
    using len by (simp add: le2_value unat_of_nat_u16)
  moreover have "unat (le_value (le_bytes 2 (of_nat (length (wb_value w)) :: u16)) :: u16)
      = length (wb_value w)"
    using len by (simp add: le2_value unat_of_nat_u16)
  moreover have "l_u8 RecErr (wire_measurement w) f
      = f (wb_type w) (le_bytes 2 (of_nat (length (wb_value w)) :: u16) @ wb_value w @ wb_trailing w)"
    for f :: "byte \<Rightarrow> buffer \<Rightarrow> measurement_blocks outcome"
    by (simp add: wire_measurement_def)
  ultimately show ?thesis
    using assms
    by (simp add: encode_block_def valid_block_def store_block_def dmtf_of_def le2_value)
qed

lemma l_blocks_Suc_accepts:
  assumes "l_blocks (Suc n) r m = Inr m'"
  shows "\<exists>w r'. valid_block w \<and> r = encode_block w @ r' \<and> l_blocks n r' (store_block w m) = Inr m'"
proof -
  from assms obtain index sz ms r' ty vsz v tr where
    r: "r = index # kMeasurementSpecification # sz @ ms @ r'" and "index \<noteq> 0"
    and ms: "ms = ty # vsz @ v @ tr" and "length sz = 2" "length vsz = 2"
    and "length ms = unat (le_value sz :: u16)" and "length v = unat (le_value vsz :: u16)"
    and rest: "l_blocks n r' (AList.update index
        \<lparr>dmtf_type = ty, dmtf_value_size = le_value vsz, dmtf_value = v\<rparr> m) = Inr m'"
    by (auto simp: outcome_simps)
  define w where "w = \<lparr>wb_index = index, wb_type = ty, wb_value = v, wb_trailing = tr\<rparr>"
  have vsz: "length v < 2 ^ 16" "vsz = le_bytes 2 (of_nat (length v) :: u16)"
    using le2_length_iff [OF \<open>length vsz = 2\<close>, of "length v"] \<open>length v = _\<close> by auto
  then have "wire_measurement w = ms" by (simp add: w_def wire_measurement_def ms)
  moreover have "length ms < 2 ^ 16" "sz = le_bytes 2 (of_nat (length ms) :: u16)"
    using le2_length_iff [OF \<open>length sz = 2\<close>, of "length ms"] \<open>length ms = _\<close> by auto
  ultimately have "valid_block w" and "r = encode_block w @ r'"
    using \<open>index \<noteq> 0\<close> by (simp_all add: valid_block_def encode_block_def w_def r)
  moreover have "l_blocks n r' (store_block w m) = Inr m'"
    using rest vsz by (simp add: w_def store_block_def dmtf_of_def le2_value)
  ultimately show ?thesis by blast
qed

lemma l_blocks_iff:
  "l_blocks n r m = Inr m' \<longleftrightarrow>
     (\<exists>ws. length ws = n \<and> list_all valid_block ws \<and> r = concat (map encode_block ws)
        \<and> m' = fold store_block ws m)"
proof (induction n arbitrary: r m)
  case 0
  then show ?case by (auto simp: outcome_simps)
next
  case (Suc n)
  show ?case (is "?L \<longleftrightarrow> ?R")
  proof
    assume ?L
    then obtain w r' where w: "valid_block w" "r = encode_block w @ r'"
      and "l_blocks n r' (store_block w m) = Inr m'"
      using l_blocks_Suc_accepts by blast
    with Suc.IH obtain ws where "length ws = n" "list_all valid_block ws"
      "r' = concat (map encode_block ws)" "m' = fold store_block ws (store_block w m)" by blast
    with w show ?R by (intro exI [of _ "w # ws"]) simp
  next
    assume ?R
    then obtain w ws where "length ws = n" "valid_block w" "list_all valid_block ws"
      "r = encode_block w @ concat (map encode_block ws)"
      "m' = fold store_block ws (store_block w m)"
      by (auto simp: length_Suc_conv)
    then show ?L using Suc.IH l_blocks_encode by metis
  qed
qed

lemma l_blocks_defined: "defined (l_blocks n r m)"
proof (induction n arbitrary: r m)
  case 0
  then show ?case by (simp add: defined_guard)
next
  case (Suc n)
  show ?case unfolding l_blocks.simps by (intro defined_intros Suc.IH)
qed

lemma parse_records_refines:
  assumes "wf_buffer d"
  shows "parse_records d n = l_blocks (unat n) d []"
proof -
  have "unat n = 0 \<longleftrightarrow> n = 0" by (simp add: unat_eq_0)
  moreover have "l_blocks (unat n) [] [] = fail RecErr" if "n \<noteq> 0"
    using that by (cases "unat n") (auto simp: unat_eq_0)
  ultimately show ?thesis
    using parse_blocks_refines [OF cur_0 [OF assms], of "unat n" "[]"]
    by (cases "d = []") (auto simp: parse_records_def word_neq_0_conv)
qed

lemma map_of_fold_store:
  "map_of (fold store_block ws m) i
     = (case find (\<lambda>w. wb_index w = i) (rev ws) of Some w \<Rightarrow> Some (dmtf_of w) | None \<Rightarrow> map_of m i)"
  unfolding store_block_def by (rule map_of_fold_update)

lemma distinct_fold_store:
  "distinct (map fst m) \<Longrightarrow> distinct (map fst (fold store_block ws m))"
  unfolding store_block_def by (rule distinct_fold_update)

end
