(* ===== verification/Spdm_Opaque.thy ===== *)
theory Spdm_Opaque
  imports Codec
begin

text \<open>
  The opaque data of a MEASUREMENTS response: a sequence of type, length, value fields
  (\<^verbatim>\<open>src/spdm/spdm_opaque_data_parser.cpp\<close>).  The \<^verbatim>\<open>while\<close> loop runs on a budget of
  \<open>length d + 1\<close> iterations; every iteration consumes at least four bytes, so the budget is never
  exhausted (\<open>parse_opaque_refines\<close>).
\<close>

record opaque_field =
  of_type :: u16
  of_data :: buffer

fun opaque_loop :: "nat \<Rightarrow> buffer \<Rightarrow> size_t \<Rightarrow> opaque_field list \<Rightarrow> opaque_field list outcome" where
  "opaque_loop 0 d off acc = Inl Diverge"
| "opaque_loop (Suc fuel) d off acc =
     (if off < vsize d then
        guard InternalError (can_read_buffer d off 2)
        (le_field InternalError d off 2 (\<lambda>data_type off.
        guard InternalError (can_read_buffer d off 2)
        (le_field InternalError d off 2 (\<lambda>data_size off.
        vec_field InternalError d off (ucast (data_size :: u16)) (\<lambda>value_bytes off.
        opaque_loop fuel d off (acc @ [\<lparr>of_type = data_type, of_data = value_bytes\<rparr>]))))))
      else guard InternalError (off = vsize d) (ret acc))"

text \<open>
  \<^verbatim>\<open>OpaqueDataParser::parse\<close> appends to the parser's fields; they are empty in a new parser.
\<close>

definition parse_opaque :: "buffer \<Rightarrow> opaque_field list \<Rightarrow> opaque_field list outcome" where
  "parse_opaque raw_data acc = opaque_loop (Suc (length raw_data)) raw_data 0 acc"

definition encode_field :: "opaque_field \<Rightarrow> buffer" where
  "encode_field f = le_bytes 2 (of_type f)
     @ le_bytes 2 (of_nat (length (of_data f)) :: u16) @ of_data f"

definition encode_fields :: "opaque_field list \<Rightarrow> buffer" where
  "encode_fields fs = concat (map encode_field fs)"

definition valid_field :: "opaque_field \<Rightarrow> bool" where
  "valid_field f \<longleftrightarrow> length (of_data f) < 2 ^ 16"

section \<open>Refinement to a list consumer\<close>

fun l_opaque :: "nat \<Rightarrow> buffer \<Rightarrow> opaque_field list \<Rightarrow> opaque_field list outcome" where
  "l_opaque 0 r acc = Inl Diverge"
| "l_opaque (Suc fuel) r acc =
     (if r \<noteq> [] then
        l_vec InternalError 2 r (\<lambda>data_type r.
        l_vec InternalError 2 r (\<lambda>data_size r.
        l_vec InternalError (unat (le_value data_size :: u16)) r (\<lambda>value_bytes r.
        l_opaque fuel r (acc @ [\<lparr>of_type = le_value data_type, of_data = value_bytes\<rparr>]))))
      else ret acc)"

lemma cur_not_end: "cur d off rest \<Longrightarrow> off < vsize d \<longleftrightarrow> rest \<noteq> []"
  using unat_vsize [of d] by (auto simp: cur_def word_less_nat_alt)

lemma opaque_loop_refines:
  "cur d off rest \<Longrightarrow> opaque_loop fuel d off acc = l_opaque fuel rest acc"
proof (induction fuel arbitrary: off rest acc)
  case 0
  then show ?case by simp
next
  case (Suc fuel)
  show ?case
  proof (cases "rest = []")
    case True
    then show ?thesis
      using Suc.prems cur_not_end cur_end [of d off rest] by simp
  next
    case False
    have "le_field InternalError d off 2 (\<lambda>data_type off.
        le_field InternalError d off 2 (\<lambda>data_size off.
        vec_field InternalError d off (ucast (data_size :: u16)) (\<lambda>value_bytes off.
        opaque_loop fuel d off (acc @ [\<lparr>of_type = data_type, of_data = value_bytes\<rparr>]))))
      = l_vec InternalError 2 rest (\<lambda>data_type r.
        l_vec InternalError 2 r (\<lambda>data_size r.
        l_vec InternalError (unat (le_value data_size :: u16)) r (\<lambda>value_bytes r.
        l_opaque fuel r (acc @ [\<lparr>of_type = le_value data_type, of_data = value_bytes\<rparr>]))))"
      by (intro refine_intros Suc.IH Suc.prems) simp_all
    then show ?thesis
      unfolding opaque_loop.simps l_opaque.simps guard_can_read_le_field
      using False cur_not_end [OF Suc.prems] by simp
  qed
qed

lemma parse_opaque_refines:
  "wf_buffer d \<Longrightarrow> parse_opaque d acc = l_opaque (Suc (length d)) d acc"
  unfolding parse_opaque_def by (intro opaque_loop_refines cur_0)

section \<open>What the parser accepts\<close>

lemma opaque_field_eta: "\<lparr>of_type = of_type f, of_data = of_data f\<rparr> = f"
  by simp

lemma l_opaque_encode:
  assumes "valid_field f"
  shows "l_opaque (Suc fuel) (encode_field f @ r) acc = l_opaque fuel r (acc @ [f])"
proof -
  have "unat (le_value (le_bytes 2 (of_nat (length (of_data f)) :: u16)) :: u16)
      = length (of_data f)"
    using assms by (simp add: le2_value unat_of_nat_u16 valid_field_def)
  moreover have "encode_field f @ r \<noteq> []"
    by (simp add: encode_field_def le_bytes_def)
  ultimately show ?thesis
    by (simp only: l_opaque.simps if_True simp_thms) (simp add: encode_field_def le2_value opaque_field_eta)
qed

lemma l_opaque_complete:
  "list_all valid_field gs \<Longrightarrow> length gs < fuel \<Longrightarrow>
     l_opaque fuel (encode_fields gs) acc = Inr (acc @ gs)"
proof (induction gs arbitrary: fuel acc)
  case Nil
  then show ?case by (cases fuel) (auto simp: encode_fields_def ret_def)
next
  case (Cons g gs)
  then obtain fuel' where "fuel = Suc fuel'" by (cases fuel) auto
  with Cons show ?case
    using l_opaque_encode [of g fuel' "encode_fields gs"] by (simp add: encode_fields_def)
qed

lemma l_opaque_sound:
  "l_opaque fuel r acc = Inr fs \<Longrightarrow>
     \<exists>gs. list_all valid_field gs \<and> r = encode_fields gs \<and> fs = acc @ gs"
proof (induction fuel arbitrary: r acc)
  case 0
  then show ?case by simp
next
  case (Suc fuel)
  show ?case
  proof (cases "r = []")
    case True
    with Suc.prems show ?thesis
      by (intro exI [of _ "[]"]) (auto simp: encode_fields_def outcome_simps)
  next
    case False
    with Suc.prems obtain ty sz v r' where r: "r = ty @ sz @ v @ r'" and "length ty = 2"
      and "length sz = 2" and v: "length v = unat (le_value sz :: u16)"
      and "l_opaque fuel r' (acc @ [\<lparr>of_type = le_value ty, of_data = v\<rparr>]) = Inr fs"
      by (auto simp: outcome_simps)
    from Suc.IH [OF this(5)] obtain gs where gs: "list_all valid_field gs"
      "r' = encode_fields gs" "fs = acc @ \<lparr>of_type = le_value ty, of_data = v\<rparr> # gs" by auto
    have "length v < 2 ^ 16" "sz = le_bytes 2 (of_nat (length v) :: u16)"
      using le2_length_iff [OF \<open>length sz = 2\<close>, of "length v"] v by auto
    then have "valid_field \<lparr>of_type = le_value ty, of_data = v\<rparr>"
      and "r = encode_field \<lparr>of_type = le_value ty, of_data = v\<rparr> @ r'"
      using \<open>length ty = 2\<close> by (simp_all add: valid_field_def encode_field_def le2_bytes r)
    with gs show ?thesis
      by (intro exI [of _ "\<lparr>of_type = le_value ty, of_data = v\<rparr> # gs"])
        (simp add: encode_fields_def)
  qed
qed

lemma length_encode_fields: "4 * length gs \<le> length (encode_fields gs)"
  by (induction gs) (simp_all add: encode_fields_def encode_field_def)

lemma l_opaque_iff:
  assumes "length r < fuel"
  shows "l_opaque fuel r acc = Inr fs \<longleftrightarrow>
    (\<exists>gs. list_all valid_field gs \<and> r = encode_fields gs \<and> fs = acc @ gs)"
proof
  assume "\<exists>gs. list_all valid_field gs \<and> r = encode_fields gs \<and> fs = acc @ gs"
  then obtain gs where gs: "list_all valid_field gs" "r = encode_fields gs" "fs = acc @ gs" by blast
  moreover have "length gs < fuel" using assms length_encode_fields [of gs] gs(2) by simp
  ultimately show "l_opaque fuel r acc = Inr fs" by (simp add: l_opaque_complete)
qed (rule l_opaque_sound)

lemma l_opaque_defined: "length r < fuel \<Longrightarrow> defined (l_opaque fuel r acc)"
proof (induction fuel arbitrary: r acc)
  case 0
  then show ?case by simp
next
  case (Suc fuel)
  show ?case
  proof (cases "r = []")
    case False
    with Suc show ?thesis by (auto intro!: l_vec_defined Suc.IH)
  qed simp
qed

interpretation opaque: wire_codec encode_fields "\<lambda>d. parse_opaque d []" "list_all valid_field"
proof unfold_locales
  fix fs assume "list_all valid_field fs" and "wf_buffer (encode_fields fs)"
  then show "parse_opaque (encode_fields fs) [] = Inr fs"
    by (simp only: parse_opaque_refines l_opaque_iff [OF lessI]) simp
next
  fix d fs assume "wf_buffer d" and "parse_opaque d [] = Inr fs"
  then show "list_all valid_field fs \<and> encode_fields fs = d"
    by (simp only: parse_opaque_refines l_opaque_iff [OF lessI]) simp
next
  fix d assume "wf_buffer d"
  then show "defined (parse_opaque d [])"
    by (simp only: parse_opaque_refines l_opaque_defined [OF lessI])
qed

end
