(* ===== verification/Spdm_Response.thy ===== *)
theory Spdm_Response
  imports Spdm_Measurements Spdm_Opaque
begin

text \<open>
  The SPDM 1.1 MEASUREMENTS response (\<^verbatim>\<open>src/spdm/spdm_resp.cpp\<close>): parser, wire format, and that
  the parser accepts exactly the wire format for the signature length it is given.
\<close>

record spdm_response =
  resp_spdm_version :: byte
  resp_request_response_code :: byte
  resp_param1 :: byte
  resp_param2 :: byte
  resp_number_of_blocks :: byte
  resp_measurement_record_length :: u32
  resp_measurement_record_data :: buffer
  resp_parsed_measurement_records :: measurement_blocks
  resp_nonce :: buffer
  resp_opaque_data_length :: u16
  resp_opaque_data :: buffer
  resp_parsed_opaque_data :: "opaque_field list"
  resp_signature :: buffer

abbreviation (input) ParseErr :: error where "ParseErr \<equiv> SpdmParseError"

definition parse_response :: "buffer \<Rightarrow> size_t \<Rightarrow> spdm_response outcome" where
  "parse_response d signature_length =
     u8_field ParseErr d 0 (\<lambda>version off.
     guard ParseErr (version = SPDM_VERSION_1_1)
     (u8_field ParseErr d off (\<lambda>code off.
     guard ParseErr (code = SPDM_RES_CODE_MEASUREMENTS)
     (u8_field ParseErr d off (\<lambda>param1 off.
     u8_field ParseErr d off (\<lambda>param2 off.
     u8_field ParseErr d off (\<lambda>number_of_blocks off.
     guard ParseErr (number_of_blocks \<noteq> 0)
     (guard ParseErr (can_read_buffer d off 3)
     (le_field ParseErr d off 3 (\<lambda>record_length off.
     vec_field ParseErr d off (ucast (record_length :: u32)) (\<lambda>record_data off.
     bind (parse_records record_data number_of_blocks) (\<lambda>records.
     arr_field ParseErr d off kNonceSize (\<lambda>nonce off.
     guard ParseErr (can_read_buffer d off 2)
     (le_field ParseErr d off 2 (\<lambda>opaque_length off.
     vec_field ParseErr d off (ucast (opaque_length :: u16)) (\<lambda>opaque_data off.
     guard ParseErr (opaque_data \<noteq> [])
     (bind (map_error SpdmOpaqueDataParseError (parse_opaque opaque_data [])) (\<lambda>opaque_fields.
     vec_field ParseErr d off signature_length (\<lambda>signature off.
     guard ParseErr (off = vsize d)
     (ret \<lparr>resp_spdm_version = version, resp_request_response_code = code,
           resp_param1 = param1, resp_param2 = param2,
           resp_number_of_blocks = number_of_blocks,
           resp_measurement_record_length = record_length,
           resp_measurement_record_data = record_data,
           resp_parsed_measurement_records = records,
           resp_nonce = nonce,
           resp_opaque_data_length = opaque_length,
           resp_opaque_data = opaque_data,
           resp_parsed_opaque_data = opaque_fields,
           resp_signature = signature\<rparr>))))))))))))))))))))"

definition encode_response :: "spdm_response \<Rightarrow> buffer" where
  "encode_response m =
     [resp_spdm_version m, resp_request_response_code m, resp_param1 m, resp_param2 m,
      resp_number_of_blocks m]
     @ le_bytes 3 (resp_measurement_record_length m) @ resp_measurement_record_data m
     @ resp_nonce m
     @ le_bytes 2 (resp_opaque_data_length m) @ resp_opaque_data m
     @ resp_signature m"

text \<open>The measurement record is a sequence of blocks, of which the last one per index is kept.\<close>

definition records_of :: "buffer \<Rightarrow> byte \<Rightarrow> measurement_blocks \<Rightarrow> bool" where
  "records_of d n m \<longleftrightarrow>
     (\<exists>ws. length ws = unat n \<and> list_all valid_block ws \<and> d = concat (map encode_block ws)
        \<and> m = fold store_block ws [])"

definition valid_response :: "size_t \<Rightarrow> spdm_response \<Rightarrow> bool" where
  "valid_response signature_length m \<longleftrightarrow>
     resp_spdm_version m = SPDM_VERSION_1_1
     \<and> resp_request_response_code m = SPDM_RES_CODE_MEASUREMENTS
     \<and> resp_number_of_blocks m \<noteq> 0
     \<and> length (resp_measurement_record_data m) = unat (resp_measurement_record_length m)
     \<and> unat (resp_measurement_record_length m) < 2 ^ 24
     \<and> records_of (resp_measurement_record_data m) (resp_number_of_blocks m)
         (resp_parsed_measurement_records m)
     \<and> length (resp_nonce m) = kNonceSize
     \<and> length (resp_opaque_data m) = unat (resp_opaque_data_length m)
     \<and> resp_opaque_data m \<noteq> []
     \<and> list_all valid_field (resp_parsed_opaque_data m)
     \<and> resp_opaque_data m = encode_fields (resp_parsed_opaque_data m)
     \<and> length (resp_signature m) = unat signature_length"

section \<open>Refinement to a list consumer\<close>

definition l_response :: "buffer \<Rightarrow> size_t \<Rightarrow> spdm_response outcome" where
  "l_response d signature_length =
     l_u8 ParseErr d (\<lambda>version r.
     guard ParseErr (version = SPDM_VERSION_1_1)
     (l_u8 ParseErr r (\<lambda>code r.
     guard ParseErr (code = SPDM_RES_CODE_MEASUREMENTS)
     (l_u8 ParseErr r (\<lambda>param1 r.
     l_u8 ParseErr r (\<lambda>param2 r.
     l_u8 ParseErr r (\<lambda>number_of_blocks r.
     guard ParseErr (number_of_blocks \<noteq> 0)
     (l_vec ParseErr 3 r (\<lambda>rl r.
     l_vec ParseErr (unat (le_value rl :: u32)) r (\<lambda>record_data r.
     bind (parse_records record_data number_of_blocks) (\<lambda>records.
     l_vec ParseErr kNonceSize r (\<lambda>nonce r.
     l_vec ParseErr 2 r (\<lambda>ol r.
     l_vec ParseErr (unat (le_value ol :: u16)) r (\<lambda>opaque_data r.
     guard ParseErr (opaque_data \<noteq> [])
     (bind (map_error SpdmOpaqueDataParseError (parse_opaque opaque_data [])) (\<lambda>opaque_fields.
     l_vec ParseErr (unat signature_length) r (\<lambda>signature r.
     guard ParseErr (r = [])
     (ret \<lparr>resp_spdm_version = version, resp_request_response_code = code,
           resp_param1 = param1, resp_param2 = param2,
           resp_number_of_blocks = number_of_blocks,
           resp_measurement_record_length = le_value rl,
           resp_measurement_record_data = record_data,
           resp_parsed_measurement_records = records,
           resp_nonce = nonce,
           resp_opaque_data_length = le_value ol,
           resp_opaque_data = opaque_data,
           resp_parsed_opaque_data = opaque_fields,
           resp_signature = signature\<rparr>))))))))))))))))))"

lemma bind_cong_right: "(\<And>x. m = Inr x \<Longrightarrow> k x = k' x) \<Longrightarrow> bind m k = bind m k'"
  by (cases m) auto

lemma parse_response_refines: "wf_buffer d \<Longrightarrow> parse_response d n = l_response d n"
  unfolding parse_response_def l_response_def guard_can_read_le_field
  by (intro refine_intros bind_cong_right refl) (simp_all add: kNonceSize_def cur_end)

section \<open>What the parser accepts\<close>

lemma parse_records_iff:
  "wf_buffer d \<Longrightarrow> parse_records d n = Inr m \<longleftrightarrow> records_of d n m"
  by (simp add: parse_records_refines l_blocks_iff records_of_def)

lemma le3_bytes: "length bs = 3 \<Longrightarrow> le_bytes 3 (le_value bs :: u32) = bs"
  using le_bytes_value [of bs, where 'a = 32] by simp

lemma le3_value: "unat v < 2 ^ 24 \<Longrightarrow> le_value (le_bytes 3 v) = (v :: u32)"
  by (simp add: le_value_bytes word_unat_eq_iff unsigned_take_bit_eq take_bit_nat_eq_self)

lemma le3_bound: "length bs = 3 \<Longrightarrow> unat (le_value bs :: u32) < 2 ^ 24"
proof -
  assume "length bs = 3"
  then have "le_value bs = (take_bit 24 (le_value bs) :: u32)"
    using le3_bytes [of bs] le_value_bytes [of 3 "le_value bs :: u32"] by simp
  then show ?thesis
    by (metis (no_types, lifting) take_bit_nat_less_exp unsigned_take_bit_eq)
qed

lemma wf_buffer_mono: "length bs \<le> length d \<Longrightarrow> wf_buffer d \<Longrightarrow> wf_buffer bs"
  by (simp add: wf_buffer_def)

lemma l_response_sound:
  assumes "wf_buffer d" and "l_response d n = Inr m"
  shows "valid_response n m \<and> encode_response m = d"
proof -
  from assms(2) obtain rl rd rs nonce ol od fs sig p1 p2 nb where
    d: "d = SPDM_VERSION_1_1 # SPDM_RES_CODE_MEASUREMENTS # p1 # p2 # nb # rl @ rd @ nonce @ ol @ od @ sig"
    and len: "length rl = 3" "length rd = unat (le_value rl :: u32)" "length nonce = kNonceSize"
      "length ol = 2" "length od = unat (le_value ol :: u16)" "length sig = unat n"
    and "nb \<noteq> 0" "od \<noteq> []" and rs: "parse_records rd nb = Inr rs" and fs: "parse_opaque od [] = Inr fs"
    and m: "m = \<lparr>resp_spdm_version = SPDM_VERSION_1_1,
           resp_request_response_code = SPDM_RES_CODE_MEASUREMENTS,
           resp_param1 = p1, resp_param2 = p2, resp_number_of_blocks = nb,
           resp_measurement_record_length = le_value rl, resp_measurement_record_data = rd,
           resp_parsed_measurement_records = rs, resp_nonce = nonce,
           resp_opaque_data_length = le_value ol, resp_opaque_data = od,
           resp_parsed_opaque_data = fs, resp_signature = sig\<rparr>"
    unfolding l_response_def by (auto simp: outcome_simps)
  have wf: "wf_buffer rd" "wf_buffer od"
    using assms(1) by (auto intro: wf_buffer_mono [of _ d] simp: d)
  have "records_of rd nb rs" using rs parse_records_iff [OF wf(1)] by simp
  moreover have "list_all valid_field fs \<and> od = encode_fields fs"
    using opaque.dec_sound [OF wf(2) fs] by simp
  ultimately show ?thesis
    using len \<open>nb \<noteq> 0\<close> \<open>od \<noteq> []\<close> le3_bound [OF len(1)]
    by (simp add: m valid_response_def encode_response_def d le3_bytes le2_bytes)
qed

lemma l_response_complete:
  assumes "wf_buffer (encode_response m)" and "valid_response n m"
  shows "l_response (encode_response m) n = Inr m"
proof -
  note v = assms(2) [unfolded valid_response_def]
  have wf: "wf_buffer (resp_measurement_record_data m)" "wf_buffer (resp_opaque_data m)"
    using assms(1) by (auto intro: wf_buffer_mono [of _ "encode_response m"] simp: encode_response_def)
  have "parse_records (resp_measurement_record_data m) (resp_number_of_blocks m)
      = Inr (resp_parsed_measurement_records m)"
    using v parse_records_iff [OF wf(1)] by simp
  moreover have "parse_opaque (resp_opaque_data m) [] = Inr (resp_parsed_opaque_data m)"
    using v opaque.dec_enc [of "resp_parsed_opaque_data m"] wf(2) by simp
  moreover have "resp_opaque_data m \<noteq> []" "length (resp_opaque_data m) = unat (resp_opaque_data_length m)"
    "length (resp_measurement_record_data m) = unat (resp_measurement_record_length m)"
    "unat (resp_measurement_record_length m) < 2 ^ 24" "resp_number_of_blocks m \<noteq> 0"
    "length (resp_nonce m) = kNonceSize" "length (resp_signature m) = unat n"
    using v by blast+
  moreover have "SPDM_VERSION_1_1 = resp_spdm_version m"
    "SPDM_RES_CODE_MEASUREMENTS = resp_request_response_code m"
    using v by simp_all
  ultimately show ?thesis
    by (simp add: l_response_def encode_response_def le3_value le2_value ret_def)
qed

lemma parse_records_defined: "wf_buffer d \<Longrightarrow> defined (parse_records d n)"
  by (simp add: parse_records_refines l_blocks_defined)

lemma l_response_defined: "wf_buffer d \<Longrightarrow> defined (l_response d n)"
  unfolding l_response_def
  by (intro defined_intros parse_records_defined opaque.dec_total)
    (auto simp: wf_buffer_def)

interpretation response: wire_codec encode_response "\<lambda>d. parse_response d n" "valid_response n"
  for n
proof unfold_locales
  fix m assume "valid_response n m" and "wf_buffer (encode_response m)"
  then show "parse_response (encode_response m) n = Inr m"
    by (simp only: parse_response_refines l_response_complete)
next
  fix d m assume "wf_buffer d" and "parse_response d n = Inr m"
  then show "valid_response n m \<and> encode_response m = d"
    by (intro l_response_sound) (simp_all only: parse_response_refines)
next
  fix d assume "wf_buffer d"
  then show "defined (parse_response d n)"
    by (simp only: parse_response_refines l_response_defined)
qed

section \<open>Properties\<close>

text \<open>
  C17 (response_wire_format): for every signature length the response parser accepts exactly the
  encodings of the valid MEASUREMENTS responses and returns the response that was encoded; on
  every buffer it ends with a message or an error code, never with an access outside the buffer
  or a loop that does not end.
\<close>

theorem response_wire_format:
  assumes "wf_buffer d"
  shows "(\<forall>m. parse_response d signature_length = Inr m
      \<longleftrightarrow> valid_response signature_length m \<and> d = encode_response m)
    \<and> defined (parse_response d signature_length)"
  using response.accepts_iff [OF assms] response.dec_total [OF assms] by auto

definition demo_block :: wire_block where
  "demo_block = \<lparr>wb_index = 1, wb_type = 1, wb_value = [0xaa], wb_trailing = []\<rparr>"

definition demo_response :: spdm_response where
  "demo_response = \<lparr>resp_spdm_version = 0x11, resp_request_response_code = 0x60,
     resp_param1 = 0, resp_param2 = 0, resp_number_of_blocks = 1,
     resp_measurement_record_length = 8, resp_measurement_record_data = encode_block demo_block,
     resp_parsed_measurement_records = [(1, dmtf_of demo_block)],
     resp_nonce = replicate 32 7, resp_opaque_data_length = 5,
     resp_opaque_data = [3, 0, 1, 0, 0x41],
     resp_parsed_opaque_data = [\<lparr>of_type = 3, of_data = [0x41]\<rparr>], resp_signature = [1, 2]\<rparr>"

lemma le_bytes_small:
  "le_bytes 2 (1 :: u16) = [1, 0]" "le_bytes 2 (3 :: u16) = [3, 0]" "le_bytes 2 (4 :: u16) = [4, 0]"
  "le_bytes 2 (5 :: u16) = [5, 0]" "le_bytes 3 (8 :: u32) = [8, 0, 0]"
  by code_simp+

lemma encode_demo_block: "encode_block demo_block = [1, 1, 4, 0, 1, 1, 0, 0xaa]"
  by (simp add: encode_block_def demo_block_def wire_measurement_def kMeasurementSpecification_def
      le_bytes_small)

lemma valid_demo_response: "valid_response 2 demo_response"
proof -
  have "records_of (encode_block demo_block) 1 [(1, dmtf_of demo_block)]"
    unfolding records_of_def
    by (rule exI [of _ "[demo_block]"])
      (simp add: store_block_def demo_block_def valid_block_def wire_measurement_def)
  then show ?thesis
    by (simp add: valid_response_def demo_response_def SPDM_VERSION_1_1_def
        SPDM_RES_CODE_MEASUREMENTS_def kNonceSize_def encode_demo_block valid_field_def
        encode_fields_def encode_field_def le_bytes_small)
qed

lemma valid_response_param1: "valid_response n (m\<lparr>resp_param1 := v\<rparr>) = valid_response n m"
  by (cases m) (simp add: valid_response_def)

theorem response_wire_format_witness:
  "parse_response ([0x11, 0x60, 0, 0, 1, 8, 0, 0, 1, 1, 4, 0, 1, 1, 0, 0xaa] @ replicate 32 7
     @ [5, 0, 3, 0, 1, 0, 0x41, 1, 2]) 2 = Inr demo_response"
  by (rule response_wire_format [THEN conjunct1, rule_format, THEN iffD2])
    (simp_all add: wf_buffer_def valid_demo_response encode_response_def,
      simp add: demo_response_def encode_demo_block le_bytes_small)

text \<open>
  Two different byte strings never parse to the same response, and
  two responses that differ in any field have different encodings, so a signature over the bytes
  is a signature over the parsed message.
\<close>

theorem response_not_malleable:
  assumes "wf_buffer d" and "wf_buffer d'"
    and "parse_response d signature_length = Inr m"
    and "parse_response d' signature_length = Inr m'"
  shows "d = d' \<longleftrightarrow> m = m'"
  using response.not_malleable [OF assms(1,2)] assms(3,4) by auto

theorem response_not_malleable_witness:
  "encode_response demo_response \<noteq> encode_response (demo_response\<lparr>resp_param1 := 5\<rparr>)"
proof -
  let ?other = "demo_response\<lparr>resp_param1 := 5\<rparr>"
  have v: "valid_response 2 ?other"
    using valid_demo_response by (simp add: valid_response_param1)
  have wf: "wf_buffer (encode_response demo_response)" "wf_buffer (encode_response ?other)"
    by (simp_all add: wf_buffer_def encode_response_def demo_response_def encode_demo_block le_bytes_small)
  have "demo_response \<noteq> ?other" by (simp add: demo_response_def)
  then show ?thesis
    using response_not_malleable [OF wf response.dec_enc [OF valid_demo_response wf(1)]
        response.dec_enc [OF v wf(2)]] by simp
qed

text \<open>
  When a response is accepted, its measurement record is a
  sequence of exactly as many blocks as the header announces, and looking an index up gives the
  last block on the wire with that index, or \<^verbatim>\<open>SpdmFieldNotFound\<close> when no block has it.
\<close>

theorem measurement_lookup_last_wins:
  assumes "wf_buffer d" and "parse_response d signature_length = Inr m"
  shows "\<exists>ws. length ws = unat (resp_number_of_blocks m) \<and> list_all valid_block ws
      \<and> resp_measurement_record_data m = concat (map encode_block ws)
      \<and> (\<forall>i. get_dmtf_measurement_block (resp_parsed_measurement_records m) i
           = (case find (\<lambda>w. wb_index w = i) (rev ws) of
                Some w \<Rightarrow> ret (dmtf_of w) | None \<Rightarrow> fail SpdmFieldNotFound))"
proof -
  have "records_of (resp_measurement_record_data m) (resp_number_of_blocks m)
      (resp_parsed_measurement_records m)"
    using response.dec_sound [OF assms] by (simp add: valid_response_def)
  then obtain ws where "length ws = unat (resp_number_of_blocks m)" "list_all valid_block ws"
    "resp_measurement_record_data m = concat (map encode_block ws)"
    and "resp_parsed_measurement_records m = fold store_block ws []"
    unfolding records_of_def by blast
  moreover from this(4) have "get_dmtf_measurement_block (resp_parsed_measurement_records m) i
      = (case find (\<lambda>w. wb_index w = i) (rev ws) of
           Some w \<Rightarrow> ret (dmtf_of w) | None \<Rightarrow> fail SpdmFieldNotFound)" for i
    by (simp add: get_dmtf_measurement_block_def map_of_fold_store split: option.splits)
  ultimately show ?thesis by blast
qed

theorem measurement_lookup_last_wins_witness:
  "\<exists>ws. length ws = unat (resp_number_of_blocks demo_response) \<and> list_all valid_block ws
     \<and> resp_measurement_record_data demo_response = concat (map encode_block ws)
     \<and> (\<forall>i. get_dmtf_measurement_block (resp_parsed_measurement_records demo_response) i
          = (case find (\<lambda>w. wb_index w = i) (rev ws) of
               Some w \<Rightarrow> ret (dmtf_of w) | None \<Rightarrow> fail SpdmFieldNotFound))"
proof -
  have wf: "wf_buffer (encode_response demo_response)"
    by (simp add: wf_buffer_def encode_response_def demo_response_def encode_demo_block le_bytes_small)
  show ?thesis
    by (rule measurement_lookup_last_wins [OF wf response.dec_enc [OF valid_demo_response wf]])
qed

end
