(* ===== verification/Gpu_Opaque.thy ===== *)
theory Gpu_Opaque
  imports Spdm_Opaque
begin

text \<open>
  The typed view of the opaque fields of a GPU report
  (\<^verbatim>\<open>src/gpu/spdm/gpu_opaque_data_parser.cpp\<close>).  Field types are their 16-bit codes; the field map
  is keyed by them.  The two array-valued fields are split into elements of fixed size.
\<close>

section \<open>Field types\<close>

definition OPAQUE_DRIVER_VERSION :: u16 where "OPAQUE_DRIVER_VERSION = 3"
definition OPAQUE_VBIOS_VERSION :: u16 where "OPAQUE_VBIOS_VERSION = 6"
definition OPAQUE_NVDEC0_STATUS :: u16 where "OPAQUE_NVDEC0_STATUS = 11"
definition OPAQUE_MSRSCNT :: u16 where "OPAQUE_MSRSCNT = 12"
definition OPAQUE_BOARD_ID :: u16 where "OPAQUE_BOARD_ID = 14"
definition OPAQUE_CHIP_SKU :: u16 where "OPAQUE_CHIP_SKU = 15"
definition OPAQUE_PROJECT :: u16 where "OPAQUE_PROJECT = 17"
definition OPAQUE_PROJECT_SKU :: u16 where "OPAQUE_PROJECT_SKU = 18"
definition OPAQUE_FWID :: u16 where "OPAQUE_FWID = 20"
definition OPAQUE_SWITCH_PDI :: u16 where "OPAQUE_SWITCH_PDI = 22"
definition OPAQUE_DATA_VERSION :: u16 where "OPAQUE_DATA_VERSION = 34"
definition OPAQUE_CHIP_INFO :: u16 where "OPAQUE_CHIP_INFO = 35"
definition OPAQUE_FEATURE_FLAG :: u16 where "OPAQUE_FEATURE_FLAG = 36"

lemmas opaque_type_defs =
  OPAQUE_DRIVER_VERSION_def OPAQUE_VBIOS_VERSION_def OPAQUE_NVDEC0_STATUS_def OPAQUE_MSRSCNT_def
  OPAQUE_BOARD_ID_def OPAQUE_CHIP_SKU_def OPAQUE_PROJECT_def OPAQUE_PROJECT_SKU_def OPAQUE_FWID_def
  OPAQUE_SWITCH_PDI_def OPAQUE_DATA_VERSION_def OPAQUE_CHIP_INFO_def OPAQUE_FEATURE_FLAG_def

definition is_valid_gpu_opaque_data_type :: "u16 \<Rightarrow> bool" where
  "is_valid_gpu_opaque_data_type t \<longleftrightarrow> 1 \<le> t \<and> t \<le> 36"

definition PDI_DATA_SIZE :: nat where "PDI_DATA_SIZE = 8"
definition MSR_COUNT_ELEMENT_SIZE :: nat where "MSR_COUNT_ELEMENT_SIZE = 4"
definition MAX_OPAQUE_DATA_VERSION_SIZE :: size_t where "MAX_OPAQUE_DATA_VERSION_SIZE = 8"
definition MAX_OPAQUE_DATA_VERSION :: u64 where "MAX_OPAQUE_DATA_VERSION = 1"

lemmas opaque_size_defs = PDI_DATA_SIZE_def MSR_COUNT_ELEMENT_SIZE_def
  MAX_OPAQUE_DATA_VERSION_SIZE_def MAX_OPAQUE_DATA_VERSION_def

text \<open>
  The class keeps one vector per representation and the active type; only the vector of the
  active type can be read.
\<close>

datatype gpu_field = GpuUninitialized | GpuByteVector buffer | GpuUint32Vector "u32 list"
  | GpuPdiVector "buffer list"

definition gpu_get_byte_vector :: "gpu_field \<Rightarrow> buffer outcome" where
  "gpu_get_byte_vector f = (case f of GpuByteVector d \<Rightarrow> ret d | _ \<Rightarrow> fail SpdmFieldNotFound)"

definition gpu_get_uint32_vector :: "gpu_field \<Rightarrow> u32 list outcome" where
  "gpu_get_uint32_vector f = (case f of GpuUint32Vector d \<Rightarrow> ret d | _ \<Rightarrow> fail SpdmFieldNotFound)"

definition gpu_get_pdi_vector :: "gpu_field \<Rightarrow> buffer list outcome" where
  "gpu_get_pdi_vector f = (case f of GpuPdiVector d \<Rightarrow> ret d | _ \<Rightarrow> fail SpdmFieldNotFound)"

section \<open>Splitting array-valued fields\<close>

fun msr_count_loop :: "buffer \<Rightarrow> nat \<Rightarrow> nat \<Rightarrow> u32 list \<Rightarrow> u32 list outcome" where
  "msr_count_loop d i 0 acc = ret acc"
| "msr_count_loop d i (Suc n) acc =
     le_field InternalError d (of_nat i * of_nat MSR_COUNT_ELEMENT_SIZE) (of_nat MSR_COUNT_ELEMENT_SIZE)
       (\<lambda>count_val off. msr_count_loop d (Suc i) n (acc @ [count_val]))"

definition parse_msr_count_internal :: "buffer \<Rightarrow> u32 list outcome" where
  "parse_msr_count_internal d =
     guard InternalError (length d mod MSR_COUNT_ELEMENT_SIZE = 0)
       (msr_count_loop d 0 (length d div MSR_COUNT_ELEMENT_SIZE) [])"

fun pdi_loop :: "buffer \<Rightarrow> nat \<Rightarrow> nat \<Rightarrow> buffer list \<Rightarrow> buffer list outcome" where
  "pdi_loop d i 0 acc = ret acc"
| "pdi_loop d i (Suc n) acc =
     arr_field InternalError d (of_nat i * of_nat PDI_DATA_SIZE) PDI_DATA_SIZE
       (\<lambda>pdi_element off. pdi_loop d (Suc i) n (acc @ [pdi_element]))"

definition parse_switch_pdis_internal :: "buffer \<Rightarrow> buffer list outcome" where
  "parse_switch_pdis_internal d =
     guard InternalError (length d mod PDI_DATA_SIZE = 0)
       (pdi_loop d 0 (length d div PDI_DATA_SIZE) [])"

definition parse_opaque_data_version :: "buffer \<Rightarrow> u64 outcome" where
  "parse_opaque_data_version d =
     guard InternalError (\<not> MAX_OPAQUE_DATA_VERSION_SIZE < vsize d)
       (bind (read_little_endian d 0 (vsize d)) (\<lambda>r.
          case r of None \<Rightarrow> fail InternalError | Some v \<Rightarrow> ret v))"

section \<open>Building the field map\<close>

record gpu_parser =
  gp_fields :: "(u16 \<times> gpu_field) list"
  gp_opaque_data_version :: u64

fun gpu_version_loop :: "opaque_field list \<Rightarrow> u64 \<Rightarrow> u64 outcome" where
  "gpu_version_loop [] v = ret v"
| "gpu_version_loop (f # fs) v =
     (if of_type f \<noteq> OPAQUE_DATA_VERSION then gpu_version_loop fs v
      else bind (parse_opaque_data_version (of_data f)) (\<lambda>v'. gpu_version_loop fs v'))"

definition gpu_parse_field :: "opaque_field \<Rightarrow> gpu_field outcome" where
  "gpu_parse_field f =
     (if of_type f = OPAQUE_MSRSCNT
      then bind (parse_msr_count_internal (of_data f)) (\<lambda>v. ret (GpuUint32Vector v))
      else if of_type f = OPAQUE_SWITCH_PDI
      then bind (parse_switch_pdis_internal (of_data f)) (\<lambda>v. ret (GpuPdiVector v))
      else ret (GpuByteVector (of_data f)))"

fun gpu_field_loop :: "opaque_field list \<Rightarrow> (u16 \<times> gpu_field) list \<Rightarrow> (u16 \<times> gpu_field) list outcome" where
  "gpu_field_loop [] m = ret m"
| "gpu_field_loop (f # fs) m =
     guard BadArgument (is_valid_gpu_opaque_data_type (of_type f))
     (bind (gpu_parse_field f) (\<lambda>p. gpu_field_loop fs (AList.update (of_type f) p m)))"

definition gpu_parser_create :: "opaque_field list \<Rightarrow> gpu_parser outcome" where
  "gpu_parser_create opaque_fields =
     bind (gpu_version_loop opaque_fields 0) (\<lambda>v.
     guard GpuFwNotSupported (\<not> MAX_OPAQUE_DATA_VERSION < v)
     (bind (gpu_field_loop opaque_fields []) (\<lambda>m.
      ret \<lparr>gp_fields = m, gp_opaque_data_version = v\<rparr>)))"

definition gpu_get_field :: "gpu_parser \<Rightarrow> u16 \<Rightarrow> gpu_field outcome" where
  "gpu_get_field p t =
     (case map_of (gp_fields p) t of None \<Rightarrow> fail SpdmFieldNotFound | Some f \<Rightarrow> ret f)"

section \<open>Reference definitions\<close>

text \<open>\<open>n\<close> consecutive pieces of \<open>k\<close> elements.\<close>

primrec chunks :: "nat \<Rightarrow> nat \<Rightarrow> 'a list \<Rightarrow> 'a list list" where
  "chunks k 0 xs = []"
| "chunks k (Suc n) xs = take k xs # chunks k n (drop k xs)"

lemma concat_chunks: "length xs = n * k \<Longrightarrow> concat (chunks k n xs) = xs"
  by (induction n arbitrary: xs) auto

lemma length_chunks [simp]: "length (chunks k n xs) = n"
  by (induction n arbitrary: xs) auto

lemma chunks_lengths: "length xs = n * k \<Longrightarrow> c \<in> set (chunks k n xs) \<Longrightarrow> length c = k"
proof (induction n arbitrary: xs)
  case (Suc n)
  then show ?case using Suc.IH [of "drop k xs"] by auto
qed simp

lemma msr_count_loop_eq:
  assumes "cur d (of_nat i * 4) rest" and "length rest = n * 4"
  shows "msr_count_loop d i n acc = ret (acc @ map le_value (chunks 4 n rest))"
  using assms
proof (induction n arbitrary: i rest acc)
  case 0
  then show ?case by simp
next
  case (Suc n)
  have next_off: "of_nat i * 4 + 4 = (of_nat (Suc i) * 4 :: size_t)" by (simp add: algebra_simps)
  have "msr_count_loop d i (Suc n) acc
      = l_vec InternalError 4 rest (\<lambda>bs r. msr_count_loop d (Suc i) n (acc @ [le_value bs]))"
    unfolding msr_count_loop.simps MSR_COUNT_ELEMENT_SIZE_def using Suc.prems(1)
    by (intro le_field_refine) simp_all
  also have "\<dots> = msr_count_loop d (Suc i) n (acc @ [le_value (take 4 rest)])"
    using Suc.prems by (simp add: l_vec_def)
  also have "\<dots> = ret ((acc @ [le_value (take 4 rest)]) @ map le_value (chunks 4 n (drop 4 rest)))"
    using Suc.prems cur_advance [OF Suc.prems(1), of 4] unfolding next_off by (intro Suc.IH) simp_all
  finally show ?case by simp
qed

lemma pdi_loop_eq:
  assumes "cur d (of_nat i * 8) rest" and "n * 8 \<le> length rest"
  shows "pdi_loop d i n acc = ret (acc @ chunks 8 n rest)"
  using assms
proof (induction n arbitrary: i rest acc)
  case 0
  then show ?case by simp
next
  case (Suc n)
  have next_off: "of_nat i * 8 + 8 = (of_nat (Suc i) * 8 :: size_t)" by (simp add: algebra_simps)
  have "pdi_loop d i (Suc n) acc
      = l_vec InternalError 8 rest (\<lambda>bs r. pdi_loop d (Suc i) n (acc @ [bs]))"
    unfolding pdi_loop.simps PDI_DATA_SIZE_def using Suc.prems(1)
    by (intro arr_field_refine) simp_all
  also have "\<dots> = pdi_loop d (Suc i) n (acc @ [take 8 rest])"
    using Suc.prems by (simp add: l_vec_def)
  also have "\<dots> = ret ((acc @ [take 8 rest]) @ chunks 8 n (drop 8 rest))"
    using Suc.prems cur_advance [OF Suc.prems(1), of 8] unfolding next_off by (intro Suc.IH) simp_all
  finally show ?case by simp
qed

lemma parse_msr_count_eq:
  "wf_buffer d \<Longrightarrow> parse_msr_count_internal d =
     guard InternalError (length d mod 4 = 0) (ret (map le_value (chunks 4 (length d div 4) d)))"
  using msr_count_loop_eq [of d 0 d "length d div 4" "[]"] cur_0 [of d]
  by (auto simp: parse_msr_count_internal_def opaque_size_defs guard_def)

lemma parse_switch_pdis_eq:
  "wf_buffer d \<Longrightarrow> parse_switch_pdis_internal d =
     guard InternalError (length d mod 8 = 0) (ret (chunks 8 (length d div 8) d))"
  using pdi_loop_eq [of d 0 d "length d div 8" "[]"] cur_0 [of d]
  by (auto simp: parse_switch_pdis_internal_def opaque_size_defs guard_def)

lemma parse_opaque_data_version_eq:
  assumes "wf_buffer d"
  shows "parse_opaque_data_version d = guard InternalError (length d \<le> 8) (ret (le_value d))"
proof (cases "length d \<le> 8")
  case True
  have "unat (vsize d) = length d" using assms by (rule unat_vsize)
  then have "read_little_endian d 0 (vsize d) = ret (Some (le_value d :: u64))"
    using read_little_endian_cur [OF cur_0 [OF assms], of "vsize d", where 'a = 64] True by simp
  moreover have "\<not> MAX_OPAQUE_DATA_VERSION_SIZE < vsize d"
    using True \<open>unat (vsize d) = length d\<close> by (simp add: MAX_OPAQUE_DATA_VERSION_SIZE_def word_less_nat_alt)
  ultimately show ?thesis using True by (simp add: parse_opaque_data_version_def)
next
  case False
  then have "MAX_OPAQUE_DATA_VERSION_SIZE < vsize d"
    using unat_vsize [OF assms] by (simp add: MAX_OPAQUE_DATA_VERSION_SIZE_def word_less_nat_alt)
  then show ?thesis using False by (simp add: parse_opaque_data_version_def)
qed

section \<open>What the typed view contains\<close>

definition decode_gpu_field :: "opaque_field \<Rightarrow> gpu_field" where
  "decode_gpu_field f =
     (if of_type f = 12 then GpuUint32Vector (map le_value (chunks 4 (length (of_data f) div 4) (of_data f)))
      else if of_type f = 22 then GpuPdiVector (chunks 8 (length (of_data f) div 8) (of_data f))
      else GpuByteVector (of_data f))"

definition valid_gpu_field :: "opaque_field \<Rightarrow> bool" where
  "valid_gpu_field f \<longleftrightarrow> 1 \<le> of_type f \<and> of_type f \<le> 36
     \<and> (of_type f = 12 \<longrightarrow> length (of_data f) mod 4 = 0)
     \<and> (of_type f = 22 \<longrightarrow> length (of_data f) mod 8 = 0)"

definition gpu_versions :: "opaque_field list \<Rightarrow> buffer list" where
  "gpu_versions fs = map of_data (filter (\<lambda>f. of_type f = 34) fs)"

definition gpu_version :: "opaque_field list \<Rightarrow> u64" where
  "gpu_version fs = (if gpu_versions fs = [] then 0 else le_value (last (gpu_versions fs)))"

definition wf_fields :: "opaque_field list \<Rightarrow> bool" where
  "wf_fields fs \<longleftrightarrow> list_all (\<lambda>f. wf_buffer (of_data f)) fs"

lemma gpu_version_loop_eq:
  assumes "wf_fields fs"
  shows "gpu_version_loop fs v =
    guard InternalError (\<forall>d \<in> set (gpu_versions fs). length d \<le> 8)
      (ret (if gpu_versions fs = [] then v else le_value (last (gpu_versions fs))))"
  using assms
proof (induction fs arbitrary: v)
  case Nil
  then show ?case by (simp add: gpu_versions_def)
next
  case (Cons f fs)
  have wf: "wf_buffer (of_data f)" "wf_fields fs" using Cons.prems by (simp_all add: wf_fields_def)
  show ?case
    using Cons.IH [OF wf(2)] parse_opaque_data_version_eq [OF wf(1)]
    by (auto simp: gpu_versions_def OPAQUE_DATA_VERSION_def guard_def)
qed

lemma gpu_parse_field_eq:
  assumes "wf_buffer (of_data f)" and "is_valid_gpu_opaque_data_type (of_type f)"
  shows "gpu_parse_field f = guard InternalError (valid_gpu_field f) (ret (decode_gpu_field f))"
  using assms parse_msr_count_eq [OF assms(1)] parse_switch_pdis_eq [OF assms(1)]
  by (auto simp: gpu_parse_field_def valid_gpu_field_def decode_gpu_field_def opaque_type_defs
      is_valid_gpu_opaque_data_type_def guard_def)

lemma gpu_field_loop_ok:
  assumes "wf_fields fs"
  shows "gpu_field_loop fs m = Inr m' \<longleftrightarrow>
    list_all valid_gpu_field fs \<and> m' = fold (\<lambda>f. AList.update (of_type f) (decode_gpu_field f)) fs m"
  using assms
proof (induction fs arbitrary: m)
  case Nil
  then show ?case by (auto simp: outcome_simps)
next
  case (Cons f fs)
  have wf: "wf_buffer (of_data f)" "wf_fields fs" using Cons.prems by (simp_all add: wf_fields_def)
  have "valid_gpu_field f \<Longrightarrow> is_valid_gpu_opaque_data_type (of_type f)"
    by (simp add: valid_gpu_field_def is_valid_gpu_opaque_data_type_def)
  then show ?case
    using Cons.IH [OF wf(2)] gpu_parse_field_eq [OF wf(1)]
    by (cases "is_valid_gpu_opaque_data_type (of_type f)"; cases "valid_gpu_field f")
      (simp_all add: fail_eq)
qed

lemma gpu_field_loop_defined: "wf_fields fs \<Longrightarrow> defined (gpu_field_loop fs m)"
proof (induction fs arbitrary: m)
  case (Cons f fs)
  then show ?case
    using gpu_parse_field_eq [of f] by (simp add: wf_fields_def defined_intros)
qed simp

section \<open>Properties\<close>



end
