(* ===== verification/Status_Bundle.thy ===== *)
theory Status_Bundle
  imports Codec
begin

text \<open>
  The status-proof bundle of \<^verbatim>\<open>RawProofOcspClient\<close> (\<^verbatim>\<open>src/nv_ocsp.cpp\<close>): a DER sequence of a version
  number and a list of OCSP responses.  The decoder works with offsets into the bundle; its size
  is checked first, so every offset is at most 16386 and the sums do not wrap: offsets and
  lengths are natural numbers here.  An access outside the bundle is the outcome \<open>UB\<close>.
\<close>

unbundle bit_operations_syntax

definition MAX_BUNDLE_BYTES :: nat where "MAX_BUNDLE_BYTES = 16384"
definition MAX_RESPONSES :: nat where "MAX_RESPONSES = 16"
definition MAX_RESPONSE_BYTES :: nat where "MAX_RESPONSE_BYTES = 2048"
definition BUNDLE_VERSION :: byte where "BUNDLE_VERSION = 1"

lemmas bundle_limits = MAX_BUNDLE_BYTES_def MAX_RESPONSES_def MAX_RESPONSE_BYTES_def BUNDLE_VERSION_def

definition char_at :: "buffer \<Rightarrow> nat \<Rightarrow> byte outcome" where
  "char_at data i = (if i < length data then ret (data ! i) else undefined_behaviour)"

text \<open>The loop that reads the long form of a length, most significant byte first.\<close>

fun der_length_loop :: "buffer \<Rightarrow> nat \<Rightarrow> nat \<Rightarrow> nat \<Rightarrow> nat \<Rightarrow> nat outcome" where
  "der_length_loop data offset i 0 value = ret value"
| "der_length_loop data offset i (Suc n) value =
     bind (char_at data (offset + i)) (\<lambda>b.
       der_length_loop data offset (Suc i) n (push_bit 8 value OR unat b))"

text \<open>Returns the advanced offset and the length, \<open>None\<close> when the code returns \<^verbatim>\<open>false\<close>.\<close>

definition read_der_length :: "buffer \<Rightarrow> nat \<Rightarrow> (nat \<times> nat) option outcome" where
  "read_der_length data offset =
     (if length data \<le> offset then ret None
      else bind (char_at data offset) (\<lambda>first.
        let offset = offset + 1 in
        if first < 0x80 then ret (Some (offset, unat first))
        else let count = unat (first AND 0x7f) in
          if count = 0 \<or> 2 < count \<or> length data < offset + count then ret None
          else bind (der_length_loop data offset 0 count 0) (\<lambda>value.
               bind (char_at data offset) (\<lambda>b0.
                 if b0 = 0 \<or> value < 0x80 then ret None
                 else ret (Some (offset + count, value))))))"

text \<open>Returns the advanced offset, the start and the length of the value.\<close>

definition read_der_tlv :: "buffer \<Rightarrow> nat \<Rightarrow> nat \<Rightarrow> byte \<Rightarrow> (nat \<times> nat \<times> nat) option outcome" where
  "read_der_tlv data offset limit tag =
     (if limit \<le> offset then ret None
      else bind (char_at data offset) (\<lambda>t.
        if t \<noteq> tag then ret None
        else bind (read_der_length data (offset + 1)) (\<lambda>r. case r of
             None \<Rightarrow> ret None
           | Some (offset, len) \<Rightarrow>
               if limit < offset \<or> limit - offset < len then ret None
               else ret (Some (offset + len, offset, len)))))"

text \<open>The callers return one error when the field cannot be read, and go on otherwise.\<close>

definition der_field :: "buffer \<Rightarrow> nat \<Rightarrow> nat \<Rightarrow> byte \<Rightarrow> (nat \<Rightarrow> nat \<Rightarrow> nat \<Rightarrow> 'b outcome) \<Rightarrow> 'b outcome" where
  "der_field data offset limit tag k =
     bind (read_der_tlv data offset limit tag) (\<lambda>r. case r of
       None \<Rightarrow> fail OcspInvalidResponse
     | Some (offset', start, len) \<Rightarrow> k offset' start len)"

text \<open>
  The loop over the responses; \<open>n\<close> is how many more responses are allowed, so \<open>0\<close> is the test
  \<^verbatim>\<open>responses.size() >= MAX_RESPONSES\<close>.
\<close>

fun bundle_items :: "buffer \<Rightarrow> nat \<Rightarrow> nat \<Rightarrow> nat \<Rightarrow> buffer list \<Rightarrow> buffer list outcome" where
  "bundle_items data list_end 0 item responses =
     guard OcspInvalidResponse (\<not> item < list_end) (ret responses)"
| "bundle_items data list_end (Suc n) item responses =
     (if item < list_end then
        der_field data item list_end 0x04 (\<lambda>item' start len.
        guard OcspInvalidResponse (\<not> (len = 0 \<or> MAX_RESPONSE_BYTES < len))
        (bundle_items data list_end n item' (responses @ [take len (drop start data)])))
      else ret responses)"

text \<open>The three parts of \<^verbatim>\<open>decode_bundle\<close>, last part first.\<close>

definition decode_list :: "buffer \<Rightarrow> nat \<Rightarrow> nat \<Rightarrow> buffer list outcome" where
  "decode_list bundle_der cursor body_end =
     der_field bundle_der cursor body_end 0x30 (\<lambda>cursor list_start list_length.
     guard OcspInvalidResponse (cursor = body_end)
     (bind (bundle_items bundle_der (list_start + list_length) MAX_RESPONSES list_start []) (\<lambda>responses.
      guard OcspInvalidResponse (responses \<noteq> []) (ret responses))))"

definition decode_body :: "buffer \<Rightarrow> nat \<Rightarrow> nat \<Rightarrow> buffer list outcome" where
  "decode_body bundle_der body_start body_end =
     der_field bundle_der body_start body_end 0x02 (\<lambda>cursor version_start version_length.
     guard OcspInvalidResponse (version_length = 1)
     (bind (char_at bundle_der version_start) (\<lambda>v.
      guard OcspInvalidResponse (v = BUNDLE_VERSION) (decode_list bundle_der cursor body_end))))"

definition decode_bundle :: "buffer \<Rightarrow> buffer list outcome" where
  "decode_bundle bundle_der =
     guard OcspInvalidResponse (\<not> (bundle_der = [] \<or> MAX_BUNDLE_BYTES < length bundle_der))
     (der_field bundle_der 0 (length bundle_der) 0x30 (\<lambda>offset body_start body_length.
      guard OcspInvalidResponse (offset = length bundle_der)
      (decode_body bundle_der body_start (body_start + body_length))))"

section \<open>The encoding\<close>

definition der_length :: "nat \<Rightarrow> buffer" where
  "der_length n =
     (if n < 128 then [of_nat n]
      else if n < 256 then [0x81, of_nat n]
      else [0x82, of_nat (n div 256), of_nat (n mod 256)])"

definition der_tlv :: "byte \<Rightarrow> buffer \<Rightarrow> buffer" where
  "der_tlv tag body = tag # der_length (length body) @ body"

definition encode_responses :: "buffer list \<Rightarrow> buffer" where
  "encode_responses rs = concat (map (der_tlv 0x04) rs)"

definition encode_bundle :: "buffer list \<Rightarrow> buffer" where
  "encode_bundle rs = der_tlv 0x30 (der_tlv 0x02 [1] @ der_tlv 0x30 (encode_responses rs))"

definition valid_bundle :: "buffer list \<Rightarrow> bool" where
  "valid_bundle rs \<longleftrightarrow> rs \<noteq> [] \<and> length rs \<le> 16
     \<and> list_all (\<lambda>r. 0 < length r \<and> length r \<le> 2048) rs \<and> length (encode_bundle rs) \<le> 16384"

section \<open>Lengths\<close>

lemma push_or_byte: "push_bit 8 v OR unat (b :: byte) = v * 256 + unat b"
proof -
  have "unat b < 2 ^ 8" using unsigned_less [of b] by simp
  then have "push_bit 8 v AND unat b = 0"
    by (intro bit_eqI) (auto simp: bit_simps bit_unsigned_iff dest: bit_imp_le_length)
  then have "push_bit 8 v + unat b = push_bit 8 v OR unat b" by (rule disjunctive_add_eq_or)
  then show ?thesis by (simp add: push_bit_eq_mult)
qed

lemma long_form_count:
  assumes "\<not> (first :: byte) < 0x80"
  shows "unat (first AND 0x7f) = unat first - 128" and "unat first < 256" and "128 \<le> unat first"
proof -
  have "first AND 0x7f = take_bit 7 first" by (simp add: take_bit_eq_mask mask_eq_exp_minus_1)
  then have m: "unat (first AND 0x7f) = unat first mod 128"
    by (simp only: unsigned_take_bit_eq) (simp add: take_bit_eq_mod)
  show u: "unat first < 256" using unsigned_less [of first] by simp
  show l: "128 \<le> unat first" using assms by (simp add: word_less_nat_alt)
  show "unat (first AND 0x7f) = unat first - 128"
    using m u l by (simp add: le_mod_geq)
qed

text \<open>The same reading on the rest of the bundle as a list.\<close>

definition l_len :: "buffer \<Rightarrow> (nat \<times> buffer) option" where
  "l_len rest = (case rest of
       [] \<Rightarrow> None
     | first # r \<Rightarrow>
         if first < 0x80 then Some (unat first, r)
         else if first = 0x81 then
           (case r of b0 # r' \<Rightarrow> if unat b0 < 128 then None else Some (unat b0, r') | [] \<Rightarrow> None)
         else if first = 0x82 then
           (case r of b0 # b1 # r' \<Rightarrow> if b0 = 0 then None else Some (unat b0 * 256 + unat b1, r') | _ \<Rightarrow> None)
         else None)"

lemma char_at_drop: "drop i data = b # r \<Longrightarrow> char_at data i = ret b"
  by (metis char_at_def hd_drop_conv_nth drop_eq_Nil leI list.discI list.sel(1))

lemma drop_Cons_Suc: "drop i data = b # r \<Longrightarrow> drop (Suc i) data = r \<and> length data = Suc i + length r"
proof -
  assume eq: "drop i data = b # r"
  have "drop (Suc i) data = r" using eq by (simp add: drop_Suc flip: tl_drop)
  moreover have "length data - i = Suc (length r)" using arg_cong [OF eq, of length] by simp
  ultimately show ?thesis by simp
qed

lemma der_length_loop_2:
  "der_length_loop data offset 0 2 0 =
     bind (char_at data offset) (\<lambda>a. bind (char_at data (Suc offset)) (\<lambda>b. ret (unat a * 256 + unat b)))"
  by (simp add: numeral_2_eq_2 push_or_byte)

lemma read_der_length_refines:
  "read_der_length data offset
     = ret (map_option (\<lambda>(n, r). (length data - length r, n)) (l_len (drop offset data)))"
proof (cases "drop offset data")
  case Nil
  then show ?thesis by (simp add: read_der_length_def l_len_def)
next
  case (Cons first r)
  note at = char_at_drop [OF Cons] and d = drop_Cons_Suc [OF Cons]
  show ?thesis
  proof (cases "first < 0x80")
    case True
    then show ?thesis using Cons at d by (simp add: read_der_length_def l_len_def)
  next
    case False
    note c = long_form_count [OF False]
    have "unat first - 128 = 1 \<Longrightarrow> first = 0x81" "unat first - 128 = 2 \<Longrightarrow> first = 0x82"
      using c(3) by (auto simp: word_unat_eq_iff)
    then consider "first = 0x81" | "first = 0x82" | "unat first - 128 \<noteq> 1" "unat first - 128 \<noteq> 2" "first \<noteq> 0x81" "first \<noteq> 0x82"
      by blast
    then show ?thesis
    proof cases
      case 1
      then have cnt: "unat (first AND 0x7f) = 1" by simp
      show ?thesis
        using Cons at d 1 False char_at_drop [of "Suc offset" data]
        by (cases r) (auto simp: read_der_length_def l_len_def push_or_byte Let_def cnt)
    next
      case 2
      then have cnt: "unat (first AND 0x7f) = 2" by simp
      have big: "b0 \<noteq> 0 \<Longrightarrow> \<not> unat b0 * 256 + n < 128" for b0 :: byte and n
        using unat_gt_0 [of b0] by auto
      show ?thesis
      proof (cases r)
        case Nil
        then show ?thesis
          using \<open>drop offset data = first # r\<close> at d 2 False
          by (simp add: read_der_length_def l_len_def Let_def cnt)
      next
        case (Cons b0 r0)
        have d0: "drop (Suc offset) data = b0 # r0" using d Cons by simp
        show ?thesis
          using \<open>drop offset data = first # r\<close> at d 2 False Cons char_at_drop [OF d0] drop_Cons_Suc [OF d0]
            char_at_drop [of "Suc (Suc offset)" data] big [of b0]
          by (cases r0) (auto simp: read_der_length_def l_len_def push_or_byte Let_def cnt der_length_loop_2 numeral_3_eq_3)
      qed
    next
      case 3
      then have "unat (first AND 0x7f) = 0 \<or> 2 < unat (first AND 0x7f)" using c(1) by linarith
      then show ?thesis
        using 3(3,4) Cons at d(1) False
        by (elim disjE) (simp_all add: read_der_length_def l_len_def Let_def)
    qed
  qed
qed

lemma l_len_iff: "l_len rest = Some (n, r) \<longleftrightarrow> rest = der_length n @ r \<and> n < 65536"
proof
  assume l: "l_len rest = Some (n, r)"
  then obtain first r1 where rest: "rest = first # r1" by (cases rest) (auto simp: l_len_def)
  have byte: "unat (b :: byte) < 256" for b using unsigned_less [of b] by simp
  consider "first < 0x80" | "first = 0x81" | "first = 0x82"
    using l rest by (auto simp: l_len_def split: if_splits)
  then show "rest = der_length n @ r \<and> n < 65536"
  proof cases
    case 1
    then show ?thesis
      using l rest by (auto simp: l_len_def der_length_def word_less_nat_alt)
  next
    case 2
    then obtain b0 where "r1 = b0 # r" "\<not> unat b0 < 128" "n = unat b0"
      using l rest by (auto simp: l_len_def split: list.splits if_splits)
    then show ?thesis using 2 rest byte [of b0] by (simp add: der_length_def)
  next
    case 3
    then obtain b0 b1 where r1: "r1 = b0 # b1 # r" "b0 \<noteq> 0" "n = unat b0 * 256 + unat b1"
      using l rest by (auto simp: l_len_def split: list.splits if_splits)
    then have "256 \<le> n" "n div 256 = unat b0" "n mod 256 = unat b1" "n < 65536"
      using byte [of b0] byte [of b1] unat_gt_0 [of b0] by auto
    then show ?thesis using 3 rest r1 by (simp add: der_length_def)
  qed
next
  assume "rest = der_length n @ r \<and> n < 65536"
  then have rest: "rest = der_length n @ r" and n: "n < 65536" by auto
  consider "n < 128" | "128 \<le> n" "n < 256" | "256 \<le> n" by linarith
  then show "l_len rest = Some (n, r)"
  proof cases
    case 1
    then show ?thesis by (simp add: rest der_length_def l_len_def word_less_nat_alt unat_of_nat)
  next
    case 2
    then show ?thesis by (simp add: rest der_length_def l_len_def word_less_nat_alt unat_of_nat)
  next
    case 3
    then have "n div 256 < 256" "n div 256 \<noteq> 0" using n by auto
    then show ?thesis
      using 3 by (simp add: rest der_length_def l_len_def word_less_nat_alt unat_of_nat word_unat_eq_iff)
  qed
qed

section \<open>Tag, length, value\<close>

lemma length_der_tlv: "length (der_tlv tag body) = Suc (length (der_length (length body)) + length body)"
  by (simp add: der_tlv_def)

lemma read_der_tlv_total: "limit \<le> length data \<Longrightarrow> \<exists>r. read_der_tlv data offset limit tag = Inr r"
  by (auto simp: read_der_tlv_def read_der_length_refines char_at_def ret_def split: option.splits)

lemma read_der_tlv_Cons:
  assumes t: "drop offset data = t # r" and "offset < limit"
  shows "read_der_tlv data offset limit tag =
    (if t \<noteq> tag then ret None
     else case l_len r of None \<Rightarrow> ret None
        | Some (n, r2) \<Rightarrow> let s = length data - length r2 in
            if limit < s \<or> limit - s < n then ret None else ret (Some (s + n, s, n)))"
proof -
  have "drop (offset + 1) data = r" using drop_Cons_Suc [OF t] by simp
  then show ?thesis
    using assms(2) char_at_drop [OF t]
    by (cases "l_len r") (auto simp: read_der_tlv_def read_der_length_refines Let_def)
qed

lemma read_der_tlv_iff:
  assumes limit: "limit \<le> length data"
  shows "read_der_tlv data offset limit tag = Inr (Some (o', st, len)) \<longleftrightarrow>
    (\<exists>body rest. drop offset data = der_tlv tag body @ rest \<and> length body = len \<and> len < 65536
       \<and> o' = offset + length (der_tlv tag body) \<and> o' \<le> limit \<and> st = o' - len)"
    (is "?lhs \<longleftrightarrow> ?rhs")
proof
  assume ?lhs
  then have "offset < limit" by (auto simp: read_der_tlv_def ret_def split: if_splits)
  then obtain t r where t: "drop offset data = t # r"
    using limit by (metis Cons_nth_drop_Suc less_le_trans)
  note d = drop_Cons_Suc [OF t]
  from \<open>?lhs\<close> have tag: "t = tag" and "l_len r \<noteq> None"
    by (auto simp: read_der_tlv_Cons [OF t \<open>offset < limit\<close>] ret_def split: if_splits option.splits)
  then obtain n r2 where l: "l_len r = Some (n, r2)" by auto
  have ok: "\<not> limit < length data - length r2" "\<not> limit - (length data - length r2) < n"
    and out: "o' = length data - length r2 + n" "st = length data - length r2" "len = n"
    using \<open>?lhs\<close> by (auto simp: read_der_tlv_Cons [OF t \<open>offset < limit\<close>] tag l Let_def ret_def split: if_splits)
  from l have r: "r = der_length n @ r2" and n: "n < 65536" by (simp_all add: l_len_iff)
  have start: "length data - length r2 = offset + Suc (length (der_length n))" using d r by simp
  have "n \<le> length r2" using ok limit d r start by simp
  then have "drop offset data = der_tlv tag (take n r2) @ drop n r2" "length (take n r2) = n"
    using t tag r by (simp_all add: der_tlv_def)
  moreover have "o' \<le> limit" using ok out by linarith
  ultimately show ?rhs
    using out n start \<open>n \<le> length r2\<close>
    by (intro exI [of _ "take n r2"] exI [of _ "drop n r2"]) (simp add: length_der_tlv)
next
  assume ?rhs
  then obtain body rest where d: "drop offset data = der_tlv tag body @ rest"
    and len: "length body = len" "len < 65536"
    and o': "o' = offset + length (der_tlv tag body)" "o' \<le> limit" and st: "st = o' - len" by blast
  have t: "drop offset data = tag # (der_length len @ body @ rest)" using d len by (simp add: der_tlv_def)
  note dd = drop_Cons_Suc [OF t]
  have l: "l_len (der_length len @ body @ rest) = Some (len, body @ rest)"
    using len by (simp add: l_len_iff)
  have "length data - length (body @ rest) = offset + Suc (length (der_length len))"
    using dd by simp
  moreover have "offset < limit" using o' by (simp add: length_der_tlv)
  ultimately show ?lhs
    using l o' st len by (simp add: read_der_tlv_Cons [OF t] Let_def ret_def length_der_tlv)
qed

lemma read_der_tlv_value:
  assumes "drop offset data = der_tlv tag body @ rest"
  shows "drop (offset + length (der_tlv tag body) - length body) data = body @ rest"
    and "drop (offset + length (der_tlv tag body)) data = rest"
proof -
  have "offset + length (der_tlv tag body) - length body = Suc (length (der_length (length body))) + offset"
    by (simp add: length_der_tlv)
  then have "drop (offset + length (der_tlv tag body) - length body) data
      = drop (Suc (length (der_length (length body)))) (drop offset data)" by (simp add: add.commute)
  then show "drop (offset + length (der_tlv tag body) - length body) data = body @ rest"
    unfolding assms by (simp add: der_tlv_def)
  have "drop (offset + length (der_tlv tag body)) data = drop (length (der_tlv tag body)) (drop offset data)"
    by (simp add: add.commute)
  then show "drop (offset + length (der_tlv tag body)) data = rest" unfolding assms by simp
qed

lemma der_field_defined:
  assumes "limit \<le> length data"
    and "\<And>o' st len. o' \<le> limit \<Longrightarrow> st + len = o' \<Longrightarrow> defined (k o' st len)"
  shows "defined (der_field data offset limit tag k)"
proof -
  obtain r where r: "read_der_tlv data offset limit tag = Inr r"
    using read_der_tlv_total [OF assms(1)] by blast
  show ?thesis
  proof (cases r)
    case None
    then show ?thesis using r by (simp add: der_field_def)
  next
    case (Some p)
    then obtain o' st len where p: "r = Some (o', st, len)" by (cases p) auto
    then have "o' \<le> limit \<and> st + len = o'"
      using r read_der_tlv_iff [OF assms(1), of offset tag o' st len] by (auto simp: length_der_tlv)
    then show ?thesis using r p assms(2) by (simp add: der_field_def)
  qed
qed

lemma der_field_eq_Inr:
  assumes "limit \<le> length data"
  shows "der_field data offset limit tag k = Inr y \<longleftrightarrow>
    (\<exists>body rest. drop offset data = der_tlv tag body @ rest \<and> length body < 65536
       \<and> offset + length (der_tlv tag body) \<le> limit
       \<and> k (offset + length (der_tlv tag body)) (offset + length (der_tlv tag body) - length body)
           (length body) = Inr y)"
proof -
  have "der_field data offset limit tag k = Inr y \<longleftrightarrow>
     (\<exists>o' st len. read_der_tlv data offset limit tag = Inr (Some (o', st, len)) \<and> k o' st len = Inr y)"
    by (auto simp: der_field_def outcome_simps split: option.splits)
  then show ?thesis by (simp only: read_der_tlv_iff [OF assms]) blast
qed

section \<open>The responses\<close>

definition valid_response_bytes :: "buffer \<Rightarrow> bool" where
  "valid_response_bytes r \<longleftrightarrow> 0 < length r \<and> length r \<le> 2048"

lemma encode_responses_simps [simp]:
  "encode_responses [] = []"
  "encode_responses (r # rs) = der_tlv 4 r @ encode_responses rs"
  by (simp_all add: encode_responses_def)

lemma bundle_items_defined:
  "list_end \<le> length data \<Longrightarrow> defined (bundle_items data list_end n item acc)"
proof (induction n arbitrary: item acc)
  case 0
  then show ?case by (simp add: defined_intros)
next
  case (Suc n)
  then show ?case by (auto intro!: der_field_defined defined_guard)
qed

lemma bundle_items_sound:
  assumes "list_end \<le> length data" and "item \<le> list_end" and "bundle_items data list_end n item acc = Inr rs"
  shows "\<exists>new. rs = acc @ new \<and> length new \<le> n \<and> list_all valid_response_bytes new
    \<and> take (list_end - item) (drop item data) = encode_responses new"
  using assms
proof (induction n arbitrary: item acc)
  case 0
  then show ?case by (auto simp: outcome_simps)
next
  case (Suc n)
  show ?case
  proof (cases "item < list_end")
    case False
    then show ?thesis using Suc.prems by (auto simp: outcome_simps)
  next
    case True
    let ?next = "\<lambda>body. item + length (der_tlv 4 body)"
    from True Suc.prems(3) obtain body rest where body: "drop item data = der_tlv 4 body @ rest"
      and item: "?next body \<le> list_end" and len: "0 < length body" "length body \<le> 2048"
      and step: "bundle_items data list_end n (?next body)
        (acc @ [take (length body) (drop (?next body - length body) data)]) = Inr rs"
      unfolding bundle_items.simps if_P [OF True] der_field_eq_Inr [OF Suc.prems(1)] guard_eq_Inr
        MAX_RESPONSE_BYTES_def by (metis not_less not_gr_zero)
    have rec: "bundle_items data list_end n (?next body) (acc @ [body]) = Inr rs"
      using step read_der_tlv_value(1) [OF body] by simp
    obtain new where new: "rs = (acc @ [body]) @ new" "length new \<le> n" "list_all valid_response_bytes new"
      "take (list_end - (item + length (der_tlv 4 body))) rest = encode_responses new"
      using Suc.IH [OF Suc.prems(1) item rec] read_der_tlv_value(2) [OF body] by auto
    have "take (list_end - item) (drop item data)
        = der_tlv 4 body @ take (list_end - (item + length (der_tlv 4 body))) rest"
      using body item by (simp add: diff_diff_left)
    then show ?thesis
      using new len by (intro exI [of _ "body # new"]) (simp add: valid_response_bytes_def [of body])
  qed
qed

lemma bundle_items_complete:
  assumes "list_end \<le> length data" and "drop item data = encode_responses new @ rest"
    and "list_all valid_response_bytes new" and "item + length (encode_responses new) = list_end"
    and "length new \<le> n"
  shows "bundle_items data list_end n item acc = Inr (acc @ new)"
  using assms(2-)
proof (induction new arbitrary: item n acc)
  case Nil
  then show ?case by (cases n) (simp_all add: ret_def)
next
  case (Cons body new)
  then obtain n' where n: "n = Suc n'" by (cases n) auto
  let ?item = "item + length (der_tlv 4 body)"
  have d: "drop item data = der_tlv 4 body @ (encode_responses new @ rest)" using Cons.prems(1) by simp
  note v = read_der_tlv_value [OF d]
  have "bundle_items data list_end n' ?item (acc @ [body]) = Inr ((acc @ [body]) @ new)"
    using Cons.prems v n by (intro Cons.IH) auto
  moreover have "item < list_end" and "?item \<le> list_end" using Cons.prems(3) by (auto simp: length_der_tlv)
  ultimately show ?case
    using d v(1) Cons.prems(2)
    unfolding n bundle_items.simps if_P [OF \<open>item < list_end\<close>] der_field_eq_Inr [OF assms(1)] guard_eq_Inr
    by (intro exI [of _ body] exI [of _ "encode_responses new @ rest"])
      (simp add: valid_response_bytes_def MAX_RESPONSE_BYTES_def not_less)
qed

section \<open>The bundle\<close>

lemma valid_bundle_alt:
  "valid_bundle rs \<longleftrightarrow> rs \<noteq> [] \<and> length rs \<le> 16 \<and> list_all valid_response_bytes rs
     \<and> length (encode_bundle rs) \<le> 16384"
  unfolding valid_bundle_def valid_response_bytes_def ..

lemma decode_bundle_defined: "defined (decode_bundle d)"
proof -
  have "defined (decode_list d c lim)" if "lim \<le> length d" for c lim
    unfolding decode_list_def using that
    by (intro defined_guard der_field_defined defined_bind) (auto simp: bundle_items_defined)
  then have "defined (decode_body d c lim)" if "lim \<le> length d" for c lim
    unfolding decode_body_def using that
    by (intro defined_guard der_field_defined defined_bind) (auto simp: char_at_def)
  then show ?thesis
    unfolding decode_bundle_def by (intro defined_guard der_field_defined) auto
qed

text \<open>A field that ends where the bundle ends is all that is left of it.\<close>

lemma der_field_last:
  "der_field d off (length d) tag (\<lambda>o' st len. guard OcspInvalidResponse (o' = length d) (k st len)) = Inr y
   \<longleftrightarrow> (\<exists>body. drop off d = der_tlv tag body \<and> length body < 65536
        \<and> k (length d - length body) (length body) = Inr y)"
  (is "?lhs \<longleftrightarrow> ?rhs")
proof
  assume ?lhs
  then obtain body rest where d: "drop off d = der_tlv tag body @ rest" and len: "length body < 65536"
    and e: "off + length (der_tlv tag body) = length d"
    and k: "k (off + length (der_tlv tag body) - length body) (length body) = Inr y"
    unfolding der_field_eq_Inr [OF order_refl] guard_eq_Inr by auto
  have "length d - off = length (der_tlv tag body) + length rest" using arg_cong [OF d, of length] by simp
  then have "length rest = 0" using e by linarith
  then show ?rhs using d len e k by auto
next
  assume ?rhs
  then obtain body where d: "drop off d = der_tlv tag body" and len: "length body < 65536"
    and k: "k (length d - length body) (length body) = Inr y" by blast
  have "length d - off = length (der_tlv tag body)" using arg_cong [OF d, of length] by simp
  then have "off + length (der_tlv tag body) = length d" by (simp add: length_der_tlv)
  then show ?lhs
    unfolding der_field_eq_Inr [OF order_refl] guard_eq_Inr using d len k
    by (intro exI [of _ body] exI [of _ "[]"]) simp
qed

lemma drop_value:
  assumes "drop off d = der_tlv tag body"
  shows "drop (length d - length body) d = body"
proof -
  have "length d - off = length (der_tlv tag body)" using arg_cong [OF assms, of length] by simp
  then have "off + length (der_tlv tag body) = length d" by (simp add: length_der_tlv)
  then show ?thesis using read_der_tlv_value(1) [of off d tag body "[]"] assms by simp
qed

lemma decode_list_iff:
  "decode_list d c (length d) = Inr rs \<longleftrightarrow>
     drop c d = der_tlv 0x30 (encode_responses rs) \<and> length (encode_responses rs) < 65536
     \<and> rs \<noteq> [] \<and> length rs \<le> 16 \<and> list_all valid_response_bytes rs"
  (is "?lhs \<longleftrightarrow> ?rhs")
proof
  assume ?lhs
  then obtain items where d: "drop c d = der_tlv 0x30 items" and len: "length items < 65536"
    and its: "bundle_items d (length d - length items + length items) MAX_RESPONSES
      (length d - length items) [] = Inr rs" and ne: "rs \<noteq> []"
    unfolding decode_list_def der_field_last by (auto simp: outcome_simps)
  have le: "length items \<le> length d" using arg_cong [OF d, of length] by (simp add: length_der_tlv)
  have "bundle_items d (length d) MAX_RESPONSES (length d - length items) [] = Inr rs" using its le by simp
  then have "length rs \<le> 16 \<and> list_all valid_response_bytes rs \<and> items = encode_responses rs"
    using bundle_items_sound [of "length d" d "length d - length items" MAX_RESPONSES "[]" rs]
      drop_value [OF d] le by (auto simp: MAX_RESPONSES_def)
  then show ?rhs using d len ne by simp
next
  assume r: ?rhs
  then have d: "drop c d = der_tlv 0x30 (encode_responses rs)" by simp
  have le: "length (encode_responses rs) \<le> length d"
    using arg_cong [OF d, of length] by (simp add: length_der_tlv)
  then have "bundle_items d (length d) MAX_RESPONSES (length d - length (encode_responses rs)) [] = Inr ([] @ rs)"
    using r drop_value [OF d] by (intro bundle_items_complete [where rest = "[]"]) (auto simp: MAX_RESPONSES_def)
  then show ?lhs
    unfolding decode_list_def der_field_last using r le
    by (intro exI [of _ "encode_responses rs"]) (simp add: outcome_simps)
qed

lemma decode_body_iff:
  "decode_body d c (length d) = Inr rs \<longleftrightarrow>
     drop c d = der_tlv 0x02 [1] @ der_tlv 0x30 (encode_responses rs) \<and> length (encode_responses rs) < 65536
     \<and> rs \<noteq> [] \<and> length rs \<le> 16 \<and> list_all valid_response_bytes rs"
  (is "?lhs \<longleftrightarrow> ?rhs")
proof
  assume ?lhs
  then obtain ver rest where d: "drop c d = der_tlv 0x02 ver @ rest" and ver: "length ver = 1"
    and k: "bind (char_at d (c + length (der_tlv 0x02 ver) - length ver)) (\<lambda>v.
      guard OcspInvalidResponse (v = BUNDLE_VERSION) (decode_list d (c + length (der_tlv 0x02 ver)) (length d)))
      = Inr rs"
    unfolding decode_body_def der_field_eq_Inr [OF order_refl] guard_eq_Inr by blast
  obtain x where x: "ver = [x]" using ver by (cases ver) auto
  have "char_at d (c + length (der_tlv 0x02 ver) - length ver) = ret x"
    using read_der_tlv_value(1) [OF d] x by (intro char_at_drop) simp
  then have "x = 1" "decode_list d (c + length (der_tlv 0x02 ver)) (length d) = Inr rs"
    using k by (simp_all add: outcome_simps BUNDLE_VERSION_def)
  then show ?rhs
    using d x read_der_tlv_value(2) [OF d] unfolding decode_list_iff by simp
next
  assume r: ?rhs
  then have d: "drop c d = der_tlv 0x02 [1] @ der_tlv 0x30 (encode_responses rs)" by simp
  note v = read_der_tlv_value [OF d]
  have "length d - c = length (der_tlv 2 [1]) + length (der_tlv 0x30 (encode_responses rs))"
    using arg_cong [OF d, of length] by simp
  then have le: "c + length (der_tlv 0x02 [1]) \<le> length d" by (simp add: length_der_tlv)
  have at: "char_at d (c + length (der_tlv 0x02 [1]) - length [1 :: byte]) = ret 1"
    using v(1) by (intro char_at_drop) simp
  have "decode_list d (c + length (der_tlv 0x02 [1])) (length d) = Inr rs"
    unfolding decode_list_iff using r v(2) by simp
  then show ?lhs
    unfolding decode_body_def der_field_eq_Inr [OF order_refl] guard_eq_Inr using d le at
    by - (rule exI [of _ "[1]"], rule exI [of _ "der_tlv 0x30 (encode_responses rs)"],
        simp add: BUNDLE_VERSION_def)
qed

lemma length_der_length_le: "length (der_length n) \<le> 3"
  by (simp add: der_length_def)

lemma decode_bundle_iff: "decode_bundle d = Inr rs \<longleftrightarrow> valid_bundle rs \<and> encode_bundle rs = d"
proof -
  have "decode_bundle d = Inr rs \<longleftrightarrow> d \<noteq> [] \<and> length d \<le> 16384 \<and>
    (\<exists>body. d = der_tlv 0x30 body \<and> length body < 65536
      \<and> decode_body d (length d - length body) (length d) = Inr rs)"
    unfolding decode_bundle_def guard_eq_Inr der_field_last [of d 0, simplified]
    by (auto simp: MAX_BUNDLE_BYTES_def length_der_tlv)
  moreover have "valid_bundle rs \<and> encode_bundle rs = d" (is ?V)
    if "length d \<le> 16384" "d = der_tlv 0x30 body" "decode_body d (length d - length body) (length d) = Inr rs" for body
    using that drop_value [of 0 d "0x30" body]
    by (simp add: decode_body_iff valid_bundle_alt encode_bundle_def)
  moreover have "d \<noteq> [] \<and> length d \<le> 16384 \<and> (\<exists>body. d = der_tlv 0x30 body \<and> length body < 65536
      \<and> decode_body d (length d - length body) (length d) = Inr rs)" if v: "valid_bundle rs \<and> encode_bundle rs = d"
  proof -
    let ?body = "der_tlv 0x02 [1] @ der_tlv 0x30 (encode_responses rs)"
    have d: "d = der_tlv 0x30 ?body" using v by (simp add: encode_bundle_def)
    have len: "length ?body \<le> length d" "length (encode_responses rs) \<le> length d" "length d \<le> 16384" "d \<noteq> []"
      using v unfolding d by (simp_all add: length_der_tlv valid_bundle_alt encode_bundle_def der_tlv_def)
    have "decode_body d (length d - length ?body) (length d) = Inr rs"
      unfolding decode_body_iff using v len drop_value [of 0 d "0x30" ?body] d by (simp add: valid_bundle_alt)
    moreover have "length ?body < 65536" using len(1,3) by linarith
    ultimately show ?thesis using d len(3,4) by blast
  qed
  ultimately show ?thesis by blast
qed

interpretation proof_bundle: wire_codec encode_bundle decode_bundle valid_bundle
  by unfold_locales (simp_all add: decode_bundle_iff decode_bundle_defined)

section \<open>Properties\<close>

text \<open>
  C27 (status_bundle_canonical): the status-proof decoder accepts exactly the canonical DER encodings
  of between 1 and 16 responses of 1 to 2048 bytes in at most 16384 bytes, returns the encoded
  responses, and rejects every other byte string with an error, without reading outside the bundle.
\<close>

theorem status_bundle_canonical:
  "(decode_bundle d = Inr rs \<longleftrightarrow> valid_bundle rs \<and> d = encode_bundle rs) \<and> defined (decode_bundle d)"
  using decode_bundle_iff [of d rs] decode_bundle_defined [of d] by auto

end
