(* ===== verification/Nv_Cache.thy ===== *)
theory Nv_Cache
  imports Prelude
begin

text \<open>
  The in-memory cache (\<^verbatim>\<open>src/nv_cache.cpp\<close>): a map from keys to objects, a list in order of use and
  a list in order of insertion.  The objects keep iterators into the two lists; an iterator is the
  identity of a list node, and erasing a node that is not in the list is undefined behaviour.
  Sizes are 64-bit and their additions wrap.  \<^verbatim>\<open>time(nullptr)\<close> is a clock whose \<open>i\<close>-th reading
  within a call is \<open>clock i\<close>.  The mutex serialises the operations, so each is one atomic step.
\<close>

type_synonym node = "nat \<times> string"

record 'v cache_object =
  co_value :: 'v
  co_size_bytes :: u64
  co_expiry_time :: int
  co_lru_node_ptr :: nat
  co_insertion_node_ptr :: nat

record 'v nv_cache =
  nc_cache :: "(string \<times> 'v cache_object) list"
  nc_lru_list :: "node list"
  nc_insertion_list :: "node list"
  nc_current_size_bytes :: u64
  nc_max_size_bytes :: u64
  nc_ttl_seconds :: int
  nc_next_node :: nat

definition DEFAULT_MAX_SIZE :: u64 where "DEFAULT_MAX_SIZE = 1024 * 1024"
definition DEFAULT_TTL :: int where "DEFAULT_TTL = 60 * 60"

text \<open>The constructor; \<open>None\<close> is a null options pointer.\<close>

definition new_cache :: "(u64 \<times> int) option \<Rightarrow> 'v nv_cache" where
  "new_cache options =
     (let (max_size, ttl) = (case options of None \<Rightarrow> (DEFAULT_MAX_SIZE, DEFAULT_TTL) | Some p \<Rightarrow> p)
      in \<lparr>nc_cache = [], nc_lru_list = [], nc_insertion_list = [], nc_current_size_bytes = 0,
          nc_max_size_bytes = max_size, nc_ttl_seconds = ttl, nc_next_node = 0\<rparr>)"

definition erase :: "nat \<Rightarrow> node list \<Rightarrow> node list outcome" where
  "erase n xs = (if n \<in> fst ` set xs then ret (filter (\<lambda>x. fst x \<noteq> n) xs) else undefined_behaviour)"

definition remove_helper :: "'v nv_cache \<Rightarrow> string \<Rightarrow> 'v nv_cache outcome" where
  "remove_helper s key =
     (case map_of (nc_cache s) key of
        None \<Rightarrow> undefined_behaviour
      | Some obj \<Rightarrow>
          bind (erase (co_lru_node_ptr obj) (nc_lru_list s)) (\<lambda>lru.
          bind (erase (co_insertion_node_ptr obj) (nc_insertion_list s)) (\<lambda>ins.
          ret (s\<lparr>nc_current_size_bytes := nc_current_size_bytes s - co_size_bytes obj,
                 nc_lru_list := lru, nc_insertion_list := ins,
                 nc_cache := AList.delete key (nc_cache s)\<rparr>))))"

lemma erase_shorter: "erase n xs = Inr ys \<Longrightarrow> length ys < length xs"
proof -
  assume "erase n xs = Inr ys"
  then have "n \<in> fst ` set xs" and ys: "ys = filter (\<lambda>x. fst x \<noteq> n) xs"
    by (auto simp: erase_def undefined_behaviour_def ret_def split: if_splits)
  then obtain x where "x \<in> set xs" "fst x = n" by auto
  then show "length ys < length xs"
    unfolding ys by (intro length_filter_less) auto
qed

lemma remove_helper_shorter:
  assumes "remove_helper s key = Inr s'"
  shows "length (nc_insertion_list s') < length (nc_insertion_list s)"
    and "length (nc_lru_list s') < length (nc_lru_list s)"
  using assms
  by (auto simp: remove_helper_def outcome_simps undefined_behaviour_def split: option.splits
      dest: erase_shorter)

text \<open>The first loop of \<^verbatim>\<open>put\<close>: drop expired objects, oldest insertion first.\<close>

function expire_loop :: "(nat \<Rightarrow> int) \<Rightarrow> nat \<Rightarrow> u64 \<Rightarrow> 'v nv_cache \<Rightarrow> ('v nv_cache \<times> nat) outcome" where
  "expire_loop clock i size_bytes s =
     (if nc_insertion_list s \<noteq> [] \<and> nc_max_size_bytes s < nc_current_size_bytes s + size_bytes
      then (let oldest_key = snd (last (nc_insertion_list s)) in
            case map_of (nc_cache s) oldest_key of
              None \<Rightarrow> undefined_behaviour
            | Some obj \<Rightarrow>
                if clock i < co_expiry_time obj then ret (s, Suc i)
                else (case remove_helper s oldest_key of
                        Inl f \<Rightarrow> Inl f
                      | Inr s' \<Rightarrow> expire_loop clock (Suc i) size_bytes s'))
      else ret (s, i))"
  by pat_completeness auto
termination
  by (relation "measure (\<lambda>(clock, i, size_bytes, s). length (nc_insertion_list s))")
    (auto dest: remove_helper_shorter)

text \<open>The second loop: evict the least recently used objects.\<close>

function evict_loop :: "u64 \<Rightarrow> 'v nv_cache \<Rightarrow> 'v nv_cache outcome" where
  "evict_loop size_bytes s =
     (if nc_lru_list s \<noteq> [] \<and> nc_max_size_bytes s < nc_current_size_bytes s + size_bytes
      then (case remove_helper s (snd (last (nc_lru_list s))) of
              Inl f \<Rightarrow> Inl f
            | Inr s' \<Rightarrow> evict_loop size_bytes s')
      else ret s)"
  by pat_completeness auto
termination
  by (relation "measure (\<lambda>(size_bytes, s). length (nc_lru_list s))")
    (auto dest: remove_helper_shorter)

declare expire_loop.simps [simp del] evict_loop.simps [simp del]

definition insert_object :: "'v nv_cache \<Rightarrow> string \<Rightarrow> 'v \<Rightarrow> u64 \<Rightarrow> int \<Rightarrow> 'v nv_cache" where
  "insert_object s key v size_bytes now =
     s\<lparr>nc_current_size_bytes := nc_current_size_bytes s + size_bytes,
       nc_lru_list := (nc_next_node s, key) # nc_lru_list s,
       nc_insertion_list := (nc_next_node s, key) # nc_insertion_list s,
       nc_next_node := Suc (nc_next_node s),
       nc_cache := AList.update key
         \<lparr>co_value = v, co_size_bytes = size_bytes, co_expiry_time = now + nc_ttl_seconds s,
          co_lru_node_ptr = nc_next_node s, co_insertion_node_ptr = nc_next_node s\<rparr>
         (nc_cache s)\<rparr>"

definition cache_put :: "(nat \<Rightarrow> int) \<Rightarrow> 'v nv_cache \<Rightarrow> string \<Rightarrow> 'v \<Rightarrow> u64 \<Rightarrow> 'v nv_cache outcome" where
  "cache_put clock s key v size_bytes =
     (if nc_max_size_bytes s < size_bytes then fail BadArgument
      else bind (if map_of (nc_cache s) key \<noteq> None then remove_helper s key else ret s) (\<lambda>s.
           bind (expire_loop clock 0 size_bytes s) (\<lambda>(s, i).
           bind (evict_loop size_bytes s) (\<lambda>s.
           ret (insert_object s key v size_bytes (clock i))))))"

text \<open>
  \<^verbatim>\<open>get\<close> moves the object's node to the front of the use list (\<^verbatim>\<open>splice\<close>).
\<close>

definition move_front :: "nat \<Rightarrow> node list \<Rightarrow> node list outcome" where
  "move_front n xs =
     (case find (\<lambda>x. fst x = n) xs of
        None \<Rightarrow> undefined_behaviour
      | Some x \<Rightarrow> ret (x # filter (\<lambda>y. fst y \<noteq> n) xs))"

definition cache_get :: "int \<Rightarrow> 'v nv_cache \<Rightarrow> string \<Rightarrow> ('v \<times> 'v nv_cache) outcome" where
  "cache_get now s key =
     (case map_of (nc_cache s) key of
        None \<Rightarrow> fail CacheObjectNotFound
      | Some obj \<Rightarrow>
          if co_expiry_time obj \<le> now then fail CacheObjectNotFound
          else bind (move_front (co_lru_node_ptr obj) (nc_lru_list s)) (\<lambda>lru.
               ret (co_value obj, s\<lparr>nc_lru_list := lru\<rparr>)))"

definition cache_remove :: "'v nv_cache \<Rightarrow> string \<Rightarrow> 'v nv_cache outcome" where
  "cache_remove s key = (if map_of (nc_cache s) key = None then ret s else remove_helper s key)"

definition cache_clear :: "'v nv_cache \<Rightarrow> 'v nv_cache" where
  "cache_clear s = s\<lparr>nc_cache := [], nc_lru_list := [], nc_insertion_list := [],
               nc_current_size_bytes := 0\<rparr>"

section \<open>Invariant\<close>

text \<open>
  Both lists hold exactly one node per cached key, the one the object points to; the running size
  is the exact sum of the object sizes and stays within the limit.
\<close>

definition node_list_ok ::
  "('v cache_object \<Rightarrow> nat) \<Rightarrow> (string \<times> 'v cache_object) list \<Rightarrow> nat \<Rightarrow> node list \<Rightarrow> bool" where
  "node_list_ok ptr c next_node xs \<longleftrightarrow>
     distinct (map fst xs) \<and> distinct (map snd xs)
     \<and> set xs = (\<lambda>(k, obj). (ptr obj, k)) ` set c
     \<and> (\<forall>x \<in> set xs. fst x < next_node)"

definition total_size :: "(string \<times> 'v cache_object) list \<Rightarrow> nat" where
  "total_size c = sum_list (map (\<lambda>(k, obj). unat (co_size_bytes obj)) c)"

definition cache_inv :: "'v nv_cache \<Rightarrow> bool" where
  "cache_inv s \<longleftrightarrow>
     distinct (map fst (nc_cache s))
     \<and> node_list_ok co_lru_node_ptr (nc_cache s) (nc_next_node s) (nc_lru_list s)
     \<and> node_list_ok co_insertion_node_ptr (nc_cache s) (nc_next_node s) (nc_insertion_list s)
     \<and> unat (nc_current_size_bytes s) = total_size (nc_cache s)
     \<and> nc_current_size_bytes s \<le> nc_max_size_bytes s
     \<and> unat (nc_max_size_bytes s) < 2 ^ 63"

lemma cache_inv_new: "unat (fst p) < 2 ^ 63 \<Longrightarrow> cache_inv (new_cache (Some p))"
  by (cases p) (simp add: new_cache_def cache_inv_def node_list_ok_def total_size_def)

lemma cache_inv_default: "cache_inv (new_cache None)"
  by (simp add: new_cache_def cache_inv_def node_list_ok_def total_size_def DEFAULT_MAX_SIZE_def)

lemma cache_inv_clear: "cache_inv s \<Longrightarrow> cache_inv (cache_clear s)"
  by (simp add: cache_clear_def cache_inv_def node_list_ok_def total_size_def)

section \<open>Removing an object\<close>

lemma total_size_delete:
  assumes "distinct (map fst c)" and "map_of c k = Some obj"
  shows "total_size c = unat (co_size_bytes obj) + total_size (AList.delete k c)"
  using assms
proof (induction c)
  case Nil
  then show ?case by simp
next
  case (Cons p c)
  obtain k' obj' where p: "p = (k', obj')" by (cases p)
  show ?case
  proof (cases "k' = k")
    case True
    then have "k \<notin> fst ` set c" using Cons.prems(1) p by auto
    then have "AList.delete k c = c" by (simp add: delete_id)
    then show ?thesis using True Cons.prems p by (simp add: total_size_def)
  next
    case False
    then show ?thesis using Cons p by (simp add: total_size_def)
  qed
qed

lemma map_of_AList_delete: "map_of (AList.delete k c) k' = (if k' = k then None else map_of c k')"
  by (simp add: delete_conv')

lemma set_AList_delete: "set (AList.delete k c) = {p \<in> set c. fst p \<noteq> k}"
  by (induction c) auto

lemma node_list_ok_mem:
  "node_list_ok ptr c n xs \<Longrightarrow> map_of c k = Some obj \<Longrightarrow> (ptr obj, k) \<in> set xs"
  by (force simp: node_list_ok_def dest: map_of_SomeD)

lemma node_list_ok_unique:
  assumes ok: "node_list_ok ptr c n xs" and obj: "map_of c k = Some obj"
    and x: "x \<in> set xs" "fst x = ptr obj \<or> snd x = k"
  shows "x = (ptr obj, k)"
proof -
  have mem: "(ptr obj, k) \<in> set xs" using ok obj by (rule node_list_ok_mem)
  have inj: "inj_on fst (set xs)" "inj_on snd (set xs)"
    using ok unfolding node_list_ok_def distinct_map by blast+
  show ?thesis using x inj_onD [OF inj(1) _ x(1) mem] inj_onD [OF inj(2) _ x(1) mem] by auto
qed

lemma node_list_ok_iff:
  assumes "node_list_ok ptr c n xs" and "map_of c k = Some obj" and "x \<in> set xs"
  shows "fst x = ptr obj \<longleftrightarrow> snd x = k"
  using node_list_ok_unique [OF assms] by (metis fst_conv snd_conv)

lemma node_list_ok_delete:
  assumes ok: "node_list_ok ptr c n xs" and obj: "map_of c k = Some obj"
    and dist: "distinct (map fst c)"
  shows "node_list_ok ptr (AList.delete k c) n (filter (\<lambda>x. fst x \<noteq> ptr obj) xs)"
proof -
  have "fst x = ptr obj \<longleftrightarrow> snd x = k" if "x \<in> set xs" for x
    by (rule node_list_ok_iff [OF ok obj that])
  then have "set (filter (\<lambda>x. fst x \<noteq> ptr obj) xs) = {x \<in> set xs. snd x \<noteq> k}" by auto
  also have "\<dots> = (\<lambda>(k, obj). (ptr obj, k)) ` set (AList.delete k c)"
    using ok by (force simp: node_list_ok_def set_AList_delete image_iff)
  finally have eq: "set (filter (\<lambda>x. fst x \<noteq> ptr obj) xs)
      = (\<lambda>(k, obj). (ptr obj, k)) ` set (AList.delete k c)" .
  have "\<forall>x \<in> set (filter (\<lambda>x. fst x \<noteq> ptr obj) xs). fst x < n"
    using ok by (simp add: node_list_ok_def)
  then show ?thesis
    using ok eq by (simp only: node_list_ok_def distinct_map_filter)
qed

lemma erase_ok:
  "node_list_ok ptr c n xs \<Longrightarrow> map_of c k = Some obj \<Longrightarrow>
     erase (ptr obj) xs = Inr (filter (\<lambda>x. fst x \<noteq> ptr obj) xs)"
  by (drule (1) node_list_ok_mem) (force simp: erase_def ret_def)

text \<open>The state after a cached key is removed.\<close>

definition without :: "'v nv_cache \<Rightarrow> string \<Rightarrow> 'v cache_object \<Rightarrow> 'v nv_cache" where
  "without s key obj = s\<lparr>
      nc_current_size_bytes := nc_current_size_bytes s - co_size_bytes obj,
      nc_lru_list := filter (\<lambda>x. fst x \<noteq> co_lru_node_ptr obj) (nc_lru_list s),
      nc_insertion_list := filter (\<lambda>x. fst x \<noteq> co_insertion_node_ptr obj) (nc_insertion_list s),
      nc_cache := AList.delete key (nc_cache s)\<rparr>"

lemma without_simps [simp]:
  "nc_cache (without s key obj) = AList.delete key (nc_cache s)"
  "nc_max_size_bytes (without s key obj) = nc_max_size_bytes s"
  "nc_ttl_seconds (without s key obj) = nc_ttl_seconds s"
  "nc_next_node (without s key obj) = nc_next_node s"
  by (simp_all add: without_def)

lemma remove_helper_eq:
  assumes "cache_inv s" and obj: "map_of (nc_cache s) key = Some obj"
  shows "remove_helper s key = Inr (without s key obj)"
proof -
  have "erase (co_lru_node_ptr obj) (nc_lru_list s)
      = Inr (filter (\<lambda>x. fst x \<noteq> co_lru_node_ptr obj) (nc_lru_list s))"
    and "erase (co_insertion_node_ptr obj) (nc_insertion_list s)
      = Inr (filter (\<lambda>x. fst x \<noteq> co_insertion_node_ptr obj) (nc_insertion_list s))"
    using assms by (auto simp: cache_inv_def intro: erase_ok)
  then show ?thesis using obj by (simp add: remove_helper_def without_def ret_def)
qed

lemma cache_inv_without:
  assumes inv: "cache_inv s" and obj: "map_of (nc_cache s) key = Some obj"
  shows "cache_inv (without s key obj)"
proof -
  note inv' = inv [unfolded cache_inv_def]
  have size: "total_size (nc_cache s)
      = unat (co_size_bytes obj) + total_size (AList.delete key (nc_cache s))"
    using inv' obj by (intro total_size_delete) auto
  then have "unat (nc_current_size_bytes s - co_size_bytes obj)
      = total_size (AList.delete key (nc_cache s))"
    using inv' by (subst unat_sub) (simp_all add: word_le_nat_alt)
  moreover from this have "nc_current_size_bytes s - co_size_bytes obj \<le> nc_max_size_bytes s"
    using inv' size by (simp add: word_le_nat_alt)
  ultimately show ?thesis
    using inv' obj node_list_ok_delete [of co_lru_node_ptr _ _ _ key obj]
      node_list_ok_delete [of co_insertion_node_ptr _ _ _ key obj]
    by (simp add: cache_inv_def without_def distinct_delete)
qed

section \<open>The two eviction loops\<close>

text \<open>What an eviction may do: forget keys, never change what remains.\<close>

definition evicted :: "'v nv_cache \<Rightarrow> 'v nv_cache \<Rightarrow> bool" where
  "evicted s s' \<longleftrightarrow> cache_inv s' \<and> map_of (nc_cache s') \<subseteq>\<^sub>m map_of (nc_cache s)
     \<and> nc_max_size_bytes s' = nc_max_size_bytes s \<and> nc_ttl_seconds s' = nc_ttl_seconds s"

lemma evicted_refl: "cache_inv s \<Longrightarrow> evicted s s"
  by (simp add: evicted_def)

lemma evicted_trans: "evicted s t \<Longrightarrow> evicted t u \<Longrightarrow> evicted s u"
  by (auto simp: evicted_def intro: map_le_trans)

lemma evicted_without:
  "cache_inv s \<Longrightarrow> map_of (nc_cache s) key = Some obj \<Longrightarrow> evicted s (without s key obj)"
  by (auto simp: evicted_def cache_inv_without map_le_def map_of_AList_delete dom_def)

lemma last_node_cached:
  assumes "node_list_ok ptr c n xs" and "distinct (map fst c)" and "xs \<noteq> []"
  obtains obj where "map_of c (snd (last xs)) = Some obj" and "ptr obj = fst (last xs)"
proof -
  have "last xs \<in> set xs" using assms(3) by simp
  then obtain k obj where "(k, obj) \<in> set c" "last xs = (ptr obj, k)"
    using assms(1) by (auto simp: node_list_ok_def)
  with assms(2) that show thesis by simp
qed

lemma expire_loop_evicts:
  assumes "cache_inv s"
  shows "\<exists>s' j. expire_loop clock i size_bytes s = Inr (s', j) \<and> evicted s s'"
  using assms
proof (induction clock i size_bytes s rule: expire_loop.induct)
  case (1 clock i size_bytes s)
  show ?case
  proof (cases "nc_insertion_list s \<noteq> [] \<and> nc_max_size_bytes s < nc_current_size_bytes s + size_bytes")
    case False
    then show ?thesis
      using 1(2) by (subst expire_loop.simps) (auto simp: ret_def evicted_refl)
  next
    case True
    obtain obj where obj: "map_of (nc_cache s) (snd (last (nc_insertion_list s))) = Some obj"
      using 1(2) True by (auto simp: cache_inv_def elim: last_node_cached [of co_insertion_node_ptr])
    let ?s = "without s (snd (last (nc_insertion_list s))) obj"
    show ?thesis
    proof (cases "clock i < co_expiry_time obj")
      case True': True
      then show ?thesis
        using True obj 1(2) by (subst expire_loop.simps) (auto simp: ret_def evicted_refl)
    next
      case False
      have eq: "expire_loop clock i size_bytes s = expire_loop clock (Suc i) size_bytes ?s"
        using True False obj remove_helper_eq [OF 1(2) obj] by (subst expire_loop.simps) simp
      have "\<exists>s' j. expire_loop clock (Suc i) size_bytes ?s = Inr (s', j) \<and> evicted ?s s'"
        using 1(1) [OF True refl obj False remove_helper_eq [OF 1(2) obj]]
          cache_inv_without [OF 1(2) obj] by blast
      then show ?thesis
        using eq evicted_trans [OF evicted_without [OF 1(2) obj]] by auto
    qed
  qed
qed

lemma evict_loop_evicts:
  assumes "cache_inv s" and "size_bytes \<le> nc_max_size_bytes s"
  shows "\<exists>s'. evict_loop size_bytes s = Inr s' \<and> evicted s s'
    \<and> unat (nc_current_size_bytes s') + unat size_bytes \<le> unat (nc_max_size_bytes s)"
  using assms
proof (induction size_bytes s rule: evict_loop.induct)
  case (1 size_bytes s)
  show ?case
  proof (cases "nc_lru_list s \<noteq> [] \<and> nc_max_size_bytes s < nc_current_size_bytes s + size_bytes")
    case True
    obtain obj where obj: "map_of (nc_cache s) (snd (last (nc_lru_list s))) = Some obj"
      using 1(2) True by (auto simp: cache_inv_def elim: last_node_cached [of co_lru_node_ptr])
    let ?s = "without s (snd (last (nc_lru_list s))) obj"
    have "evict_loop size_bytes s = evict_loop size_bytes ?s"
      using True remove_helper_eq [OF 1(2) obj] by (subst evict_loop.simps) simp
    moreover have "\<exists>s'. evict_loop size_bytes ?s = Inr s' \<and> evicted ?s s'
        \<and> unat (nc_current_size_bytes s') + unat size_bytes \<le> unat (nc_max_size_bytes ?s)"
      using 1(1) [OF True remove_helper_eq [OF 1(2) obj]] cache_inv_without [OF 1(2) obj] 1(3)
      by simp
    ultimately show ?thesis
      using evicted_trans [OF evicted_without [OF 1(2) obj]] by auto
  next
    case False
    have small: "unat (nc_current_size_bytes s) < 2 ^ 63" "unat size_bytes < 2 ^ 63"
      using 1(2,3) by (auto simp: cache_inv_def word_le_nat_alt)
    have "unat (nc_current_size_bytes s) + unat size_bytes \<le> unat (nc_max_size_bytes s)"
    proof (cases "nc_lru_list s = []")
      case True
      then have "nc_cache s = []" using 1(2) by (simp add: cache_inv_def node_list_ok_def)
      then show ?thesis using 1(2,3) by (simp add: cache_inv_def total_size_def word_le_nat_alt)
    next
      case nonempty: False
      have "unat (nc_current_size_bytes s + size_bytes)
          = unat (nc_current_size_bytes s) + unat size_bytes"
        using small by (subst unat_add_lem [THEN iffD1]) simp_all
      then show ?thesis using False nonempty by (simp add: word_less_nat_alt not_less)
    qed
    then show ?thesis
      using False 1(2) by (subst evict_loop.simps) (auto simp: ret_def evicted_refl)
  qed
qed


section \<open>Least recently used first\<close>

text \<open>
  The bytes held by the objects of a list of nodes.  Eviction keeps the longest front part of the
  use list that leaves room for the new object.
\<close>

definition nodes_size :: "(string \<times> 'v cache_object) list \<Rightarrow> node list \<Rightarrow> nat" where
  "nodes_size c xs = sum_list (map (\<lambda>x. case map_of c (snd x) of
       None \<Rightarrow> 0 | Some obj \<Rightarrow> unat (co_size_bytes obj)) xs)"

lemma nodes_size_total:
  assumes ok: "node_list_ok ptr c n xs" and dist: "distinct (map fst c)"
  shows "nodes_size c xs = total_size c"
proof -
  let ?f = "\<lambda>x. case map_of c (snd x) of None \<Rightarrow> 0 | Some obj \<Rightarrow> unat (co_size_bytes obj)"
  let ?g = "\<lambda>(k, obj). (ptr obj, k)"
  have inj: "inj_on ?g (set c)"
    using dist by (auto simp: inj_on_def) (metis map_of_is_SomeI option.inject)
  have "nodes_size c xs = sum ?f (set xs)"
    using ok by (simp add: nodes_size_def node_list_ok_def sum_list_distinct_conv_sum_set distinct_map)
  also have "\<dots> = sum (?f \<circ> ?g) (set c)"
    using ok by (simp add: node_list_ok_def sum.reindex [OF inj])
  also have "\<dots> = sum (\<lambda>(k, obj). unat (co_size_bytes obj)) (set c)"
    using dist by (intro sum.cong) auto
  also have "\<dots> = total_size c"
    using dist by (simp add: total_size_def sum_list_distinct_conv_sum_set distinct_map)
  finally show ?thesis .
qed

lemma filter_last_node:
  assumes "distinct (map fst xs)" and "xs \<noteq> []"
  shows "filter (\<lambda>x. fst x \<noteq> fst (last xs)) xs = butlast xs"
proof -
  have "distinct (map fst (butlast xs @ [last xs]))" using assms by simp
  then have "filter (\<lambda>x. fst x \<noteq> fst (last xs)) (butlast xs @ [last xs]) = butlast xs"
    by (simp add: filter_id_conv) (metis image_eqI)
  then show ?thesis using assms(2) by simp
qed

lemma nodes_size_delete:
  "k \<notin> snd ` set xs \<Longrightarrow> nodes_size (AList.delete k c) xs = nodes_size c xs"
  by (auto simp: nodes_size_def map_of_AList_delete intro!: arg_cong [of _ _ sum_list])

lemma last_key_not_before:
  "distinct (map snd xs) \<Longrightarrow> xs \<noteq> [] \<Longrightarrow> snd (last xs) \<notin> snd ` set (take n (butlast xs))"
proof -
  assume d: "distinct (map snd xs)" and ne: "xs \<noteq> []"
  have "distinct (map snd (butlast xs @ [last xs]))" using d ne by simp
  then show ?thesis using set_take_subset [of n "butlast xs"] by auto
qed

lemma without_last_lru:
  assumes "cache_inv s" and "nc_lru_list s \<noteq> []"
    and "map_of (nc_cache s) (snd (last (nc_lru_list s))) = Some obj"
  shows "nc_lru_list (without s (snd (last (nc_lru_list s))) obj) = butlast (nc_lru_list s)"
proof -
  have "co_lru_node_ptr obj = fst (last (nc_lru_list s))"
    using last_node_cached [of co_lru_node_ptr "nc_cache s" "nc_next_node s" "nc_lru_list s"] assms
    by (auto simp: cache_inv_def)
  then show ?thesis
    using filter_last_node [of "nc_lru_list s"] assms by (simp add: without_def cache_inv_def node_list_ok_def)
qed

lemma unat_current_plus:
  assumes "cache_inv s" and "size_bytes \<le> nc_max_size_bytes s"
  shows "unat (nc_current_size_bytes s + size_bytes) = total_size (nc_cache s) + unat size_bytes"
proof -
  have "unat (nc_current_size_bytes s) < 2 ^ 63" "unat size_bytes < 2 ^ 63"
    using assms by (auto simp: cache_inv_def word_le_nat_alt)
  then have "unat (nc_current_size_bytes s + size_bytes) = unat (nc_current_size_bytes s) + unat size_bytes"
    by (subst unat_add_lem [THEN iffD1]) simp_all
  then show ?thesis using assms by (simp add: cache_inv_def)
qed

lemma evict_loop_lru:
  assumes "cache_inv s" and "size_bytes \<le> nc_max_size_bytes s" and "evict_loop size_bytes s = Inr s'"
  shows "\<exists>m. nc_lru_list s' = take m (nc_lru_list s) \<and>
     (\<forall>n. m < n \<longrightarrow> n \<le> length (nc_lru_list s) \<longrightarrow>
        unat (nc_max_size_bytes s) < nodes_size (nc_cache s) (take n (nc_lru_list s)) + unat size_bytes)"
  using assms
proof (induction size_bytes s rule: evict_loop.induct)
  case (1 size_bytes s)
  let ?xs = "nc_lru_list s"
  show ?case
  proof (cases "?xs \<noteq> [] \<and> nc_max_size_bytes s < nc_current_size_bytes s + size_bytes")
    case True
    obtain obj where obj: "map_of (nc_cache s) (snd (last ?xs)) = Some obj"
      using 1(2) True by (auto simp: cache_inv_def elim: last_node_cached [of co_lru_node_ptr])
    let ?s = "without s (snd (last ?xs)) obj"
    note rh = remove_helper_eq [OF 1(2) obj]
    have eq: "evict_loop size_bytes ?s = Inr s'"
      using 1(4) True rh by (subst (asm) evict_loop.simps) simp
    have lru: "nc_lru_list ?s = butlast ?xs"
      using without_last_lru [OF 1(2) _ obj] True by simp
    have dist: "distinct (map snd ?xs)" using 1(2) by (simp add: cache_inv_def node_list_ok_def)
    obtain m where m: "nc_lru_list s' = take m (butlast ?xs)"
      and big: "\<And>n. m < n \<Longrightarrow> n \<le> length (butlast ?xs) \<Longrightarrow>
        unat (nc_max_size_bytes s) < nodes_size (nc_cache ?s) (take n (butlast ?xs)) + unat size_bytes"
      using 1(1) [OF True rh cache_inv_without [OF 1(2) obj] _ eq] 1(3) unfolding lru without_simps
      by blast
    have full: "unat (nc_max_size_bytes s) < nodes_size (nc_cache s) ?xs + unat size_bytes"
      using True unat_current_plus [OF 1(2,3)]
        nodes_size_total [of co_lru_node_ptr "nc_cache s" "nc_next_node s" ?xs] 1(2)
      by (simp add: cache_inv_def word_less_nat_alt)
    let ?m = "min m (length (butlast ?xs))"
    have "unat (nc_max_size_bytes s) < nodes_size (nc_cache s) (take n ?xs) + unat size_bytes"
      if n: "?m < n" "n \<le> length ?xs" for n
    proof (cases "n = length ?xs")
      case True
      then show ?thesis using full by simp
    next
      case False
      then have "n \<le> length (butlast ?xs)" "m < n" using n by auto
      moreover have "take n (butlast ?xs) = take n ?xs"
        using False n(2) by (simp add: butlast_conv_take min_absorb1)
      moreover have "snd (last ?xs) \<notin> snd ` set (take n (butlast ?xs))"
        using last_key_not_before [OF dist] True by simp
      ultimately show ?thesis
        using big [of n] by (simp add: nodes_size_delete)
    qed
    moreover have "nc_lru_list s' = take ?m ?xs"
      using m by (simp add: butlast_conv_take min.commute)
    ultimately show ?thesis by blast
  next
    case False
    then have "s' = s" using 1(4) by (subst (asm) evict_loop.simps) (auto simp: ret_def)
    then show ?thesis by (intro exI [of _ "length ?xs"]) simp
  qed
qed

section \<open>Operations keep the invariant\<close>

lemma AList_update_fresh: "k \<notin> fst ` set c \<Longrightarrow> AList.update k v c = c @ [(k, v)]"
  by (induction c) auto

lemma node_list_ok_insert:
  assumes ok: "node_list_ok ptr c n xs" and fresh: "map_of c k = None" and "ptr obj = n"
  shows "node_list_ok ptr (AList.update k obj c) (Suc n) ((n, k) # xs)"
proof -
  have "k \<notin> fst ` set c" using fresh by (simp add: map_of_eq_None_iff)
  then show ?thesis
    using ok assms(3) by (force simp: node_list_ok_def AList_update_fresh)
qed

lemma cache_inv_insert:
  assumes inv: "cache_inv s" and fresh: "map_of (nc_cache s) key = None"
    and room: "unat (nc_current_size_bytes s) + unat size_bytes \<le> unat (nc_max_size_bytes s)"
  shows "cache_inv (insert_object s key v size_bytes now)"
proof -
  note inv' = inv [unfolded cache_inv_def]
  have sum: "unat (nc_current_size_bytes s + size_bytes)
      = unat (nc_current_size_bytes s) + unat size_bytes"
    using room inv' by (subst unat_add_lem [THEN iffD1]) auto
  have "key \<notin> fst ` set (nc_cache s)" using fresh by (simp add: map_of_eq_None_iff)
  then have "total_size (AList.update key obj (nc_cache s))
      = total_size (nc_cache s) + unat (co_size_bytes obj)" for obj
    by (simp add: AList_update_fresh total_size_def)
  then show ?thesis
    using inv' fresh room sum
    by (simp add: cache_inv_def insert_object_def node_list_ok_insert distinct_keys_update
        word_le_nat_alt)
qed

lemma evicted_fresh:
  "evicted s s' \<Longrightarrow> map_of (nc_cache s) k = None \<Longrightarrow> map_of (nc_cache s') k = None"
  by (cases "map_of (nc_cache s') k") (auto simp: evicted_def map_le_def dom_def)

text \<open>What a successful \<^verbatim>\<open>put\<close> establishes.\<close>

definition put_post :: "(nat \<Rightarrow> int) \<Rightarrow> 'v nv_cache \<Rightarrow> string \<Rightarrow> 'v \<Rightarrow> u64 \<Rightarrow> 'v nv_cache \<Rightarrow> bool" where
  "put_post clock s key v size_bytes s' \<longleftrightarrow>
     cache_inv s' \<and> nc_max_size_bytes s' = nc_max_size_bytes s \<and> nc_ttl_seconds s' = nc_ttl_seconds s
     \<and> (\<exists>obj i. map_of (nc_cache s') key = Some obj \<and> co_value obj = v
          \<and> co_size_bytes obj = size_bytes \<and> co_expiry_time obj = clock i + nc_ttl_seconds s)
     \<and> (map_of (nc_cache s'))(key := None) \<subseteq>\<^sub>m map_of (nc_cache s)"

lemma cache_put_post:
  assumes inv: "cache_inv s" and fits: "size_bytes \<le> nc_max_size_bytes s"
  shows "\<exists>s'. cache_put clock s key v size_bytes = Inr s' \<and> put_post clock s key v size_bytes s'"
proof -
  obtain s1 where s1: "(if map_of (nc_cache s) key \<noteq> None then remove_helper s key else ret s) = Inr s1"
    and ev1: "evicted s s1" and fresh1: "map_of (nc_cache s1) key = None"
  proof (cases "map_of (nc_cache s) key")
    case None
    then show thesis using that [of s] evicted_refl [OF inv] by (simp add: ret_def)
  next
    case (Some obj)
    then show thesis
      using that [of "without s key obj"] remove_helper_eq [OF inv] evicted_without [OF inv]
      by (simp add: map_of_AList_delete)
  qed
  then have inv1: "cache_inv s1" by (simp add: evicted_def)
  obtain s2 i where s2: "expire_loop clock 0 size_bytes s1 = Inr (s2, i)" and ev2: "evicted s1 s2"
    using expire_loop_evicts [OF inv1] by blast
  have ev12: "evicted s s2" by (rule evicted_trans [OF ev1 ev2])
  obtain s3 where s3: "evict_loop size_bytes s2 = Inr s3" and ev3: "evicted s2 s3"
    and room: "unat (nc_current_size_bytes s3) + unat size_bytes \<le> unat (nc_max_size_bytes s2)"
    using evict_loop_evicts [of s2 size_bytes] ev12 fits by (auto simp: evicted_def)
  have ev: "evicted s s3" by (rule evicted_trans [OF ev12 ev3])
  have fresh: "map_of (nc_cache s3) key = None"
    using evicted_fresh [OF ev3 evicted_fresh [OF ev2 fresh1]] .
  let ?s' = "insert_object s3 key v size_bytes (clock i)"
  have "cache_inv ?s'"
    using ev ev3 room by (intro cache_inv_insert fresh) (simp_all add: evicted_def)
  moreover have "(map_of (nc_cache ?s'))(key := None) \<subseteq>\<^sub>m map_of (nc_cache s)"
    using ev fresh by (auto simp: insert_object_def evicted_def map_le_def dom_def)
  moreover have "cache_put clock s key v size_bytes = Inr ?s'"
    unfolding cache_put_def using fits s1 s2 s3 by (simp add: ret_def not_less [symmetric])
  ultimately show ?thesis
    using ev by (auto simp: put_post_def evicted_def insert_object_def)
qed

lemma cache_put_too_large:
  "cache_put clock s key v size_bytes = fail BadArgument \<longleftrightarrow> nc_max_size_bytes s < size_bytes"
  if "cache_inv s"
  using cache_put_post [OF that, of size_bytes clock key v]
  by (cases "nc_max_size_bytes s < size_bytes") (simp add: cache_put_def, auto simp: not_less fail_def)

lemma find_node:
  assumes "node_list_ok ptr c n xs" and "map_of c k = Some obj"
  shows "find (\<lambda>x. fst x = ptr obj) xs = Some (ptr obj, k)"
proof -
  have mem: "(ptr obj, k) \<in> set xs" using node_list_ok_mem assms by blast
  then obtain y where y: "find (\<lambda>x. fst x = ptr obj) xs = Some y"
    by (cases "find (\<lambda>x. fst x = ptr obj) xs") (auto simp: find_None_iff)
  then have "y \<in> set xs" "fst y = ptr obj" by (auto simp: find_Some_iff)
  then have "y = (ptr obj, k)" using node_list_ok_unique [OF assms] by blast
  with y show ?thesis by simp
qed

lemma node_list_ok_front:
  assumes ok: "node_list_ok ptr c n xs" and obj: "map_of c k = Some obj"
  shows "node_list_ok ptr c n ((ptr obj, k) # filter (\<lambda>x. fst x \<noteq> ptr obj) xs)"
proof -
  have mem: "(ptr obj, k) \<in> set xs" using ok obj by (rule node_list_ok_mem)
  note same = node_list_ok_unique [OF ok obj]
  let ?ys = "filter (\<lambda>x. fst x \<noteq> ptr obj) xs"
  have "x \<in> set ((ptr obj, k) # ?ys) \<longleftrightarrow> x \<in> set xs" for x
    using mem same [of x] by (cases "fst x = ptr obj") auto
  then have set_eq: "set ((ptr obj, k) # ?ys) = set xs" by blast
  have "k \<notin> snd ` set ?ys" and "ptr obj \<notin> fst ` set ?ys"
    using node_list_ok_iff [OF ok obj] by auto
  then have "distinct (map fst ((ptr obj, k) # ?ys))" "distinct (map snd ((ptr obj, k) # ?ys))"
    using ok by (simp_all add: node_list_ok_def distinct_map_filter)
  then show ?thesis
    using ok unfolding node_list_ok_def set_eq by blast
qed

lemma cache_get_hit:
  assumes inv: "cache_inv s" and obj: "map_of (nc_cache s) key = Some obj"
    and live: "now < co_expiry_time obj"
  shows "\<exists>s'. cache_get now s key = Inr (co_value obj, s') \<and> cache_inv s' \<and> nc_cache s' = nc_cache s
    \<and> nc_max_size_bytes s' = nc_max_size_bytes s
    \<and> nc_lru_list s' = (co_lru_node_ptr obj, key) # filter (\<lambda>x. snd x \<noteq> key) (nc_lru_list s)"
proof -
  have ok: "node_list_ok co_lru_node_ptr (nc_cache s) (nc_next_node s) (nc_lru_list s)"
    using inv by (simp add: cache_inv_def)
  let ?xs = "filter (\<lambda>x. fst x \<noteq> co_lru_node_ptr obj) (nc_lru_list s)"
  have "fst x = co_lru_node_ptr obj \<longleftrightarrow> snd x = key" if "x \<in> set (nc_lru_list s)" for x
    by (rule node_list_ok_iff [OF ok obj that])
  then have "?xs = filter (\<lambda>x. snd x \<noteq> key) (nc_lru_list s)" by (auto intro: filter_cong)
  then show ?thesis
    using obj live find_node [OF ok obj] node_list_ok_front [OF ok obj] inv
    by (simp add: cache_get_def move_front_def ret_def cache_inv_def)
qed

lemma cache_get_cases:
  assumes "cache_inv s"
  shows "(cache_get now s key = fail CacheObjectNotFound
          \<and> (\<forall>obj. map_of (nc_cache s) key = Some obj \<longrightarrow> co_expiry_time obj \<le> now))
    \<or> (\<exists>obj s'. cache_get now s key = Inr (co_value obj, s') \<and> map_of (nc_cache s) key = Some obj
          \<and> now < co_expiry_time obj \<and> cache_inv s' \<and> nc_cache s' = nc_cache s
          \<and> nc_max_size_bytes s' = nc_max_size_bytes s)"
proof (cases "\<exists>obj. map_of (nc_cache s) key = Some obj \<and> now < co_expiry_time obj")
  case True
  then show ?thesis using cache_get_hit [OF assms] by blast
next
  case False
  then show ?thesis by (auto simp: cache_get_def split: option.splits)
qed

lemma cache_remove_eq:
  assumes "cache_inv s"
  shows "\<exists>s'. cache_remove s key = Inr s' \<and> cache_inv s' \<and> map_of (nc_cache s') = (map_of (nc_cache s))(key := None)
    \<and> nc_max_size_bytes s' = nc_max_size_bytes s"
proof (cases "map_of (nc_cache s) key")
  case None
  then show ?thesis using assms by (auto simp: cache_remove_def ret_def)
next
  case (Some obj)
  then show ?thesis
    using remove_helper_eq [OF assms] cache_inv_without [OF assms]
    by (auto simp: cache_remove_def map_of_AList_delete)
qed

section \<open>The cache interface\<close>

text \<open>
  What the clients of \<^verbatim>\<open>INvCache\<close> rely on.  \<open>contents\<close> is the map a cache represents, expired
  objects included: a hit returns what the map holds, a miss is one error code, storing an object
  makes it the value of its key and may only forget others.
\<close>

locale object_cache =
  fixes cget :: "'s \<Rightarrow> string \<Rightarrow> ('v \<times> 's) outcome"
    and cput :: "'s \<Rightarrow> string \<Rightarrow> 'v \<Rightarrow> u64 \<Rightarrow> 's outcome"
    and contents :: "'s \<Rightarrow> string \<rightharpoonup> 'v"
    and inv :: "'s \<Rightarrow> bool"
  assumes hit: "inv s \<Longrightarrow> cget s k = Inr (v, s') \<Longrightarrow> contents s k = Some v \<and> contents s' = contents s \<and> inv s'"
    and miss: "inv s \<Longrightarrow> cget s k = Inl f \<Longrightarrow> f = Err CacheObjectNotFound"
    and stored: "inv s \<Longrightarrow> cput s k v n = Inr s' \<Longrightarrow>
        inv s' \<and> contents s' k = Some v \<and> (contents s')(k := None) \<subseteq>\<^sub>m contents s"
    and refused: "inv s \<Longrightarrow> cput s k v n = Inl f \<Longrightarrow> f = Err BadArgument"
begin

lemma stored_other:
  "inv s \<Longrightarrow> cput s k v n = Inr s' \<Longrightarrow> contents s' k' = Some w \<Longrightarrow> k' \<noteq> k \<Longrightarrow> contents s k' = Some w"
  using stored [of s k v n s'] by (auto simp: map_le_def dom_def split: if_splits)

text \<open>A property of all stored values is kept by storing a value that has it.\<close>

lemma stored_all:
  assumes "inv s" and "cput s k v n = Inr s'" and "P k v"
    and "\<And>k v. contents s k = Some v \<Longrightarrow> P k v"
  shows "contents s' k' = Some w \<Longrightarrow> P k' w"
  using stored [OF assms(1,2)] stored_other [OF assms(1,2)] assms(3,4) by (cases "k' = k") auto

end

definition contents :: "'v nv_cache \<Rightarrow> string \<rightharpoonup> 'v" where
  "contents s k = map_option co_value (map_of (nc_cache s) k)"

lemma put_post_contents:
  assumes "put_post clock s key v n s'"
  shows "contents s' key = Some v" and "(contents s')(key := None) \<subseteq>\<^sub>m contents s"
  using assms by (auto simp: put_post_def contents_def map_le_def dom_def fun_eq_iff)

interpretation nv_cache: object_cache "cache_get now" "cache_put clock" contents cache_inv for now clock
proof
  fix s :: "'v nv_cache" and k v s'
  assume "cache_inv s" "cache_get now s k = Inr (v, s')"
  then show "contents s k = Some v \<and> contents s' = contents s \<and> cache_inv s'"
    using cache_get_cases [of s now k] by (auto simp: contents_def fun_eq_iff fail_def)
next
  fix s :: "'v nv_cache" and k f
  assume "cache_inv s" "cache_get now s k = Inl f"
  then show "f = Err CacheObjectNotFound"
    using cache_get_cases [of s now k] by (auto simp: fail_def)
next
  fix s :: "'v nv_cache" and k v n s'
  assume "cache_inv s" "cache_put clock s k v n = Inr s'"
  moreover from this have "n \<le> nc_max_size_bytes s"
    by (auto simp: cache_put_def fail_def not_less [symmetric])
  ultimately have "put_post clock s k v n s'"
    using cache_put_post [of s n clock k v] by auto
  then show "cache_inv s' \<and> contents s' k = Some v \<and> (contents s')(k := None) \<subseteq>\<^sub>m contents s"
    using put_post_contents by (metis put_post_def)
next
  fix s :: "'v nv_cache" and k v n f
  assume "cache_inv s" "cache_put clock s k v n = Inl f"
  then show "f = Err BadArgument"
    using cache_put_post [of s n clock k v] cache_put_too_large [of s clock k v n]
    by (cases "nc_max_size_bytes s < n") (auto simp: fail_def not_less)
qed

section \<open>Sequences of operations\<close>

text \<open>
  The operations as steps; a call that returns an error leaves the cache as it was.
\<close>

datatype 'v cache_op = Put "nat \<Rightarrow> int" string 'v u64 | Get int string | Remove string | Clear

definition run_op :: "'v cache_op \<Rightarrow> 'v nv_cache \<Rightarrow> 'v nv_cache outcome" where
  "run_op act s = (case act of
       Put clock k v n \<Rightarrow> cache_put clock s k v n
     | Get now k \<Rightarrow> bind (cache_get now s k) (\<lambda>(v, s'). ret s')
     | Remove k \<Rightarrow> cache_remove s k
     | Clear \<Rightarrow> ret (cache_clear s))"

inductive reachable :: "'v nv_cache \<Rightarrow> 'v nv_cache \<Rightarrow> bool" for s0 where
  start: "reachable s0 s0"
| step: "reachable s0 s \<Longrightarrow> run_op act s = Inr s' \<Longrightarrow> reachable s0 s'"

lemma run_op_ok:
  assumes "cache_inv s"
  shows "defined (run_op act s)"
    and "run_op act s = Inr s' \<Longrightarrow> cache_inv s' \<and> nc_max_size_bytes s' = nc_max_size_bytes s"
proof -
  have "defined (run_op act s) \<and> (run_op act s = Inr s' \<longrightarrow>
      cache_inv s' \<and> nc_max_size_bytes s' = nc_max_size_bytes s)"
  proof (cases act)
    case (Put clock k v n)
    then show ?thesis
      using cache_put_post [OF assms, of n clock k v] cache_put_too_large [OF assms, of clock k v n]
      by (cases "nc_max_size_bytes s < n") (auto simp: run_op_def put_post_def outcome_simps not_less)
  next
    case (Get now k)
    then show ?thesis
      using cache_get_cases [OF assms, of now k] by (auto simp: run_op_def fail_def ret_def defined_def)
  next
    case (Remove k)
    then show ?thesis
      using cache_remove_eq [OF assms, of k] by (auto simp: run_op_def)
  next
    case Clear
    then show ?thesis
      using cache_inv_clear [OF assms] by (auto simp: run_op_def outcome_simps cache_clear_def)
  qed
  then show "defined (run_op act s)"
    and "run_op act s = Inr s' \<Longrightarrow> cache_inv s' \<and> nc_max_size_bytes s' = nc_max_size_bytes s"
    by simp_all
qed

lemma reachable_inv:
  "reachable s0 s \<Longrightarrow> cache_inv s0 \<Longrightarrow> cache_inv s \<and> nc_max_size_bytes s = nc_max_size_bytes s0"
  by (induction rule: reachable.induct) (use run_op_ok(2) in force)+

section \<open>Properties\<close>

text \<open>
  C28 (cache_never_over_capacity): after any sequence of calls on a cache created with a limit below
  2^63 bytes, the next call neither dereferences a dangling list node nor diverges, the objects
  held add up to the running size, and that size is within the configured limit.
\<close>

theorem cache_never_over_capacity:
  assumes "unat max_size < 2 ^ 63" and "reachable (new_cache (Some (max_size, ttl))) s"
  shows "defined (run_op act s)
    \<and> total_size (nc_cache s) = unat (nc_current_size_bytes s)
    \<and> total_size (nc_cache s) \<le> unat max_size"
proof -
  have "cache_inv s" "nc_max_size_bytes s = max_size"
    using reachable_inv [OF assms(2)] cache_inv_new [of "(max_size, ttl)"] assms(1)
    by (auto simp: new_cache_def)
  then show ?thesis using run_op_ok(1) [of s act] by (simp add: cache_inv_def word_le_nat_alt)
qed

theorem cache_never_over_capacity_witness:
  "\<exists>s :: nat nv_cache. run_op (Put (\<lambda>i. 5) ''k'' 7 10) (new_cache (Some (16, 60))) = Inr s
     \<and> total_size (nc_cache s) = 10 \<and> total_size (nc_cache s) \<le> unat (16 :: u64)"
proof -
  have run: "run_op (Put (\<lambda>i. 5) ''k'' (7 :: nat) 10) (new_cache (Some (16, 60))) = Inr
    \<lparr>nc_cache = [(''k'', \<lparr>co_value = 7, co_size_bytes = 10, co_expiry_time = 65, co_lru_node_ptr = 0,
        co_insertion_node_ptr = 0\<rparr>)], nc_lru_list = [(0, ''k'')], nc_insertion_list = [(0, ''k'')],
        nc_current_size_bytes = 10, nc_max_size_bytes = 16, nc_ttl_seconds = 60, nc_next_node = 1\<rparr>"
    (is "_ = Inr ?s") by code_simp
  have "reachable (new_cache (Some (16, 60))) ?s"
    using run by (rule reachable.step [OF reachable.start])
  then have "total_size (nc_cache ?s) = unat (nc_current_size_bytes ?s)
    \<and> total_size (nc_cache ?s) \<le> unat (16 :: u64)"
    using cache_never_over_capacity [of 16 60 ?s Clear] by simp
  with run show ?thesis by auto
qed

text \<open>
  Storing an object that fits always succeeds; afterwards its key holds the
  object with the expiry time of the clock reading plus the time to live, and every other key that
  is still cached holds what it held before.  An object larger than the limit is refused with
  BadArgument.
\<close>

theorem cache_put_stores:
  assumes "cache_inv s"
  shows "if nc_max_size_bytes s < size_bytes
     then cache_put clock s key v size_bytes = fail BadArgument
     else \<exists>s'. cache_put clock s key v size_bytes = Inr s' \<and> cache_inv s'
       \<and> (\<exists>obj i. map_of (nc_cache s') key = Some obj \<and> co_value obj = v
            \<and> co_size_bytes obj = size_bytes \<and> co_expiry_time obj = clock i + nc_ttl_seconds s)
       \<and> (map_of (nc_cache s'))(key := None) \<subseteq>\<^sub>m map_of (nc_cache s)"
proof (cases "nc_max_size_bytes s < size_bytes")
  case True
  then show ?thesis using cache_put_too_large [OF assms] by simp
next
  case False
  then show ?thesis
    using cache_put_post [OF assms, of size_bytes clock key v] unfolding put_post_def not_less by auto
qed

theorem cache_put_stores_witness:
  "\<exists>s'. cache_put (\<lambda>i. 5) (new_cache None) ''k'' (7 :: nat) 10 = Inr s'
     \<and> (\<exists>obj. map_of (nc_cache s') ''k'' = Some obj \<and> co_value obj = 7)"
  using cache_put_stores [OF cache_inv_default, of 10 "\<lambda>i. 5" "''k''" "7 :: nat"]
  by (auto simp: new_cache_def DEFAULT_MAX_SIZE_def)

text \<open>
  C29 (cache_evicts_least_recently_used): eviction keeps a front part of the use list (the most
  recently used objects), and no longer front part would have left room for the new object.
\<close>

theorem cache_evicts_least_recently_used:
  assumes "cache_inv s" and "size_bytes \<le> nc_max_size_bytes s"
  shows "\<exists>s' m. evict_loop size_bytes s = Inr s' \<and> cache_inv s'
     \<and> nc_lru_list s' = take m (nc_lru_list s)
     \<and> unat (nc_current_size_bytes s') + unat size_bytes \<le> unat (nc_max_size_bytes s)
     \<and> (\<forall>n. m < n \<longrightarrow> n \<le> length (nc_lru_list s) \<longrightarrow>
        unat (nc_max_size_bytes s) < nodes_size (nc_cache s) (take n (nc_lru_list s)) + unat size_bytes)"
proof -
  obtain s' where s': "evict_loop size_bytes s = Inr s'" and "evicted s s'"
    and "unat (nc_current_size_bytes s') + unat size_bytes \<le> unat (nc_max_size_bytes s)"
    using evict_loop_evicts [OF assms] by blast
  then show ?thesis using evict_loop_lru [OF assms s'] unfolding evicted_def by blast
qed

definition demo_cache :: "nat nv_cache" where
  "demo_cache = \<lparr>nc_cache =
       [(''a'', \<lparr>co_value = 1, co_size_bytes = 6, co_expiry_time = 9, co_lru_node_ptr = 0, co_insertion_node_ptr = 0\<rparr>),
        (''b'', \<lparr>co_value = 2, co_size_bytes = 6, co_expiry_time = 9, co_lru_node_ptr = 1, co_insertion_node_ptr = 1\<rparr>)],
     nc_lru_list = [(0, ''a''), (1, ''b'')], nc_insertion_list = [(1, ''b''), (0, ''a'')],
     nc_current_size_bytes = 12, nc_max_size_bytes = 16, nc_ttl_seconds = 60, nc_next_node = 2\<rparr>"

lemma demo_cache_inv: "cache_inv demo_cache"
  by (simp add: demo_cache_def cache_inv_def node_list_ok_def total_size_def insert_commute)

theorem cache_evicts_least_recently_used_witness:
  "\<exists>s' m. evict_loop 10 demo_cache = Inr s' \<and> nc_lru_list s' = take m [(0, ''a''), (1, ''b'')] \<and> m < 2"
proof -
  obtain s' m where s': "evict_loop 10 demo_cache = Inr s'"
    and m: "nc_lru_list s' = take m (nc_lru_list demo_cache)"
    using cache_evicts_least_recently_used [OF demo_cache_inv, of 10] by (auto simp: demo_cache_def)
  have "map_option (length \<circ> nc_lru_list) (case evict_loop 10 demo_cache of Inr s \<Rightarrow> Some s | _ \<Rightarrow> None) = Some 1"
    unfolding demo_cache_def by code_simp
  with s' m show ?thesis by (auto simp: demo_cache_def intro!: exI [of _ m])
qed

text \<open>
  A lookup returns a value exactly when the key is cached and
  not expired; it then returns the cached value, changes no object and makes the key the most
  recently used one.  In every other case it is CacheObjectNotFound.
\<close>

theorem cache_get_returns_live_objects:
  assumes "cache_inv s"
  shows "case map_of (nc_cache s) key of
       None \<Rightarrow> cache_get now s key = fail CacheObjectNotFound
     | Some obj \<Rightarrow>
         if co_expiry_time obj \<le> now then cache_get now s key = fail CacheObjectNotFound
         else \<exists>s'. cache_get now s key = Inr (co_value obj, s') \<and> cache_inv s'
           \<and> nc_cache s' = nc_cache s
           \<and> map snd (nc_lru_list s') = key # filter (\<lambda>k. k \<noteq> key) (map snd (nc_lru_list s))"
proof (cases "map_of (nc_cache s) key")
  case None
  then show ?thesis by (simp add: cache_get_def)
next
  case (Some obj)
  then show ?thesis
    using cache_get_hit [OF assms Some, of now]
    by (cases "co_expiry_time obj \<le> now") (auto simp: cache_get_def filter_map comp_def)
qed

theorem cache_get_returns_live_objects_witness:
  "\<exists>s'. cache_get 3 demo_cache ''b'' = Inr (2, s') \<and> map snd (nc_lru_list s') = [''b'', ''a'']"
  using cache_get_returns_live_objects [OF demo_cache_inv, where key = "''b''" and now = 3]
  by (auto simp: demo_cache_def)

end
