(* ===== verification/Ocsp.thy ===== *)
theory Ocsp
  imports Status_Bundle Http Nv_Cache
begin

text \<open>
  OCSP (\<^verbatim>\<open>src/nv_ocsp.cpp\<close>): strict parsing and verification of a response, the online client, the
  offline client over raw signed proofs, and the caching client.  OpenSSL is a parameter, the
  record \<open>ocsp_api\<close>; certificates, parsed responses and certificate identifiers are abstract types.
  A trust store is the certificate it was created from.
\<close>

section \<open>OpenSSL\<close>

text \<open>A time field: absent, present but not convertible, or seconds since the epoch.\<close>

datatype asn1_time = NoTime | BadTime | Time int

record 'i single_resp =
  sr_id :: "'i option"
  sr_status :: int
  sr_reason :: int
  sr_thisupd :: asn1_time
  sr_nextupd :: asn1_time

text \<open>
  \<open>d2i_response\<close> also yields how many bytes were consumed; \<open>i2d_response\<close> is \<open>None\<close> when the
  encoder reports no length; \<open>resp_find\<close> is the index or a negative number.
\<close>

record ('c, 'r, 'b, 'i) ocsp_api =
  d2i_response :: "buffer \<Rightarrow> ('r \<times> nat) option"
  i2d_response :: "'r \<Rightarrow> buffer option"
  response_status :: "'r \<Rightarrow> int"
  response_get1_basic :: "'r \<Rightarrow> 'b option"
  response_create :: "'b \<Rightarrow> 'r option"
  basic_verify :: "'b \<Rightarrow> 'c list \<Rightarrow> 'c \<Rightarrow> int"
  single_responses :: "'b \<Rightarrow> 'i single_resp option list"
  resp_find :: "'b \<Rightarrow> 'i \<Rightarrow> int"
  id_cmp :: "'i \<Rightarrow> 'i \<Rightarrow> int"
  cert_to_id :: "'c \<Rightarrow> 'c \<Rightarrow> 'i option"
  i2d_certid :: "'i \<Rightarrow> string option"
  request_payload :: "'i \<Rightarrow> string option"
  check_nonce :: "string \<Rightarrow> 'b \<Rightarrow> int"

section \<open>Verification shared by all clients\<close>

definition asn1_time_to_unix :: "asn1_time \<Rightarrow> int outcome" where
  "asn1_time_to_unix t = (case t of Time v \<Rightarrow> ret v | _ \<Rightarrow> fail OcspInvalidResponse)"

definition parse_basic_response :: "('c, 'r, 'b, 'i) ocsp_api \<Rightarrow> buffer \<Rightarrow> 'b outcome" where
  "parse_basic_response api der =
     (if der = [] \<or> 2 ^ 63 \<le> length der then fail OcspInvalidResponse
      else case d2i_response api der of
        None \<Rightarrow> fail OcspInvalidResponse
      | Some (resp, consumed) \<Rightarrow>
          guard OcspInvalidResponse (consumed = length der)
          (guard OcspInvalidResponse (i2d_response api resp = Some der)
          (let st = response_status api resp in
           if st = 0 then
             (case response_get1_basic api resp of
                None \<Rightarrow> fail OcspInvalidResponse
              | Some basic \<Rightarrow>
                  (case response_create api basic of
                     None \<Rightarrow> fail OcspInvalidResponse
                   | Some rebuilt \<Rightarrow>
                       guard OcspInvalidResponse (i2d_response api rebuilt = Some der) (ret basic)))
           else if st \<in> {2, 3} then fail OcspServerError
           else if st \<in> {1, 5, 6} then fail OcspInvalidRequest
           else fail OcspInvalidResponse)))"

definition ocsp_verify_signature :: "('c, 'r, 'b, 'i) ocsp_api \<Rightarrow> 'b \<Rightarrow> 'c list \<Rightarrow> 'c \<Rightarrow> unit outcome" where
  "ocsp_verify_signature api basic intermediates trust_store =
     (let v = basic_verify api basic intermediates trust_store in
      if v = 1 then ret () else if v = 0 then fail OcspInvalidResponse else fail InternalError)"

definition id_matches :: "('c, 'r, 'b, 'i) ocsp_api \<Rightarrow> 'i \<Rightarrow> 'i single_resp option \<Rightarrow> bool" where
  "id_matches api ident s =
     (case s of None \<Rightarrow> False
      | Some single \<Rightarrow> (case sr_id single of None \<Rightarrow> False | Some sid \<Rightarrow> id_cmp api sid ident = 0))"

definition count_single_responses :: "('c, 'r, 'b, 'i) ocsp_api \<Rightarrow> 'b \<Rightarrow> 'i \<Rightarrow> nat" where
  "count_single_responses api basic ident = length (filter (id_matches api ident) (single_responses api basic))"

record single_status =
  ss_status :: int
  ss_reason :: int
  ss_this_update :: int
  ss_next_update :: "int option"

definition get_single_status :: "('c, 'r, 'b, 'i) ocsp_api \<Rightarrow> 'b \<Rightarrow> 'i \<Rightarrow> single_status outcome" where
  "get_single_status api basic ident =
     guard OcspInvalidResponse (count_single_responses api basic ident = 1)
     (let index = resp_find api basic ident in
      if index < 0 \<or> int (length (single_responses api basic)) \<le> index then fail OcspInvalidResponse
      else case single_responses api basic ! nat index of
        None \<Rightarrow> fail OcspInvalidResponse
      | Some single \<Rightarrow>
          guard OcspInvalidResponse (\<not> sr_status single < 0)
          (bind (asn1_time_to_unix (sr_thisupd single)) (\<lambda>this_update.
           bind (if sr_nextupd single = NoTime then ret None
                 else bind (asn1_time_to_unix (sr_nextupd single)) (\<lambda>t. ret (Some t))) (\<lambda>next_update.
           ret \<lparr>ss_status = sr_status single, ss_reason = sr_reason single,
                ss_this_update = this_update, ss_next_update = next_update\<rparr>))))"

section \<open>Responses\<close>

record ocsp_response =
  or_thisupd :: int
  or_nextupd :: int
  or_reason :: int
  or_status :: int
  or_nonce_matches :: bool
  or_response_valid :: bool
  or_signed_age :: bool
  or_verification_time :: int
  or_status_deadline :: int

definition DEFAULT_NEXT_UPDATE_TTL_SECONDS :: int where "DEFAULT_NEXT_UPDATE_TTL_SECONDS = 3600"
definition MAX_SIGNED_AGE_SECONDS :: int where "MAX_SIGNED_AGE_SECONDS = 86400"
definition FUTURE_TOLERANCE_SECONDS :: int where "FUTURE_TOLERANCE_SECONDS = 60"
definition MAX_VERIFICATION_TIME :: int where "MAX_VERIFICATION_TIME = 253402300799"
definition NV_OCSP_RESPONSE_SIZE_BYTES :: nat where "NV_OCSP_RESPONSE_SIZE_BYTES = 20"

lemmas ocsp_limits = MAX_SIGNED_AGE_SECONDS_def FUTURE_TOLERANCE_SECONDS_def MAX_VERIFICATION_TIME_def

section \<open>The online client\<close>

text \<open>What \<^verbatim>\<open>NvHttpOcspClient::get_ocsp_response\<close> does with the body of a successful reply.\<close>

definition judge_online_response ::
  "('c, 'r, 'b, 'i) ocsp_api \<Rightarrow> 'i \<Rightarrow> string \<Rightarrow> 'c list \<Rightarrow> 'c \<Rightarrow> string \<Rightarrow> ocsp_response outcome" where
  "judge_online_response api ident payload intermediates trust_store response_body =
     guard OcspInvalidResponse (response_body \<noteq> [])
     (bind (parse_basic_response api (bytes_of_string response_body)) (\<lambda>basic.
      bind (ocsp_verify_signature api basic intermediates trust_store) (\<lambda>_.
      bind (get_single_status api basic ident) (\<lambda>st.
      ret \<lparr>or_thisupd = ss_this_update st,
           or_nextupd = (case ss_next_update st of Some t \<Rightarrow> t
                         | None \<Rightarrow> ss_this_update st + DEFAULT_NEXT_UPDATE_TTL_SECONDS),
           or_reason = ss_reason st, or_status = ss_status st,
           or_nonce_matches = (check_nonce api payload basic = 1), or_response_valid = True,
           or_signed_age = False, or_verification_time = 0, or_status_deadline = 0\<rparr>))))"

definition http_get_ocsp_response ::
  "('c, 'r, 'b, 'i) ocsp_api \<Rightarrow> (curl_setup \<Rightarrow> nat \<Rightarrow> curl_attempt) \<Rightarrow> http_client \<Rightarrow> string \<Rightarrow> string
    \<Rightarrow> 'c \<Rightarrow> 'c \<Rightarrow> 'c list \<Rightarrow> 'c \<Rightarrow> ocsp_response outcome" where
  "http_get_ocsp_response api perform client url user_agent subject issuer intermediates trust_store =
     (case cert_to_id api subject issuer of
        None \<Rightarrow> fail InternalError
      | Some ident \<Rightarrow>
      case request_payload api ident of
        None \<Rightarrow> fail InternalError
      | Some payload \<Rightarrow>
      bind (do_request_as_string perform client
        \<lparr>nr_url = url, nr_method = HTTP_METHOD_POST,
         nr_headers = [(''Content-Type'', ''application/ocsp-request''),
                       (''Accept'', ''application/ocsp-response''), (''User-Agent'', user_agent)],
         nr_payload = payload\<rparr>) (\<lambda>(http_status, response_body).
      if http_status \<noteq> 200 then
        (if http_status = 403 \<or> http_status = 401 then fail OcspForbidden else fail OcspServerError)
      else judge_online_response api ident payload intermediates trust_store response_body))"

section \<open>The offline client\<close>

record 'b raw_client =
  rc_responses :: "'b list"
  rc_verification_time :: int

fun parse_proofs :: "('c, 'r, 'b, 'i) ocsp_api \<Rightarrow> buffer list \<Rightarrow> 'b list \<Rightarrow> 'b list outcome" where
  "parse_proofs api [] acc = ret acc"
| "parse_proofs api (response # responses) acc =
     guard OcspInvalidResponse (\<not> (response = [] \<or> MAX_RESPONSE_BYTES < length response))
     (bind (map_error OcspInvalidResponse (parse_basic_response api response)) (\<lambda>basic.
      parse_proofs api responses (acc @ [basic])))"

definition raw_client_create :: "('c, 'r, 'b, 'i) ocsp_api \<Rightarrow> buffer list \<Rightarrow> int \<Rightarrow> 'b raw_client outcome" where
  "raw_client_create api responses verification_time =
     guard OcspInvalidResponse (\<not> (responses = [] \<or> MAX_RESPONSES < length responses))
     (guard BadArgument (\<not> (verification_time \<le> 0 \<or> MAX_VERIFICATION_TIME < verification_time))
     (bind (parse_proofs api responses []) (\<lambda>basics.
      ret \<lparr>rc_responses = basics, rc_verification_time = verification_time\<rparr>)))"

definition raw_client_create_from_bundle ::
  "('c, 'r, 'b, 'i) ocsp_api \<Rightarrow> buffer \<Rightarrow> int \<Rightarrow> 'b raw_client outcome" where
  "raw_client_create_from_bundle api bundle_der verification_time =
     bind (decode_bundle bundle_der) (\<lambda>responses. raw_client_create api responses verification_time)"

text \<open>The loop that counts the statuses for a certificate and keeps the first covering response.\<close>

fun coverage_loop :: "('c, 'r, 'b, 'i) ocsp_api \<Rightarrow> 'i \<Rightarrow> 'b list \<Rightarrow> nat \<Rightarrow> 'b option \<Rightarrow> nat \<times> 'b option" where
  "coverage_loop api ident [] coverage covering = (coverage, covering)"
| "coverage_loop api ident (response # responses) coverage covering =
     (let matches = count_single_responses api response ident in
      coverage_loop api ident responses (coverage + matches)
        (if matches > 0 \<and> covering = None then Some response else covering))"

definition raw_get_ocsp_response ::
  "('c, 'r, 'b, 'i) ocsp_api \<Rightarrow> 'b raw_client \<Rightarrow> 'c \<Rightarrow> 'c \<Rightarrow> 'c list \<Rightarrow> 'c \<Rightarrow> ocsp_response outcome" where
  "raw_get_ocsp_response api client subject issuer intermediates trust_store =
     (case cert_to_id api subject issuer of
        None \<Rightarrow> fail InternalError
      | Some ident \<Rightarrow>
      (case coverage_loop api ident (rc_responses client) 0 None of (coverage, covering) \<Rightarrow>
       guard OcspInvalidResponse (coverage = 1)
       (case covering of
          None \<Rightarrow> fail InternalError
        | Some basic \<Rightarrow>
       bind (ocsp_verify_signature api basic intermediates trust_store) (\<lambda>_.
       bind (get_single_status api basic ident) (\<lambda>st.
       case ss_next_update st of
         None \<Rightarrow> fail OcspInvalidResponse
       | Some next_update \<Rightarrow>
       let this_update = ss_this_update st; now = rc_verification_time client in
       guard OcspInvalidResponse (\<not> next_update \<le> this_update)
       (guard OcspInvalidResponse (\<not> this_update - FUTURE_TOLERANCE_SECONDS > now)
       (let deadline = min next_update (this_update + MAX_SIGNED_AGE_SECONDS) in
        guard OcspInvalidResponse (\<not> now \<ge> deadline)
        (ret \<lparr>or_thisupd = this_update, or_nextupd = next_update, or_reason = ss_reason st,
              or_status = ss_status st, or_nonce_matches = False, or_response_valid = True,
              or_signed_age = True, or_verification_time = now, or_status_deadline = deadline\<rparr>))))))))"

section \<open>The caching client\<close>

text \<open>
  \<^verbatim>\<open>INvCache\<close> is the interface of the cache, so its operations are arguments; the cache is
  updated even when the call fails later.
\<close>

definition get_cache_key :: "('c, 'r, 'b, 'i) ocsp_api \<Rightarrow> 'c \<Rightarrow> 'c \<Rightarrow> string outcome" where
  "get_cache_key api subject issuer =
     (case cert_to_id api subject issuer of
        None \<Rightarrow> fail InternalError
      | Some ident \<Rightarrow> (case i2d_certid api ident of None \<Rightarrow> fail InternalError | Some der \<Rightarrow> ret der))"

definition cached_get_ocsp_response ::
  "('s \<Rightarrow> string \<Rightarrow> (ocsp_response \<times> 's) outcome)
    \<Rightarrow> ('s \<Rightarrow> string \<Rightarrow> ocsp_response \<Rightarrow> u64 \<Rightarrow> 's outcome)
    \<Rightarrow> ('c, 'r, 'b, 'i) ocsp_api \<Rightarrow> ('c \<Rightarrow> 'c \<Rightarrow> 'c list \<Rightarrow> 'c \<Rightarrow> ocsp_response outcome)
    \<Rightarrow> int \<Rightarrow> 's \<Rightarrow> 'c \<Rightarrow> 'c \<Rightarrow> 'c list \<Rightarrow> 'c \<Rightarrow> ocsp_response outcome \<times> 's" where
  "cached_get_ocsp_response cget cput api inner now s subject issuer intermediates trust_store =
     (case get_cache_key api subject issuer of
        Inl f \<Rightarrow> (Inl f, s)
      | Inr key \<Rightarrow>
          let refresh = (\<lambda>s. case inner subject issuer intermediates trust_store of
                Inl f \<Rightarrow> (Inl f, s)
              | Inr r \<Rightarrow> (case cput s key r (of_nat NV_OCSP_RESPONSE_SIZE_BYTES + vsize key) of
                   Inl f \<Rightarrow> (Inl f, s)
                 | Inr s' \<Rightarrow> (ret r, s')))
          in case cget s key of
               Inl f \<Rightarrow> if f = Err CacheObjectNotFound then refresh s else (Inl f, s)
             | Inr (r, s') \<Rightarrow> if or_nextupd r < now then refresh s' else (ret r, s'))"

section \<open>The client interface\<close>

text \<open>
  What the certificate chain relies on when it calls an \<^verbatim>\<open>IOcspHttpClient\<close>: a call that succeeds
  returns a response whose signature was verified, and a status judged by its signed age never
  claims a nonce match; the client stays usable.
\<close>

definition sound_response :: "ocsp_response \<Rightarrow> bool" where
  "sound_response r \<longleftrightarrow> or_response_valid r \<and> (or_signed_age r \<longrightarrow> \<not> or_nonce_matches r)"

locale ocsp_client =
  fixes get_response :: "'s \<Rightarrow> 'c \<Rightarrow> 'c \<Rightarrow> 'c list \<Rightarrow> 'c \<Rightarrow> ocsp_response outcome \<times> 's"
    and inv :: "'s \<Rightarrow> bool"
  assumes sound: "inv s \<Longrightarrow> get_response s subj iss ints ts = (Inr r, s') \<Longrightarrow> sound_response r"
    and keeps_inv: "inv s \<Longrightarrow> get_response s subj iss ints ts = (x, s') \<Longrightarrow> inv s'"

section \<open>The online and the offline client\<close>

lemma judge_online_response_sound:
  "judge_online_response api ident payload ints ts body = Inr r \<Longrightarrow> sound_response r \<and> \<not> or_signed_age r"
  unfolding judge_online_response_def guard_eq_Inr bind_eq_Inr ret_eq
  by (elim conjE exE) (simp add: sound_response_def, elim subst, simp)

lemma http_response_sound:
  "http_get_ocsp_response api perform client url ua subj iss ints ts = Inr r \<Longrightarrow> sound_response r"
  unfolding http_get_ocsp_response_def
  by (auto simp: bind_eq_Inr fail_eq split: option.splits if_splits dest: judge_online_response_sound)

lemma coverage_loop_eq:
  "coverage_loop api ident rs coverage covering =
     (coverage + sum_list (map (\<lambda>b. count_single_responses api b ident) rs),
      if covering = None then find (\<lambda>b. count_single_responses api b ident > 0) rs else covering)"
  by (induction rs arbitrary: coverage covering) (auto simp: Let_def)

lemma ocsp_verify_signature_ok: "ocsp_verify_signature api b ints ts = Inr u \<longleftrightarrow> basic_verify api b ints ts = 1"
  by (auto simp: ocsp_verify_signature_def Let_def outcome_simps)

lemma raw_response_iff:
  "raw_get_ocsp_response api client subj iss ints ts = Inr r \<longleftrightarrow>
     (\<exists>ident basic st nu. cert_to_id api subj iss = Some ident
        \<and> sum_list (map (\<lambda>b. count_single_responses api b ident) (rc_responses client)) = 1
        \<and> find (\<lambda>b. count_single_responses api b ident > 0) (rc_responses client) = Some basic
        \<and> basic_verify api basic ints ts = 1 \<and> get_single_status api basic ident = Inr st
        \<and> ss_next_update st = Some nu \<and> ss_this_update st < nu
        \<and> ss_this_update st - 60 \<le> rc_verification_time client
        \<and> rc_verification_time client < min nu (ss_this_update st + 86400)
        \<and> r = \<lparr>or_thisupd = ss_this_update st, or_nextupd = nu, or_reason = ss_reason st,
              or_status = ss_status st, or_nonce_matches = False, or_response_valid = True,
              or_signed_age = True, or_verification_time = rc_verification_time client,
              or_status_deadline = min nu (ss_this_update st + 86400)\<rparr>)"
proof (cases "cert_to_id api subj iss")
  case None
  then show ?thesis by (simp add: raw_get_ocsp_response_def outcome_simps)
next
  case (Some ident)
  show ?thesis
  proof (cases "find (\<lambda>b. count_single_responses api b ident > 0) (rc_responses client)")
    case None
    then show ?thesis
      using Some by (simp add: raw_get_ocsp_response_def coverage_loop_eq outcome_simps)
  next
    case basic: (Some basic)
    show ?thesis
    proof (cases "get_single_status api basic ident")
      case (Inl f)
      then show ?thesis
        using Some basic by (simp add: raw_get_ocsp_response_def coverage_loop_eq outcome_simps)
    next
      case (Inr st)
      have sig: "bind (ocsp_verify_signature api basic ints ts) (\<lambda>_. k) = Inr r \<longleftrightarrow>
          basic_verify api basic ints ts = 1 \<and> k = Inr r" for k
        by (auto simp: bind_eq_Inr ocsp_verify_signature_ok)
      show ?thesis
      proof (cases "ss_next_update st")
        case None
        then show ?thesis
          using Some basic Inr by (simp add: raw_get_ocsp_response_def coverage_loop_eq sig guard_eq_Inr fail_eq)
      next
        case nu: (Some nu)
        have "r = x \<longleftrightarrow> x = r" for x by auto
        then show ?thesis
          using Some basic Inr nu
          by (simp add: raw_get_ocsp_response_def coverage_loop_eq sig guard_eq_Inr Let_def ocsp_limits
              not_le not_less ret_eq)
      qed
    qed
  qed
qed

lemma raw_response_sound:
  "raw_get_ocsp_response api client subj iss ints ts = Inr r \<Longrightarrow> sound_response r"
  by (auto simp: raw_response_iff sound_response_def)

text \<open>Both clients keep no state of their own.\<close>

definition http_client_get where
  "http_client_get api perform client url ua (s :: unit) subj iss ints ts =
     (http_get_ocsp_response api perform client url ua subj iss ints ts, s)"

definition raw_client_get where
  "raw_client_get api client (s :: unit) subj iss ints ts =
     (raw_get_ocsp_response api client subj iss ints ts, s)"

interpretation http_ocsp: ocsp_client "http_client_get api perform client url ua" "\<lambda>_. True"
  for api perform client url ua
  by unfold_locales (auto simp: http_client_get_def http_response_sound)

interpretation raw_ocsp: ocsp_client "raw_client_get api client" "\<lambda>_. True" for api client
  by unfold_locales (auto simp: raw_client_get_def raw_response_sound)

section \<open>The caching client\<close>

text \<open>Every cached value satisfies \<open>P\<close> of its key.\<close>

definition all_cached :: "('s \<Rightarrow> bool) \<Rightarrow> ('s \<Rightarrow> string \<rightharpoonup> 'v) \<Rightarrow> (string \<Rightarrow> 'v \<Rightarrow> bool) \<Rightarrow> 's \<Rightarrow> bool" where
  "all_cached ok view P s \<longleftrightarrow> ok s \<and> (\<forall>k v. view s k = Some v \<longrightarrow> P k v)"

context object_cache
begin

lemma all_cached_get:
  "all_cached inv contents P s \<Longrightarrow> cget s k = Inr (v, s') \<Longrightarrow> P k v \<and> all_cached inv contents P s'"
  using hit [of s k v s'] by (auto simp: all_cached_def)

lemma all_cached_put:
  assumes "all_cached inv contents P s" and "P k v" and put: "cput s k v n = Inr s'"
  shows "all_cached inv contents P s'"
proof -
  have inv: "inv s" and all: "\<And>k v. contents s k = Some v \<Longrightarrow> P k v"
    using assms(1) by (auto simp: all_cached_def)
  show ?thesis
    unfolding all_cached_def using stored [OF inv put] stored_all [where P = P, OF inv put assms(2) all] by blast
qed

end

text \<open>The cache as the OCSP client uses it, with the client it wraps.\<close>

locale ocsp_cache = object_cache cget cput contents inv
  for cget :: "'s \<Rightarrow> string \<Rightarrow> (ocsp_response \<times> 's) outcome"
    and cput :: "'s \<Rightarrow> string \<Rightarrow> ocsp_response \<Rightarrow> u64 \<Rightarrow> 's outcome"
    and contents :: "'s \<Rightarrow> string \<rightharpoonup> ocsp_response"
    and inv :: "'s \<Rightarrow> bool" +
  fixes api :: "('c, 'r, 'b, 'i) ocsp_api"
    and inner :: "'c \<Rightarrow> 'c \<Rightarrow> 'c list \<Rightarrow> 'c \<Rightarrow> ocsp_response outcome"
  assumes inner_sound: "inner subj iss ints ts = Inr r \<Longrightarrow> sound_response r"
begin

lemma cached_call:
  assumes all: "all_cached inv contents P s" and key: "get_cache_key api subj iss = Inr key"
    and inner: "\<And>r. inner subj iss ints ts = Inr r \<Longrightarrow> P key r"
    and call: "cached_get_ocsp_response cget cput api inner now s subj iss ints ts = (x, s')"
  shows "all_cached inv contents P s'
     \<and> (\<forall>r. x = Inr r \<longrightarrow> P key r \<and> (now \<le> or_nextupd r \<or> inner subj iss ints ts = Inr r))"
proof (cases "cget s key")
  case (Inl f)
  then show ?thesis
    using call key inner all_cached_put [OF all] all
    by (auto simp: cached_get_ocsp_response_def Let_def outcome_simps split: sum.splits if_splits)
next
  case (Inr p)
  obtain v s1 where p: "p = (v, s1)" by (cases p)
  then have h: "P key v" "all_cached inv contents P s1" using all_cached_get [OF all] Inr by auto
  then show ?thesis
    using call key inner all_cached_put [OF h(2)] Inr p
    by (auto simp: cached_get_ocsp_response_def Let_def outcome_simps split: sum.splits if_splits)
qed

lemma cached_call_sound:
  assumes "all_cached inv contents (\<lambda>k. sound_response) s"
    and call: "cached_get_ocsp_response cget cput api inner now s subj iss ints ts = (x, s')"
  shows "all_cached inv contents (\<lambda>k. sound_response) s' \<and> (\<forall>r. x = Inr r \<longrightarrow> sound_response r)"
proof (cases "get_cache_key api subj iss")
  case (Inl f)
  then show ?thesis using assms by (auto simp: cached_get_ocsp_response_def)
next
  case (Inr key)
  have "sound_response r" if "inner subj iss ints ts = Inr r" for r using inner_sound that .
  then show ?thesis using cached_call [OF assms(1) Inr _ call] by blast
qed

end

sublocale ocsp_cache \<subseteq> cached_client: ocsp_client
  "\<lambda>s. cached_get_ocsp_response cget cput api inner now s" "all_cached inv contents (\<lambda>k. sound_response)"
  for now
  by unfold_locales (use cached_call_sound in blast)+

interpretation raw_cache: ocsp_cache "cache_get now" "cache_put clock" contents cache_inv api
  "raw_get_ocsp_response api client" for now clock api client
  by unfold_locales (rule raw_response_sound)

interpretation http_cache: ocsp_cache "cache_get now" "cache_put clock" contents cache_inv api
  "http_get_ocsp_response api perform client url ua" for now clock api perform client url ua
  by unfold_locales (rule http_response_sound)

section \<open>Properties\<close>

text \<open>
  The documented result of \<^verbatim>\<open>OCSP_resp_find\<close>: a non-negative index is that of a status for the
  identifier.
\<close>

definition finds_match :: "('c, 'r, 'b, 'i) ocsp_api \<Rightarrow> bool" where
  "finds_match api \<longleftrightarrow> (\<forall>basic ident. 0 \<le> resp_find api basic ident \<longrightarrow>
     nat (resp_find api basic ident) < length (single_responses api basic)
     \<and> id_matches api ident (single_responses api basic ! nat (resp_find api basic ident)))"

lemma get_single_status_single:
  assumes "finds_match api" and "get_single_status api basic ident = Inr st"
  shows "\<exists>single. Some single \<in> set (single_responses api basic) \<and> id_matches api ident (Some single)
    \<and> ss_status st = sr_status single \<and> ss_reason st = sr_reason single
    \<and> sr_thisupd single = Time (ss_this_update st)
    \<and> (\<forall>nu. ss_next_update st = Some nu \<longrightarrow> sr_nextupd single = Time nu)"
proof -
  let ?i = "resp_find api basic ident"
  have i: "\<not> ?i < 0" "\<not> int (length (single_responses api basic)) \<le> ?i"
    using assms(2) by (auto simp: get_single_status_def guard_eq_Inr Let_def fail_eq split: if_splits)
  then obtain single where single: "single_responses api basic ! nat ?i = Some single"
    using assms(2) by (cases "single_responses api basic ! nat ?i")
      (auto simp: get_single_status_def guard_eq_Inr Let_def fail_eq)
  have "id_matches api ident (Some single)" "Some single \<in> set (single_responses api basic)"
    using assms(1) i single by (auto simp: finds_match_def not_less) (metis nth_mem)+
  moreover have "ss_status st = sr_status single \<and> ss_reason st = sr_reason single
    \<and> sr_thisupd single = Time (ss_this_update st)
    \<and> (\<forall>nu. ss_next_update st = Some nu \<longrightarrow> sr_nextupd single = Time nu)"
    using assms(2) i single
    by (auto simp: get_single_status_def guard_eq_Inr Let_def bind_eq_Inr ret_eq fail_eq asn1_time_to_unix_def
        split: asn1_time.splits if_splits)
  ultimately show ?thesis by blast
qed

text \<open>
  C19 (raw_status_proof_sound): the offline client answers only with the one status for the
  certificate that exists in all supplied proofs, from a proof whose signature OpenSSL verified;
  its thisUpdate is at most 60 seconds after the verification time, which is before both its
  nextUpdate and thisUpdate plus 24 hours; the answer never claims a nonce match.
\<close>

theorem raw_status_proof_sound:
  assumes "finds_match api"
    and "raw_get_ocsp_response api client subject issuer intermediates trust_store = Inr r"
  shows "\<exists>ident basic single. cert_to_id api subject issuer = Some ident
    \<and> basic \<in> set (rc_responses client) \<and> Some single \<in> set (single_responses api basic)
    \<and> id_matches api ident (Some single)
    \<and> length (concat (map (\<lambda>b. filter (id_matches api ident) (single_responses api b)) (rc_responses client))) = 1
    \<and> basic_verify api basic intermediates trust_store = 1
    \<and> or_status r = sr_status single \<and> sr_thisupd single = Time (or_thisupd r)
    \<and> sr_nextupd single = Time (or_nextupd r)
    \<and> or_thisupd r \<le> rc_verification_time client + 60
    \<and> rc_verification_time client < or_status_deadline r
    \<and> or_status_deadline r = min (or_nextupd r) (or_thisupd r + 86400)
    \<and> \<not> or_nonce_matches r \<and> or_signed_age r"
proof -
  obtain ident basic st nu where id: "cert_to_id api subject issuer = Some ident"
    and sum: "sum_list (map (\<lambda>b. count_single_responses api b ident) (rc_responses client)) = 1"
    and found: "find (\<lambda>b. count_single_responses api b ident > 0) (rc_responses client) = Some basic"
    and sig: "basic_verify api basic intermediates trust_store = 1"
    and st: "get_single_status api basic ident = Inr st" and nu: "ss_next_update st = Some nu"
    and times: "ss_this_update st - 60 \<le> rc_verification_time client"
      "rc_verification_time client < min nu (ss_this_update st + 86400)"
    and r: "r = \<lparr>or_thisupd = ss_this_update st, or_nextupd = nu, or_reason = ss_reason st,
              or_status = ss_status st, or_nonce_matches = False, or_response_valid = True,
              or_signed_age = True, or_verification_time = rc_verification_time client,
              or_status_deadline = min nu (ss_this_update st + 86400)\<rparr>"
    using assms(2) unfolding raw_response_iff by blast
  obtain single where single: "Some single \<in> set (single_responses api basic)"
    "id_matches api ident (Some single)" "ss_status st = sr_status single"
    "sr_thisupd single = Time (ss_this_update st)" "sr_nextupd single = Time nu"
    using get_single_status_single [OF assms(1) st] nu by blast
  have "basic \<in> set (rc_responses client)" using found by (auto simp: find_Some_iff)
  moreover have "length (concat (map (\<lambda>b. filter (id_matches api ident) (single_responses api b)) (rc_responses client))) = 1"
    using sum by (simp add: length_concat comp_def count_single_responses_def)
  ultimately show ?thesis using id single sig times r by auto
qed

text \<open>A concrete instance of the parameters, for the witnesses.\<close>

definition demo_ocsp :: "(nat, nat, nat single_resp list, nat) ocsp_api" where
  "demo_ocsp = \<lparr>d2i_response = (\<lambda>d. Some (length d, length d)), i2d_response = (\<lambda>r. None), response_status = (\<lambda>r. 0),
     response_get1_basic = (\<lambda>r. None), response_create = (\<lambda>b. None), basic_verify = (\<lambda>b i t. 1),
     single_responses = map Some,
     resp_find = (\<lambda>b i. case b of [] \<Rightarrow> -1 | x # xs \<Rightarrow> if sr_id x = Some i then 0 else -1),
     id_cmp = (\<lambda>a b. if a = b then 0 else 1), cert_to_id = (\<lambda>s i. Some (10 * s + i)),
     i2d_certid = (\<lambda>i. Some (replicate i CHR ''x'')), request_payload = (\<lambda>i. Some ''req''), check_nonce = (\<lambda>p b. 1)\<rparr>"

definition demo_raw :: "nat single_resp list raw_client" where
  "demo_raw = \<lparr>rc_responses = [[\<lparr>sr_id = Some 12, sr_status = 0, sr_reason = -1, sr_thisupd = Time 1000,
     sr_nextupd = Time 9000\<rparr>]], rc_verification_time = 2000\<rparr>"

lemma demo_finds_match: "finds_match demo_ocsp"
  by (auto simp: finds_match_def demo_ocsp_def id_matches_def split: list.splits if_splits)

theorem raw_status_proof_sound_witness:
  "\<exists>r. raw_get_ocsp_response demo_ocsp demo_raw 1 2 [] 3 = Inr r
     \<and> rc_verification_time demo_raw < or_status_deadline r"
proof -
  have "\<exists>r. raw_get_ocsp_response demo_ocsp demo_raw 1 2 [] 3 = Inr r"
    by (simp add: raw_get_ocsp_response_def demo_ocsp_def demo_raw_def count_single_responses_def id_matches_def
        ocsp_verify_signature_def get_single_status_def asn1_time_to_unix_def ocsp_limits ret_def)
  then show ?thesis using raw_status_proof_sound [OF demo_finds_match] by blast
qed

text \<open>The inner client returned the response for a certificate with this cache key.\<close>

definition obtained ::
  "('c, 'r, 'b, 'i) ocsp_api \<Rightarrow> ('c \<Rightarrow> 'c \<Rightarrow> 'c list \<Rightarrow> 'c \<Rightarrow> ocsp_response outcome) \<Rightarrow> string \<Rightarrow> ocsp_response \<Rightarrow> bool" where
  "obtained api inner key r \<longleftrightarrow>
     (\<exists>subj iss ints ts. get_cache_key api subj iss = Inr key \<and> inner subj iss ints ts = Inr r)"


lemma all_cached_new: "unat (fst p) < 2 ^ 63 \<Longrightarrow> all_cached cache_inv contents P (new_cache (Some p))"
  using cache_inv_new [of p] by (cases p) (simp add: all_cached_def contents_def new_cache_def)


end
