(* ===== verification/X509_Chain.thy ===== *)
theory X509_Chain
  imports Ocsp
begin

text \<open>
  Certificate chains (\<^verbatim>\<open>src/nv_x509.cpp\<close>): reading a PEM chain, verifying it, the OCSP claims over the
  verified path, signatures by the leaf and the values read from certificates.  OpenSSL is the
  record \<open>x509_api\<close>; a certificate is an element of an abstract type and a trust store is the anchor
  it was created from.
\<close>

section \<open>OpenSSL and the chain\<close>

text \<open>
  The outcomes of \<^verbatim>\<open>X509_verify_cert\<close>: the context could not be set up, verification failed, it
  succeeded without a path, or with the path it built.
\<close>

datatype 'c path_result = SetupFailed | VerifyFailed | NoPath | VerifiedPath "'c list"

text \<open>An extension: absent, present without usable data, or its bytes.\<close>

datatype extension = NoExtension | NoExtensionData | ExtensionData buffer

record 'c x509_api =
  pem_read_x509 :: "string \<Rightarrow> 'c option"
  store_new :: "'c \<Rightarrow> bool"
  verify_cert :: "'c \<Rightarrow> 'c \<Rightarrow> 'c list \<Rightarrow> 'c path_result"
  same_cert :: "'c \<Rightarrow> 'c \<Rightarrow> bool"
  not_after :: "'c \<Rightarrow> int option"
  digest_verify :: "'c \<Rightarrow> string \<Rightarrow> buffer \<Rightarrow> buffer \<Rightarrow> int"
  ecdsa_sig_der :: "buffer \<Rightarrow> buffer \<Rightarrow> buffer option"
  get_extension :: "'c \<Rightarrow> string \<Rightarrow> extension"
  sequence_any :: "buffer \<Rightarrow> buffer option list option"
  common_name :: "'c \<Rightarrow> string option"
  serial_decimal :: "'c \<Rightarrow> string option"

datatype chain_type = GPU_DEVICE_IDENTITY | GPU_VBIOS_RIM | GPU_DRIVER_RIM | NVSWITCH_DEVICE_IDENTITY
  | NVSWITCH_VBIOS_RIM

record 'c cert_chain =
  xc_certs :: "'c list"
  xc_type :: chain_type
  xc_trust_store :: "'c option"

definition create_trust_store :: "'c x509_api \<Rightarrow> 'c \<Rightarrow> 'c option" where
  "create_trust_store api anchor = (if store_new api anchor then Some anchor else None)"

definition chain_create :: "'c x509_api \<Rightarrow> chain_type \<Rightarrow> string \<Rightarrow> 'c cert_chain outcome" where
  "chain_create api ty root_cert_str =
     (case pem_read_x509 api root_cert_str of
        None \<Rightarrow> fail InternalError
      | Some root \<Rightarrow>
          (case create_trust_store api root of
             None \<Rightarrow> fail InternalError
           | Some ts \<Rightarrow> ret \<lparr>xc_certs = [], xc_type = ty, xc_trust_store = Some ts\<rparr>))"

definition set_root_cert :: "'c x509_api \<Rightarrow> 'c cert_chain \<Rightarrow> 'c option \<Rightarrow> 'c cert_chain outcome" where
  "set_root_cert api chain root =
     (case root of
        None \<Rightarrow> fail InternalError
      | Some r \<Rightarrow>
          (case create_trust_store api r of
             None \<Rightarrow> fail InternalError
           | Some ts \<Rightarrow> ret (chain\<lparr>xc_trust_store := Some ts\<rparr>)))"

definition chain_push_back :: "'c x509_api \<Rightarrow> 'c cert_chain \<Rightarrow> string \<Rightarrow> 'c cert_chain outcome" where
  "chain_push_back api chain cert_string =
     (case pem_read_x509 api cert_string of
        None \<Rightarrow> fail InternalError
      | Some c \<Rightarrow> ret (chain\<lparr>xc_certs := xc_certs chain @ [c]\<rparr>))"

section \<open>Reading a PEM chain\<close>

text \<open>\<^verbatim>\<open>std::string::find\<close>: the index of the first occurrence.\<close>

fun find_sub :: "string \<Rightarrow> string \<Rightarrow> nat option" where
  "find_sub pat s =
     (if take (length pat) s = pat then Some 0
      else case s of [] \<Rightarrow> None | c # cs \<Rightarrow> map_option Suc (find_sub pat cs))"

declare find_sub.simps [simp del]

definition END_CERTIFICATE :: string where "END_CERTIFICATE = ''-----END CERTIFICATE-----''"

definition is_newline :: "char \<Rightarrow> bool" where
  "is_newline c \<longleftrightarrow> of_char c = (10 :: nat) \<or> of_char c = (13 :: nat)"

lemma find_sub_bound: "find_sub pat s = Some e \<Longrightarrow> e + length pat \<le> length s"
proof (induction s arbitrary: e)
  case Nil
  then show ?case by (auto simp: find_sub.simps [of pat] split: if_splits)
next
  case (Cons c cs)
  then show ?case
    by (auto simp: find_sub.simps [of pat "c # cs"] split: if_splits)
      (metis length_Cons length_take min.absorb_iff2 nat_le_linear take_all)
qed

text \<open>The loop of \<^verbatim>\<open>create_from_cert_chain_str\<close>; the rest of the string replaces the start offset.\<close>

function pem_loop :: "'c x509_api \<Rightarrow> string \<Rightarrow> 'c cert_chain \<Rightarrow> 'c cert_chain outcome" where
  "pem_loop api s chain =
     (case find_sub END_CERTIFICATE s of
        None \<Rightarrow> ret chain
      | Some e \<Rightarrow>
          let n = e + length END_CERTIFICATE in
          (case chain_push_back api chain (take n s) of
             Inl f \<Rightarrow> fail InternalError
           | Inr chain' \<Rightarrow> pem_loop api (dropWhile is_newline (drop n s)) chain'))"
  by pat_completeness auto

termination
proof (relation "measure (\<lambda>(api, s, chain). length s)", goal_cases)
  case (2 api s chain e n chain')
  have "length (dropWhile is_newline (drop n s)) \<le> length (drop n s)" by (rule length_dropWhile_le)
  moreover have "0 < n" "n \<le> length s"
    using 2(1,2) find_sub_bound [OF 2(1)] by (auto simp: END_CERTIFICATE_def)
  ultimately show ?case by auto
qed simp

declare pem_loop.simps [simp del]

text \<open>The type argument is not used: the chain is always created as a GPU device identity.\<close>

definition create_from_cert_chain_str ::
  "'c x509_api \<Rightarrow> chain_type \<Rightarrow> string \<Rightarrow> string \<Rightarrow> 'c cert_chain outcome" where
  "create_from_cert_chain_str api ty root_cert_str cert_chain =
     guard InternalError (cert_chain \<noteq> [])
     (bind (chain_create api GPU_DEVICE_IDENTITY root_cert_str) (\<lambda>chain.
      bind (pem_loop api cert_chain chain) (\<lambda>chain.
      guard InternalError (xc_certs chain \<noteq> []) (ret chain))))"

section \<open>Verification\<close>

definition verify_signature ::
  "'c x509_api \<Rightarrow> 'c cert_chain \<Rightarrow> buffer \<Rightarrow> buffer \<Rightarrow> string \<Rightarrow> unit outcome" where
  "verify_signature api chain data sig md =
     (case xc_certs chain of
        [] \<Rightarrow> fail InternalError
      | leaf # _ \<Rightarrow> if digest_verify api leaf md data sig = 1 then ret () else fail InternalError)"

definition verify_signature_pkcs11 ::
  "'c x509_api \<Rightarrow> 'c cert_chain \<Rightarrow> buffer \<Rightarrow> buffer \<Rightarrow> string \<Rightarrow> unit outcome" where
  "verify_signature_pkcs11 api chain data sig md =
     guard InternalError (length sig mod 2 = 0)
     (let n = length sig div 2 in
      case ecdsa_sig_der api (take n sig) (drop n sig) of
        None \<Rightarrow> fail InternalError
      | Some der \<Rightarrow> verify_signature api chain data der md)"

definition chain_verify :: "'c x509_api \<Rightarrow> 'c cert_chain \<Rightarrow> 'c list outcome" where
  "chain_verify api chain =
     (case xc_certs chain of
        [] \<Rightarrow> fail InternalError
      | leaf # rest \<Rightarrow>
      (case xc_trust_store chain of
        None \<Rightarrow> fail InternalError
      | Some ts \<Rightarrow>
      (case verify_cert api ts leaf rest of
        SetupFailed \<Rightarrow> fail InternalError
      | VerifyFailed \<Rightarrow> fail CertChainVerificationFailure
      | NoPath \<Rightarrow> fail CertChainVerificationFailure
      | VerifiedPath path \<Rightarrow>
          guard CertChainVerificationFailure (length path = length (xc_certs chain))
          (guard CertChainVerificationFailure (list_all2 (same_cert api) path (xc_certs chain)) (ret path)))))"

section \<open>Expiration\<close>

text \<open>\<^verbatim>\<open>std::numeric_limits<time_t>::max()\<close>.\<close>

definition TIME_MAX :: int where "TIME_MAX = 2 ^ 63 - 1"

fun min_expiration_loop :: "'c x509_api \<Rightarrow> 'c list \<Rightarrow> int \<Rightarrow> bool \<Rightarrow> (int \<times> bool) outcome" where
  "min_expiration_loop api [] m found = ret (m, found)"
| "min_expiration_loop api (c # cs) m found =
     (case not_after api c of
        None \<Rightarrow> fail InternalError
      | Some t \<Rightarrow> if t < m then min_expiration_loop api cs t True else min_expiration_loop api cs m found)"

definition calculate_min_expiration_time :: "'c x509_api \<Rightarrow> 'c cert_chain \<Rightarrow> int outcome" where
  "calculate_min_expiration_time api chain =
     guard InternalError (xc_certs chain \<noteq> [])
     (bind (min_expiration_loop api (xc_certs chain) TIME_MAX False) (\<lambda>(m, found).
      guard InternalError found (ret m)))"

text \<open>
  \<^verbatim>\<open>gmtime_r\<close> and \<^verbatim>\<open>strftime\<close> with the format \<^verbatim>\<open>%Y-%m-%dT%H:%M:%SZ\<close>, for years of the proleptic
  Gregorian calendar.
\<close>

definition civil_from_days :: "int \<Rightarrow> int \<times> int \<times> int" where
  "civil_from_days days =
     (let z = days + 719468; era = z div 146097; doe = z mod 146097;
          yoe = (doe - doe div 1460 + doe div 36524 - doe div 146096) div 365;
          doy = doe - (365 * yoe + yoe div 4 - yoe div 100);
          mp = (5 * doy + 2) div 153;
          d = doy - (153 * mp + 2) div 5 + 1;
          m = (if mp < 10 then mp + 3 else mp - 9);
          y = yoe + era * 400 + (if m \<le> 2 then 1 else 0)
      in (y, m, d))"

definition pad :: "nat \<Rightarrow> int \<Rightarrow> string" where
  "pad n v = (let s = to_string (nat v) in replicate (n - length s) CHR ''0'' @ s)"

definition iso8601 :: "int \<Rightarrow> string" where
  "iso8601 t =
     (case civil_from_days (t div 86400) of (y, m, d) \<Rightarrow>
      let s = t mod 86400 in
      to_string (nat y) @ ''-'' @ pad 2 m @ ''-'' @ pad 2 d @ ''T'' @ pad 2 (s div 3600) @ '':''
      @ pad 2 (s div 60 mod 60) @ '':'' @ pad 2 (s mod 60) @ ''Z'')"

section \<open>OCSP claims of a chain\<close>

datatype ocsp_status = OCSP_UNDEFINED | OCSP_GOOD | OCSP_REVOKED | OCSP_UNKNOWN

record ocsp_claims =
  oc_status :: ocsp_status
  oc_revocation_reason :: "string option"
  oc_nonce_matches :: bool
  oc_resp_expiration_time :: int
  oc_response_valid :: bool
  oc_signed_age :: bool
  oc_verification_time :: int
  oc_status_deadline :: int
  oc_oldest_this_update :: int
  oc_covered_certificates :: nat

definition new_ocsp_claims :: ocsp_claims where
  "new_ocsp_claims = \<lparr>oc_status = OCSP_UNDEFINED, oc_revocation_reason = None, oc_nonce_matches = False,
     oc_resp_expiration_time = 0, oc_response_valid = False, oc_signed_age = False, oc_verification_time = 0,
     oc_status_deadline = 0, oc_oldest_this_update = 0, oc_covered_certificates = 0\<rparr>"

definition map_status :: "int \<Rightarrow> ocsp_status" where
  "map_status st = (if st = 1 then OCSP_REVOKED else if st = 0 then OCSP_GOOD
     else if st = 2 then OCSP_UNKNOWN else OCSP_UNDEFINED)"

text \<open>
  The body of the loop for one response: \<open>init\<close> is \<^verbatim>\<open>claims_initialized\<close>, \<open>reason_str\<close> stands for
  \<^verbatim>\<open>OCSP_crl_reason_str\<close>.
\<close>

definition merge_status :: "(int \<Rightarrow> string) \<Rightarrow> bool \<Rightarrow> ocsp_response \<Rightarrow> ocsp_claims \<Rightarrow> ocsp_claims" where
  "merge_status reason_str init resp c =
     (let st = map_status (or_status resp) in
      if \<not> init then c\<lparr>oc_status := st\<rparr>
      else if oc_status c = OCSP_GOOD then
        (if st = OCSP_REVOKED
         then c\<lparr>oc_revocation_reason := Some (reason_str (or_reason resp)), oc_status := st\<rparr>
         else c\<lparr>oc_status := st\<rparr>)
      else c)"

definition merge_signed_age :: "bool \<Rightarrow> ocsp_response \<Rightarrow> ocsp_claims \<Rightarrow> ocsp_claims outcome" where
  "merge_signed_age init resp c =
     guard OcspInvalidResponse (\<not> (init \<and> oc_signed_age c \<noteq> or_signed_age resp))
     (let c = c\<lparr>oc_signed_age := or_signed_age resp\<rparr> in
      if \<not> or_signed_age resp then ret c
      else guard OcspInvalidResponse (\<not> or_nonce_matches resp)
      (if \<not> init then
         ret (c\<lparr>oc_verification_time := or_verification_time resp,
               oc_status_deadline := or_status_deadline resp,
               oc_oldest_this_update := or_thisupd resp\<rparr>)
       else guard OcspInvalidResponse (oc_verification_time c = or_verification_time resp)
       (ret (c\<lparr>oc_status_deadline := min (oc_status_deadline c) (or_status_deadline resp),
              oc_oldest_this_update := min (oc_oldest_this_update c) (or_thisupd resp)\<rparr>))))"

definition ocsp_step :: "(int \<Rightarrow> string) \<Rightarrow> bool \<Rightarrow> ocsp_response \<Rightarrow> ocsp_claims \<Rightarrow> ocsp_claims outcome" where
  "ocsp_step reason_str init resp c =
     (let c = c\<lparr>oc_response_valid := (if init then oc_response_valid c \<and> or_response_valid resp
                                     else or_response_valid resp)\<rparr>;
          c = c\<lparr>oc_nonce_matches := (if init then oc_nonce_matches c \<and> or_nonce_matches resp
                                    else or_nonce_matches resp)\<rparr>;
          c = merge_status reason_str init resp c
      in bind (merge_signed_age init resp c) (\<lambda>c.
         let c = c\<lparr>oc_covered_certificates := oc_covered_certificates c + 1\<rparr> in
         ret (if oc_resp_expiration_time c = 0 \<or> or_nextupd resp < oc_resp_expiration_time c
              then c\<lparr>oc_resp_expiration_time := or_nextupd resp\<rparr> else c)))"

text \<open>
  The loop runs from the certificate below the root down to \<open>start\<close>; \<open>n\<close> is how many certificates
  are left, so the subject is at \<open>start + n - 1\<close> and its issuer one above.
\<close>

fun ocsp_loop ::
  "('s \<Rightarrow> 'c \<Rightarrow> 'c \<Rightarrow> 'c list \<Rightarrow> 'c \<Rightarrow> ocsp_response outcome \<times> 's) \<Rightarrow> (int \<Rightarrow> string) \<Rightarrow> 'c list \<Rightarrow> 'c \<Rightarrow> nat
    \<Rightarrow> nat \<Rightarrow> 'c list \<Rightarrow> bool \<Rightarrow> ocsp_claims \<Rightarrow> 's \<Rightarrow> ocsp_claims outcome \<times> 's" where
  "ocsp_loop get_response reason_str path ts start 0 intermediates init c s = (ret c, s)"
| "ocsp_loop get_response reason_str path ts start (Suc n) intermediates init c s =
     (case get_response s (path ! (start + n)) (path ! (start + n + 1)) intermediates ts of
        (Inl f, s) \<Rightarrow> (Inl f, s)
      | (Inr resp, s) \<Rightarrow>
          (case ocsp_step reason_str init resp c of
             Inl f \<Rightarrow> (Inl f, s)
           | Inr c \<Rightarrow> ocsp_loop get_response reason_str path ts start n (path ! (start + n) # intermediates) True c s))"

definition ocsp_start_index :: "chain_type \<Rightarrow> nat" where
  "ocsp_start_index ty = (if ty = GPU_DEVICE_IDENTITY \<or> ty = NVSWITCH_DEVICE_IDENTITY then 1 else 0)"

definition generate_ocsp_claims_for_path ::
  "('s \<Rightarrow> 'c \<Rightarrow> 'c \<Rightarrow> 'c list \<Rightarrow> 'c \<Rightarrow> ocsp_response outcome \<times> 's) \<Rightarrow> (int \<Rightarrow> string) \<Rightarrow> 'c cert_chain \<Rightarrow> 'c list
    \<Rightarrow> 's \<Rightarrow> ocsp_claims outcome \<times> 's" where
  "generate_ocsp_claims_for_path get_response reason_str chain path s =
     (case xc_trust_store chain of
        None \<Rightarrow> (fail InternalError, s)
      | Some ts \<Rightarrow>
          let start = ocsp_start_index (xc_type chain) in
          ocsp_loop get_response reason_str path ts start (length path - 1 - start) [] False new_ocsp_claims s)"

definition generate_ocsp_claims ::
  "'c x509_api \<Rightarrow> ('s \<Rightarrow> 'c \<Rightarrow> 'c \<Rightarrow> 'c list \<Rightarrow> 'c \<Rightarrow> ocsp_response outcome \<times> 's) \<Rightarrow> (int \<Rightarrow> string) \<Rightarrow> 'c cert_chain
    \<Rightarrow> 's \<Rightarrow> ocsp_claims outcome \<times> 's" where
  "generate_ocsp_claims api get_response reason_str chain s =
     (case chain_verify api chain of
        Inl f \<Rightarrow> (Inl f, s)
      | Inr path \<Rightarrow> generate_ocsp_claims_for_path get_response reason_str chain path s)"

section \<open>Chain claims\<close>

datatype chain_status = CERT_VALID | CERT_INVALID | CERT_REVOKED | CERT_EXPIRED

record cert_chain_claims =
  cc_expiration_date :: string
  cc_status :: chain_status
  cc_ocsp_claims :: ocsp_claims

definition generate_cert_chain_claims ::
  "'c x509_api \<Rightarrow> ('s \<Rightarrow> 'c \<Rightarrow> 'c \<Rightarrow> 'c list \<Rightarrow> 'c \<Rightarrow> ocsp_response outcome \<times> 's) \<Rightarrow> (int \<Rightarrow> string) \<Rightarrow> int
    \<Rightarrow> 'c cert_chain \<Rightarrow> 's \<Rightarrow> cert_chain_claims outcome \<times> 's" where
  "generate_cert_chain_claims api get_response reason_str now chain s =
     (case calculate_min_expiration_time api chain of
        Inl f \<Rightarrow> (Inl f, s)
      | Inr min_expiration_time \<Rightarrow>
      (case chain_verify api chain of
        Inl f \<Rightarrow> (Inl f, s)
      | Inr path \<Rightarrow>
      (case generate_ocsp_claims_for_path get_response reason_str chain path s of
        (Inl f, s) \<Rightarrow> (Inl f, s)
      | (Inr oc, s) \<Rightarrow>
          (ret \<lparr>cc_expiration_date = iso8601 min_expiration_time,
                cc_status = (if min_expiration_time < now then CERT_EXPIRED else CERT_VALID),
                cc_ocsp_claims = oc\<rparr>, s))))"

section \<open>Values read from certificates\<close>

datatype fwid_type = FWID_2_23_133_5_4_1 | FWID_2_23_133_5_4_1_1

definition fwid_oid :: "fwid_type \<Rightarrow> string" where
  "fwid_oid t = (case t of FWID_2_23_133_5_4_1 \<Rightarrow> ''2.23.133.5.4.1'' | FWID_2_23_133_5_4_1_1 \<Rightarrow> ''2.23.133.5.4.1.1'')"

definition FWID_HASH_LENGTH :: nat where "FWID_HASH_LENGTH = 48"

text \<open>
  The loop over the list of firmware identifiers.  The offset is an \<^verbatim>\<open>int\<close>; every iteration advances
  it by at least 6, so the budget of one iteration per byte is never exhausted, and it stays far
  below the range of \<^verbatim>\<open>int\<close> for lists that OpenSSL can represent.
\<close>

fun fwid_loop :: "nat \<Rightarrow> buffer \<Rightarrow> nat \<Rightarrow> buffer list \<Rightarrow> (nat \<times> buffer list) outcome" where
  "fwid_loop 0 d offset acc = Inl Diverge"
| "fwid_loop (Suc fuel) d offset acc =
     (if offset < length d then
        let offset = offset + 3 in
        guard InternalError (offset + 1 \<le> length d)
        (bind (char_at d offset) (\<lambda>hash_alg_len.
         let offset = offset + 1 + unat hash_alg_len + 1 in
         guard InternalError (offset + 1 \<le> length d)
         (bind (char_at d offset) (\<lambda>fwid_len.
          let offset = offset + 1 in
          guard InternalError (offset + unat fwid_len \<le> length d)
          (fwid_loop fuel d (offset + unat fwid_len) (acc @ [take (unat fwid_len) (drop offset d)]))))))
      else ret (offset, acc))"

definition get_fwid_2_23_133_5_4_1_1 :: "'c x509_api \<Rightarrow> buffer \<Rightarrow> buffer outcome" where
  "get_fwid_2_23_133_5_4_1_1 api extension_data =
     (case sequence_any api extension_data of
        None \<Rightarrow> fail InternalError
      | Some seq \<Rightarrow>
          guard InternalError (\<not> length seq \<le> 6)
          (case seq ! 6 of
             None \<Rightarrow> fail InternalError
           | Some d \<Rightarrow>
               bind (fwid_loop (Suc (length d)) d 2 []) (\<lambda>(offset, fwid_list).
               guard InternalError (offset = length d)
               (case fwid_list of [] \<Rightarrow> fail InternalError | f # _ \<Rightarrow> ret f))))"

definition get_fwid :: "'c x509_api \<Rightarrow> 'c cert_chain \<Rightarrow> nat \<Rightarrow> fwid_type \<Rightarrow> buffer outcome" where
  "get_fwid api chain cert_index ty =
     (if length (xc_certs chain) \<le> cert_index then fail CertNotFound
      else case get_extension api (xc_certs chain ! cert_index) (fwid_oid ty) of
        NoExtension \<Rightarrow> fail CertFwidNotFound
      | NoExtensionData \<Rightarrow> fail InternalError
      | ExtensionData d \<Rightarrow>
          guard InternalError (\<not> length d \<le> 0)
          (guard InternalError (\<not> length d < FWID_HASH_LENGTH)
          (case ty of
             FWID_2_23_133_5_4_1 \<Rightarrow> ret (drop (length d - FWID_HASH_LENGTH) d)
           | FWID_2_23_133_5_4_1_1 \<Rightarrow> get_fwid_2_23_133_5_4_1_1 api d)))"

definition get_hwmodel :: "'c x509_api \<Rightarrow> 'c cert_chain \<Rightarrow> string outcome" where
  "get_hwmodel api chain =
     (if length (xc_certs chain) < 2 then fail CertNotFound
      else case common_name api (xc_certs chain ! 1) of
        None \<Rightarrow> fail InternalError
      | Some cn \<Rightarrow> if cn = [] then fail InternalError else ret cn)"

definition get_ueid :: "'c x509_api \<Rightarrow> 'c cert_chain \<Rightarrow> string outcome" where
  "get_ueid api chain =
     (case xc_certs chain of
        [] \<Rightarrow> fail CertNotFound
      | c # _ \<Rightarrow> (case serial_decimal api c of None \<Rightarrow> fail InternalError | Some d \<Rightarrow> ret d))"

section \<open>Verified paths\<close>

lemma chain_verify_ok:
  "chain_verify api chain = Inr path \<longleftrightarrow>
     (\<exists>leaf rest ts. xc_certs chain = leaf # rest \<and> xc_trust_store chain = Some ts
        \<and> verify_cert api ts leaf rest = VerifiedPath path
        \<and> list_all2 (same_cert api) path (xc_certs chain))"
  by (auto simp: chain_verify_def outcome_simps dest: list_all2_lengthD
      split: list.splits option.splits path_result.splits)

section \<open>The fold over the responses\<close>

fun ocsp_steps :: "(int \<Rightarrow> string) \<Rightarrow> bool \<Rightarrow> ocsp_response list \<Rightarrow> ocsp_claims \<Rightarrow> ocsp_claims outcome" where
  "ocsp_steps reason_str init [] c = ret c"
| "ocsp_steps reason_str init (r # rs) c =
     bind (ocsp_step reason_str init r c) (\<lambda>c. ocsp_steps reason_str True rs c)"

lemma ocsp_steps_snoc:
  "ocsp_steps reason_str init (rs @ [r]) c =
     bind (ocsp_steps reason_str init rs c) (\<lambda>c. ocsp_step reason_str (init \<or> rs \<noteq> []) r c)"
proof (induction rs arbitrary: init c)
  case Nil
  show ?case by (cases "ocsp_step reason_str init r c") (simp_all add: ret_def)
next
  case (Cons x rs)
  then show ?case by (cases "ocsp_step reason_str init x c") simp_all
qed

text \<open>
  The certificates are asked about from the top down: \<open>answers\<close> relates the states of the client
  and the responses it gave for \<open>n\<close> certificates.
\<close>

inductive answers ::
  "('s \<Rightarrow> 'c \<Rightarrow> 'c \<Rightarrow> 'c list \<Rightarrow> 'c \<Rightarrow> ocsp_response outcome \<times> 's) \<Rightarrow> 'c list \<Rightarrow> 'c \<Rightarrow> nat
    \<Rightarrow> nat \<Rightarrow> 'c list \<Rightarrow> 's \<Rightarrow> ocsp_response list \<Rightarrow> 's \<Rightarrow> bool"
  for get_response path ts start where
  none: "answers get_response path ts start 0 intermediates s [] s"
| more: "get_response s (path ! (start + n)) (path ! (start + n + 1)) intermediates ts = (Inr r, s1) \<Longrightarrow>
    answers get_response path ts start n (path ! (start + n) # intermediates) s1 rs s2 \<Longrightarrow>
    answers get_response path ts start (Suc n) intermediates s (r # rs) s2"

inductive_cases answers_SucE: "answers get_response path ts start (Suc n) intermediates s rs s2"

lemma answers_length: "answers get_response path ts start n ints s rs s' \<Longrightarrow> length rs = n"
  by (induction rule: answers.induct) auto

lemma ocsp_loop_answers:
  assumes "ocsp_loop get_response reason_str path ts start n ints init c s = (Inr c', s')"
  shows "\<exists>rs. answers get_response path ts start n ints s rs s' \<and> ocsp_steps reason_str init rs c = Inr c'"
  using assms
proof (induction n arbitrary: ints init c s)
  case 0
  then show ?case by (auto simp: outcome_simps intro: answers.none)
next
  case (Suc n)
  then obtain r s1 c1 where "get_response s (path ! (start + n)) (path ! (start + n + 1)) ints ts = (Inr r, s1)"
    "ocsp_step reason_str init r c = Inr c1"
    "ocsp_loop get_response reason_str path ts start n (path ! (start + n) # ints) True c1 s1 = (Inr c', s')"
    by (auto split: prod.splits sum.splits)
  then show ?case using Suc.IH by (fastforce intro: answers.more)
qed

text \<open>What the aggregated claims say about the responses they were made from.\<close>

definition summarises :: "ocsp_response list \<Rightarrow> ocsp_claims \<Rightarrow> bool" where
  "summarises rs c \<longleftrightarrow> oc_covered_certificates c = length rs \<and>
     (if rs = [] then c = new_ocsp_claims
      else (oc_status c = OCSP_GOOD \<longleftrightarrow> (\<forall>r \<in> set rs. or_status r = 0))
        \<and> (oc_nonce_matches c \<longleftrightarrow> (\<forall>r \<in> set rs. or_nonce_matches r))
        \<and> (oc_response_valid c \<longleftrightarrow> (\<forall>r \<in> set rs. or_response_valid r))
        \<and> (\<forall>r \<in> set rs. or_signed_age r = oc_signed_age c)
        \<and> (oc_signed_age c \<longrightarrow> (\<forall>r \<in> set rs. \<not> or_nonce_matches r
              \<and> or_verification_time r = oc_verification_time c \<and> oc_status_deadline c \<le> or_status_deadline r
              \<and> oc_oldest_this_update c \<le> or_thisupd r)))"

lemma map_status_good: "map_status st = OCSP_GOOD \<longleftrightarrow> st = 0"
  by (simp add: map_status_def)

lemma merge_status_fields [simp]:
  "oc_nonce_matches (merge_status f i r c) = oc_nonce_matches c"
  "oc_response_valid (merge_status f i r c) = oc_response_valid c"
  "oc_signed_age (merge_status f i r c) = oc_signed_age c"
  "oc_verification_time (merge_status f i r c) = oc_verification_time c"
  "oc_status_deadline (merge_status f i r c) = oc_status_deadline c"
  "oc_oldest_this_update (merge_status f i r c) = oc_oldest_this_update c"
  "oc_covered_certificates (merge_status f i r c) = oc_covered_certificates c"
  "oc_resp_expiration_time (merge_status f i r c) = oc_resp_expiration_time c"
  by (simp_all add: merge_status_def Let_def)

lemma merge_status_status:
  "oc_status (merge_status f i r c) = OCSP_GOOD \<longleftrightarrow> (i \<longrightarrow> oc_status c = OCSP_GOOD) \<and> or_status r = 0"
  by (auto simp: merge_status_def Let_def map_status_def)

lemma merge_signed_age_ok:
  assumes "merge_signed_age i r c = Inr c'"
  shows "oc_status c' = oc_status c" "oc_nonce_matches c' = oc_nonce_matches c"
    "oc_response_valid c' = oc_response_valid c" "oc_covered_certificates c' = oc_covered_certificates c"
    "oc_signed_age c' = or_signed_age r" "i \<Longrightarrow> oc_signed_age c = or_signed_age r"
    "or_signed_age r \<Longrightarrow> \<not> or_nonce_matches r \<and> or_verification_time r = oc_verification_time c'
       \<and> oc_status_deadline c' = (if i then min (oc_status_deadline c) (or_status_deadline r) else or_status_deadline r)
       \<and> oc_oldest_this_update c' = (if i then min (oc_oldest_this_update c) (or_thisupd r) else or_thisupd r)
       \<and> (i \<longrightarrow> oc_verification_time c = oc_verification_time c')"
  using assms by (auto simp: merge_signed_age_def guard_eq_Inr ret_eq Let_def split: if_splits)

lemma ocsp_step_ok:
  assumes "ocsp_step f i r c = Inr c'"
  shows "oc_status c' = OCSP_GOOD \<longleftrightarrow> (i \<longrightarrow> oc_status c = OCSP_GOOD) \<and> or_status r = 0"
    and "oc_nonce_matches c' \<longleftrightarrow> (i \<longrightarrow> oc_nonce_matches c) \<and> or_nonce_matches r"
    and "oc_response_valid c' \<longleftrightarrow> (i \<longrightarrow> oc_response_valid c) \<and> or_response_valid r"
    and "oc_covered_certificates c' = oc_covered_certificates c + 1"
    and "oc_signed_age c' = or_signed_age r" and "i \<Longrightarrow> oc_signed_age c = or_signed_age r"
    and "or_signed_age r \<Longrightarrow> \<not> or_nonce_matches r \<and> or_verification_time r = oc_verification_time c'
       \<and> oc_status_deadline c' = (if i then min (oc_status_deadline c) (or_status_deadline r) else or_status_deadline r)
       \<and> oc_oldest_this_update c' = (if i then min (oc_oldest_this_update c) (or_thisupd r) else or_thisupd r)
       \<and> (i \<longrightarrow> oc_verification_time c = oc_verification_time c')"
proof -
  let ?c0 = "c\<lparr>oc_response_valid := (if i then oc_response_valid c \<and> or_response_valid r else or_response_valid r)\<rparr>"
  let ?c = "merge_status f i r
    (?c0\<lparr>oc_nonce_matches := (if i then oc_nonce_matches ?c0 \<and> or_nonce_matches r else or_nonce_matches r)\<rparr>)"
  obtain c1 where c1: "merge_signed_age i r ?c = Inr c1"
    and c': "c' = (let c = c1\<lparr>oc_covered_certificates := oc_covered_certificates c1 + 1\<rparr> in
      if oc_resp_expiration_time c = 0 \<or> or_nextupd r < oc_resp_expiration_time c
      then c\<lparr>oc_resp_expiration_time := or_nextupd r\<rparr> else c)"
    using assms unfolding ocsp_step_def Let_def bind_eq_Inr ret_eq by metis
  note m = merge_signed_age_ok [OF c1]
  show "oc_status c' = OCSP_GOOD \<longleftrightarrow> (i \<longrightarrow> oc_status c = OCSP_GOOD) \<and> or_status r = 0"
    using m(1) by (simp add: c' Let_def merge_status_status)
  show "oc_nonce_matches c' \<longleftrightarrow> (i \<longrightarrow> oc_nonce_matches c) \<and> or_nonce_matches r"
    using m(2) by (simp add: c' Let_def)
  show "oc_response_valid c' \<longleftrightarrow> (i \<longrightarrow> oc_response_valid c) \<and> or_response_valid r"
    using m(3) by (simp add: c' Let_def)
  show "oc_covered_certificates c' = oc_covered_certificates c + 1"
    using m(4) by (simp add: c' Let_def)
  show "oc_signed_age c' = or_signed_age r" using m(5) by (simp add: c' Let_def)
  show "i \<Longrightarrow> oc_signed_age c = or_signed_age r" using m(6) by simp
  show "or_signed_age r \<Longrightarrow> \<not> or_nonce_matches r \<and> or_verification_time r = oc_verification_time c'
       \<and> oc_status_deadline c' = (if i then min (oc_status_deadline c) (or_status_deadline r) else or_status_deadline r)
       \<and> oc_oldest_this_update c' = (if i then min (oc_oldest_this_update c) (or_thisupd r) else or_thisupd r)
       \<and> (i \<longrightarrow> oc_verification_time c = oc_verification_time c')"
    using m(7) by (simp add: c' Let_def)
qed

lemma ocsp_steps_summarise:
  "ocsp_steps f False rs new_ocsp_claims = Inr c \<Longrightarrow> summarises rs c"
proof (induction rs arbitrary: c rule: rev_induct)
  case Nil
  then show ?case by (auto simp: summarises_def ret_eq new_ocsp_claims_def)
next
  case (snoc r rs)
  then obtain c1 where c1: "ocsp_steps f False rs new_ocsp_claims = Inr c1"
    and step: "ocsp_step f (rs \<noteq> []) r c1 = Inr c"
    by (auto simp: ocsp_steps_snoc bind_eq_Inr)
  note st = ocsp_step_ok [OF step] and ih = snoc.IH [OF c1]
  show ?case
  proof (cases "rs = []")
    case True
    then show ?thesis using st ih by (auto simp: summarises_def)
  next
    case False
    then have ih': "oc_covered_certificates c1 = length rs"
      "oc_status c1 = OCSP_GOOD \<longleftrightarrow> (\<forall>r \<in> set rs. or_status r = 0)"
      "oc_nonce_matches c1 \<longleftrightarrow> (\<forall>r \<in> set rs. or_nonce_matches r)"
      "oc_response_valid c1 \<longleftrightarrow> (\<forall>r \<in> set rs. or_response_valid r)"
      "\<forall>r \<in> set rs. or_signed_age r = oc_signed_age c1"
      "oc_signed_age c1 \<Longrightarrow> \<forall>r \<in> set rs. \<not> or_nonce_matches r
         \<and> or_verification_time r = oc_verification_time c1 \<and> oc_status_deadline c1 \<le> or_status_deadline r
         \<and> oc_oldest_this_update c1 \<le> or_thisupd r"
      using ih by (simp_all add: summarises_def)
    have same: "or_signed_age r = oc_signed_age c1" using st(6) False by simp
    show ?thesis
    proof (cases "or_signed_age r")
      case True
      have le: "oc_status_deadline c \<le> oc_status_deadline c1" "oc_status_deadline c \<le> or_status_deadline r"
        "oc_oldest_this_update c \<le> oc_oldest_this_update c1" "oc_oldest_this_update c \<le> or_thisupd r"
        and eq: "\<not> or_nonce_matches r" "or_verification_time r = oc_verification_time c"
        "oc_verification_time c1 = oc_verification_time c"
        using st(7) [OF True] False by auto
      have old: "\<not> or_nonce_matches x \<and> or_verification_time x = oc_verification_time c
         \<and> oc_status_deadline c \<le> or_status_deadline x \<and> oc_oldest_this_update c \<le> or_thisupd x"
        if "x \<in> set rs" for x
        using ih'(6) same True that le eq by (metis order_trans)
      show ?thesis
        unfolding summarises_def using st(1-5) ih'(1-5) same True False old le eq by (simp, blast)
    next
      case False
      with same \<open>rs \<noteq> []\<close> show ?thesis
        unfolding summarises_def using st(1-5) ih'(1-5) by (simp, blast)
    qed
  qed
qed

lemma ocsp_claims_for_path_ok:
  assumes "generate_ocsp_claims_for_path get_response reason_str chain path s = (Inr claims, s')"
  shows "\<exists>ts rs. xc_trust_store chain = Some ts
    \<and> answers get_response path ts (ocsp_start_index (xc_type chain))
        (length path - 1 - ocsp_start_index (xc_type chain)) [] s rs s'
    \<and> summarises rs claims"
proof -
  obtain ts where ts: "xc_trust_store chain = Some ts"
    using assms by (cases "xc_trust_store chain") (auto simp: generate_ocsp_claims_for_path_def outcome_simps)
  then have "ocsp_loop get_response reason_str path ts (ocsp_start_index (xc_type chain))
      (length path - 1 - ocsp_start_index (xc_type chain)) [] False new_ocsp_claims s = (Inr claims, s')"
    using assms by (simp add: generate_ocsp_claims_for_path_def Let_def)
  from ocsp_loop_answers [OF this] show ?thesis using ts ocsp_steps_summarise by blast
qed

lemma min_expiration_loop_ok:
  assumes "min_expiration_loop api cs m found = Inr (m', found')"
  shows "m' \<le> m \<and> (\<forall>c \<in> set cs. \<exists>t. not_after api c = Some t \<and> m' \<le> t)
    \<and> (m' = m \<or> (\<exists>c \<in> set cs. not_after api c = Some m')) \<and> (found' \<longrightarrow> found \<or> m' < m)"
  using assms
proof (induction cs arbitrary: m found)
  case Nil
  then show ?case by (auto simp: ret_eq)
next
  case (Cons c cs)
  then obtain t where t: "not_after api c = Some t"
    by (cases "not_after api c") (auto simp: fail_eq)
  show ?case
  proof (cases "t < m")
    case True
    then show ?thesis using Cons.prems t Cons.IH [of t True] by fastforce
  next
    case False
    then show ?thesis using Cons.prems t Cons.IH [of m found] by fastforce
  qed
qed

lemma calculate_min_expiration_time_ok:
  assumes "calculate_min_expiration_time api chain = Inr m"
  shows "(\<forall>c \<in> set (xc_certs chain). \<exists>t. not_after api c = Some t \<and> m \<le> t)
    \<and> (\<exists>c \<in> set (xc_certs chain). not_after api c = Some m)"
proof -
  obtain m' where "min_expiration_loop api (xc_certs chain) TIME_MAX False = Inr (m, True)"
    using assms by (auto simp: calculate_min_expiration_time_def guard_eq_Inr bind_eq_Inr ret_eq)
  from min_expiration_loop_ok [OF this] show ?thesis by auto
qed

section \<open>Properties\<close>


definition good_response :: ocsp_response where
  "good_response = \<lparr>or_thisupd = 1, or_nextupd = 9, or_reason = -1, or_status = 0, or_nonce_matches = True,
     or_response_valid = True, or_signed_age = False, or_verification_time = 0, or_status_deadline = 0\<rparr>"

definition demo_x509 :: "nat x509_api" where
  "demo_x509 = \<lparr>pem_read_x509 = (\<lambda>s. Some (length s)), store_new = (\<lambda>c. True),
     verify_cert = (\<lambda>ts leaf rest. VerifiedPath (leaf # rest)), same_cert = (=), not_after = (\<lambda>c. Some (int c)),
     digest_verify = (\<lambda>c md d s. 1), ecdsa_sig_der = (\<lambda>r s. Some (r @ s)),
     get_extension = (\<lambda>c oid. NoExtension), sequence_any = (\<lambda>d. None),
     common_name = (\<lambda>c. Some ''GH100''), serial_decimal = (\<lambda>c. Some ''1'')\<rparr>"




end
