(* ===== verification/Effects.thy ===== *)
theory Effects
  imports Prelude
begin

text \<open>
  Sequencing of steps that return an outcome and change the state of an object the caller shares
  (an OCSP client, a RIM store, a key store).  A step that fails ends the function it stands in;
  the state keeps what the steps before it did.
\<close>

type_synonym ('s, 'a) step = "'s \<Rightarrow> 'a outcome \<times> 's"

definition sbind :: "('s, 'a) step \<Rightarrow> ('a \<Rightarrow> ('s, 'b) step) \<Rightarrow> ('s, 'b) step" where
  "sbind m k s = (case m s of (Inl f, s') \<Rightarrow> (Inl f, s') | (Inr x, s') \<Rightarrow> k x s')"

text \<open>A step that does not touch the state.\<close>

definition pure :: "'a outcome \<Rightarrow> ('s, 'a) step" where
  "pure m s = (m, s)"

text \<open>A step on one of two independent objects.\<close>

definition on_fst :: "('s, 'a) step \<Rightarrow> ('s \<times> 't, 'a) step" where
  "on_fst m s = (case m (fst s) of (r, a) \<Rightarrow> (r, (a, snd s)))"

definition on_snd :: "('t, 'a) step \<Rightarrow> ('s \<times> 't, 'a) step" where
  "on_snd m s = (case m (snd s) of (r, b) \<Rightarrow> (r, (fst s, b)))"

text \<open>\<^verbatim>\<open>if (!c) return e;\<close> in front of steps.\<close>

definition sguard :: "error \<Rightarrow> bool \<Rightarrow> ('s, 'a) step \<Rightarrow> ('s, 'a) step" where
  "sguard e c m s = (if c then m s else (fail e, s))"

named_theorems step_simps "inversion rules of the step combinators"

lemma sbind_ok [step_simps]:
  "sbind m k s = (Inr y, t) \<longleftrightarrow> (\<exists>x u. m s = (Inr x, u) \<and> k x u = (Inr y, t))"
  by (auto simp: sbind_def split: prod.splits sum.splits)

lemma sbind_step [simp]: "m s = (Inr x, u) \<Longrightarrow> sbind m k s = k x u"
  by (simp add: sbind_def)

lemma sbind_fails: "m s = (Inl f, u) \<Longrightarrow> sbind m k s = (Inl f, u)"
  by (simp add: sbind_def)

lemma pure_ok [step_simps]: "pure m s = (Inr y, t) \<longleftrightarrow> m = Inr y \<and> t = s"
  by (auto simp: pure_def)

lemma pure_bind [simp]: "sbind (pure (Inr x)) k s = k x s" "sbind (pure (ret x)) k s = k x s"
  by (simp_all add: sbind_def pure_def ret_def)

lemma on_fst_ok [step_simps]:
  "on_fst m s = (Inr y, t) \<longleftrightarrow> (\<exists>a. m (fst s) = (Inr y, a) \<and> t = (a, snd s))"
  by (auto simp: on_fst_def split: prod.splits)

lemma on_snd_ok [step_simps]:
  "on_snd m s = (Inr y, t) \<longleftrightarrow> (\<exists>b. m (snd s) = (Inr y, b) \<and> t = (fst s, b))"
  by (auto simp: on_snd_def split: prod.splits)

lemma sguard_ok [step_simps]: "sguard e c m s = (Inr y, t) \<longleftrightarrow> c \<and> m s = (Inr y, t)"
  by (auto simp: sguard_def fail_def)

lemma sguard_holds [simp]: "c \<Longrightarrow> sguard e c m s = m s"
  by (simp add: sguard_def)

end
