(* ===== verification/Json.thy ===== *)
theory Json
  imports Utils Effects
begin

text \<open>
  JSON values as the code uses them (\<^verbatim>\<open>include/nv_attestation/utils.h\<close> and the \<^verbatim>\<open>to_json\<close> and
  \<^verbatim>\<open>from_json\<close> functions): building objects, reading members, and the wrappers that turn the
  exceptions of the JSON library into error codes.  The text form is the library's: its printer
  and its parser are arguments.  Numbers are integers; an object is an association list with
  distinct keys.
\<close>

datatype json = JNull | JBool bool | JInt int | JString string | JArray "json list"
  | JObject "(string \<times> json) list"

section \<open>Reading\<close>

definition json_contains :: "json \<Rightarrow> string \<Rightarrow> bool" where
  "json_contains j k = (case j of JObject m \<Rightarrow> map_of m k \<noteq> None | _ \<Rightarrow> False)"

definition json_at :: "json \<Rightarrow> string \<Rightarrow> json outcome" where
  "json_at j k = (case j of
      JObject m \<Rightarrow> (case map_of m k of None \<Rightarrow> throw JsonException | Some v \<Rightarrow> ret v)
    | _ \<Rightarrow> throw JsonException)"

definition get_string :: "json \<Rightarrow> string outcome" where
  "get_string j = (case j of JString s \<Rightarrow> ret s | _ \<Rightarrow> throw JsonException)"

definition get_bool :: "json \<Rightarrow> bool outcome" where
  "get_bool j = (case j of JBool b \<Rightarrow> ret b | _ \<Rightarrow> throw JsonException)"

text \<open>
  Reading a number at a fixed width converts as a C++ cast does.  A Boolean counts as a number for
  the widths that are not the library's own 64-bit number types.
\<close>

definition get_uint32 :: "json \<Rightarrow> u32 outcome" where
  "get_uint32 j = (case j of JInt n \<Rightarrow> ret (word_of_int n) | JBool b \<Rightarrow> ret (of_bool b) | _ \<Rightarrow> throw JsonException)"

definition get_int :: "json \<Rightarrow> int outcome" where
  "get_int j = (case j of JInt n \<Rightarrow> ret (sint (word_of_int n :: u32)) | JBool b \<Rightarrow> ret (of_bool b)
     | _ \<Rightarrow> throw JsonException)"

definition get_int64 :: "json \<Rightarrow> int outcome" where
  "get_int64 j = (case j of JInt n \<Rightarrow> ret (sint (word_of_int n :: u64)) | _ \<Rightarrow> throw JsonException)"

definition get_uint64 :: "json \<Rightarrow> u64 outcome" where
  "get_uint64 j = (case j of JInt n \<Rightarrow> ret (word_of_int n) | _ \<Rightarrow> throw JsonException)"

text \<open>
  Enumerations declared with the library's macro: a value that is in no row of the table is
  converted to the first row.
\<close>

definition enum_to_json :: "('e \<times> string) list \<Rightarrow> 'e \<Rightarrow> json" where
  "enum_to_json table e = JString (case map_of table e of Some s \<Rightarrow> s | None \<Rightarrow> snd (hd table))"

definition enum_from_json :: "('e \<times> string) list \<Rightarrow> json \<Rightarrow> 'e outcome" where
  "enum_from_json table j =
     ret (case find (\<lambda>(e, s). j = JString s) table of Some (e, s) \<Rightarrow> e | None \<Rightarrow> fst (hd table))"

text \<open>\<^verbatim>\<open>js.update(other)\<close>: the members of the second object replace or extend those of the first.\<close>

definition json_update :: "json \<Rightarrow> json \<Rightarrow> json outcome" where
  "json_update a b = (case (a, b) of
      (JObject m, JObject n) \<Rightarrow> ret (JObject (filter (\<lambda>(k, v). map_of n k = None) m @ n))
    | _ \<Rightarrow> throw JsonException)"

text \<open>Converting the elements of a sequence in order; the first failure ends it.\<close>

fun traverse :: "('a \<Rightarrow> 'b outcome) \<Rightarrow> 'a list \<Rightarrow> 'b list outcome" where
  "traverse f [] = ret []"
| "traverse f (j # js) = bind (f j) (\<lambda>x. bind (traverse f js) (\<lambda>xs. ret (x # xs)))"

definition get_array :: "(json \<Rightarrow> 'a outcome) \<Rightarrow> json \<Rightarrow> 'a list outcome" where
  "get_array f j = (case j of JArray js \<Rightarrow> traverse f js | _ \<Rightarrow> throw JsonException)"

text \<open>\<^verbatim>\<open>deserialize_optional_shared_ptr\<close> and \<^verbatim>\<open>serialize_optional_shared_ptr\<close>.\<close>

definition deserialize_optional :: "(json \<Rightarrow> 'a outcome) \<Rightarrow> json \<Rightarrow> string \<Rightarrow> 'a option outcome" where
  "deserialize_optional f j k =
     (if json_contains j k \<and> json_at j k \<noteq> ret JNull
      then bind (json_at j k) (\<lambda>v. bind (f v) (\<lambda>x. ret (Some x)))
      else ret None)"

definition to_array :: "('a \<Rightarrow> json outcome) \<Rightarrow> 'a list \<Rightarrow> json outcome" where
  "to_array f xs = bind (traverse f xs) (\<lambda>js. ret (JArray js))"

definition serialize_optional :: "('a \<Rightarrow> json) \<Rightarrow> 'a option \<Rightarrow> json" where
  "serialize_optional f p = (case p of None \<Rightarrow> JNull | Some x \<Rightarrow> f x)"

section \<open>Wrappers\<close>

text \<open>Every exception becomes \<^verbatim>\<open>InternalError\<close>.\<close>

definition catch_all :: "'a outcome \<Rightarrow> 'a outcome" where
  "catch_all m = (case m of Inl (Exn _) \<Rightarrow> fail InternalError | _ \<Rightarrow> m)"

definition serialize_to_json :: "(json \<Rightarrow> string outcome) \<Rightarrow> ('a \<Rightarrow> json outcome) \<Rightarrow> 'a \<Rightarrow> string outcome" where
  "serialize_to_json dump conv value = catch_all (bind (conv value) dump)"

definition deserialize_from_json :: "(string \<Rightarrow> json outcome) \<Rightarrow> (json \<Rightarrow> 'a outcome) \<Rightarrow> string \<Rightarrow> 'a outcome" where
  "deserialize_from_json parse conv json_string = catch_all (bind (parse json_string) conv)"

definition deserialize_from_json_object :: "(json \<Rightarrow> 'a outcome) \<Rightarrow> json \<Rightarrow> 'a outcome" where
  "deserialize_from_json_object conv j = catch_all (conv j)"

section \<open>Lemmas\<close>

named_theorems json_simps "evaluation of JSON readers on built objects"

lemma map_of_filter_None:
  "map_of n k = None \<Longrightarrow> map_of (filter (\<lambda>(k, v). map_of n k = None) m) k = map_of m k"
  by (induction m) auto

lemma map_of_filter_Some:
  "map_of n k = Some v \<Longrightarrow> map_of (filter (\<lambda>(k, v). map_of n k = None) m) k = None"
  by (induction m) auto

lemma json_at_object [json_simps]:
  "json_at (JObject m) k = (case map_of m k of None \<Rightarrow> throw JsonException | Some v \<Rightarrow> ret v)"
  by (simp add: json_at_def)

lemma json_contains_object [json_simps]: "json_contains (JObject m) k \<longleftrightarrow> map_of m k \<noteq> None"
  by (simp add: json_contains_def)

lemma get_string_simps [json_simps]: "get_string (JString s) = ret s"
  by (simp add: get_string_def)

lemma get_bool_simps [json_simps]: "get_bool (JBool b) = ret b"
  by (simp add: get_bool_def)

lemma get_number_simps [json_simps]:
  "get_uint32 (JInt (uint w)) = ret w"
  "get_uint64 (JInt (uint v)) = ret v"
  "- (2 ^ 63) \<le> t \<Longrightarrow> t < 2 ^ 63 \<Longrightarrow> get_int64 (JInt t) = ret t"
  "- (2 ^ 31) \<le> n \<Longrightarrow> n < 2 ^ 31 \<Longrightarrow> get_int (JInt n) = ret n"
  by (simp_all add: get_uint32_def get_uint64_def get_int64_def get_int_def word_of_int_uint
      sint_sbintrunc' signed_take_bit_int_eq_self)

lemma map_of_update:
  "json_update (JObject m) (JObject n) = Inr (JObject r) \<Longrightarrow>
     map_of r k = (case map_of n k of None \<Rightarrow> map_of m k | Some v \<Rightarrow> Some v)"
  by (auto simp: json_update_def ret_def map_add_def map_of_filter_None map_of_filter_Some split: option.splits)

lemma traverse_map [json_simps]:
  "(\<And>x. x \<in> set xs \<Longrightarrow> f (g x) = ret x) \<Longrightarrow> traverse f (map g xs) = ret xs"
  by (induction xs) simp_all

lemma traverse_Cons_ok:
  "traverse f (x # xs) = Inr ys \<longleftrightarrow> (\<exists>y ys'. f x = Inr y \<and> traverse f xs = Inr ys' \<and> ys = y # ys')"
  by (auto simp: outcome_simps ret_def)

lemma catch_all_ok [simp]: "catch_all (ret x) = ret x" "catch_all (Inr x) = Inr x"
  by (simp_all add: catch_all_def ret_def)

lemma catch_all_eq_Inr [outcome_simps]: "catch_all m = Inr y \<longleftrightarrow> m = Inr y"
  by (auto simp: catch_all_def fail_def split: sum.splits failure.splits)

lemma optional_round_trip [json_simps]:
  assumes "map_of m k = Some (serialize_optional g p)"
    and "\<And>x. g x \<noteq> JNull" and "\<And>x. f (g x) = ret x"
  shows "deserialize_optional f (JObject m) k = ret p"
  using assms
  by (cases p) (simp_all add: deserialize_optional_def json_simps serialize_optional_def ret_def)

end
