(* ===== verification/Gpu_Report.thy ===== *)
theory Gpu_Report
  imports Spdm_Response Gpu_Opaque X509_Chain Json "HOL-Library.List_Lexorder" "HOL-Library.Char_ord"
begin

text \<open>
  GPU evidence and the signed attestation report in it (\<^verbatim>\<open>src/gpu/evidence.cpp\<close>): architecture
  data, parsing and checking a report, the values read from it, the evidence claims, the JSON form of
  evidence and the sources that read it.  OpenSSL is the record \<open>x509_api\<close>, the base64 routines are
  arguments, and an OCSP client is a function that threads its own state.
\<close>

section \<open>Architectures\<close>

datatype gpu_architecture = UnknownArch | Ampere | Hopper | Blackwell

record gpu_architecture_data =
  ga_arch :: gpu_architecture
  ga_ar_signature_hash_algorithm :: string
  ga_ar_signature_length :: nat
  ga_fwid_type :: fwid_type

definition supported_architectures :: "gpu_architecture list" where
  "supported_architectures = [Hopper, Blackwell]"

definition gpu_architecture_data_create :: "gpu_architecture \<Rightarrow> gpu_architecture_data outcome" where
  "gpu_architecture_data_create arch =
     (if arch \<notin> set supported_architectures then fail GpuArchitectureNotSupported
      else case arch of
        Hopper \<Rightarrow> ret \<lparr>ga_arch = arch, ga_ar_signature_hash_algorithm = ''sha384'',
                       ga_ar_signature_length = 96, ga_fwid_type = FWID_2_23_133_5_4_1\<rparr>
      | Blackwell \<Rightarrow> ret \<lparr>ga_arch = arch, ga_ar_signature_hash_algorithm = ''sha384'',
                       ga_ar_signature_length = 96, ga_fwid_type = FWID_2_23_133_5_4_1_1\<rparr>
      | _ \<Rightarrow> fail GpuArchitectureNotSupported)"

definition gpu_architecture_to_string :: "gpu_architecture \<Rightarrow> string" where
  "gpu_architecture_to_string arch =
     (case arch of Hopper \<Rightarrow> ''HOPPER'' | Blackwell \<Rightarrow> ''BLACKWELL'' | _ \<Rightarrow> ''UNKNOWN'')"

definition gpu_architecture_from_string :: "string \<Rightarrow> gpu_architecture" where
  "gpu_architecture_from_string arch_str =
     (let upper_arch = upper arch_str in
      if upper_arch = ''HOPPER'' then Hopper
      else if upper_arch = ''BLACKWELL'' then Blackwell else UnknownArch)"

section \<open>Evidence and its JSON form\<close>

text \<open>The board identifier and the UUID of the class are not used after collection.\<close>

record gpu_evidence =
  ge_gpu_architecture :: gpu_architecture
  ge_attestation_report :: buffer
  ge_attestation_cert_chain :: string
  ge_nonce :: buffer

text \<open>A caller that throws when a helper returns an error code.\<close>

definition or_throw :: "'a outcome \<Rightarrow> 'a outcome" where
  "or_throw m = (case m of Inl (Err e) \<Rightarrow> throw RuntimeError | _ \<Rightarrow> m)"

definition gpu_evidence_to_json :: "(buffer \<Rightarrow> string option) \<Rightarrow> gpu_evidence \<Rightarrow> json outcome" where
  "gpu_evidence_to_json b64_encode ev =
     bind (or_throw (encode_base64 b64_encode (ge_attestation_report ev))) (\<lambda>encoded_evidence.
     bind (or_throw (encode_base64_string b64_encode (ge_attestation_cert_chain ev))) (\<lambda>encoded_certificate.
     ret (JObject [(''arch'', JString (gpu_architecture_to_string (ge_gpu_architecture ev))),
                   (''nonce'', JString (to_hex_string (ge_nonce ev))),
                   (''evidence'', JString encoded_evidence),
                   (''certificate'', JString encoded_certificate)])))"

definition member_string :: "json \<Rightarrow> string \<Rightarrow> string outcome" where
  "member_string j k = bind (json_at j k) get_string"

definition gpu_evidence_from_json :: "(string \<Rightarrow> buffer option) \<Rightarrow> json \<Rightarrow> gpu_evidence outcome" where
  "gpu_evidence_from_json b64_decode j =
     bind (member_string j ''arch'') (\<lambda>arch_str.
     let architecture = gpu_architecture_from_string arch_str in
     if architecture = UnknownArch then throw RuntimeError
     else bind (member_string j ''nonce'') (\<lambda>nonce_str.
     bind (member_string j ''evidence'') (\<lambda>evidence_base64.
     bind (or_throw (decode_base64 b64_decode evidence_base64)) (\<lambda>attestation_report.
     bind (member_string j ''certificate'') (\<lambda>certificate_base64.
     bind (or_throw (decode_base64_string b64_decode certificate_base64)) (\<lambda>certificate_str.
     ret \<lparr>ge_gpu_architecture = architecture, ge_attestation_report = attestation_report,
          ge_attestation_cert_chain = certificate_str, ge_nonce = hex_string_to_bytes nonce_str\<rparr>))))))"

definition evidence_collection_from_json ::
  "(string \<Rightarrow> json outcome) \<Rightarrow> (string \<Rightarrow> buffer option) \<Rightarrow> string \<Rightarrow> gpu_evidence list outcome" where
  "evidence_collection_from_json parse b64_decode json_string =
     deserialize_from_json parse (get_array (gpu_evidence_from_json b64_decode)) json_string"

definition evidence_collection_to_json ::
  "(json \<Rightarrow> string outcome) \<Rightarrow> (buffer \<Rightarrow> string option) \<Rightarrow> gpu_evidence list \<Rightarrow> string outcome" where
  "evidence_collection_to_json dump b64_encode collection =
     serialize_to_json dump (to_array (gpu_evidence_to_json b64_encode)) collection"

text \<open>\<^verbatim>\<open>GpuEvidenceSourceFromJsonString::get_evidence\<close>.\<close>

definition json_source_get_evidence :: "gpu_evidence list \<Rightarrow> buffer \<Rightarrow> gpu_evidence list outcome" where
  "json_source_get_evidence evidence nonce_input =
     (if list_all (\<lambda>ev. ge_nonce ev = nonce_input) evidence then ret evidence
      else fail GpuEvidenceNonceMismatch)"

section \<open>Attestation reports\<close>

record 'c gpu_report =
  gr_spdm_response :: spdm_response
  gr_spdm_request :: spdm_request
  gr_gpu_opaque_data_parser :: gpu_parser
  gr_attestation_cert_chain :: "'c cert_chain"

text \<open>
  \<^verbatim>\<open>AttestationReport::create\<close>; \<open>device_root_cert\<close> is the pinned root \<^verbatim>\<open>DEVICE_ROOT_CERT\<close>.
\<close>

definition report_create ::
  "'c x509_api \<Rightarrow> string \<Rightarrow> buffer \<Rightarrow> string \<Rightarrow> gpu_architecture \<Rightarrow> 'c gpu_report outcome" where
  "report_create api device_root_cert attestation_report_data ar_cert_chain architecture =
     bind (map_error InternalError
       (create_from_cert_chain_str api GPU_DEVICE_IDENTITY device_root_cert ar_cert_chain)) (\<lambda>chain.
     bind (gpu_architecture_data_create architecture) (\<lambda>arch_data.
     guard InternalError (\<not> length attestation_report_data \<le> ga_ar_signature_length arch_data)
     (let n = length attestation_report_data - ga_ar_signature_length arch_data;
          data_wo_signature = take n attestation_report_data;
          signature = drop n attestation_report_data in
      bind (map_error GpuEvidenceInvalidSignature (verify_signature_pkcs11 api chain data_wo_signature
        signature (ga_ar_signature_hash_algorithm arch_data))) (\<lambda>_.
      let request_length = unat kRequestLength in
      if length attestation_report_data < request_length then undefined_behaviour
      else bind (map_error GpuEvidenceInvalid (parse_request (take request_length attestation_report_data))) (\<lambda>spdm_request.
      bind (map_error GpuEvidenceInvalid (parse_response (drop request_length attestation_report_data)
        (of_nat (ga_ar_signature_length arch_data)))) (\<lambda>spdm_response.
      bind (gpu_parser_create (resp_parsed_opaque_data spdm_response)) (\<lambda>parser.
      ret \<lparr>gr_spdm_response = spdm_response, gr_spdm_request = spdm_request,
           gr_gpu_opaque_data_parser = parser, gr_attestation_cert_chain = chain\<rparr>)))))))"

definition get_parsed_attestation_report :: "'c x509_api \<Rightarrow> string \<Rightarrow> gpu_evidence \<Rightarrow> 'c gpu_report outcome" where
  "get_parsed_attestation_report api device_root_cert ev =
     report_create api device_root_cert (ge_attestation_report ev) (ge_attestation_cert_chain ev)
       (ge_gpu_architecture ev)"

section \<open>Values read from a report\<close>

definition byte_field :: "'c gpu_report \<Rightarrow> u16 \<Rightarrow> buffer outcome" where
  "byte_field rep t = bind (gpu_get_field (gr_gpu_opaque_data_parser rep) t) gpu_get_byte_vector"

definition string_field :: "'c gpu_report \<Rightarrow> u16 \<Rightarrow> string outcome" where
  "string_field rep t = bind (byte_field rep t) (\<lambda>d. ret (remove_null_terminators (string_of_bytes d)))"

definition get_driver_version :: "'c gpu_report \<Rightarrow> string outcome" where
  "get_driver_version rep = string_field rep OPAQUE_DRIVER_VERSION"

text \<open>Pairs of characters joined by dots.\<close>

fun dotted_pairs :: "string \<Rightarrow> string \<Rightarrow> string" where
  "dotted_pairs result [] = result"
| "dotted_pairs result [a] = (if result \<noteq> [] then result @ ''.'' else result) @ [a]"
| "dotted_pairs result (a # b # s) = dotted_pairs ((if result \<noteq> [] then result @ ''.'' else result) @ [a, b]) s"

text \<open>
  The version is taken from the second half of the reversed field, followed by the byte before the
  middle.  \<^verbatim>\<open>half_len - 2\<close> wraps when the field has fewer than two bytes, and \<^verbatim>\<open>substr\<close> throws.
\<close>

definition get_vbios_version :: "'c gpu_report \<Rightarrow> string outcome" where
  "get_vbios_version rep =
     bind (byte_field rep OPAQUE_VBIOS_VERSION) (\<lambda>d.
     let hex_value = to_hex_string (rev d);
         half_len = length hex_value div 2;
         second_half = drop half_len hex_value in
     if half_len < 2 then throw OutOfRange
     else let before_middle = take 2 (drop (half_len - 2) hex_value);
              temp = second_half @ before_middle in
          ret (remove_null_terminators (upper (dotted_pairs [] temp))))"

text \<open>\<^verbatim>\<open>std::set\<close> keeps one copy of every string, in order.\<close>

definition get_gpu_switch_pdis :: "'c gpu_report \<Rightarrow> string list outcome" where
  "get_gpu_switch_pdis rep =
     bind (gpu_get_field (gr_gpu_opaque_data_parser rep) OPAQUE_SWITCH_PDI) (\<lambda>f.
     bind (gpu_get_pdi_vector f) (\<lambda>pdis.
     ret (sorted_list_of_set (set (map (\<lambda>pdi. upper (to_hex_string (rev pdi))) pdis)))))"

definition report_fwid :: "'c gpu_report \<Rightarrow> buffer outcome" where
  "report_fwid rep = byte_field rep OPAQUE_FWID"

definition get_driver_rim_id :: "'c gpu_report \<Rightarrow> gpu_architecture \<Rightarrow> string outcome" where
  "get_driver_rim_id rep architecture =
     bind (get_driver_version rep) (\<lambda>driver_version.
     if architecture = Hopper then ret (''NV_GPU_DRIVER_GH100_'' @ driver_version)
     else if architecture = Blackwell then
       (case gpu_get_field (gr_gpu_opaque_data_parser rep) OPAQUE_CHIP_INFO of
          Inl f \<Rightarrow> (if f = Err SpdmFieldNotFound then ret (''NV_GPU_CC_DRIVER_GB100_'' @ driver_version)
                   else Inl f)
        | Inr chip_info_field \<Rightarrow>
            bind (gpu_get_byte_vector chip_info_field) (\<lambda>d.
            ret (''NV_GPU_CC_DRIVER_'' @ remove_null_terminators (string_of_bytes d) @ ''_'' @ driver_version)))
     else fail InternalError)"

definition get_vbios_rim_id :: "'c gpu_report \<Rightarrow> string outcome" where
  "get_vbios_rim_id rep =
     bind (string_field rep OPAQUE_PROJECT) (\<lambda>project_id.
     bind (string_field rep OPAQUE_PROJECT_SKU) (\<lambda>project_sku.
     bind (string_field rep OPAQUE_CHIP_SKU) (\<lambda>chip_sku.
     bind (get_vbios_version rep) (\<lambda>vbios_version.
     ret (''NV_GPU_VBIOS_'' @ project_id @ ''_'' @ project_sku @ ''_'' @ chip_sku @ ''_''
          @ filter (\<lambda>c. c \<noteq> CHR ''.'') vbios_version)))))"

definition get_nvdec0_status :: "'c gpu_report \<Rightarrow> byte outcome" where
  "get_nvdec0_status rep =
     bind (byte_field rep OPAQUE_NVDEC0_STATUS) (\<lambda>d. case d of [] \<Rightarrow> throw OutOfRange | b # _ \<Rightarrow> ret b)"

text \<open>Indices of the report count from one, those of the result from zero.\<close>

definition get_measurements :: "'c gpu_report \<Rightarrow> (int \<times> buffer) list" where
  "get_measurements rep =
     fold (\<lambda>(index, block). AList.update (int (unat index) - 1) (dmtf_value block))
       (resp_parsed_measurement_records (gr_spdm_response rep)) []"

definition get_opaque_data_version :: "'c gpu_report \<Rightarrow> u64" where
  "get_opaque_data_version rep = gp_opaque_data_version (gr_gpu_opaque_data_parser rep)"

text \<open>
  A field of more than eight bytes is only logged.  The cast to the enumeration, whose underlying
  type is \<^verbatim>\<open>int\<close>, keeps the low 32 bits.
\<close>

definition get_feature_flag :: "'c gpu_report \<Rightarrow> int outcome" where
  "get_feature_flag rep =
     bind (byte_field rep OPAQUE_FEATURE_FLAG) (\<lambda>d.
     bind (read_little_endian d 0 (vsize d)) (\<lambda>r. case r of
       None \<Rightarrow> fail InternalError
     | Some feature_flag \<Rightarrow> ret (sint (ucast (feature_flag :: u64) :: u32))))"

definition feature_flag_to_string :: "int \<Rightarrow> string" where
  "feature_flag_to_string flag =
     (if flag = 0 then ''mpt'' else if flag = 1 then ''spt'' else if flag = 2 then ''ppcie'' else ''invalid'')"

section \<open>Claims about evidence\<close>

record attestation_report_claims =
  rc_cert_chain_claims :: cert_chain_claims
  rc_fwid_match :: bool
  rc_hwmodel :: string
  rc_ueid :: string
  rc_parsed :: bool
  rc_signature_verified :: bool

record gpu_evidence_claims =
  ec_gpu_ar_arch_match :: bool
  ec_driver_version :: string
  ec_vbios_version :: string
  ec_gpu_switch_pdis :: "string list"
  ec_attestation_report_claims :: attestation_report_claims
  ec_gpu_ar_nonce_match :: bool

text \<open>A report without the FWID field counts as a match.\<close>

definition check_fwid :: "'c x509_api \<Rightarrow> 'c gpu_report \<Rightarrow> gpu_architecture_data \<Rightarrow> bool outcome" where
  "check_fwid api rep arch_data =
     (case report_fwid rep of
        Inl f \<Rightarrow> if f = Err SpdmFieldNotFound then ret True else Inl f
      | Inr fwid \<Rightarrow>
          bind (get_fwid api (gr_attestation_cert_chain rep) 0 (ga_fwid_type arch_data)) (\<lambda>cert_fwid.
          if fwid \<noteq> cert_fwid then fail GpuEvidenceFwidMismatch else ret True))"

definition generate_attestation_report_claims ::
  "'c x509_api \<Rightarrow> ('s \<Rightarrow> 'c \<Rightarrow> 'c \<Rightarrow> 'c list \<Rightarrow> 'c \<Rightarrow> ocsp_response outcome \<times> 's) \<Rightarrow> (int \<Rightarrow> string) \<Rightarrow> int
    \<Rightarrow> 'c gpu_report \<Rightarrow> gpu_architecture_data \<Rightarrow> 's \<Rightarrow> attestation_report_claims outcome \<times> 's" where
  "generate_attestation_report_claims api get_response reason_str now rep arch_data s =
     (case check_fwid api rep arch_data of
        Inl f \<Rightarrow> (Inl f, s)
      | Inr fwid_match \<Rightarrow>
      (case generate_cert_chain_claims api get_response reason_str now (gr_attestation_cert_chain rep) s of
        (Inl f, s) \<Rightarrow> (Inl f, s)
      | (Inr chain_claims, s) \<Rightarrow>
          (bind (get_hwmodel api (gr_attestation_cert_chain rep)) (\<lambda>hwmodel.
           bind (get_ueid api (gr_attestation_cert_chain rep)) (\<lambda>ueid.
           ret \<lparr>rc_cert_chain_claims = chain_claims, rc_fwid_match = fwid_match, rc_hwmodel = hwmodel,
                rc_ueid = ueid, rc_parsed = True, rc_signature_verified = True\<rparr>)), s)))"

text \<open>The checks before the chain is judged: versions, device identifiers, architecture and nonce.\<close>

definition evidence_prechecks ::
  "gpu_evidence \<Rightarrow> 'c gpu_report \<Rightarrow> (string \<times> string \<times> string list \<times> gpu_architecture_data) outcome" where
  "evidence_prechecks ev rep =
     bind (get_driver_version rep) (\<lambda>driver_version.
     bind (get_vbios_version rep) (\<lambda>vbios_version.
     bind (case get_gpu_switch_pdis rep of
             Inl f \<Rightarrow> if f = Err SpdmFieldNotFound then ret [] else Inl f
           | Inr pdis \<Rightarrow> ret pdis) (\<lambda>pdis.
     bind (gpu_architecture_data_create (ge_gpu_architecture ev)) (\<lambda>arch_data.
     guard GpuEvidenceNonceMismatch (length (req_nonce (gr_spdm_request rep)) = length (ge_nonce ev))
     (guard GpuEvidenceNonceMismatch (req_nonce (gr_spdm_request rep) = ge_nonce ev)
     (ret (driver_version, vbios_version, pdis, arch_data)))))))"

definition generate_gpu_evidence_claims ::
  "'c x509_api \<Rightarrow> ('s \<Rightarrow> 'c \<Rightarrow> 'c \<Rightarrow> 'c list \<Rightarrow> 'c \<Rightarrow> ocsp_response outcome \<times> 's) \<Rightarrow> (int \<Rightarrow> string) \<Rightarrow> int
    \<Rightarrow> gpu_evidence \<Rightarrow> 'c gpu_report \<Rightarrow> 's \<Rightarrow> gpu_evidence_claims outcome \<times> 's" where
  "generate_gpu_evidence_claims api get_response reason_str now ev rep s =
     (case evidence_prechecks ev rep of
        Inl f \<Rightarrow> (Inl f, s)
      | Inr (driver_version, vbios_version, pdis, arch_data) \<Rightarrow>
      (case generate_attestation_report_claims api get_response reason_str now rep arch_data s of
        (Inl f, s) \<Rightarrow> (Inl f, s)
      | (Inr report_claims, s) \<Rightarrow>
          (ret \<lparr>ec_gpu_ar_arch_match = True, ec_driver_version = driver_version,
                ec_vbios_version = vbios_version, ec_gpu_switch_pdis = pdis,
                ec_attestation_report_claims = report_claims, ec_gpu_ar_nonce_match = True\<rparr>, s)))"

section \<open>What a report that was created guarantees\<close>

lemma arch_data_create_ok [outcome_simps]:
  "gpu_architecture_data_create arch = Inr a \<longleftrightarrow>
     (arch = Hopper \<or> arch = Blackwell) \<and>
     a = \<lparr>ga_arch = arch, ga_ar_signature_hash_algorithm = ''sha384'', ga_ar_signature_length = 96,
          ga_fwid_type = (if arch = Hopper then FWID_2_23_133_5_4_1 else FWID_2_23_133_5_4_1_1)\<rparr>"
  by (cases arch)
    (auto simp: gpu_architecture_data_create_def supported_architectures_def ret_def fail_def)

text \<open>The bytes of a response that its signature covers.\<close>

definition unsigned_response :: "spdm_response \<Rightarrow> buffer" where
  "unsigned_response m = encode_response (m\<lparr>resp_signature := []\<rparr>)"

lemma encode_response_unsigned: "encode_response m = unsigned_response m @ resp_signature m"
  by (simp add: unsigned_response_def encode_response_def)

lemma verify_signature_pkcs11_ok:
  "verify_signature_pkcs11 api chain data sig md = Inr u \<longleftrightarrow>
     even (length sig) \<and> (\<exists>leaf rest der. xc_certs chain = leaf # rest
       \<and> ecdsa_sig_der api (take (length sig div 2) sig) (drop (length sig div 2) sig) = Some der
       \<and> digest_verify api leaf md data der = 1)"
  by (auto simp: verify_signature_pkcs11_def verify_signature_def guard_def fail_def ret_def even_iff_mod_2_eq_zero
      Let_def split: option.splits list.splits)

definition signature_ok :: "'c x509_api \<Rightarrow> 'c cert_chain \<Rightarrow> buffer \<Rightarrow> buffer \<Rightarrow> bool" where
  "signature_ok api chain data sig \<longleftrightarrow>
     (\<exists>leaf rest der. xc_certs chain = leaf # rest
       \<and> ecdsa_sig_der api (take (length sig div 2) sig) (drop (length sig div 2) sig) = Some der
       \<and> digest_verify api leaf ''sha384'' data der = 1)"

text \<open>A report whose signature and both messages were accepted is exactly the two messages.\<close>

lemma signed_exchange:
  assumes "wf_buffer d" and "96 < length d"
    and sig: "verify_signature_pkcs11 api chain (take (length d - 96) d) (drop (length d - 96) d) ''sha384'' = Inr u"
    and req: "parse_request (take 37 d) = Inr rq" and resp: "parse_response (drop 37 d) 96 = Inr rs"
  shows "valid_request rq \<and> valid_response 96 rs \<and> d = encode_request rq @ encode_response rs
    \<and> signature_ok api chain (encode_request rq @ unsigned_response rs) (resp_signature rs)"
proof -
  have wf: "wf_buffer (take 37 d)" "wf_buffer (drop 37 d)"
    using assms(1) by (auto intro: wf_buffer_mono [of _ d])
  note a = request.dec_sound [OF wf(1) req] and b = response.dec_sound [OF wf(2) resp]
  have d: "d = encode_request rq @ encode_response rs"
    using a b append_take_drop_id [of 37 d] by simp
  have "length (resp_signature rs) = 96" using b by (simp add: valid_response_def)
  then have "take (length d - 96) d = encode_request rq @ unsigned_response rs" "drop (length d - 96) d = resp_signature rs"
    by (simp_all add: d encode_response_unsigned)
  with sig have "signature_ok api chain (encode_request rq @ unsigned_response rs) (resp_signature rs)"
    by (simp only: verify_signature_pkcs11_ok signature_ok_def)
  then show ?thesis using a b d by blast
qed

lemma report_create_ok:
  assumes "wf_buffer d" and "report_create api root d pem arch = Inr rep"
  shows "create_from_cert_chain_str api GPU_DEVICE_IDENTITY root pem = Inr (gr_attestation_cert_chain rep)
    \<and> arch \<in> {Hopper, Blackwell}
    \<and> valid_request (gr_spdm_request rep) \<and> valid_response 96 (gr_spdm_response rep)
    \<and> d = encode_request (gr_spdm_request rep) @ encode_response (gr_spdm_response rep)
    \<and> signature_ok api (gr_attestation_cert_chain rep)
        (encode_request (gr_spdm_request rep) @ unsigned_response (gr_spdm_response rep))
        (resp_signature (gr_spdm_response rep))
    \<and> gpu_parser_create (resp_parsed_opaque_data (gr_spdm_response rep)) = Inr (gr_gpu_opaque_data_parser rep)"
proof -
  let ?n = "length d - 96"
  from assms(2) obtain u where
    chain: "create_from_cert_chain_str api GPU_DEVICE_IDENTITY root pem = Inr (gr_attestation_cert_chain rep)"
    and arch: "arch = Hopper \<or> arch = Blackwell" and len: "96 < length d"
    and sig: "verify_signature_pkcs11 api (gr_attestation_cert_chain rep) (take ?n d) (drop ?n d) ''sha384'' = Inr u"
    and req: "parse_request (take 37 d) = Inr (gr_spdm_request rep)"
    and resp: "parse_response (drop 37 d) 96 = Inr (gr_spdm_response rep)"
    and opq: "gpu_parser_create (resp_parsed_opaque_data (gr_spdm_response rep)) = Inr (gr_gpu_opaque_data_parser rep)"
    by (auto simp: report_create_def outcome_simps Let_def kRequestLength_def undefined_behaviour_def
        split: if_splits)
  show ?thesis using signed_exchange [OF assms(1) len sig req resp] chain arch opq by blast
qed

lemma pem_loop_trust_store: "pem_loop api p chain = Inr chain' \<Longrightarrow> xc_trust_store chain' = xc_trust_store chain"
proof (induction api p chain rule: pem_loop.induct)
  case (1 api p chain)
  then show ?case
    by (auto simp: pem_loop.simps [of api p] chain_push_back_def outcome_simps Let_def
        split: option.splits sum.splits)
qed

lemma create_from_cert_chain_str_anchor:
  assumes "create_from_cert_chain_str api ty root pem = Inr chain"
  shows "xc_trust_store chain = pem_read_x509 api root \<and> xc_certs chain \<noteq> []"
  using assms
  by (auto simp: create_from_cert_chain_str_def chain_create_def create_trust_store_def outcome_simps
      dest!: pem_loop_trust_store split: option.splits if_splits)

lemma check_fwid_ok:
  "check_fwid api rep arch_data = Inr m \<longleftrightarrow>
     m \<and> (report_fwid rep = Inl (Err SpdmFieldNotFound)
          \<or> (\<exists>fwid. report_fwid rep = Inr fwid
               \<and> get_fwid api (gr_attestation_cert_chain rep) 0 (ga_fwid_type arch_data) = Inr fwid))"
  by (auto simp: check_fwid_def outcome_simps split: sum.splits if_splits)

lemma evidence_prechecks_ok:
  assumes "evidence_prechecks ev rep = Inr (driver_version, vbios_version, pdis, arch_data)"
  shows "get_driver_version rep = Inr driver_version \<and> get_vbios_version rep = Inr vbios_version
    \<and> gpu_architecture_data_create (ge_gpu_architecture ev) = Inr arch_data
    \<and> req_nonce (gr_spdm_request rep) = ge_nonce ev"
  using assms unfolding evidence_prechecks_def bind_eq_Inr guard_eq_Inr ret_eq by blast

lemma evidence_claims_ok:
  assumes "generate_gpu_evidence_claims api get_response reason_str now ev rep s = (Inr claims, s')"
  shows "req_nonce (gr_spdm_request rep) = ge_nonce ev
    \<and> get_driver_version rep = Inr (ec_driver_version claims)
    \<and> get_vbios_version rep = Inr (ec_vbios_version claims)
    \<and> (\<exists>arch_data. gpu_architecture_data_create (ge_gpu_architecture ev) = Inr arch_data
        \<and> check_fwid api rep arch_data = Inr True)
    \<and> generate_cert_chain_claims api get_response reason_str now (gr_attestation_cert_chain rep) s
        = (Inr (rc_cert_chain_claims (ec_attestation_report_claims claims)), s')"
proof -
  obtain dv vv pdis arch_data rc where pre: "evidence_prechecks ev rep = Inr (dv, vv, pdis, arch_data)"
    and rep: "generate_attestation_report_claims api get_response reason_str now rep arch_data s = (Inr rc, s')"
    and claims: "claims = \<lparr>ec_gpu_ar_arch_match = True, ec_driver_version = dv, ec_vbios_version = vv,
       ec_gpu_switch_pdis = pdis, ec_attestation_report_claims = rc, ec_gpu_ar_nonce_match = True\<rparr>"
    using assms by (auto simp: generate_gpu_evidence_claims_def ret_def split: sum.splits prod.splits)
  obtain m cc where "check_fwid api rep arch_data = Inr m"
    and "generate_cert_chain_claims api get_response reason_str now (gr_attestation_cert_chain rep) s = (Inr cc, s')"
    and "rc_cert_chain_claims rc = cc"
    using rep by (auto simp: generate_attestation_report_claims_def outcome_simps split: sum.splits prod.splits)
  then show ?thesis
    using evidence_prechecks_ok [OF pre] check_fwid_ok [of api rep arch_data m] by (simp add: claims)
qed

section \<open>The JSON form\<close>

lemma or_throw_eq_Inr [outcome_simps]: "or_throw m = Inr x \<longleftrightarrow> m = Inr x"
  by (auto simp: or_throw_def throw_def split: sum.splits failure.splits)

lemma or_throw_ok [simp]: "or_throw (Inr x) = Inr x"
  by (simp add: or_throw_def)

lemma architecture_round_trip:
  "arch \<in> {Hopper, Blackwell} \<Longrightarrow> gpu_architecture_from_string (gpu_architecture_to_string arch) = arch"
  by (auto simp: gpu_architecture_from_string_def gpu_architecture_to_string_def upper_def toupper_def Let_def)

lemma gpu_evidence_json:
  assumes "base64_contract enc dec" and "ge_gpu_architecture ev \<in> {Hopper, Blackwell}"
    and "gpu_evidence_to_json enc ev = Inr j"
  shows "gpu_evidence_from_json dec j = Inr ev"
proof -
  from assms(3) obtain e c where e: "encode_base64 enc (ge_attestation_report ev) = Inr e"
    and c: "encode_base64_string enc (ge_attestation_cert_chain ev) = Inr c"
    and j: "j = JObject [(''arch'', JString (gpu_architecture_to_string (ge_gpu_architecture ev))),
      (''nonce'', JString (to_hex_string (ge_nonce ev))), (''evidence'', JString e), (''certificate'', JString c)]"
    by (auto simp: gpu_evidence_to_json_def outcome_simps)
  show ?thesis
    using base64_round_trip [OF assms(1) e] base64_string_round_trip [OF assms(1) c]
      architecture_round_trip [OF assms(2)] assms(2)
    by (cases ev) (auto simp: gpu_evidence_from_json_def member_string_def j json_simps ret_def Let_def)
qed

lemma traverse_inverse:
  assumes "\<And>x y. x \<in> set xs \<Longrightarrow> f x = Inr y \<Longrightarrow> g y = Inr x" and "traverse f xs = Inr ys"
  shows "traverse g ys = Inr xs"
  using assms
  by (induction xs arbitrary: ys) (auto simp: outcome_simps ret_def)


definition demo_evidence :: gpu_evidence where
  "demo_evidence = \<lparr>ge_gpu_architecture = Hopper, ge_attestation_report = [1, 2, 3],
     ge_attestation_cert_chain = ''abc'', ge_nonce = [7]\<rparr>"


section \<open>Properties of reports\<close>

text \<open>
  C34 (gpu_evidence_authentic): when claims are produced for a piece of GPU evidence, its report is
  exactly one SPDM request followed by one SPDM response; the leaf of the presented chain has signed
  every byte of both except the signature itself; the chain was verified against the pinned device
  root; the nonce of the signed request is the nonce of the evidence; and the firmware identifier in
  the signed response, if there is one, is the one certified in the leaf.
\<close>

theorem gpu_evidence_authentic:
  assumes "wf_buffer (ge_attestation_report ev)"
    and "get_parsed_attestation_report api device_root_cert ev = Inr rep"
    and "generate_gpu_evidence_claims api get_response reason_str now ev rep s = (Inr claims, s')"
  shows "ge_attestation_report ev = encode_request (gr_spdm_request rep) @ encode_response (gr_spdm_response rep)
    \<and> signature_ok api (gr_attestation_cert_chain rep)
        (encode_request (gr_spdm_request rep) @ unsigned_response (gr_spdm_response rep))
        (resp_signature (gr_spdm_response rep))
    \<and> xc_trust_store (gr_attestation_cert_chain rep) = pem_read_x509 api device_root_cert
    \<and> (\<exists>path. chain_verify api (gr_attestation_cert_chain rep) = Inr path)
    \<and> req_nonce (gr_spdm_request rep) = ge_nonce ev
    \<and> (\<forall>fwid. report_fwid rep = Inr fwid \<longrightarrow>
         get_fwid api (gr_attestation_cert_chain rep) 0
           (if ge_gpu_architecture ev = Hopper then FWID_2_23_133_5_4_1 else FWID_2_23_133_5_4_1_1) = Inr fwid)"
proof -
  note created = report_create_ok [OF assms(1) assms(2) [unfolded get_parsed_attestation_report_def]]
  note ec = evidence_claims_ok [OF assms(3)]
  have "\<exists>path. chain_verify api (gr_attestation_cert_chain rep) = Inr path"
    using ec by (auto simp: generate_cert_chain_claims_def split: sum.splits)
  moreover obtain arch_data where "gpu_architecture_data_create (ge_gpu_architecture ev) = Inr arch_data"
    and "check_fwid api rep arch_data = Inr True" using ec by blast
  then have "\<forall>fwid. report_fwid rep = Inr fwid \<longrightarrow>
      get_fwid api (gr_attestation_cert_chain rep) 0
        (if ge_gpu_architecture ev = Hopper then FWID_2_23_133_5_4_1 else FWID_2_23_133_5_4_1_1) = Inr fwid"
    unfolding check_fwid_ok arch_data_create_ok by auto
  ultimately show ?thesis
    using created ec create_from_cert_chain_str_anchor [of api GPU_DEVICE_IDENTITY device_root_cert] by blast
qed

definition demo_gpu_request :: spdm_request where
  "demo_gpu_request = \<lparr>req_spdm_version = 0x11, req_request_response_code = 0xe0, req_param1 = 1,
     req_param2 = 0xff, req_nonce = replicate 32 7, req_slot_id_param = 0\<rparr>"

definition demo_gpu_response :: spdm_response where
  "demo_gpu_response = \<lparr>resp_spdm_version = 0x11, resp_request_response_code = 0x60,
     resp_param1 = 0, resp_param2 = 0, resp_number_of_blocks = 1,
     resp_measurement_record_length = 8, resp_measurement_record_data = encode_block demo_block,
     resp_parsed_measurement_records = [(1, dmtf_of demo_block)],
     resp_nonce = replicate 32 7, resp_opaque_data_length = 31,
     resp_opaque_data = [3, 0, 1, 0, 0x41, 6, 0, 2, 0, 1, 2, 11, 0, 1, 0, 0xaa,
       15, 0, 1, 0, 0x42, 17, 0, 1, 0, 0x43, 18, 0, 1, 0, 0x44],
     resp_parsed_opaque_data = [\<lparr>of_type = 3, of_data = [0x41]\<rparr>, \<lparr>of_type = 6, of_data = [1, 2]\<rparr>,
       \<lparr>of_type = 11, of_data = [0xaa]\<rparr>, \<lparr>of_type = 15, of_data = [0x42]\<rparr>,
       \<lparr>of_type = 17, of_data = [0x43]\<rparr>, \<lparr>of_type = 18, of_data = [0x44]\<rparr>],
     resp_signature = replicate 96 1\<rparr>"

definition demo_gpu_evidence :: gpu_evidence where
  "demo_gpu_evidence = \<lparr>ge_gpu_architecture = Hopper,
     ge_attestation_report = encode_request demo_gpu_request @ encode_response demo_gpu_response,
     ge_attestation_cert_chain = END_CERTIFICATE @ END_CERTIFICATE, ge_nonce = replicate 32 7\<rparr>"

definition demo_gpu_report :: "nat gpu_report" where
  "demo_gpu_report = \<lparr>gr_spdm_response = demo_gpu_response, gr_spdm_request = demo_gpu_request,
     gr_gpu_opaque_data_parser = \<lparr>gp_fields = [(3, GpuByteVector [0x41]), (6, GpuByteVector [1, 2]),
         (11, GpuByteVector [0xaa]), (15, GpuByteVector [0x42]), (17, GpuByteVector [0x43]), (18, GpuByteVector [0x44])],
       gp_opaque_data_version = 0\<rparr>,
     gr_attestation_cert_chain = \<lparr>xc_certs = [25, 25], xc_type = GPU_DEVICE_IDENTITY, xc_trust_store = Some 0\<rparr>\<rparr>"

lemma le_bytes_more:
  "le_bytes 2 (2 :: u16) = [2, 0]" "le_bytes 2 (6 :: u16) = [6, 0]" "le_bytes 2 (11 :: u16) = [11, 0]"
  "le_bytes 2 (15 :: u16) = [15, 0]" "le_bytes 2 (17 :: u16) = [17, 0]" "le_bytes 2 (18 :: u16) = [18, 0]"
  "le_bytes 2 (31 :: u16) = [31, 0]"
  by code_simp+

lemma valid_demo_gpu_request: "valid_request demo_gpu_request"
  by (simp add: valid_request_def demo_gpu_request_def SPDM_VERSION_1_1_def
      SPDM_REQ_CODE_GET_MEASUREMENTS_def kNonceSize_def)

lemma valid_demo_gpu_response: "valid_response 96 demo_gpu_response"
proof -
  have "records_of (encode_block demo_block) 1 [(1, dmtf_of demo_block)]"
    using valid_demo_response by (simp add: valid_response_def demo_response_def)
  then show ?thesis
    by (simp add: valid_response_def demo_gpu_response_def SPDM_VERSION_1_1_def
        SPDM_RES_CODE_MEASUREMENTS_def kNonceSize_def encode_demo_block valid_field_def
        encode_fields_def encode_field_def le_bytes_small le_bytes_more)
qed

lemma length_demo_report:
  "length (encode_request demo_gpu_request) = 37" "length (encode_response demo_gpu_response) = 177"
  by (simp_all add: encode_request_def encode_response_def demo_gpu_request_def demo_gpu_response_def
      encode_demo_block le_bytes_small le_bytes_more)

lemma demo_chain_parsed:
  "create_from_cert_chain_str demo_x509 GPU_DEVICE_IDENTITY [] (END_CERTIFICATE @ END_CERTIFICATE)
     = Inr (gr_attestation_cert_chain demo_gpu_report)"
  by code_simp

lemma demo_parser_created:
  "gpu_parser_create (resp_parsed_opaque_data demo_gpu_response) = Inr (gr_gpu_opaque_data_parser demo_gpu_report)"
  by code_simp

lemma demo_report_parsed: "get_parsed_attestation_report demo_x509 [] demo_gpu_evidence = Inr demo_gpu_report"
proof -
  let ?rq = "encode_request demo_gpu_request" and ?rs = "encode_response demo_gpu_response"
  have wf: "wf_buffer ?rq" "wf_buffer ?rs" by (simp_all add: wf_buffer_def length_demo_report)
  have "parse_request ?rq = Inr demo_gpu_request" by (rule request.dec_enc [OF valid_demo_gpu_request wf(1)])
  moreover have "parse_response ?rs 96 = Inr demo_gpu_response"
    by (rule response.dec_enc [OF valid_demo_gpu_response wf(2)])
  moreover have "verify_signature_pkcs11 demo_x509 (gr_attestation_cert_chain demo_gpu_report) d sig md = Inr ()"
    if "length sig = 96" for d sig md
    using that by (simp add: verify_signature_pkcs11_def verify_signature_def demo_x509_def demo_gpu_report_def
        ret_def)
  ultimately show ?thesis
    using demo_parser_created demo_chain_parsed length_demo_report
    by (simp add: get_parsed_attestation_report_def report_create_def demo_gpu_evidence_def
        arch_data_create_ok gpu_architecture_data_create_def supported_architectures_def kRequestLength_def
        Let_def) (simp add: demo_gpu_report_def ret_def)
qed

lemma demo_claims_generated:
  "\<exists>claims. generate_gpu_evidence_claims demo_x509 (\<lambda>s a b is ts. (Inr good_response, s)) (\<lambda>r. []) 5
     demo_gpu_evidence demo_gpu_report () = (Inr claims, ())"
proof -
  have "is_ok (fst (generate_gpu_evidence_claims demo_x509 (\<lambda>s a b is ts. (Inr good_response, s)) (\<lambda>r. []) 5
     demo_gpu_evidence demo_gpu_report ()))"
    by code_simp
  then show ?thesis
    by (cases "generate_gpu_evidence_claims demo_x509 (\<lambda>s a b is ts. (Inr good_response, s)) (\<lambda>r. []) 5
     demo_gpu_evidence demo_gpu_report ()") (auto simp: is_ok_def split: sum.splits)
qed

theorem gpu_evidence_authentic_witness:
  "signature_ok demo_x509 (gr_attestation_cert_chain demo_gpu_report)
     (encode_request demo_gpu_request @ unsigned_response demo_gpu_response) (replicate 96 1)"
proof -
  have "wf_buffer (ge_attestation_report demo_gpu_evidence)"
    by (simp add: wf_buffer_def demo_gpu_evidence_def length_demo_report)
  note auth = gpu_evidence_authentic [OF this demo_report_parsed]
  have "gr_spdm_request demo_gpu_report = demo_gpu_request" "gr_spdm_response demo_gpu_report = demo_gpu_response"
    "resp_signature demo_gpu_response = replicate 96 1"
    by (simp_all add: demo_gpu_report_def demo_gpu_response_def)
  with auth demo_claims_generated show ?thesis by metis
qed

text \<open>
  Reading the feature flag of a report is free of undefined
  behaviour exactly when the field has at most eight bytes, and then the flag is the low 32 bits of
  the little-endian value; the length check of the code only writes a log message.
\<close>

theorem feature_flag_needs_eight_bytes:
  assumes "byte_field rep OPAQUE_FEATURE_FLAG = Inr d" and "wf_buffer d"
  shows "get_feature_flag rep
    = (if length d \<le> 8 then ret (sint (ucast (le_value d :: u64) :: u32)) else undefined_behaviour)"
proof -
  have n: "unat (vsize d) = length d" by (rule unat_vsize [OF assms(2)])
  have "read_little_endian d 0 (vsize d) = ret (Some (le_value d :: u64))" if "length d \<le> 8"
    using read_little_endian_cur [OF cur_0 [OF assms(2)], of "vsize d", where 'a = 64] that assms(2)
    by (simp add: n wf_buffer_def)
  moreover have "read_little_endian d 0 (vsize d) = (undefined_behaviour :: u64 option outcome)"
    if "\<not> length d \<le> 8"
  proof -
    have "le_loop d 0 0 (length d) (0 :: u64) = undefined_behaviour"
      using that assms(2) by (intro le_loop_too_long) auto
    then show ?thesis by (simp add: read_little_endian_def n undefined_behaviour_def)
  qed
  ultimately show ?thesis
    using assms(1) by (simp add: get_feature_flag_def undefined_behaviour_def)
qed

theorem feature_flag_needs_eight_bytes_witness:
  "get_feature_flag (demo_gpu_report\<lparr>gr_gpu_opaque_data_parser :=
      \<lparr>gp_fields = [(36, GpuByteVector (replicate 9 1))], gp_opaque_data_version = 0\<rparr>\<rparr>) = undefined_behaviour"
  by (subst feature_flag_needs_eight_bytes [of _ "replicate 9 1"])
    (simp_all add: byte_field_def gpu_get_field_def gpu_get_byte_vector_def OPAQUE_FEATURE_FLAG_def ret_def
      wf_buffer_def)

lemma find_in_set: "find P xs = Some x \<Longrightarrow> x \<in> set xs \<and> P x"
  by (induction xs) (auto split: if_splits)

text \<open>
  The measurements of a report are those of its signed record,
  with indices counted from zero: the value of block \<open>index\<close> is found under \<open>index - 1\<close>, and
  nothing else is in the map.
\<close>

theorem report_measurements_by_index:
  assumes "wf_buffer d" and "report_create api root d pem arch = Inr rep"
  shows "(\<forall>index. map_of (get_measurements rep) (int (unat index) - 1)
      = map_option dmtf_value (map_of (resp_parsed_measurement_records (gr_spdm_response rep)) index))
    \<and> (\<forall>i. map_of (get_measurements rep) i \<noteq> None \<longrightarrow> 0 \<le> i \<and> i \<le> 254)"
proof -
  let ?m = "resp_parsed_measurement_records (gr_spdm_response rep)"
  let ?f = "\<lambda>index :: byte. int (unat index) - 1"
  obtain ws where ws: "list_all valid_block ws" "?m = fold store_block ws []"
    using report_create_ok [OF assms] by (auto simp: valid_response_def records_of_def)
  have inj: "inj ?f" by (rule injI) (simp add: word_uint_eq_iff)
  have "distinct (map fst ?m)" using distinct_fold_store [of "[]" ws] ws(2) by simp
  then have "map_of (get_measurements rep) (?f index) = map_option dmtf_value (map_of ?m index)" for index
    unfolding get_measurements_def map_of_fold_rename [OF inj] by (simp add: map_of_rev_distinct split: option.splits)
  moreover have "fst x \<noteq> 0" if "x \<in> set ?m" for x
  proof -
    have "map_of ?m (fst x) \<noteq> None" using that by (simp add: map_of_eq_None_iff)
    then obtain w where "find (\<lambda>w. wb_index w = fst x) (rev ws) = Some w"
      unfolding ws(2) map_of_fold_store by (auto split: option.splits)
    then have "w \<in> set ws" "wb_index w = fst x" by (auto dest: find_in_set)
    with ws(1) show ?thesis by (auto simp: list_all_iff valid_block_def)
  qed
  then have "0 \<le> i \<and> i \<le> 254" if "map_of (get_measurements rep) i \<noteq> None" for i
  proof -
    from that obtain y where "map_of (get_measurements rep) i = Some y" by blast
    then obtain x where x: "x \<in> set ?m" and i: "i = ?f (fst x)"
      unfolding get_measurements_def by (auto dest!: fold_rename_keys)
    have "unat (fst x) \<noteq> 0" using \<open>\<And>x. x \<in> set ?m \<Longrightarrow> fst x \<noteq> 0\<close> [OF x] by (simp only: unat_eq_0) simp
    moreover have "unat (fst x) < 256" using unsigned_less [of "fst x"] by simp
    ultimately show ?thesis unfolding i by linarith
  qed
  ultimately show ?thesis by blast
qed

theorem report_measurements_by_index_witness:
  "map_of (get_measurements demo_gpu_report) 0 = Some [0xaa]"
proof -
  have "wf_buffer (ge_attestation_report demo_gpu_evidence)"
    by (simp add: wf_buffer_def demo_gpu_evidence_def length_demo_report)
  note report_measurements_by_index [OF this demo_report_parsed [unfolded get_parsed_attestation_report_def],
    THEN conjunct1, rule_format, of 1]
  then show ?thesis by (simp add: demo_gpu_report_def demo_gpu_response_def dmtf_of_def demo_block_def)
qed

end
