(* ===== verification/Rim.thy ===== *)
theory Rim
  imports X509_Chain Json
begin

text \<open>
  Reference integrity manifests (\<^verbatim>\<open>src/rim.cpp\<close>): reading the certificate chain, the version, the
  manufacturer and the golden measurements from a RIM document, its claims, and the stores that
  fetch documents.  The XML libraries are the record \<open>xml_api\<close>: a document and a node are elements of
  abstract types.
\<close>

section \<open>The XML library\<close>

text \<open>
  Evaluating an XPath expression: the context or a namespace could not be set up, the evaluation
  failed, there is no node set, or the nodes in document order.
\<close>

datatype 'n xpath_result = XPathSetupFailed | XPathEvalFailed | NoNodeSet | Nodes "'n list"

text \<open>The ways \<^verbatim>\<open>verify_signature\<close> can end.\<close>

datatype dsig_result = DsigSetupFailed | NoSignatureNode | DsigError | DsigInvalid | DsigSucceeded

record ('d, 'n) xml_api =
  xml_read_doc :: "string \<Rightarrow> 'd option"
  xpath :: "'d \<Rightarrow> string \<Rightarrow> 'n xpath_result"
  get_prop :: "'n \<Rightarrow> string \<Rightarrow> string option"
  get_ns_prop :: "'n \<Rightarrow> string \<Rightarrow> string \<Rightarrow> string option"
  node_content :: "'n \<Rightarrow> string option"
  dsig_verify :: "'d \<Rightarrow> dsig_result"

definition XML_ENC_SHA384_NAMESPACE_URI :: string where
  "XML_ENC_SHA384_NAMESPACE_URI = ''http://www.w3.org/2001/04/xmlenc#sha384''"

definition TCG_RIM_NAMESPACE_URI :: string where
  "TCG_RIM_NAMESPACE_URI =
     ''https://trustedcomputinggroup.org/resource/tcg-reference-integrity-manifest-rim-information-model/''"

definition MEASUREMENT_XPATH :: string where
  "MEASUREMENT_XPATH = ''//ns0:Resource[@type='' @ [CHR 0x27] @ ''Measurement'' @ [CHR 0x27] @ '']''"

section \<open>Measurements\<close>

record measurement =
  me_active :: bool
  me_index :: int
  me_size :: int
  me_count :: int
  me_values :: "buffer list"
  me_name :: string

text \<open>\<^verbatim>\<open>Measurements\<close>: a map from indices; the indices are listed in increasing order.\<close>

type_synonym measurements = "(int \<times> measurement) list"

definition get_measurement_at_index :: "measurements \<Rightarrow> int \<Rightarrow> measurement outcome" where
  "get_measurement_at_index ms index =
     (case map_of ms index of None \<Rightarrow> fail RimMeasurementNotFound | Some m \<Rightarrow> ret m)"

definition has_measurement_at_index :: "measurements \<Rightarrow> int \<Rightarrow> bool" where
  "has_measurement_at_index ms index \<longleftrightarrow> map_of ms index \<noteq> None"

definition get_all_indices :: "measurements \<Rightarrow> int list" where
  "get_all_indices ms = sort (map fst ms)"

definition add_measurement :: "measurements \<Rightarrow> measurement \<Rightarrow> measurements outcome" where
  "add_measurement ms m =
     guard RimInvalidSchema (map_of ms (me_index m) = None) (ret (AList.update (me_index m) m ms))"

section \<open>Documents\<close>

record 'd rim_document =
  rd_rim_id :: string
  rd_doc :: 'd
  rd_rim_data :: string

text \<open>The text is passed as a C string: the parser sees it up to the first NUL.\<close>

definition create_from_rim_data :: "('d, 'n) xml_api \<Rightarrow> string \<Rightarrow> 'd rim_document outcome" where
  "create_from_rim_data xml rim_data =
     (case xml_read_doc xml (remove_null_terminators rim_data) of
        None \<Rightarrow> fail InternalError
      | Some doc \<Rightarrow> ret \<lparr>rd_rim_id = [], rd_doc = doc, rd_rim_data = rim_data\<rparr>)"

definition set_rim_id :: "'d rim_document \<Rightarrow> string \<Rightarrow> 'd rim_document" where
  "set_rim_id doc rim_id = doc\<lparr>rd_rim_id := rim_id\<rparr>"

definition get_rim_id :: "'d rim_document \<Rightarrow> string" where
  "get_rim_id doc = (if rd_rim_id doc = [] then ''[unknown]'' else rd_rim_id doc)"

definition pem_of_content :: "string \<Rightarrow> string" where
  "pem_of_content content = ''-----BEGIN CERTIFICATE-----'' @ [char_of (10 :: nat)] @ content @ END_CERTIFICATE"

fun push_certificates ::
  "'c x509_api \<Rightarrow> ('d, 'n) xml_api \<Rightarrow> 'n list \<Rightarrow> 'c cert_chain \<Rightarrow> 'c cert_chain outcome" where
  "push_certificates api xml [] chain = ret chain"
| "push_certificates api xml (n # ns) chain =
     (case node_content xml n of
        None \<Rightarrow> push_certificates api xml ns chain
      | Some content \<Rightarrow>
          bind (chain_push_back api chain (pem_of_content content)) (\<lambda>chain. push_certificates api xml ns chain))"

definition get_cert_chain :: "'c x509_api \<Rightarrow> ('d, 'n) xml_api \<Rightarrow> string \<Rightarrow> 'd rim_document \<Rightarrow> 'c cert_chain outcome" where
  "get_cert_chain api xml rim_root_cert doc =
     (case xpath xml (rd_doc doc) ''//ds:X509Certificate'' of
        Nodes ns \<Rightarrow>
          guard InternalError (ns \<noteq> [])
          (guard InternalError (pem_read_x509 api rim_root_cert \<noteq> None)
          (bind (chain_create api GPU_DRIVER_RIM rim_root_cert) (\<lambda>chain. push_certificates api xml ns chain)))
      | _ \<Rightarrow> fail InternalError)"

definition get_version :: "('d, 'n) xml_api \<Rightarrow> 'd rim_document \<Rightarrow> string outcome" where
  "get_version xml doc =
     (case xpath xml (rd_doc doc) ''//ns0:Meta[@colloquialVersion]'' of
        XPathSetupFailed \<Rightarrow> fail InternalError
      | Nodes (meta_node # _) \<Rightarrow>
          (case get_prop xml meta_node ''colloquialVersion'' of
             None \<Rightarrow> fail RimInvalidSchema
           | Some v \<Rightarrow> ret v)
      | _ \<Rightarrow> fail RimInvalidSchema)"

definition get_manufacturer_id :: "('d, 'n) xml_api \<Rightarrow> 'd rim_document \<Rightarrow> string outcome" where
  "get_manufacturer_id xml doc =
     (case xpath xml (rd_doc doc) ''//ns0:Meta[@ns1:FirmwareManufacturerId]'' of
        XPathSetupFailed \<Rightarrow> fail InternalError
      | Nodes [meta_node] \<Rightarrow>
          (case get_ns_prop xml meta_node ''FirmwareManufacturerId'' TCG_RIM_NAMESPACE_URI of
             None \<Rightarrow> fail RimInvalidSchema
           | Some v \<Rightarrow> ret v)
      | _ \<Rightarrow> fail RimInvalidSchema)"

definition rim_verify_signature :: "('d, 'n) xml_api \<Rightarrow> 'd rim_document \<Rightarrow> unit outcome" where
  "rim_verify_signature xml doc =
     (case dsig_verify xml (rd_doc doc) of
        DsigSucceeded \<Rightarrow> ret ()
      | NoSignatureNode \<Rightarrow> fail RimInvalidSchema
      | DsigInvalid \<Rightarrow> fail RimInvalidSignature
      | _ \<Rightarrow> fail InternalError)"

section \<open>Golden measurements\<close>

text \<open>The loop over the alternatives of one node; a negative count runs zero times.\<close>

fun hash_loop :: "('d, 'n) xml_api \<Rightarrow> 'n \<Rightarrow> nat \<Rightarrow> nat \<Rightarrow> buffer list \<Rightarrow> buffer list outcome" where
  "hash_loop xml node alt 0 acc = ret acc"
| "hash_loop xml node alt (Suc n) acc =
     (case get_ns_prop xml node (''Hash'' @ to_string alt) XML_ENC_SHA384_NAMESPACE_URI of
        None \<Rightarrow> fail RimInvalidSchema
      | Some hex_string \<Rightarrow> hash_loop xml node (Suc alt) n (acc @ [hex_string_to_bytes hex_string]))"

text \<open>
  One measurement node: \<open>None\<close> is an inactive one.  The size of the value vector is compared with the
  count after its conversion to \<^verbatim>\<open>size_t\<close>, so a negative count is refused.
\<close>

definition parse_measurement_node :: "('d, 'n) xml_api \<Rightarrow> 'n \<Rightarrow> measurement option outcome" where
  "parse_measurement_node xml node =
     (case (get_prop xml node ''active'', get_prop xml node ''index'', get_prop xml node ''alternatives'',
            get_prop xml node ''name'', get_prop xml node ''size'') of
        (Some active_attr, Some index_attr, Some alternatives_attr, Some name_attr, Some size_attr) \<Rightarrow>
          bind (stoi index_attr) (\<lambda>index.
          bind (stoi alternatives_attr) (\<lambda>alternatives.
          bind (stoi size_attr) (\<lambda>size.
          if active_attr \<noteq> ''True'' then ret None
          else bind (hash_loop xml node 0 (nat alternatives) []) (\<lambda>hash_values.
          guard RimInvalidSchema (vsize hash_values = of_int alternatives)
          (ret (Some \<lparr>me_active = True, me_index = index, me_size = size, me_count = alternatives,
                      me_values = hash_values, me_name = name_attr\<rparr>))))))
      | _ \<Rightarrow> fail RimInvalidSchema)"

fun measurement_loop :: "('d, 'n) xml_api \<Rightarrow> 'n list \<Rightarrow> measurements \<Rightarrow> measurements outcome" where
  "measurement_loop xml [] ms = ret ms"
| "measurement_loop xml (n # ns) ms =
     bind (parse_measurement_node xml n) (\<lambda>r. case r of
       None \<Rightarrow> measurement_loop xml ns ms
     | Some m \<Rightarrow> bind (add_measurement ms m) (\<lambda>ms. measurement_loop xml ns ms))"

definition rim_measurements :: "('d, 'n) xml_api \<Rightarrow> 'd rim_document \<Rightarrow> measurements outcome" where
  "rim_measurements xml doc =
     (case xpath xml (rd_doc doc) MEASUREMENT_XPATH of
        Nodes ns \<Rightarrow> measurement_loop xml ns []
      | NoNodeSet \<Rightarrow> fail RimInvalidSchema
      | _ \<Rightarrow> fail LibXml2Error)"

section \<open>Claims\<close>

datatype gpu_claims_version = GpuClaimsV2 | GpuClaimsV3

datatype switch_claims_version = SwitchClaimsV3

record evidence_policy =
  ep_gpu_claims_version :: gpu_claims_version
  ep_switch_claims_version :: switch_claims_version
  verify_rim_signature :: bool
  verify_rim_cert_chain :: bool

text \<open>Without chain verification the chain claims of the result are not initialised.\<close>

record rim_claims =
  rm_cert_chain_claims :: "cert_chain_claims option"
  rm_signature_verified :: bool

definition rim_chain_claims ::
  "'c x509_api \<Rightarrow> ('d, 'n) xml_api \<Rightarrow> ('s \<Rightarrow> 'c \<Rightarrow> 'c \<Rightarrow> 'c list \<Rightarrow> 'c \<Rightarrow> ocsp_response outcome \<times> 's) \<Rightarrow> (int \<Rightarrow> string)
    \<Rightarrow> int \<Rightarrow> string \<Rightarrow> 'd rim_document \<Rightarrow> evidence_policy \<Rightarrow> 's \<Rightarrow> cert_chain_claims option outcome \<times> 's" where
  "rim_chain_claims api xml get_response reason_str now rim_root_cert doc policy s =
     (if \<not> verify_rim_cert_chain policy then (ret None, s)
      else case get_cert_chain api xml rim_root_cert doc of
        Inl f \<Rightarrow> (Inl f, s)
      | Inr chain \<Rightarrow>
          (case generate_cert_chain_claims api get_response reason_str now chain s of
             (Inl f, s) \<Rightarrow> (Inl f, s)
           | (Inr c, s) \<Rightarrow> (ret (Some c), s)))"

definition generate_rim_claims ::
  "'c x509_api \<Rightarrow> ('d, 'n) xml_api \<Rightarrow> ('s \<Rightarrow> 'c \<Rightarrow> 'c \<Rightarrow> 'c list \<Rightarrow> 'c \<Rightarrow> ocsp_response outcome \<times> 's) \<Rightarrow> (int \<Rightarrow> string)
    \<Rightarrow> int \<Rightarrow> string \<Rightarrow> 'd rim_document \<Rightarrow> evidence_policy \<Rightarrow> 's \<Rightarrow> rim_claims outcome \<times> 's" where
  "generate_rim_claims api xml get_response reason_str now rim_root_cert doc policy s =
     (case rim_chain_claims api xml get_response reason_str now rim_root_cert doc policy s of
        (Inl f, s) \<Rightarrow> (Inl f, s)
      | (Inr cc, s) \<Rightarrow>
          if verify_rim_signature policy
          then (bind (rim_verify_signature xml doc)
                 (\<lambda>_. ret \<lparr>rm_cert_chain_claims = cc, rm_signature_verified = True\<rparr>), s)
          else (ret \<lparr>rm_cert_chain_claims = cc, rm_signature_verified = False\<rparr>, s))"

section \<open>Stores\<close>

record rim_response =
  rr_id :: string
  rr_rim :: string
  rr_request_id :: string
  rr_sha256 :: string

definition rim_response_from_json :: "json \<Rightarrow> rim_response outcome" where
  "rim_response_from_json j =
     bind (bind (json_at j ''id'') get_string) (\<lambda>ident.
     bind (bind (json_at j ''rim'') get_string) (\<lambda>rim.
     bind (bind (json_at j ''request_id'') get_string) (\<lambda>request_id.
     bind (bind (json_at j ''sha256'') get_string) (\<lambda>sha256.
     ret \<lparr>rr_id = ident, rr_rim = rim, rr_request_id = request_id, rr_sha256 = sha256\<rparr>))))"

definition extract_rim_document ::
  "('d, 'n) xml_api \<Rightarrow> (string \<Rightarrow> buffer option) \<Rightarrow> string \<Rightarrow> 'd rim_document outcome" where
  "extract_rim_document xml b64_decode rim_response_data =
     bind (map_error InternalError (decode_base64_string b64_decode rim_response_data)) (\<lambda>decoded.
     map_error InternalError (create_from_rim_data xml decoded))"

text \<open>\<^verbatim>\<open>NvRemoteRimStoreImpl::get_rim\<close>: the request has no headers of its own.\<close>

definition remote_get_rim ::
  "(curl_setup \<Rightarrow> nat \<Rightarrow> curl_attempt) \<Rightarrow> http_client \<Rightarrow> string \<Rightarrow> (string \<Rightarrow> json outcome)
    \<Rightarrow> (string \<Rightarrow> buffer option) \<Rightarrow> ('d, 'n) xml_api \<Rightarrow> string \<Rightarrow> 'd rim_document outcome" where
  "remote_get_rim perform client base_url parse b64_decode xml rim_id =
     bind (do_request_as_string perform client
       \<lparr>nr_url = base_url @ ''/v1/rim/'' @ rim_id, nr_method = HTTP_METHOD_GET, nr_headers = [], nr_payload = []\<rparr>)
       (\<lambda>(http_code, response).
     if http_code \<noteq> 200 then
       (if http_code = 404 then fail RimNotFound
        else if http_code = 403 \<or> http_code = 401 then fail RimForbidden
        else fail RimInternalError)
     else bind (deserialize_from_json parse rim_response_from_json response) (\<lambda>rim_response.
     guard InternalError (rim_id = rr_id rim_response)
     (bind (extract_rim_document xml b64_decode (rr_rim rim_response)) (\<lambda>doc.
      ret (set_rim_id doc rim_id)))))"

text \<open>\<^verbatim>\<open>FilesystemRimStoreImpl\<close>, over the file system as it is during the call.\<close>

record file_system =
  fs_exists :: "string \<Rightarrow> bool"
  fs_is_directory :: "string \<Rightarrow> bool"
  fs_read :: "string \<Rightarrow> string option"

definition filesystem_get_rim ::
  "file_system \<Rightarrow> string \<Rightarrow> ('d, 'n) xml_api \<Rightarrow> string \<Rightarrow> 'd rim_document outcome" where
  "filesystem_get_rim fs path xml rim_id =
     guard RimNotFound (fs_exists fs path)
     (guard RimNotFound (fs_is_directory fs path)
     (let tcg_path = path_join path (rim_id @ ''.xml'');
          corim_path = path_join path (rim_id @ ''.corim'') in
      if fs_exists fs tcg_path then
        (case fs_read fs tcg_path of
           None \<Rightarrow> fail InternalError
         | Some rim_data \<Rightarrow>
             bind (map_error InternalError (create_from_rim_data xml rim_data)) (\<lambda>doc. ret (set_rim_id doc rim_id)))
      else if fs_exists fs corim_path then fail InternalError
      else fail RimNotFound))"

text \<open>
  \<^verbatim>\<open>InMemoryCachingRimStoreImpl::get_rim\<close> over the operations of a cache of raw documents.  A cache
  error other than \<^verbatim>\<open>CacheObjectNotFound\<close> leaves a null pointer that is then dereferenced.
\<close>

definition cached_get_rim ::
  "('s \<Rightarrow> string \<Rightarrow> (string \<times> 's) outcome) \<Rightarrow> ('s \<Rightarrow> string \<Rightarrow> string \<Rightarrow> u64 \<Rightarrow> 's outcome)
    \<Rightarrow> ('d, 'n) xml_api \<Rightarrow> (string \<Rightarrow> 'd rim_document outcome) \<Rightarrow> 's \<Rightarrow> string \<Rightarrow> 'd rim_document outcome \<times> 's" where
  "cached_get_rim cget cput xml inner s rim_id =
     (case cget s rim_id of
        Inl f \<Rightarrow>
          if f = Err CacheObjectNotFound then
            (case inner rim_id of
               Inl f \<Rightarrow> (Inl f, s)
             | Inr doc \<Rightarrow>
                 (case cput s rim_id (rd_rim_data doc) (vsize (rd_rim_data doc)) of
                    Inl f \<Rightarrow> (Inl f, s)
                  | Inr s' \<Rightarrow> (ret doc, s')))
          else (undefined_behaviour, s)
      | Inr (rim_data, s') \<Rightarrow> (create_from_rim_data xml rim_data, s'))"

section \<open>The store interface\<close>

text \<open>
  What a verifier relies on when it asks an \<^verbatim>\<open>IRimStore\<close>: a document it is given was parsed from its
  own raw text, the text was published for the identifier asked for, and the store stays usable.
\<close>

definition wf_document :: "('d, 'n) xml_api \<Rightarrow> 'd rim_document \<Rightarrow> bool" where
  "wf_document xml doc \<longleftrightarrow> xml_read_doc xml (remove_null_terminators (rd_rim_data doc)) = Some (rd_doc doc)"

locale rim_store =
  fixes get_rim :: "'s \<Rightarrow> string \<Rightarrow> 'd rim_document outcome \<times> 's"
    and xml :: "('d, 'n) xml_api"
    and published :: "string \<Rightarrow> string \<Rightarrow> bool"
    and inv :: "'s \<Rightarrow> bool"
  assumes genuine: "inv s \<Longrightarrow> get_rim s rim_id = (Inr doc, s') \<Longrightarrow>
        wf_document xml doc \<and> published rim_id (rd_rim_data doc)"
    and usable: "inv s \<Longrightarrow> get_rim s rim_id = (x, s') \<Longrightarrow> inv s'"
begin

text \<open>Two documents a store gives out have the same content when their raw texts agree.\<close>

lemma same_text_same_document:
  assumes "inv s" and "get_rim s i = (Inr doc, s1)" and "inv s2" and "get_rim s2 j = (Inr doc', s3)"
    and "rd_rim_data doc = rd_rim_data doc'"
  shows "rd_doc doc = rd_doc doc'"
  using genuine [OF assms(1,2)] genuine [OF assms(3,4)] assms(5) by (simp add: wf_document_def)

end

lemma create_from_rim_data_ok:
  "create_from_rim_data xml t = Inr doc \<longleftrightarrow>
     wf_document xml doc \<and> rd_rim_data doc = t \<and> rd_rim_id doc = []"
  by (cases doc) (auto simp: create_from_rim_data_def wf_document_def outcome_simps split: option.splits)

lemma set_rim_id_simps [simp]:
  "rd_rim_data (set_rim_id doc i) = rd_rim_data doc" "rd_doc (set_rim_id doc i) = rd_doc doc"
  "wf_document xml (set_rim_id doc i) = wf_document xml doc" "rd_rim_id (set_rim_id doc i) = i"
  by (simp_all add: set_rim_id_def wf_document_def)

lemma remote_get_rim_ok:
  assumes "remote_get_rim perform client base_url parse b64_decode xml rim_id = Inr doc"
  shows "wf_document xml doc \<and> rd_rim_id doc = rim_id"
  using assms
  by (auto simp: remote_get_rim_def extract_rim_document_def outcome_simps create_from_rim_data_ok
      split: if_splits)

lemma filesystem_get_rim_ok:
  assumes "filesystem_get_rim fs path xml rim_id = Inr doc"
  shows "wf_document xml doc \<and> rd_rim_id doc = rim_id
    \<and> fs_read fs (path_join path (rim_id @ ''.xml'')) = Some (rd_rim_data doc)"
  using assms
  by (auto simp: filesystem_get_rim_def Let_def outcome_simps create_from_rim_data_ok
      split: if_splits option.splits)

interpretation file_store: rim_store "\<lambda>s rim_id. (filesystem_get_rim fs path xml rim_id, s)" xml
  "\<lambda>rim_id t. fs_read fs (path_join path (rim_id @ ''.xml'')) = Some t" "\<lambda>_. True" for fs path xml
  by unfold_locales (auto dest: filesystem_get_rim_ok)

interpretation remote_store: rim_store
  "\<lambda>s rim_id. (remote_get_rim perform client base_url parse b64_decode xml rim_id, s)" xml
  "\<lambda>rim_id t. \<exists>doc. remote_get_rim perform client base_url parse b64_decode xml rim_id = Inr doc \<and> rd_rim_data doc = t"
  "\<lambda>_. True" for perform client base_url parse b64_decode xml
  by unfold_locales (auto dest: remote_get_rim_ok)

section \<open>The caching store\<close>

text \<open>What the cache holds: raw texts that parse and that the inner store gave out for their key.\<close>

definition cacheable :: "('d, 'n) xml_api \<Rightarrow> (string \<Rightarrow> string \<Rightarrow> bool) \<Rightarrow> string \<Rightarrow> string \<Rightarrow> bool" where
  "cacheable xml published rim_id t \<longleftrightarrow>
     published rim_id t \<and> xml_read_doc xml (remove_null_terminators t) \<noteq> None"

locale rim_cache = object_cache cget cput contents inv
  for cget :: "'s \<Rightarrow> string \<Rightarrow> (string \<times> 's) outcome"
    and cput :: "'s \<Rightarrow> string \<Rightarrow> string \<Rightarrow> u64 \<Rightarrow> 's outcome"
    and contents :: "'s \<Rightarrow> string \<rightharpoonup> string"
    and inv :: "'s \<Rightarrow> bool" +
  fixes xml :: "('d, 'n) xml_api"
    and inner :: "string \<Rightarrow> 'd rim_document outcome"
  assumes inner_wf: "inner rim_id = Inr doc \<Longrightarrow> wf_document xml doc"
begin

lemma cached_rim_call:
  assumes all: "all_cached inv contents (cacheable xml published) s"
    and inner: "\<And>doc. inner rim_id = Inr doc \<Longrightarrow> published rim_id (rd_rim_data doc)"
    and call: "cached_get_rim cget cput xml inner s rim_id = (x, s')"
  shows "all_cached inv contents (cacheable xml published) s'
    \<and> (case x of
         Inr doc \<Rightarrow> wf_document xml doc \<and> published rim_id (rd_rim_data doc)
       | Inl f \<Rightarrow> inner rim_id = Inl f \<or> f = Err BadArgument)"
proof (cases "cget s rim_id")
  case (Inl f)
  have inv: "inv s" using all by (simp add: all_cached_def)
  have "f = Err CacheObjectNotFound" using miss [OF inv Inl] .
  moreover have "cacheable xml published rim_id (rd_rim_data doc)" if "inner rim_id = Inr doc" for doc
    using inner [OF that] inner_wf [OF that] by (simp add: cacheable_def wf_document_def)
  ultimately show ?thesis
    using call Inl inner inner_wf all all_cached_put [OF all] refused [OF inv]
    by (auto simp: cached_get_rim_def ret_def split: sum.splits)
next
  case (Inr p)
  obtain t s1 where p: "p = (t, s1)" by (cases p)
  have h: "cacheable xml published rim_id t" "all_cached inv contents (cacheable xml published) s1"
    using all_cached_get [OF all] Inr p by auto
  then obtain d where "xml_read_doc xml (remove_null_terminators t) = Some d" by (auto simp: cacheable_def)
  then have "x = Inr \<lparr>rd_rim_id = [], rd_doc = d, rd_rim_data = t\<rparr>" "s' = s1"
    using call Inr p by (auto simp: cached_get_rim_def create_from_rim_data_def ret_def)
  with h show ?thesis
    using \<open>xml_read_doc xml (remove_null_terminators t) = Some d\<close>
    by (simp add: cacheable_def wf_document_def)
qed

end

sublocale rim_cache \<subseteq> cached_store: rim_store "cached_get_rim cget cput xml inner" xml
  "\<lambda>rim_id t. \<exists>doc. inner rim_id = Inr doc \<and> rd_rim_data doc = t"
  "all_cached inv contents (cacheable xml (\<lambda>rim_id t. \<exists>doc. inner rim_id = Inr doc \<and> rd_rim_data doc = t))"
proof unfold_locales
  let ?P = "\<lambda>rim_id t. \<exists>doc. inner rim_id = Inr doc \<and> rd_rim_data doc = t"
  fix s i x s'
  assume "all_cached inv contents (cacheable xml ?P) s" and "cached_get_rim cget cput xml inner s i = (x, s')"
  then show "all_cached inv contents (cacheable xml ?P) s'"
    using cached_rim_call [of ?P s i x s'] by blast
next
  let ?P = "\<lambda>rim_id t. \<exists>doc. inner rim_id = Inr doc \<and> rd_rim_data doc = t"
  fix s i doc s'
  assume "all_cached inv contents (cacheable xml ?P) s" and "cached_get_rim cget cput xml inner s i = (Inr doc, s')"
  then show "wf_document xml doc \<and> (\<exists>doc'. inner i = Inr doc' \<and> rd_rim_data doc' = rd_rim_data doc)"
    using cached_rim_call [of ?P s i "Inr doc" s'] by auto
qed

interpretation remote_rim_cache: rim_cache "cache_get now" "cache_put clock" contents cache_inv xml
  "remote_get_rim perform client base_url parse b64_decode xml"
  for now clock xml perform client base_url parse b64_decode
  by unfold_locales (auto dest: remote_get_rim_ok)

interpretation file_rim_cache: rim_cache "cache_get now" "cache_put clock" contents cache_inv xml
  "filesystem_get_rim fs path xml" for now clock xml fs path
  by unfold_locales (auto dest: filesystem_get_rim_ok)

section \<open>What the measurement reader accepts\<close>

lemma AList_update_new: "map_of m k = None \<Longrightarrow> AList.update k v m = m @ [(k, v)]"
  by (induction m) (auto split: if_splits)

text \<open>The active measurements, in document order.\<close>

definition active_measurements :: "measurement option list \<Rightarrow> measurement list" where
  "active_measurements rs = List.map_filter id rs"

lemma active_measurements_simps [simp]:
  "active_measurements [] = []" "active_measurements (None # rs) = active_measurements rs"
  "active_measurements (Some m # rs) = m # active_measurements rs"
  by (simp_all add: active_measurements_def List.map_filter_simps)

lemma ex_Cons: "(\<exists>xs. (\<exists>ys. xs = x # ys \<and> T ys) \<and> Q xs) \<longleftrightarrow> (\<exists>ys. T ys \<and> Q (x # ys))"
  by blast

lemma measurement_loop_ok:
  "measurement_loop xml ns ms = Inr ms' \<longleftrightarrow>
     (\<exists>rs. traverse (parse_measurement_node xml) ns = Inr rs
        \<and> distinct (map me_index (active_measurements rs))
        \<and> (\<forall>m \<in> set (active_measurements rs). map_of ms (me_index m) = None)
        \<and> ms' = ms @ map (\<lambda>m. (me_index m, m)) (active_measurements rs))"
proof (induction ns arbitrary: ms)
  case Nil
  then show ?case by (auto simp: outcome_simps ret_def)
next
  case (Cons n ns)
  show ?case
  proof (cases "parse_measurement_node xml n")
    case (Inl f)
    then show ?thesis by simp
  next
    case (Inr r)
    have tr: "traverse (parse_measurement_node xml) (n # ns) = Inr rs \<longleftrightarrow>
        (\<exists>rs'. rs = r # rs' \<and> traverse (parse_measurement_node xml) ns = Inr rs')" for rs
      unfolding traverse_Cons_ok using Inr by auto
    show ?thesis
    proof (cases r)
      case None
      then have A: "measurement_loop xml (n # ns) ms = Inr ms' \<longleftrightarrow> measurement_loop xml ns ms = Inr ms'"
        using Inr by simp
      show ?thesis unfolding A Cons.IH tr None by auto
    next
      case (Some m)
      let ?ms = "ms @ [(me_index m, m)]"
      have fresh: "map_of ?ms i = None \<longleftrightarrow> map_of ms i = None \<and> i \<noteq> me_index m" for i
        by (auto simp: map_of_eq_None_iff)
      have L: "measurement_loop xml (n # ns) ms
          = (if map_of ms (me_index m) = None then measurement_loop xml ns ?ms else fail RimInvalidSchema)"
        using Inr Some by (simp add: add_measurement_def AList_update_new guard_def)
      note r = Some
      show ?thesis
      proof (cases "map_of ms (me_index m)")
        case None
        then have A: "measurement_loop xml (n # ns) ms = Inr ms' \<longleftrightarrow> measurement_loop xml ns ?ms = Inr ms'"
          by (simp add: L del: measurement_loop.simps)
        show ?thesis unfolding A Cons.IH fresh tr r ex_Cons
          by (rule ex_cong1) (use None in \<open>auto simp: image_iff\<close>)
      next
        case Some
        then have A: "measurement_loop xml (n # ns) ms = Inr ms' \<longleftrightarrow> False"
          by (simp add: L fail_def del: measurement_loop.simps)
        show ?thesis unfolding A tr r using Some by auto
      qed
    qed
  qed
qed

lemma hash_loop_length: "hash_loop xml node alt n acc = Inr vs \<Longrightarrow> length vs = length acc + n"
  by (induction n arbitrary: alt acc) (auto simp: outcome_simps split: option.splits)

text \<open>
  A parsed node has as many values as its \<^verbatim>\<open>alternatives\<close> attribute says.  The test compares 64-bit
  values; a count is at most 31 bits wide, so nothing is lost.
\<close>

lemma parse_measurement_node_values:
  assumes "parse_measurement_node xml n = Inr (Some m)"
  shows "me_active m \<and> int (length (me_values m)) = me_count m"
proof -
  from assms obtain alts hs a where "stoi a = Inr alts"
    and hs: "hash_loop xml n 0 (nat alts) [] = Inr hs" "vsize hs = of_int alts"
    and m: "me_active m" "me_values m = hs" "me_count m = alts"
    unfolding parse_measurement_node_def
    by (auto simp: outcome_simps split: option.splits if_splits)
  then have bounds: "- (2 ^ 31) \<le> alts" "alts < 2 ^ 31"
    by (auto simp: stoi_def Let_def outcome_simps split: prod.splits if_splits)
  have len: "length hs = nat alts" using hash_loop_length [OF hs(1)] by simp
  have "0 \<le> alts"
  proof (rule ccontr)
    assume neg: "\<not> 0 \<le> alts"
    then have "(of_int alts :: size_t) = 0" using hs(2) len by (simp add: vsize_def)
    then have "(2 ^ 64 :: int) dvd alts" by (simp add: of_int_eq_0_iff word_of_int_eq_0_iff)
    then show False using neg bounds by (auto simp: dvd_def)
  qed
  then show ?thesis using len m by simp
qed

section \<open>Properties\<close>


text \<open>
  C36 (cached_rim_genuine): the caching RIM store returns a document only if its raw text was obtained
  for the same identifier (\<open>published\<close> is any property that the texts in the cache have and that the
  inner store's answers have) and the document was parsed from that text; the cache keeps only such
  texts.  A call fails only as the inner store fails, or because the document does not fit the cache.
\<close>

theorem cached_rim_genuine:
  assumes "all_cached cache_inv contents (cacheable xml published) s"
    and "\<forall>doc. remote_get_rim perform client base_url parse b64_decode xml rim_id = Inr doc
        \<longrightarrow> published rim_id (rd_rim_data doc)"
    and "cached_get_rim (cache_get now) (cache_put clock) xml
        (remote_get_rim perform client base_url parse b64_decode xml) s rim_id = (x, s')"
  shows "all_cached cache_inv contents (cacheable xml published) s'
    \<and> (case x of
         Inr doc \<Rightarrow> wf_document xml doc \<and> published rim_id (rd_rim_data doc)
       | Inl f \<Rightarrow> remote_get_rim perform client base_url parse b64_decode xml rim_id = Inl f
           \<or> f = Err BadArgument)"
  using assms(2) by (intro remote_rim_cache.cached_rim_call [OF assms(1) _ assms(3)]) blast

definition demo_xml :: "(string, nat) xml_api" where
  "demo_xml = \<lparr>xml_read_doc = Some, xpath = (\<lambda>d e. Nodes []), get_prop = (\<lambda>n a. None),
     get_ns_prop = (\<lambda>n a u. None), node_content = (\<lambda>n. None), dsig_verify = (\<lambda>d. DsigSucceeded)\<rparr>"

definition demo_rim_json :: json where
  "demo_rim_json = JObject [(''id'', JString ''r1''), (''rim'', JString ''6162''),
     (''request_id'', JString ''q''), (''sha256'', JString ''h'')]"

definition demo_remote :: "string \<Rightarrow> string rim_document outcome" where
  "demo_remote = remote_get_rim demo_perform demo_client ''https://rim'' (\<lambda>t. Inr demo_rim_json)
     (\<lambda>s. Some (hex_string_to_bytes s)) demo_xml"

lemma demo_remote_eval:
  "demo_remote ''r1'' = Inr \<lparr>rd_rim_id = ''r1'', rd_doc = ''ab'', rd_rim_data = ''ab''\<rparr>"
  by code_simp

lemma demo_cached_eval:
  "is_ok (fst (cached_get_rim (cache_get 5) (cache_put (\<lambda>i. 5)) demo_xml demo_remote
     (new_cache (Some (1000, 60))) ''r1''))"
  by code_simp

theorem cached_rim_genuine_witness:
  "\<exists>doc s'. cached_get_rim (cache_get 5) (cache_put (\<lambda>i. 5)) demo_xml demo_remote
       (new_cache (Some (1000, 60))) ''r1'' = (Inr doc, s') \<and> rd_rim_data doc = ''ab''"
proof -
  obtain doc s' where call: "cached_get_rim (cache_get 5) (cache_put (\<lambda>i. 5)) demo_xml demo_remote
      (new_cache (Some (1000, 60))) ''r1'' = (Inr doc, s')"
    using demo_cached_eval
    by (cases "cached_get_rim (cache_get 5) (cache_put (\<lambda>i. 5)) demo_xml demo_remote
      (new_cache (Some (1000, 60))) ''r1''") (auto simp: is_ok_def split: sum.splits)
  have "unat (fst (1000 :: u64, 60 :: int)) < 2 ^ 63" by simp
  from cached_rim_genuine [OF all_cached_new [OF this, of "cacheable demo_xml (\<lambda>i t. t = ''ab'')"] _
      call [unfolded demo_remote_def]]
  have "rd_rim_data doc = ''ab''"
    using demo_remote_eval by (simp add: demo_remote_def)
  with call show ?thesis by blast
qed

end
