(* ===== verification/Claims.thy ===== *)
theory Claims
  imports X509_Chain Rim
begin

text \<open>
  The claims a verifier issues (\<^verbatim>\<open>include/nv_attestation/claims.h\<close>, \<^verbatim>\<open>src/claims.cpp\<close>, \<^verbatim>\<open>src/gpu/claims.cpp\<close>,
  \<^verbatim>\<open>src/switch/claims.cpp\<close>) and their JSON form.  The same classes are filled by the local verifiers and
  read back from the tokens of the remote service.  The theorems show that reading undoes writing,
  and what reading supplies when a member is missing or not understood.
\<close>

section \<open>Text of the status values\<close>

definition ocsp_status_to_string :: "ocsp_status \<Rightarrow> string" where
  "ocsp_status_to_string st = (case st of
      OCSP_GOOD \<Rightarrow> ''good'' | OCSP_REVOKED \<Rightarrow> ''revoked'' | OCSP_UNKNOWN \<Rightarrow> ''unknown''
    | OCSP_UNDEFINED \<Rightarrow> ''undefined'')"

definition chain_status_to_string :: "chain_status \<Rightarrow> string" where
  "chain_status_to_string st = (case st of
      CERT_VALID \<Rightarrow> ''valid'' | CERT_INVALID \<Rightarrow> ''invalid'' | CERT_REVOKED \<Rightarrow> ''revoked''
    | CERT_EXPIRED \<Rightarrow> ''expired'')"

definition gpu_claims_version_to_string :: "gpu_claims_version \<Rightarrow> string" where
  "gpu_claims_version_to_string v = (case v of GpuClaimsV2 \<Rightarrow> ''2.0'' | GpuClaimsV3 \<Rightarrow> ''3.0'')"

definition switch_claims_version_to_string :: "switch_claims_version \<Rightarrow> string" where
  "switch_claims_version_to_string v = (case v of SwitchClaimsV3 \<Rightarrow> ''3.0'')"

section \<open>Signed-age status\<close>

record signed_age_status =
  sa_version :: int
  sa_verification_time_unix :: int
  sa_status_deadline_unix :: int
  sa_oldest_this_update_unix :: int
  sa_covered_certificates :: u64

definition signed_age_to_json :: "signed_age_status \<Rightarrow> json" where
  "signed_age_to_json st = JObject
     [(''version'', JInt (sa_version st)),
      (''mode'', JString ''signed-age''),
      (''verification_time_unix'', JInt (sa_verification_time_unix st)),
      (''status_deadline_unix'', JInt (sa_status_deadline_unix st)),
      (''oldest_this_update_unix'', JInt (sa_oldest_this_update_unix st)),
      (''covered_certificates'', JInt (uint (sa_covered_certificates st)))]"

definition signed_age_from_json :: "json \<Rightarrow> signed_age_status outcome" where
  "signed_age_from_json j =
     bind (bind (json_at j ''version'') get_int) (\<lambda>version.
     bind (bind (json_at j ''verification_time_unix'') get_int64) (\<lambda>verification_time.
     bind (bind (json_at j ''status_deadline_unix'') get_int64) (\<lambda>status_deadline.
     bind (bind (json_at j ''oldest_this_update_unix'') get_int64) (\<lambda>oldest_this_update.
     bind (bind (json_at j ''covered_certificates'') get_uint64) (\<lambda>covered_certificates.
     ret \<lparr>sa_version = version, sa_verification_time_unix = verification_time,
          sa_status_deadline_unix = status_deadline, sa_oldest_this_update_unix = oldest_this_update,
          sa_covered_certificates = covered_certificates\<rparr>)))))"

definition make_signed_age_status :: "bool \<Rightarrow> int \<Rightarrow> int \<Rightarrow> int \<Rightarrow> u64 \<Rightarrow> signed_age_status option" where
  "make_signed_age_status signed_age verification_time status_deadline oldest_this_update covered_certificates =
     (if \<not> signed_age then None
      else Some \<lparr>sa_version = 1, sa_verification_time_unix = verification_time,
                 sa_status_deadline_unix = status_deadline,
                 sa_oldest_this_update_unix = oldest_this_update,
                 sa_covered_certificates = covered_certificates\<rparr>)"

section \<open>Claims about a certificate chain\<close>

record chain_json_claims =
  sc_cert_expiration_date :: string
  sc_cert_status :: string
  sc_cert_ocsp_status :: string
  sc_cert_revocation_reason :: "string option"
  sc_ocsp_nonce_matches :: bool
  sc_ocsp_response_valid :: bool
  sc_ocsp_signed_age :: "signed_age_status option"

definition new_chain_json_claims :: chain_json_claims where
  "new_chain_json_claims = \<lparr>sc_cert_expiration_date = '''', sc_cert_status = '''', sc_cert_ocsp_status = '''',
     sc_cert_revocation_reason = None, sc_ocsp_nonce_matches = False, sc_ocsp_response_valid = False,
     sc_ocsp_signed_age = None\<rparr>"

definition chain_claims_to_json :: "chain_json_claims \<Rightarrow> json" where
  "chain_claims_to_json c = JObject
     ([(''x-nvidia-cert-expiration-date'', JString (sc_cert_expiration_date c)),
       (''x-nvidia-cert-status'', JString (sc_cert_status c)),
       (''x-nvidia-cert-ocsp-status'', JString (sc_cert_ocsp_status c)),
       (''x-nvidia-cert-revocation-reason'', serialize_optional JString (sc_cert_revocation_reason c)),
       (''x-nvidia-cert-ocsp-nonce-matches'', JBool (sc_ocsp_nonce_matches c)),
       (''x-nvidia-cert-ocsp-response-valid'', JBool (sc_ocsp_response_valid c))]
      @ (case sc_ocsp_signed_age c of
           None \<Rightarrow> []
         | Some st \<Rightarrow> [(''x-sol-cert-ocsp-signed-age'', signed_age_to_json st)]))"

text \<open>A member that the remote service does not send yet is taken to be true.\<close>

definition optional_flag :: "json \<Rightarrow> string \<Rightarrow> bool outcome" where
  "optional_flag j k = (if json_contains j k then bind (json_at j k) get_bool else ret True)"

definition chain_claims_from_json :: "json \<Rightarrow> chain_json_claims outcome" where
  "chain_claims_from_json j =
     bind (bind (json_at j ''x-nvidia-cert-expiration-date'') get_string) (\<lambda>expiration_date.
     bind (bind (json_at j ''x-nvidia-cert-status'') get_string) (\<lambda>status.
     bind (bind (json_at j ''x-nvidia-cert-ocsp-status'') get_string) (\<lambda>ocsp_status.
     bind (deserialize_optional get_string j ''x-nvidia-cert-revocation-reason'') (\<lambda>reason.
     bind (optional_flag j ''x-nvidia-cert-ocsp-nonce-matches'') (\<lambda>nonce_matches.
     bind (optional_flag j ''x-nvidia-cert-ocsp-response-valid'') (\<lambda>response_valid.
     bind (if json_contains j ''x-sol-cert-ocsp-signed-age''
           then bind (json_at j ''x-sol-cert-ocsp-signed-age'') (\<lambda>v. bind (signed_age_from_json v) (\<lambda>st. ret (Some st)))
           else ret None) (\<lambda>signed_age.
     ret \<lparr>sc_cert_expiration_date = expiration_date, sc_cert_status = status,
          sc_cert_ocsp_status = ocsp_status, sc_cert_revocation_reason = reason,
          sc_ocsp_nonce_matches = nonce_matches, sc_ocsp_response_valid = response_valid,
          sc_ocsp_signed_age = signed_age\<rparr>)))))))"

text \<open>\<^verbatim>\<open>operator==\<close>: the fields about the OCSP response are not compared.\<close>

definition chain_claims_equal :: "chain_json_claims \<Rightarrow> chain_json_claims \<Rightarrow> bool" where
  "chain_claims_equal l r =
     (sc_cert_expiration_date l = sc_cert_expiration_date r \<and> sc_cert_status l = sc_cert_status r
      \<and> sc_cert_ocsp_status l = sc_cert_ocsp_status r
      \<and> sc_cert_revocation_reason l = sc_cert_revocation_reason r)"

section \<open>Measurement results\<close>

datatype measres = MeasSuccess | MeasFailure | MeasNotRun | MeasAbsent

definition measres_table :: "(measres \<times> string) list" where
  "measres_table = [(MeasSuccess, ''success''), (MeasFailure, ''fail''), (MeasNotRun, ''not-run''),
     (MeasAbsent, ''absent'')]"

datatype measurement_source = VBIOS | DRIVER

definition measurement_source_table :: "(measurement_source \<times> string) list" where
  "measurement_source_table = [(VBIOS, ''Firmware''), (DRIVER, ''Driver'')]"

record mismatched_measurement =
  mm_index :: u32
  mm_golden_size :: u32
  mm_golden_value :: string
  mm_runtime_size :: u32
  mm_runtime_value :: string
  mm_source :: measurement_source

definition mismatch_to_json :: "mismatched_measurement \<Rightarrow> json" where
  "mismatch_to_json m = JObject
     [(''index'', JInt (uint (mm_index m))),
      (''goldenSize'', JInt (uint (mm_golden_size m))),
      (''goldenValue'', JString (mm_golden_value m)),
      (''runtimeSize'', JInt (uint (mm_runtime_size m))),
      (''runtimeValue'', JString (mm_runtime_value m)),
      (''measurementSource'', enum_to_json measurement_source_table (mm_source m))]"

definition mismatch_from_json :: "json \<Rightarrow> mismatched_measurement outcome" where
  "mismatch_from_json j =
     bind (bind (json_at j ''index'') get_uint32) (\<lambda>index.
     bind (bind (json_at j ''goldenSize'') get_uint32) (\<lambda>golden_size.
     bind (bind (json_at j ''goldenValue'') get_string) (\<lambda>golden_value.
     bind (bind (json_at j ''runtimeSize'') get_uint32) (\<lambda>runtime_size.
     bind (bind (json_at j ''runtimeValue'') get_string) (\<lambda>runtime_value.
     bind (bind (json_at j ''measurementSource'') (enum_from_json measurement_source_table)) (\<lambda>source.
     ret \<lparr>mm_index = index, mm_golden_size = golden_size, mm_golden_value = golden_value,
          mm_runtime_size = runtime_size, mm_runtime_value = runtime_value, mm_source = source\<rparr>))))))"

definition mismatches_to_json :: "mismatched_measurement list \<Rightarrow> json" where
  "mismatches_to_json ms = JArray (map mismatch_to_json ms)"

section \<open>GPU claims\<close>

record gpu_claims =
  gc_nonce :: string
  gc_hwmodel :: string
  gc_ueid :: string
  gc_oem_id :: string
  gc_driver_version :: string
  gc_vbios_version :: string
  gc_gpu_switch_pdis :: "string list"
  gc_measurements_matching :: measres
  gc_gpu_arch_match :: bool
  gc_secure_boot :: "bool option"
  gc_debug_status :: "string option"
  gc_mismatched_measurements :: "mismatched_measurement list option"
  gc_ar_cert_chain :: chain_json_claims
  gc_ar_cert_chain_fwid_match :: bool
  gc_ar_parsed :: bool
  gc_gpu_ar_nonce_match :: bool
  gc_ar_signature_verified :: bool
  gc_driver_rim_fetched :: bool
  gc_driver_rim_cert_chain :: chain_json_claims
  gc_driver_rim_signature_verified :: bool
  gc_gpu_driver_rim_version_match :: bool
  gc_driver_rim_measurements_available :: bool
  gc_vbios_rim_fetched :: bool
  gc_vbios_rim_cert_chain :: chain_json_claims
  gc_gpu_vbios_rim_version_match :: bool
  gc_vbios_rim_signature_verified :: bool
  gc_vbios_rim_measurements_available :: bool
  gc_vbios_index_no_conflict :: bool
  gc_mode :: string
  gc_version :: string

definition new_gpu_claims :: gpu_claims where
  "new_gpu_claims = \<lparr>gc_nonce = '''', gc_hwmodel = '''', gc_ueid = '''', gc_oem_id = '''',
     gc_driver_version = '''', gc_vbios_version = '''', gc_gpu_switch_pdis = [],
     gc_measurements_matching = MeasFailure, gc_gpu_arch_match = False,
     gc_secure_boot = None, gc_debug_status = None, gc_mismatched_measurements = None,
     gc_ar_cert_chain = new_chain_json_claims, gc_ar_cert_chain_fwid_match = False,
     gc_ar_parsed = False, gc_gpu_ar_nonce_match = False, gc_ar_signature_verified = False,
     gc_driver_rim_fetched = False, gc_driver_rim_cert_chain = new_chain_json_claims,
     gc_driver_rim_signature_verified = False, gc_gpu_driver_rim_version_match = False,
     gc_driver_rim_measurements_available = False, gc_vbios_rim_fetched = False,
     gc_vbios_rim_cert_chain = new_chain_json_claims, gc_gpu_vbios_rim_version_match = False,
     gc_vbios_rim_signature_verified = False, gc_vbios_rim_measurements_available = False,
     gc_vbios_index_no_conflict = False, gc_mode = '''', gc_version = ''3.0''\<rparr>"

definition gpu_claims_to_json :: "gpu_claims \<Rightarrow> json" where
  "gpu_claims_to_json c = JObject
     ([(''eat_nonce'', JString (gc_nonce c)),
       (''measres'', enum_to_json measres_table (gc_measurements_matching c)),
       (''secboot'', serialize_optional JBool (gc_secure_boot c)),
       (''dbgstat'', serialize_optional JString (gc_debug_status c)),
       (''hwmodel'', JString (gc_hwmodel c)),
       (''ueid'', JString (gc_ueid c)),
       (''oemid'', JString (gc_oem_id c)),
       (''x-nvidia-device-type'', JString ''gpu''),
       (''x-nvidia-mismatch-measurement-records'', serialize_optional mismatches_to_json (gc_mismatched_measurements c)),
       (''x-nvidia-gpu-arch-check'', JBool (gc_gpu_arch_match c)),
       (''x-nvidia-gpu-driver-version'', JString (gc_driver_version c)),
       (''x-nvidia-gpu-vbios-version'', JString (gc_vbios_version c))]
      @ (if gc_gpu_switch_pdis c \<noteq> [] then [(''x-nvidia-gpu-switch-pdis'', JArray (map JString (gc_gpu_switch_pdis c)))] else [])
      @ [(''x-nvidia-gpu-attestation-report-cert-chain'', chain_claims_to_json (gc_ar_cert_chain c)),
       (''x-nvidia-gpu-attestation-report-cert-chain-fwid-match'', JBool (gc_ar_cert_chain_fwid_match c)),
       (''x-nvidia-gpu-attestation-report-parsed'', JBool (gc_ar_parsed c)),
       (''x-nvidia-gpu-attestation-report-nonce-match'', JBool (gc_gpu_ar_nonce_match c)),
       (''x-nvidia-gpu-attestation-report-signature-verified'', JBool (gc_ar_signature_verified c)),
       (''x-nvidia-gpu-driver-rim-fetched'', JBool (gc_driver_rim_fetched c)),
       (''x-nvidia-gpu-driver-rim-cert-chain'', chain_claims_to_json (gc_driver_rim_cert_chain c)),
       (''x-nvidia-gpu-driver-rim-signature-verified'', JBool (gc_driver_rim_signature_verified c)),
       (''x-nvidia-gpu-driver-rim-version-match'', JBool (gc_gpu_driver_rim_version_match c)),
       (''x-nvidia-gpu-driver-rim-measurements-available'', JBool (gc_driver_rim_measurements_available c)),
       (''x-nvidia-gpu-vbios-rim-fetched'', JBool (gc_vbios_rim_fetched c)),
       (''x-nvidia-gpu-vbios-rim-cert-chain'', chain_claims_to_json (gc_vbios_rim_cert_chain c)),
       (''x-nvidia-gpu-vbios-rim-version-match'', JBool (gc_gpu_vbios_rim_version_match c)),
       (''x-nvidia-gpu-vbios-rim-signature-verified'', JBool (gc_vbios_rim_signature_verified c)),
       (''x-nvidia-gpu-vbios-rim-measurements-available'', JBool (gc_vbios_rim_measurements_available c)),
       (''x-nvidia-gpu-vbios-index-no-conflict'', JBool (gc_vbios_index_no_conflict c)),
       (''x-nvidia-gpu-claims-version'', JString ''3.0'')])"

text \<open>
  The object that is filled starts from the default values; the GPU mode is neither written nor
  read, and the version is set to the only one supported.
\<close>

definition gpu_claims_from_json :: "json \<Rightarrow> gpu_claims outcome" where
  "gpu_claims_from_json j =
     bind (bind (json_at j ''eat_nonce'') get_string) (\<lambda>nonce.
     bind (bind (json_at j ''measres'') (enum_from_json measres_table)) (\<lambda>measurements_matching.
     bind (deserialize_optional get_bool j ''secboot'') (\<lambda>secure_boot.
     bind (deserialize_optional get_string j ''dbgstat'') (\<lambda>debug_status.
     bind (deserialize_optional (get_array mismatch_from_json) j ''x-nvidia-mismatch-measurement-records'') (\<lambda>mismatched_measurements.
     bind (bind (json_at j ''x-nvidia-gpu-arch-check'') get_bool) (\<lambda>gpu_arch_match.
     bind (bind (json_at j ''hwmodel'') get_string) (\<lambda>hwmodel.
     bind (bind (json_at j ''ueid'') get_string) (\<lambda>ueid.
     bind (bind (json_at j ''oemid'') get_string) (\<lambda>oem_id.
     bind (bind (json_at j ''x-nvidia-gpu-driver-version'') get_string) (\<lambda>driver_version.
     bind (bind (json_at j ''x-nvidia-gpu-vbios-version'') get_string) (\<lambda>vbios_version.
     bind (if json_contains j ''x-nvidia-gpu-switch-pdis''
           then bind (json_at j ''x-nvidia-gpu-switch-pdis'') (get_array get_string) else ret []) (\<lambda>gpu_switch_pdis.
     bind (bind (json_at j ''x-nvidia-gpu-attestation-report-cert-chain'') chain_claims_from_json) (\<lambda>ar_cert_chain.
     bind (bind (json_at j ''x-nvidia-gpu-attestation-report-cert-chain-fwid-match'') get_bool) (\<lambda>ar_cert_chain_fwid_match.
     bind (bind (json_at j ''x-nvidia-gpu-attestation-report-parsed'') get_bool) (\<lambda>ar_parsed.
     bind (bind (json_at j ''x-nvidia-gpu-attestation-report-nonce-match'') get_bool) (\<lambda>gpu_ar_nonce_match.
     bind (bind (json_at j ''x-nvidia-gpu-attestation-report-signature-verified'') get_bool) (\<lambda>ar_signature_verified.
     bind (bind (json_at j ''x-nvidia-gpu-driver-rim-fetched'') get_bool) (\<lambda>driver_rim_fetched.
     bind (bind (json_at j ''x-nvidia-gpu-driver-rim-cert-chain'') chain_claims_from_json) (\<lambda>driver_rim_cert_chain.
     bind (bind (json_at j ''x-nvidia-gpu-driver-rim-signature-verified'') get_bool) (\<lambda>driver_rim_signature_verified.
     bind (bind (json_at j ''x-nvidia-gpu-driver-rim-version-match'') get_bool) (\<lambda>gpu_driver_rim_version_match.
     bind (bind (json_at j ''x-nvidia-gpu-driver-rim-measurements-available'') get_bool) (\<lambda>driver_rim_measurements_available.
     bind (bind (json_at j ''x-nvidia-gpu-vbios-rim-fetched'') get_bool) (\<lambda>vbios_rim_fetched.
     bind (bind (json_at j ''x-nvidia-gpu-vbios-rim-cert-chain'') chain_claims_from_json) (\<lambda>vbios_rim_cert_chain.
     bind (bind (json_at j ''x-nvidia-gpu-vbios-rim-version-match'') get_bool) (\<lambda>gpu_vbios_rim_version_match.
     bind (bind (json_at j ''x-nvidia-gpu-vbios-rim-signature-verified'') get_bool) (\<lambda>vbios_rim_signature_verified.
     bind (bind (json_at j ''x-nvidia-gpu-vbios-rim-measurements-available'') get_bool) (\<lambda>vbios_rim_measurements_available.
     bind (bind (json_at j ''x-nvidia-gpu-vbios-index-no-conflict'') get_bool) (\<lambda>vbios_index_no_conflict.
     ret (new_gpu_claims\<lparr>gc_nonce := nonce, gc_measurements_matching := measurements_matching,
          gc_secure_boot := secure_boot, gc_debug_status := debug_status,
          gc_mismatched_measurements := mismatched_measurements,
          gc_gpu_arch_match := gpu_arch_match, gc_hwmodel := hwmodel, gc_ueid := ueid,
          gc_oem_id := oem_id, gc_driver_version := driver_version,
          gc_vbios_version := vbios_version, gc_gpu_switch_pdis := gpu_switch_pdis,
          gc_ar_cert_chain := ar_cert_chain,
          gc_ar_cert_chain_fwid_match := ar_cert_chain_fwid_match, gc_ar_parsed := ar_parsed,
          gc_gpu_ar_nonce_match := gpu_ar_nonce_match,
          gc_ar_signature_verified := ar_signature_verified,
          gc_driver_rim_fetched := driver_rim_fetched,
          gc_driver_rim_cert_chain := driver_rim_cert_chain,
          gc_driver_rim_signature_verified := driver_rim_signature_verified,
          gc_gpu_driver_rim_version_match := gpu_driver_rim_version_match,
          gc_driver_rim_measurements_available := driver_rim_measurements_available,
          gc_vbios_rim_fetched := vbios_rim_fetched,
          gc_vbios_rim_cert_chain := vbios_rim_cert_chain,
          gc_gpu_vbios_rim_version_match := gpu_vbios_rim_version_match,
          gc_vbios_rim_signature_verified := vbios_rim_signature_verified,
          gc_vbios_rim_measurements_available := vbios_rim_measurements_available,
          gc_vbios_index_no_conflict := vbios_index_no_conflict, gc_version := ''3.0''\<rparr>)))))))))))))))))))))))))))))"

section \<open>Switch claims\<close>

record switch_claims =
  sw_nonce :: string
  sw_hwmodel :: string
  sw_ueid :: string
  sw_measurements_matching :: measres
  sw_secure_boot :: "bool option"
  sw_debug_status :: "string option"
  sw_mismatched_measurements :: "mismatched_measurement list option"
  sw_switch_arch_match :: bool
  sw_switch_ar_nonce_match :: bool
  sw_switch_bios_version :: string
  sw_switch_pdi :: string
  sw_switch_gpu_pdis :: "string list"
  sw_ar_cert_chain_claims :: chain_json_claims
  sw_ar_cert_chain_fwid_match :: bool
  sw_ar_parsed :: bool
  sw_ar_signature_verified :: bool
  sw_bios_rim_fetched :: bool
  sw_bios_rim_cert_chain :: chain_json_claims
  sw_bios_rim_signature_verified :: bool
  sw_switch_bios_rim_version_match :: bool
  sw_bios_rim_measurements_available :: bool
  sw_version :: string

definition new_switch_claims :: switch_claims where
  "new_switch_claims = \<lparr>sw_nonce = '''', sw_hwmodel = '''', sw_ueid = '''',
     sw_measurements_matching = MeasFailure, sw_secure_boot = None, sw_debug_status = None,
     sw_mismatched_measurements = None, sw_switch_arch_match = False,
     sw_switch_ar_nonce_match = False, sw_switch_bios_version = '''', sw_switch_pdi = '''',
     sw_switch_gpu_pdis = [], sw_ar_cert_chain_claims = new_chain_json_claims,
     sw_ar_cert_chain_fwid_match = False, sw_ar_parsed = False,
     sw_ar_signature_verified = False, sw_bios_rim_fetched = False,
     sw_bios_rim_cert_chain = new_chain_json_claims, sw_bios_rim_signature_verified = False,
     sw_switch_bios_rim_version_match = False, sw_bios_rim_measurements_available = False,
     sw_version = ''3.0''\<rparr>"

definition switch_claims_to_json :: "switch_claims \<Rightarrow> json" where
  "switch_claims_to_json c = JObject
     ([(''eat_nonce'', JString (sw_nonce c)),
       (''measres'', enum_to_json measres_table (sw_measurements_matching c)),
       (''secboot'', serialize_optional JBool (sw_secure_boot c)),
       (''dbgstat'', serialize_optional JString (sw_debug_status c)),
       (''x-nvidia-device-type'', JString ''nvswitch''),
       (''x-nvidia-mismatch-measurement-records'', serialize_optional mismatches_to_json (sw_mismatched_measurements c)),
       (''hwmodel'', JString (sw_hwmodel c)),
       (''ueid'', JString (sw_ueid c)),
       (''x-nvidia-switch-arch-check'', JBool (sw_switch_arch_match c)),
       (''x-nvidia-switch-bios-version'', JString (sw_switch_bios_version c))]
      @ (if sw_switch_pdi c \<noteq> [] then [(''x-nvidia-switch-pdi'', JString (sw_switch_pdi c))] else [])
      @ (if sw_switch_gpu_pdis c \<noteq> [] then [(''x-nvidia-switch-gpu-pdis'', JArray (map JString (sw_switch_gpu_pdis c)))] else [])
      @ [(''x-nvidia-switch-attestation-report-cert-chain'', chain_claims_to_json (sw_ar_cert_chain_claims c)),
       (''x-nvidia-switch-attestation-report-cert-chain-fwid-match'', JBool (sw_ar_cert_chain_fwid_match c)),
       (''x-nvidia-switch-attestation-report-parsed'', JBool (sw_ar_parsed c)),
       (''x-nvidia-switch-attestation-report-nonce-match'', JBool (sw_switch_ar_nonce_match c)),
       (''x-nvidia-switch-attestation-report-signature-verified'', JBool (sw_ar_signature_verified c)),
       (''x-nvidia-switch-bios-rim-fetched'', JBool (sw_bios_rim_fetched c)),
       (''x-nvidia-switch-bios-rim-cert-chain'', chain_claims_to_json (sw_bios_rim_cert_chain c)),
       (''x-nvidia-switch-bios-rim-signature-verified'', JBool (sw_bios_rim_signature_verified c)),
       (''x-nvidia-switch-bios-rim-version-match'', JBool (sw_switch_bios_rim_version_match c)),
       (''x-nvidia-switch-bios-rim-measurements-available'', JBool (sw_bios_rim_measurements_available c)),
       (''x-nvidia-version'', JString ''3.0'')])"

definition switch_claims_from_json :: "json \<Rightarrow> switch_claims outcome" where
  "switch_claims_from_json j =
     bind (bind (json_at j ''eat_nonce'') get_string) (\<lambda>nonce.
     bind (bind (json_at j ''measres'') (enum_from_json measres_table)) (\<lambda>measurements_matching.
     bind (deserialize_optional get_bool j ''secboot'') (\<lambda>secure_boot.
     bind (deserialize_optional get_string j ''dbgstat'') (\<lambda>debug_status.
     bind (deserialize_optional (get_array mismatch_from_json) j ''x-nvidia-mismatch-measurement-records'') (\<lambda>mismatched_measurements.
     bind (bind (json_at j ''hwmodel'') get_string) (\<lambda>hwmodel.
     bind (bind (json_at j ''ueid'') get_string) (\<lambda>ueid.
     bind (bind (json_at j ''x-nvidia-switch-arch-check'') get_bool) (\<lambda>switch_arch_match.
     bind (bind (json_at j ''x-nvidia-switch-bios-version'') get_string) (\<lambda>switch_bios_version.
     bind (if json_contains j ''x-nvidia-switch-pdi''
           then bind (json_at j ''x-nvidia-switch-pdi'') get_string else ret []) (\<lambda>switch_pdi.
     bind (if json_contains j ''x-nvidia-switch-gpu-pdis''
           then bind (json_at j ''x-nvidia-switch-gpu-pdis'') (get_array get_string) else ret []) (\<lambda>switch_gpu_pdis.
     bind (bind (json_at j ''x-nvidia-switch-attestation-report-cert-chain'') chain_claims_from_json) (\<lambda>ar_cert_chain_claims.
     bind (bind (json_at j ''x-nvidia-switch-attestation-report-cert-chain-fwid-match'') get_bool) (\<lambda>ar_cert_chain_fwid_match.
     bind (bind (json_at j ''x-nvidia-switch-attestation-report-parsed'') get_bool) (\<lambda>ar_parsed.
     bind (bind (json_at j ''x-nvidia-switch-attestation-report-nonce-match'') get_bool) (\<lambda>switch_ar_nonce_match.
     bind (bind (json_at j ''x-nvidia-switch-attestation-report-signature-verified'') get_bool) (\<lambda>ar_signature_verified.
     bind (bind (json_at j ''x-nvidia-switch-bios-rim-fetched'') get_bool) (\<lambda>bios_rim_fetched.
     bind (bind (json_at j ''x-nvidia-switch-bios-rim-cert-chain'') chain_claims_from_json) (\<lambda>bios_rim_cert_chain.
     bind (bind (json_at j ''x-nvidia-switch-bios-rim-signature-verified'') get_bool) (\<lambda>bios_rim_signature_verified.
     bind (bind (json_at j ''x-nvidia-switch-bios-rim-version-match'') get_bool) (\<lambda>switch_bios_rim_version_match.
     bind (bind (json_at j ''x-nvidia-switch-bios-rim-measurements-available'') get_bool) (\<lambda>bios_rim_measurements_available.
     ret (new_switch_claims\<lparr>sw_nonce := nonce, sw_measurements_matching := measurements_matching,
          sw_secure_boot := secure_boot, sw_debug_status := debug_status,
          sw_mismatched_measurements := mismatched_measurements, sw_hwmodel := hwmodel,
          sw_ueid := ueid, sw_switch_arch_match := switch_arch_match,
          sw_switch_bios_version := switch_bios_version, sw_switch_pdi := switch_pdi,
          sw_switch_gpu_pdis := switch_gpu_pdis,
          sw_ar_cert_chain_claims := ar_cert_chain_claims,
          sw_ar_cert_chain_fwid_match := ar_cert_chain_fwid_match, sw_ar_parsed := ar_parsed,
          sw_switch_ar_nonce_match := switch_ar_nonce_match,
          sw_ar_signature_verified := ar_signature_verified,
          sw_bios_rim_fetched := bios_rim_fetched,
          sw_bios_rim_cert_chain := bios_rim_cert_chain,
          sw_bios_rim_signature_verified := bios_rim_signature_verified,
          sw_switch_bios_rim_version_match := switch_bios_rim_version_match,
          sw_bios_rim_measurements_available := bios_rim_measurements_available,
          sw_version := ''3.0''\<rparr>))))))))))))))))))))))"

section \<open>Claims of either kind and collections of them\<close>

datatype claims = GpuClaims gpu_claims | SwitchClaims switch_claims

definition claims_to_json :: "claims \<Rightarrow> json" where
  "claims_to_json c = (case c of GpuClaims g \<Rightarrow> gpu_claims_to_json g | SwitchClaims w \<Rightarrow> switch_claims_to_json w)"

definition claims_nonce :: "claims \<Rightarrow> string" where
  "claims_nonce c = (case c of GpuClaims g \<Rightarrow> gc_nonce g | SwitchClaims w \<Rightarrow> sw_nonce w)"

definition claims_device_type :: "claims \<Rightarrow> string" where
  "claims_device_type c = (case c of GpuClaims g \<Rightarrow> ''gpu'' | SwitchClaims w \<Rightarrow> ''switch'')"

definition collection_to_json :: "claims list \<Rightarrow> json" where
  "collection_to_json cs = JArray (map claims_to_json cs)"

definition collection_serialize_json :: "(json \<Rightarrow> string outcome) \<Rightarrow> claims list \<Rightarrow> string outcome" where
  "collection_serialize_json dump cs = catch_all (dump (collection_to_json cs))"

section \<open>Reading undoes writing\<close>

text \<open>The time stamps and the version fit the integer types the code declares for them.\<close>

definition signed_age_ok :: "signed_age_status \<Rightarrow> bool" where
  "signed_age_ok st =
     (- (2 ^ 31) \<le> sa_version st \<and> sa_version st < 2 ^ 31
      \<and> - (2 ^ 63) \<le> sa_verification_time_unix st \<and> sa_verification_time_unix st < 2 ^ 63
      \<and> - (2 ^ 63) \<le> sa_status_deadline_unix st \<and> sa_status_deadline_unix st < 2 ^ 63
      \<and> - (2 ^ 63) \<le> sa_oldest_this_update_unix st \<and> sa_oldest_this_update_unix st < 2 ^ 63)"

definition chain_claims_ok :: "chain_json_claims \<Rightarrow> bool" where
  "chain_claims_ok c = (case sc_ocsp_signed_age c of None \<Rightarrow> True | Some st \<Rightarrow> signed_age_ok st)"

lemma signed_age_round_trip [json_simps]:
  "signed_age_ok st \<Longrightarrow> signed_age_from_json (signed_age_to_json st) = ret st"
  by (cases st) (simp add: signed_age_ok_def signed_age_from_json_def signed_age_to_json_def json_simps)

lemma optional_flag_member [json_simps]: "map_of m k = Some (JBool b) \<Longrightarrow> optional_flag (JObject m) k = ret b"
  by (simp add: optional_flag_def json_simps)

lemma chain_claims_round_trip [json_simps]:
  "chain_claims_ok c \<Longrightarrow> chain_claims_from_json (chain_claims_to_json c) = ret c"
  by (cases c, cases "sc_ocsp_signed_age c")
    (simp_all add: chain_claims_ok_def chain_claims_from_json_def chain_claims_to_json_def json_simps)

lemma measres_round_trip [json_simps]: "enum_from_json measres_table (enum_to_json measres_table m) = ret m"
  by (cases m) (simp_all add: enum_from_json_def enum_to_json_def measres_table_def)

lemma measurement_source_round_trip [json_simps]:
  "enum_from_json measurement_source_table (enum_to_json measurement_source_table x) = ret x"
  by (cases x) (simp_all add: enum_from_json_def enum_to_json_def measurement_source_table_def)

lemma mismatch_round_trip [json_simps]: "mismatch_from_json (mismatch_to_json m) = ret m"
  by (cases m) (simp add: mismatch_from_json_def mismatch_to_json_def json_simps)

lemma mismatches_round_trip [json_simps]: "get_array mismatch_from_json (mismatches_to_json ms) = ret ms"
  by (simp add: get_array_def mismatches_to_json_def json_simps)

lemma strings_round_trip [json_simps]: "get_array get_string (JArray (map JString xs)) = ret xs"
  by (simp add: get_array_def json_simps)

lemma mismatches_not_null [simp]: "mismatches_to_json ms \<noteq> JNull"
  by (simp add: mismatches_to_json_def)

text \<open>
  The members of the two claims objects.  The names are distinct, so that a member is looked up by
  its position.
\<close>

lemmas literal_simps = append.simps list.map fst_conv snd_conv distinct.simps list.set insert_iff empty_iff
  list.inject list.distinct char.inject simp_thms not_True_eq_False not_False_eq_True if_True if_False
  map_of.simps fun_upd_apply

lemma gpu_claims_keys: "gpu_claims_to_json c = JObject m \<Longrightarrow> distinct (map fst m)"
  unfolding gpu_claims_to_json_def json.inject
  by (hypsubst, cases "gc_gpu_switch_pdis c = []"; simp only: literal_simps)

lemma gpu_claims_first:
  assumes "gpu_claims_to_json c = JObject m"
  shows "map_of m ''eat_nonce'' = Some (JString (gc_nonce c))"
    "map_of m ''measres'' = Some (enum_to_json measres_table (gc_measurements_matching c))"
    "map_of m ''secboot'' = Some (serialize_optional JBool (gc_secure_boot c))"
    "map_of m ''dbgstat'' = Some (serialize_optional JString (gc_debug_status c))"
    "map_of m ''x-nvidia-mismatch-measurement-records'' = Some (serialize_optional mismatches_to_json (gc_mismatched_measurements c))"
    "map_of m ''x-nvidia-gpu-arch-check'' = Some (JBool (gc_gpu_arch_match c))"
    "map_of m ''hwmodel'' = Some (JString (gc_hwmodel c))"
    "map_of m ''ueid'' = Some (JString (gc_ueid c))"
    "map_of m ''oemid'' = Some (JString (gc_oem_id c))"
    "map_of m ''x-nvidia-gpu-driver-version'' = Some (JString (gc_driver_version c))"
    "map_of m ''x-nvidia-gpu-vbios-version'' = Some (JString (gc_vbios_version c))"
  by (rule map_of_is_SomeI [OF gpu_claims_keys [OF assms]],
      simp only: assms [unfolded gpu_claims_to_json_def json.inject, symmetric] set_append,
      rule UnI1, (rule list.set_intros)+)+

lemma gpu_claims_last:
  assumes "gpu_claims_to_json c = JObject m"
  shows "map_of m ''x-nvidia-gpu-attestation-report-cert-chain'' = Some (chain_claims_to_json (gc_ar_cert_chain c))"
    "map_of m ''x-nvidia-gpu-attestation-report-cert-chain-fwid-match'' = Some (JBool (gc_ar_cert_chain_fwid_match c))"
    "map_of m ''x-nvidia-gpu-attestation-report-parsed'' = Some (JBool (gc_ar_parsed c))"
    "map_of m ''x-nvidia-gpu-attestation-report-nonce-match'' = Some (JBool (gc_gpu_ar_nonce_match c))"
    "map_of m ''x-nvidia-gpu-attestation-report-signature-verified'' = Some (JBool (gc_ar_signature_verified c))"
    "map_of m ''x-nvidia-gpu-driver-rim-fetched'' = Some (JBool (gc_driver_rim_fetched c))"
    "map_of m ''x-nvidia-gpu-driver-rim-cert-chain'' = Some (chain_claims_to_json (gc_driver_rim_cert_chain c))"
    "map_of m ''x-nvidia-gpu-driver-rim-signature-verified'' = Some (JBool (gc_driver_rim_signature_verified c))"
    "map_of m ''x-nvidia-gpu-driver-rim-version-match'' = Some (JBool (gc_gpu_driver_rim_version_match c))"
    "map_of m ''x-nvidia-gpu-driver-rim-measurements-available'' = Some (JBool (gc_driver_rim_measurements_available c))"
    "map_of m ''x-nvidia-gpu-vbios-rim-fetched'' = Some (JBool (gc_vbios_rim_fetched c))"
    "map_of m ''x-nvidia-gpu-vbios-rim-cert-chain'' = Some (chain_claims_to_json (gc_vbios_rim_cert_chain c))"
    "map_of m ''x-nvidia-gpu-vbios-rim-version-match'' = Some (JBool (gc_gpu_vbios_rim_version_match c))"
    "map_of m ''x-nvidia-gpu-vbios-rim-signature-verified'' = Some (JBool (gc_vbios_rim_signature_verified c))"
    "map_of m ''x-nvidia-gpu-vbios-rim-measurements-available'' = Some (JBool (gc_vbios_rim_measurements_available c))"
    "map_of m ''x-nvidia-gpu-vbios-index-no-conflict'' = Some (JBool (gc_vbios_index_no_conflict c))"
  by (rule map_of_is_SomeI [OF gpu_claims_keys [OF assms]],
      simp only: assms [unfolded gpu_claims_to_json_def json.inject, symmetric] set_append,
      rule UnI2, rule UnI2, (rule list.set_intros)+)+

lemma gpu_claims_optional:
  assumes "gpu_claims_to_json c = JObject m"
  shows "map_of m ''x-nvidia-gpu-switch-pdis'' = (if gc_gpu_switch_pdis c \<noteq> [] then Some (JArray (map JString (gc_gpu_switch_pdis c))) else None)"
  by (simp_all add: assms [unfolded gpu_claims_to_json_def json.inject, symmetric] )

lemmas gpu_claims_members = gpu_claims_first gpu_claims_last gpu_claims_optional

lemma switch_claims_keys: "switch_claims_to_json c = JObject m \<Longrightarrow> distinct (map fst m)"
  unfolding switch_claims_to_json_def json.inject
  by (hypsubst, cases "sw_switch_pdi c = []"; cases "sw_switch_gpu_pdis c = []"; simp only: literal_simps)

lemma switch_claims_first:
  assumes "switch_claims_to_json c = JObject m"
  shows "map_of m ''eat_nonce'' = Some (JString (sw_nonce c))"
    "map_of m ''measres'' = Some (enum_to_json measres_table (sw_measurements_matching c))"
    "map_of m ''secboot'' = Some (serialize_optional JBool (sw_secure_boot c))"
    "map_of m ''dbgstat'' = Some (serialize_optional JString (sw_debug_status c))"
    "map_of m ''x-nvidia-mismatch-measurement-records'' = Some (serialize_optional mismatches_to_json (sw_mismatched_measurements c))"
    "map_of m ''hwmodel'' = Some (JString (sw_hwmodel c))"
    "map_of m ''ueid'' = Some (JString (sw_ueid c))"
    "map_of m ''x-nvidia-switch-arch-check'' = Some (JBool (sw_switch_arch_match c))"
    "map_of m ''x-nvidia-switch-bios-version'' = Some (JString (sw_switch_bios_version c))"
  by (rule map_of_is_SomeI [OF switch_claims_keys [OF assms]],
      simp only: assms [unfolded switch_claims_to_json_def json.inject, symmetric] set_append,
      rule UnI1, (rule list.set_intros)+)+

lemma switch_claims_last:
  assumes "switch_claims_to_json c = JObject m"
  shows "map_of m ''x-nvidia-switch-attestation-report-cert-chain'' = Some (chain_claims_to_json (sw_ar_cert_chain_claims c))"
    "map_of m ''x-nvidia-switch-attestation-report-cert-chain-fwid-match'' = Some (JBool (sw_ar_cert_chain_fwid_match c))"
    "map_of m ''x-nvidia-switch-attestation-report-parsed'' = Some (JBool (sw_ar_parsed c))"
    "map_of m ''x-nvidia-switch-attestation-report-nonce-match'' = Some (JBool (sw_switch_ar_nonce_match c))"
    "map_of m ''x-nvidia-switch-attestation-report-signature-verified'' = Some (JBool (sw_ar_signature_verified c))"
    "map_of m ''x-nvidia-switch-bios-rim-fetched'' = Some (JBool (sw_bios_rim_fetched c))"
    "map_of m ''x-nvidia-switch-bios-rim-cert-chain'' = Some (chain_claims_to_json (sw_bios_rim_cert_chain c))"
    "map_of m ''x-nvidia-switch-bios-rim-signature-verified'' = Some (JBool (sw_bios_rim_signature_verified c))"
    "map_of m ''x-nvidia-switch-bios-rim-version-match'' = Some (JBool (sw_switch_bios_rim_version_match c))"
    "map_of m ''x-nvidia-switch-bios-rim-measurements-available'' = Some (JBool (sw_bios_rim_measurements_available c))"
  by (rule map_of_is_SomeI [OF switch_claims_keys [OF assms]],
      simp only: assms [unfolded switch_claims_to_json_def json.inject, symmetric] set_append,
      rule UnI2, rule UnI2, rule UnI2, (rule list.set_intros)+)+

lemma switch_claims_optional:
  assumes "switch_claims_to_json c = JObject m"
  shows "map_of m ''x-nvidia-switch-pdi'' = (if sw_switch_pdi c \<noteq> [] then Some (JString (sw_switch_pdi c)) else None)"
    "map_of m ''x-nvidia-switch-gpu-pdis'' = (if sw_switch_gpu_pdis c \<noteq> [] then Some (JArray (map JString (sw_switch_gpu_pdis c))) else None)"
  by (simp_all add: assms [unfolded switch_claims_to_json_def json.inject, symmetric] )

lemmas switch_claims_members = switch_claims_first switch_claims_last switch_claims_optional

lemma gpu_claims_round_trip:
  assumes "chain_claims_ok (gc_ar_cert_chain c)" "chain_claims_ok (gc_driver_rim_cert_chain c)"
    "chain_claims_ok (gc_vbios_rim_cert_chain c)"
  shows "gpu_claims_from_json (gpu_claims_to_json c) = ret (c\<lparr>gc_mode := '''', gc_version := ''3.0''\<rparr>)"
proof -
  obtain m where m: "gpu_claims_to_json c = JObject m" by (simp add: gpu_claims_to_json_def)
  have "gpu_claims_from_json (JObject m) = ret (c\<lparr>gc_mode := '''', gc_version := ''3.0''\<rparr>)"
    using assms
    by (simp add: gpu_claims_from_json_def gpu_claims_members [OF m] new_gpu_claims_def json_simps) (cases c, simp)
  then show ?thesis by (simp only: m)
qed

lemma switch_claims_round_trip:
  assumes "chain_claims_ok (sw_ar_cert_chain_claims c)" "chain_claims_ok (sw_bios_rim_cert_chain c)"
  shows "switch_claims_from_json (switch_claims_to_json c) = ret (c\<lparr>sw_version := ''3.0''\<rparr>)"
proof -
  obtain m where m: "switch_claims_to_json c = JObject m" by (simp add: switch_claims_to_json_def)
  have "switch_claims_from_json (JObject m) = ret (c\<lparr>sw_version := ''3.0''\<rparr>)"
    using assms
    by (simp add: switch_claims_from_json_def switch_claims_members [OF m] new_switch_claims_def json_simps) (cases c, simp)
  then show ?thesis by (simp only: m)
qed

definition claims_chains :: "claims \<Rightarrow> chain_json_claims list" where
  "claims_chains c = (case c of
      GpuClaims g \<Rightarrow> [gc_ar_cert_chain g, gc_driver_rim_cert_chain g, gc_vbios_rim_cert_chain g]
    | SwitchClaims w \<Rightarrow> [sw_ar_cert_chain_claims w, sw_bios_rim_cert_chain w])"

text \<open>
  C38 (claims_json_round_trip): reading the JSON form of GPU or switch claims gives back the claims
  that were written, every member of them, nested chain claims, signed-age status and mismatch
  records included, except that the GPU mode is lost and the version becomes 3.0.  The only
  condition is that the time stamps fit the 64-bit integers the code keeps them in.
\<close>

theorem claims_json_round_trip:
  assumes "\<forall>ch \<in> set (claims_chains c). chain_claims_ok ch"
  shows "case c of
      GpuClaims g \<Rightarrow> gpu_claims_from_json (claims_to_json c) = Inr (g\<lparr>gc_mode := '''', gc_version := ''3.0''\<rparr>)
    | SwitchClaims w \<Rightarrow> switch_claims_from_json (claims_to_json c) = Inr (w\<lparr>sw_version := ''3.0''\<rparr>)"
  using assms gpu_claims_round_trip switch_claims_round_trip
  by (cases c) (auto simp: claims_chains_def claims_to_json_def ret_def)

theorem claims_json_round_trip_witness:
  "gpu_claims_from_json (claims_to_json (GpuClaims (new_gpu_claims\<lparr>gc_nonce := ''00ff''\<rparr>)))
     = Inr (new_gpu_claims\<lparr>gc_nonce := ''00ff''\<rparr>)"
  using claims_json_round_trip [of "GpuClaims (new_gpu_claims\<lparr>gc_nonce := ''00ff''\<rparr>)"]
  by (simp add: claims_chains_def new_gpu_claims_def chain_claims_ok_def new_chain_json_claims_def)

section \<open>What reading supplies by default\<close>

lemma gpu_claims_from_json_measres:
  "gpu_claims_from_json j = Inr c \<Longrightarrow>
     \<exists>v. json_at j ''measres'' = Inr v \<and> enum_from_json measres_table v = Inr (gc_measurements_matching c)"
  unfolding gpu_claims_from_json_def by (clarsimp simp only: bind_eq_Inr ret_eq) auto

lemma measres_unknown:
  "\<forall>s \<in> set (map snd measres_table). v \<noteq> JString s \<Longrightarrow> enum_from_json measres_table v = ret MeasSuccess"
  by (simp add: enum_from_json_def measres_table_def)

lemma chain_claims_default:
  "chain_claims_from_json j = Inr c \<Longrightarrow>
     (\<not> json_contains j ''x-nvidia-cert-ocsp-nonce-matches'' \<longrightarrow> sc_ocsp_nonce_matches c)
     \<and> (\<not> json_contains j ''x-nvidia-cert-ocsp-response-valid'' \<longrightarrow> sc_ocsp_response_valid c)"
  unfolding chain_claims_from_json_def by (clarsimp simp only: bind_eq_Inr ret_eq) (auto simp: optional_flag_def ret_eq)

text \<open>
  What a claims document leaves out or spells in a way the code does
  not know is read as the favourable value.  A measurement result that is none of the four
  words, of any JSON type, is read as success; chain claims without the two OCSP flags are read
  as if the nonce matched and the response was valid.
\<close>

theorem claims_defaults_permissive:
  "(gpu_claims_from_json j = Inr g \<and> json_at j ''measres'' = Inr v
      \<and> (\<forall>s \<in> set (map snd measres_table). v \<noteq> JString s) \<longrightarrow> gc_measurements_matching g = MeasSuccess)
   \<and> (chain_claims_from_json k = Inr c \<and> \<not> json_contains k ''x-nvidia-cert-ocsp-nonce-matches''
      \<and> \<not> json_contains k ''x-nvidia-cert-ocsp-response-valid'' \<longrightarrow>
        sc_ocsp_nonce_matches c \<and> sc_ocsp_response_valid c)"
  using gpu_claims_from_json_measres [of j g] measres_unknown [of v] chain_claims_default [of k c]
  by (auto simp: ret_def)

definition demo_unknown_measres :: json where
  "demo_unknown_measres = (case gpu_claims_to_json new_gpu_claims of
      JObject m \<Rightarrow> JObject (AList.update ''measres'' (JString ''maybe'') m) | j \<Rightarrow> j)"

definition demo_short_chain :: json where
  "demo_short_chain = JObject [(''x-nvidia-cert-expiration-date'', JString ''''), (''x-nvidia-cert-status'', JString ''valid''),
     (''x-nvidia-cert-ocsp-status'', JString ''unknown'')]"

lemma demo_unknown_measres_read:
  "is_ok (gpu_claims_from_json demo_unknown_measres)"
  "json_at demo_unknown_measres ''measres'' = Inr (JString ''maybe'')"
  by code_simp+

lemma demo_short_chain_read:
  "is_ok (chain_claims_from_json demo_short_chain)"
  "\<not> json_contains demo_short_chain ''x-nvidia-cert-ocsp-nonce-matches''"
  "\<not> json_contains demo_short_chain ''x-nvidia-cert-ocsp-response-valid''"
  by code_simp+

theorem claims_defaults_permissive_witness:
  "(\<exists>g. gpu_claims_from_json demo_unknown_measres = Inr g \<and> gc_measurements_matching g = MeasSuccess)
   \<and> (\<exists>c. chain_claims_from_json demo_short_chain = Inr c \<and> sc_ocsp_nonce_matches c)"
proof -
  obtain g c where g: "gpu_claims_from_json demo_unknown_measres = Inr g"
    and c: "chain_claims_from_json demo_short_chain = Inr c"
    using demo_unknown_measres_read(1) demo_short_chain_read(1) by (auto simp: is_ok_def split: sum.splits)
  have "\<forall>s \<in> set (map snd measres_table). JString ''maybe'' \<noteq> JString s" by (simp add: measres_table_def)
  then show ?thesis
    using claims_defaults_permissive [of demo_unknown_measres g "JString ''maybe''" demo_short_chain c]
      g c demo_unknown_measres_read(2) demo_short_chain_read(2,3) by blast
qed

end
