(* ===== verification/Measurement_Match.thy ===== *)
theory Measurement_Match
  imports Rim Claims
begin

text \<open>
  Comparison of the measurements a device reports with the golden measurements of its reference
  manifests (the lambda and loops of \<^verbatim>\<open>LocalGpuVerifier::generate_set_measurement_claims\<close> in
  \<^verbatim>\<open>src/gpu/verify.cpp\<close>, which \<^verbatim>\<open>src/switch/verify.cpp\<close> repeats).  The theorem shows that the list of
  mismatches is exactly the list of golden measurements that no alternative matches.
\<close>

text \<open>
  One golden measurement: the record of the mismatch quotes the first alternative, so that a
  measurement without alternatives reads past the end of an empty vector.
\<close>

definition compare_measurement ::
  "(int \<times> buffer) list \<Rightarrow> measurement_source \<Rightarrow> int \<Rightarrow> measurement \<Rightarrow> mismatched_measurement list outcome" where
  "compare_measurement runtime source index golden =
     (case map_of runtime index of
        None \<Rightarrow>
          (case me_values golden of
             [] \<Rightarrow> undefined_behaviour
           | v # _ \<Rightarrow> ret [\<lparr>mm_index = word_of_int index, mm_golden_size = word_of_int (me_size golden),
                            mm_golden_value = to_hex_string v, mm_runtime_size = 0, mm_runtime_value = ''NA'',
                            mm_source = source\<rparr>])
      | Some value \<Rightarrow>
          if \<exists>alternative \<in> set (me_values golden). length value = length alternative \<and> value = alternative then ret []
          else (case me_values golden of
             [] \<Rightarrow> undefined_behaviour
           | v # _ \<Rightarrow> ret [\<lparr>mm_index = word_of_int index, mm_golden_size = word_of_int (me_size golden),
                            mm_golden_value = to_hex_string v, mm_runtime_size = of_nat (length value),
                            mm_runtime_value = to_hex_string value, mm_source = source\<rparr>]))"

fun compare_loop ::
  "(int \<times> buffer) list \<Rightarrow> measurement_source \<Rightarrow> (int \<Rightarrow> bool) \<Rightarrow> measurements \<Rightarrow> int list \<Rightarrow> mismatched_measurement list
    \<Rightarrow> mismatched_measurement list outcome" where
  "compare_loop runtime source skip golden [] acc = ret acc"
| "compare_loop runtime source skip golden (index # is) acc =
     (if skip index then compare_loop runtime source skip golden is acc
      else bind (get_measurement_at_index golden index) (\<lambda>m.
           bind (compare_measurement runtime source index m) (\<lambda>mismatch.
           compare_loop runtime source skip golden is (acc @ mismatch))))"

section \<open>What the loop reports\<close>

definition matches :: "(int \<times> buffer) list \<Rightarrow> int \<Rightarrow> measurement \<Rightarrow> bool" where
  "matches runtime index golden = (\<exists>v. map_of runtime index = Some v \<and> v \<in> set (me_values golden))"

text \<open>The record of a golden measurement that is not matched.\<close>

definition mismatch_record ::
  "(int \<times> buffer) list \<Rightarrow> measurement_source \<Rightarrow> int \<Rightarrow> measurement \<Rightarrow> mismatched_measurement" where
  "mismatch_record runtime source index golden =
     \<lparr>mm_index = word_of_int index, mm_golden_size = word_of_int (me_size golden),
      mm_golden_value = to_hex_string (hd (me_values golden)),
      mm_runtime_size = (case map_of runtime index of None \<Rightarrow> 0 | Some v \<Rightarrow> of_nat (length v)),
      mm_runtime_value = (case map_of runtime index of None \<Rightarrow> ''NA'' | Some v \<Rightarrow> to_hex_string v),
      mm_source = source\<rparr>"

lemma compare_measurement_ok:
  "compare_measurement runtime source index golden = Inr r \<longleftrightarrow>
     (if matches runtime index golden then r = []
      else me_values golden \<noteq> [] \<and> r = [mismatch_record runtime source index golden])"
  by (auto simp: compare_measurement_def matches_def mismatch_record_def ret_def undefined_behaviour_def
      split: option.splits list.splits)

text \<open>The golden measurements that are checked and not matched, in the order of the indices.\<close>

definition unmatched ::
  "(int \<times> buffer) list \<Rightarrow> (int \<Rightarrow> bool) \<Rightarrow> measurements \<Rightarrow> int list \<Rightarrow> (int \<times> measurement) list" where
  "unmatched runtime skip golden is =
     filter (\<lambda>(i, m). \<not> matches runtime i m) (map (\<lambda>i. (i, the (map_of golden i))) (filter (\<lambda>i. \<not> skip i) is))"

lemma unmatched_simps:
  "unmatched runtime skip golden [] = []"
  "unmatched runtime skip golden (i # is) =
     (if skip i \<or> matches runtime i (the (map_of golden i)) then unmatched runtime skip golden is
      else (i, the (map_of golden i)) # unmatched runtime skip golden is)"
  by (simp_all add: unmatched_def)

lemma compare_loop_ok:
  assumes "set is \<subseteq> fst ` set golden"
  shows "compare_loop runtime source skip golden is acc = Inr r \<longleftrightarrow>
     (\<forall>(i, m) \<in> set (unmatched runtime skip golden is). me_values m \<noteq> [])
     \<and> r = acc @ map (\<lambda>(i, m). mismatch_record runtime source i m) (unmatched runtime skip golden is)"
  using assms
proof (induction "is" arbitrary: acc)
  case (Cons i "is")
  then obtain m where m: "map_of golden i = Some m" by (metis list.set_intros(1) map_of_eq_None_iff option.exhaust subsetD)
  then have "get_measurement_at_index golden i = Inr m" by (simp add: get_measurement_at_index_def ret_def)
  moreover have IH: "compare_loop runtime source skip golden is acc' = Inr r \<longleftrightarrow>
     (\<forall>(i, m) \<in> set (unmatched runtime skip golden is). me_values m \<noteq> [])
     \<and> r = acc' @ map (\<lambda>(i, m). mismatch_record runtime source i m) (unmatched runtime skip golden is)" for acc'
    using Cons by simp
  ultimately show ?case
    by (cases "skip i"; cases "matches runtime i m")
      (simp_all add: unmatched_simps m bind_eq_Inr compare_measurement_ok IH)
qed (auto simp: unmatched_def ret_def)

end
