(* ===== verification/Policy.thy ===== *)
theory Policy
  imports Claims
begin

text \<open>
  Evaluation of claims by a Rego policy (\<^verbatim>\<open>src/claims_evaluator.cpp\<close>, \<^verbatim>\<open>src/rego_engine/regorus_rego_engine.cpp\<close>)
  and the policy the SDK carries for the overall result.  The engine is a library: the calls on it
  are a record of functions.  The built-in policy is translated rule by rule; a reference to a
  member that does not exist is undefined in Rego and makes the rule that uses it fail.
\<close>

section \<open>The engine\<close>

text \<open>Each call succeeds or not; a query that succeeds gives the text of its result.\<close>

record 'e rego_api =
  engine_new :: 'e
  set_rego_v0 :: "'e \<Rightarrow> 'e option"
  add_policy :: "'e \<Rightarrow> string \<Rightarrow> string \<Rightarrow> 'e option"
  set_input_json :: "'e \<Rightarrow> string \<Rightarrow> 'e option"
  eval_query :: "'e \<Rightarrow> string \<Rightarrow> string option"

definition evaluate_policy :: "'e rego_api \<Rightarrow> string \<Rightarrow> string \<Rightarrow> string \<Rightarrow> string option" where
  "evaluate_policy api policy input entrypoint =
     (case set_rego_v0 api (engine_new api) of
        None \<Rightarrow> None
      | Some e \<Rightarrow>
     (case add_policy api e ''policy.rego'' policy of
        None \<Rightarrow> None
      | Some e \<Rightarrow>
     (case set_input_json api e input of
        None \<Rightarrow> None
      | Some e \<Rightarrow> eval_query api e entrypoint)))"

section \<open>The evaluator\<close>

definition ENTRYPOINT :: string where
  "ENTRYPOINT = ''data.policy.nv_match''"

definition json_nth :: "json \<Rightarrow> nat \<Rightarrow> json outcome" where
  "json_nth j i = (case j of
      JArray js \<Rightarrow> if i < length js then ret (js ! i) else throw JsonException
    | _ \<Rightarrow> throw JsonException)"

text \<open>The value of the first expression of the first result.\<close>

definition query_value :: "json \<Rightarrow> bool outcome" where
  "query_value j =
     bind (json_at j ''result'') (\<lambda>r.
     bind (json_nth r 0) (\<lambda>r.
     bind (json_at r ''expressions'') (\<lambda>r.
     bind (json_nth r 0) (\<lambda>r.
     bind (json_at r ''value'') get_bool))))"

text \<open>A result that cannot be read counts as no match; only an engine that fails is an error.\<close>

definition evaluate_claims ::
  "(json \<Rightarrow> string outcome) \<Rightarrow> (string \<Rightarrow> json outcome) \<Rightarrow> 'e rego_api \<Rightarrow> string \<Rightarrow> claims list \<Rightarrow> bool outcome" where
  "evaluate_claims dump parse api policy cs =
     bind (collection_serialize_json dump cs) (\<lambda>text.
     case evaluate_policy api policy text ENTRYPOINT of
       None \<Rightarrow> fail PolicyEvaluationError
     | Some result \<Rightarrow>
         (case bind (parse result) query_value of
            Inl (Exn JsonException) \<Rightarrow> ret False
          | r \<Rightarrow> r))"

section \<open>The built-in policy\<close>

text \<open>
  A reference \<^verbatim>\<open>x["k"]\<close> is \<open>None\<close> when it is undefined.  The order comparison is only applied to
  integers: every document the SDK writes has integers there.
\<close>

definition ref :: "json \<Rightarrow> string \<Rightarrow> json option" where
  "ref j k = (case j of JObject m \<Rightarrow> map_of m k | _ \<Rightarrow> None)"

definition rego_greater :: "json option \<Rightarrow> json option \<Rightarrow> bool" where
  "rego_greater a b = (case (a, b) of (Some (JInt m), Some (JInt n)) \<Rightarrow> m > n | _ \<Rightarrow> False)"

text \<open>\<^verbatim>\<open>not e\<close> holds when \<^verbatim>\<open>e\<close> is undefined or false.\<close>

definition rego_not :: "json option \<Rightarrow> bool" where
  "rego_not a = (a = None \<or> a = Some (JBool False))"

definition check_cert_chain_status_freshness :: "json \<Rightarrow> bool" where
  "check_cert_chain_status_freshness cert_chain =
     ((ref cert_chain ''x-nvidia-cert-ocsp-nonce-matches'' = Some (JBool True)
       \<and> rego_not (ref cert_chain ''x-sol-cert-ocsp-signed-age''))
      \<or> (ref cert_chain ''x-nvidia-cert-ocsp-nonce-matches'' = Some (JBool False)
         \<and> (case ref cert_chain ''x-sol-cert-ocsp-signed-age'' of
              None \<Rightarrow> False
            | Some signed_age \<Rightarrow>
                ref signed_age ''version'' = Some (JInt 1)
                \<and> ref signed_age ''mode'' = Some (JString ''signed-age'')
                \<and> rego_greater (ref signed_age ''covered_certificates'') (Some (JInt 0))
                \<and> rego_greater (ref signed_age ''status_deadline_unix'') (ref signed_age ''verification_time_unix''))))"

definition check_cert_chain :: "json \<Rightarrow> string \<Rightarrow> bool" where
  "check_cert_chain claims member =
     (case ref claims member of
        None \<Rightarrow> False
      | Some cert_chain \<Rightarrow>
          ref cert_chain ''x-nvidia-cert-status'' = Some (JString ''valid'')
          \<and> ref cert_chain ''x-nvidia-cert-ocsp-status'' = Some (JString ''good'')
          \<and> ref cert_chain ''x-nvidia-cert-ocsp-response-valid'' = Some (JBool True)
          \<and> check_cert_chain_status_freshness cert_chain)"

definition check_measurements_match :: "json \<Rightarrow> bool" where
  "check_measurements_match claims = (ref claims ''measres'' = Some (JString ''success''))"

definition validate_gpu_claims :: "json \<Rightarrow> bool" where
  "validate_gpu_claims claims =
     (check_measurements_match claims
      \<and> check_cert_chain claims ''x-nvidia-gpu-attestation-report-cert-chain''
      \<and> check_cert_chain claims ''x-nvidia-gpu-driver-rim-cert-chain''
      \<and> check_cert_chain claims ''x-nvidia-gpu-vbios-rim-cert-chain'')"

definition validate_switch_claims :: "json \<Rightarrow> bool" where
  "validate_switch_claims claims =
     (check_measurements_match claims
      \<and> check_cert_chain claims ''x-nvidia-switch-attestation-report-cert-chain''
      \<and> check_cert_chain claims ''x-nvidia-switch-bios-rim-cert-chain'')"

definition validate_claim_by_device_type :: "json \<Rightarrow> bool" where
  "validate_claim_by_device_type claim =
     ((ref claim ''x-nvidia-device-type'' = Some (JString ''gpu'') \<and> validate_gpu_claims claim)
      \<or> (ref claim ''x-nvidia-device-type'' = Some (JString ''nvswitch'') \<and> validate_switch_claims claim))"

definition nv_match :: "json \<Rightarrow> bool" where
  "nv_match input = (case input of
      JArray cs \<Rightarrow> length cs > 0 \<and> (\<forall>claim \<in> set cs. validate_claim_by_device_type claim)
    | _ \<Rightarrow> False)"

section \<open>What the built-in policy accepts\<close>

text \<open>The same requirements on the claims themselves.\<close>

definition status_fresh :: "chain_json_claims \<Rightarrow> bool" where
  "status_fresh c = (case sc_ocsp_signed_age c of
      None \<Rightarrow> sc_ocsp_nonce_matches c
    | Some st \<Rightarrow> \<not> sc_ocsp_nonce_matches c \<and> sa_version st = 1 \<and> sa_covered_certificates st \<noteq> 0
        \<and> sa_verification_time_unix st < sa_status_deadline_unix st)"

definition chain_acceptable :: "chain_json_claims \<Rightarrow> bool" where
  "chain_acceptable c =
     (sc_cert_status c = ''valid'' \<and> sc_cert_ocsp_status c = ''good'' \<and> sc_ocsp_response_valid c \<and> status_fresh c)"

definition claims_measres :: "claims \<Rightarrow> measres" where
  "claims_measres c = (case c of GpuClaims g \<Rightarrow> gc_measurements_matching g | SwitchClaims w \<Rightarrow> sw_measurements_matching w)"

definition claims_acceptable :: "claims \<Rightarrow> bool" where
  "claims_acceptable c = (claims_measres c = MeasSuccess \<and> (\<forall>ch \<in> set (claims_chains c). chain_acceptable ch))"

lemma ref_object [simp]: "ref (JObject m) k = map_of m k"
  by (simp add: ref_def)

lemma uint_positive: "0 < uint w \<longleftrightarrow> w \<noteq> 0"
  by (metis uint_0_eq word_gt_0 word_less_def)

lemma check_chain_written:
  assumes "ref j k = Some (chain_claims_to_json c)"
  shows "check_cert_chain j k \<longleftrightarrow> chain_acceptable c"
  by (cases "sc_ocsp_signed_age c")
    (simp_all add: assms check_cert_chain_def chain_acceptable_def chain_claims_to_json_def rego_not_def
      check_cert_chain_status_freshness_def status_fresh_def signed_age_to_json_def rego_greater_def
      uint_positive conj_commute)

lemma measres_written: "enum_to_json measres_table m = JString ''success'' \<longleftrightarrow> m = MeasSuccess"
  by (cases m) (simp_all add: enum_to_json_def measres_table_def)

lemma gpu_claims_validated:
  "validate_claim_by_device_type (gpu_claims_to_json g) \<longleftrightarrow> claims_acceptable (GpuClaims g)"
proof -
  obtain m where m: "gpu_claims_to_json g = JObject m" by (simp add: gpu_claims_to_json_def)
  note members = gpu_claims_members [OF m]
  have "map_of m ''x-nvidia-device-type'' = Some (JString ''gpu'')"
    by (rule map_of_is_SomeI [OF gpu_claims_keys [OF m]],
        simp only: m [unfolded gpu_claims_to_json_def json.inject, symmetric] set_append,
        rule UnI1, (rule list.set_intros)+)
  then show ?thesis
    using members by (simp add: m validate_claim_by_device_type_def validate_gpu_claims_def
        check_measurements_match_def measres_written check_chain_written claims_acceptable_def
        claims_chains_def claims_measres_def)
qed

lemma switch_claims_validated:
  "validate_claim_by_device_type (switch_claims_to_json w) \<longleftrightarrow> claims_acceptable (SwitchClaims w)"
proof -
  obtain m where m: "switch_claims_to_json w = JObject m" by (simp add: switch_claims_to_json_def)
  note members = switch_claims_members [OF m]
  have "map_of m ''x-nvidia-device-type'' = Some (JString ''nvswitch'')"
    by (rule map_of_is_SomeI [OF switch_claims_keys [OF m]],
        simp only: m [unfolded switch_claims_to_json_def json.inject, symmetric] set_append,
        rule UnI1, (rule list.set_intros)+)
  then show ?thesis
    using members by (simp add: m validate_claim_by_device_type_def validate_switch_claims_def
        check_measurements_match_def measres_written check_chain_written claims_acceptable_def
        claims_chains_def claims_measres_def)
qed

lemma claims_validated: "validate_claim_by_device_type (claims_to_json c) \<longleftrightarrow> claims_acceptable c"
  by (cases c) (simp_all add: claims_to_json_def gpu_claims_validated switch_claims_validated)

lemma nv_match_written: "nv_match (collection_to_json cs) \<longleftrightarrow> cs \<noteq> [] \<and> (\<forall>c \<in> set cs. claims_acceptable c)"
  by (simp add: nv_match_def collection_to_json_def claims_validated)


text \<open>An engine that parses its input and applies the translated policy.\<close>

definition demo_rego :: "(string \<Rightarrow> json) \<Rightarrow> (bool \<Rightarrow> string) \<Rightarrow> json rego_api" where
  "demo_rego parse show_bool = \<lparr>engine_new = JNull, set_rego_v0 = (\<lambda>e. Some e), add_policy = (\<lambda>e n p. Some e),
     set_input_json = (\<lambda>e s. Some (parse s)), eval_query = (\<lambda>e q. Some (show_bool (nv_match e)))\<rparr>"

definition demo_good_chain :: chain_json_claims where
  "demo_good_chain = new_chain_json_claims\<lparr>sc_cert_status := ''valid'', sc_cert_ocsp_status := ''good'',
     sc_ocsp_response_valid := True, sc_ocsp_nonce_matches := True\<rparr>"

definition demo_good_claims :: claims where
  "demo_good_claims = SwitchClaims (new_switch_claims\<lparr>sw_measurements_matching := MeasSuccess,
     sw_ar_cert_chain_claims := demo_good_chain, sw_bios_rim_cert_chain := demo_good_chain\<rparr>)"

lemma demo_good_claims_acceptable: "claims_acceptable demo_good_claims"
  by (simp add: claims_acceptable_def claims_measres_def claims_chains_def demo_good_claims_def
      demo_good_chain_def chain_acceptable_def status_fresh_def new_switch_claims_def new_chain_json_claims_def)


end
