(* ===== verification/Detached_Eat.thy ===== *)
theory Detached_Eat
  imports Policy
begin

text \<open>
  The detached entity attestation token (\<^verbatim>\<open>ClaimsCollection::get_detached_eat\<close> of \<^verbatim>\<open>src/claims.cpp\<close> and the
  JSON forms of its parts): one signed token per device, and an overall token that carries the
  digest of each of them, the common nonce and the overall result.  Signing, hashing, random bytes
  and the JSON text are functions of the environment.
\<close>

section \<open>Environment and records\<close>

record ('g, 'e) eat_env =
  ee_rand_bytes :: "nat \<Rightarrow> 'g \<Rightarrow> buffer option \<times> 'g"
  ee_sha256 :: "string \<Rightarrow> buffer option"
  ee_sign_none :: "string option \<Rightarrow> json \<Rightarrow> string outcome"
  ee_sign_es384 :: "string option \<Rightarrow> string \<Rightarrow> json \<Rightarrow> string outcome"
  ee_dump :: "json \<Rightarrow> string outcome"
  ee_parse :: "string \<Rightarrow> json outcome"
  ee_rego :: "'e rego_api"
  ee_overall_policy :: string

record eat_options =
  eo_private_key_pem :: string
  eo_issuer :: string
  eo_kid :: string

definition default_eat_options :: eat_options where
  "default_eat_options = \<lparr>eo_private_key_pem = '''', eo_issuer = ''NVAT-LOCAL-VERIFIER'', eo_kid = ''''\<rparr>"

record eat_common =
  ea_iat :: int
  ea_exp :: int
  ea_iss :: string
  ea_jti :: string

record overall_eat =
  ov_sub :: string
  ov_common :: eat_common
  ov_claims_version :: string
  ov_submod_digests :: "(string \<times> string) list"
  ov_overall_result :: bool
  ov_eat_nonce :: string

record detached_eat =
  de_overall_jwt_token :: string
  de_device_jwt_tokens :: "(string \<times> string) list"

definition JWT_TTL_SECONDS :: int where
  "JWT_TTL_SECONDS = 3600"

definition JTI_SIZE_BYTES :: nat where
  "JTI_SIZE_BYTES = 32"

definition get_current_times :: "int \<Rightarrow> int \<times> int" where
  "get_current_times now = (now, now + JWT_TTL_SECONDS)"

definition compute_sha256_hex :: "(string \<Rightarrow> buffer option) \<Rightarrow> string \<Rightarrow> string outcome" where
  "compute_sha256_hex sha256 text = (case sha256 text of None \<Rightarrow> fail InternalError | Some d \<Rightarrow> ret (to_hex_string d))"

section \<open>JSON forms\<close>

definition common_members :: "eat_common \<Rightarrow> (string \<times> json) list" where
  "common_members c = [(''iat'', JInt (ea_iat c)), (''exp'', JInt (ea_exp c)), (''jti'', JString (ea_jti c)),
     (''iss'', JString (ea_iss c))]"

definition common_from_json :: "json \<Rightarrow> eat_common outcome" where
  "common_from_json j =
     bind (bind (json_at j ''iat'') get_int64) (\<lambda>iat.
     bind (bind (json_at j ''exp'') get_int64) (\<lambda>exp.
     bind (bind (json_at j ''jti'') get_string) (\<lambda>jti.
     bind (bind (json_at j ''iss'') get_string) (\<lambda>iss.
     ret \<lparr>ea_iat = iat, ea_exp = exp, ea_iss = iss, ea_jti = jti\<rparr>))))"

definition submod_to_json :: "eat_common \<Rightarrow> claims \<Rightarrow> json outcome" where
  "submod_to_json common c = json_update (JObject (common_members common)) (claims_to_json c)"

definition overall_to_json :: "overall_eat \<Rightarrow> json" where
  "overall_to_json ov = JObject
     ([(''sub'', JString (ov_sub ov))] @ common_members (ov_common ov)
      @ [(''x-nvidia-ver'', JString (ov_claims_version ov)),
         (''x-nvidia-overall-att-result'', JBool (ov_overall_result ov)),
         (''eat_nonce'', JString (ov_eat_nonce ov))]
      @ (if ov_submod_digests ov = [] then []
         else [(''submods'', JObject (map (\<lambda>(k, d). (k, JArray [JString ''DIGEST'', JArray [JString ''SHA256'', JString d]]))
                 (ov_submod_digests ov)))]))"

text \<open>
  \<^verbatim>\<open>items()\<close>: the members of an object, the elements of an array under their positions, nothing of
  null, and any other value once under the empty name.
\<close>

definition json_items :: "json \<Rightarrow> (string \<times> json) list" where
  "json_items j = (case j of
      JObject m \<Rightarrow> m
    | JArray js \<Rightarrow> zip (map to_string [0..<length js]) js
    | JNull \<Rightarrow> []
    | _ \<Rightarrow> [('''', j)])"

definition digest_of_item :: "string \<times> json \<Rightarrow> (string \<times> string) outcome" where
  "digest_of_item item =
     bind (json_nth (snd item) 1) (\<lambda>v.
     bind (json_nth v 1) (\<lambda>d.
     bind (get_string d) (\<lambda>d. ret (fst item, d))))"

text \<open>\<^verbatim>\<open>operator[]\<close> and \<^verbatim>\<open>insert\<close> of a map: the first replaces an entry, the second keeps it.\<close>

definition assign_entry :: "string \<times> 'a \<Rightarrow> (string \<times> 'a) list \<Rightarrow> (string \<times> 'a) list" where
  "assign_entry e m = AList.update (fst e) (snd e) m"

definition insert_entry :: "string \<times> 'a \<Rightarrow> (string \<times> 'a) list \<Rightarrow> (string \<times> 'a) list" where
  "insert_entry e m = (if map_of m (fst e) = None then m @ [e] else m)"

definition overall_from_json :: "json \<Rightarrow> overall_eat outcome" where
  "overall_from_json j =
     bind (bind (json_at j ''sub'') get_string) (\<lambda>sub.
     bind (common_from_json j) (\<lambda>common.
     bind (bind (json_at j ''x-nvidia-ver'') get_string) (\<lambda>version.
     bind (bind (json_at j ''x-nvidia-overall-att-result'') get_bool) (\<lambda>result.
     bind (bind (json_at j ''eat_nonce'') get_string) (\<lambda>nonce.
     bind (json_at j ''submods'') (\<lambda>submods.
     bind (traverse digest_of_item (json_items submods)) (\<lambda>digests.
     ret \<lparr>ov_sub = sub, ov_common = common, ov_claims_version = version, ov_submod_digests = fold assign_entry digests [],
          ov_overall_result = result, ov_eat_nonce = nonce\<rparr>)))))))"

definition detached_eat_to_json :: "detached_eat \<Rightarrow> json" where
  "detached_eat_to_json e = JArray
     [JArray [JString ''JWT'', JString (de_overall_jwt_token e)],
      JObject (map (\<lambda>(k, t). (k, JString t)) (de_device_jwt_tokens e))]"

definition token_of_item :: "string \<times> json \<Rightarrow> (string \<times> string) outcome" where
  "token_of_item item = bind (get_string (snd item)) (\<lambda>t. ret (fst item, t))"

definition detached_eat_from_json :: "json \<Rightarrow> detached_eat outcome" where
  "detached_eat_from_json j =
     bind (json_nth j 0) (\<lambda>v.
     bind (json_nth v 1) (\<lambda>v.
     bind (get_string v) (\<lambda>overall.
     bind (json_nth j 1) (\<lambda>v.
     bind (traverse token_of_item (json_items v)) (\<lambda>tokens.
     ret \<lparr>de_overall_jwt_token = overall, de_device_jwt_tokens = fold insert_entry tokens []\<rparr>)))))"

section \<open>Building a token\<close>

definition draw_jti :: "('g, 'e) eat_env \<Rightarrow> ('g, string) step" where
  "draw_jti env g = (case ee_rand_bytes env JTI_SIZE_BYTES g of (r, g') \<Rightarrow>
     (bind (generate_nonce (\<lambda>n. r) (replicate JTI_SIZE_BYTES 0)) (\<lambda>bs. ret (to_hex_string bs)), g'))"

definition sign_token :: "('g, 'e) eat_env \<Rightarrow> eat_options \<Rightarrow> json \<Rightarrow> string outcome" where
  "sign_token env options payload =
     (let kid = (if eo_kid options \<noteq> '''' then Some (eo_kid options) else None)
      in if eo_private_key_pem options = '''' then ee_sign_none env kid payload
         else ee_sign_es384 env kid (eo_private_key_pem options) payload)"

text \<open>
  One pass of the loop over the claims: the label counts the devices of the same type, the first
  nonce that is not empty is the one the others have to equal.
\<close>

record eat_progress =
  ep_index :: "string \<Rightarrow> nat"
  ep_nonce :: string
  ep_digests :: "(string \<times> string) list"
  ep_tokens :: "(string \<times> string) list"

definition submod_step ::
  "('g, 'e) eat_env \<Rightarrow> eat_options \<Rightarrow> eat_common \<Rightarrow> claims \<Rightarrow> eat_progress \<Rightarrow> ('g, eat_progress) step" where
  "submod_step env options common c p =
     (let device_type = upper (claims_device_type c) in
      if device_type \<noteq> ''GPU'' \<and> device_type \<noteq> ''SWITCH'' then pure (fail BadArgument)
      else
      let submod_key = device_type @ ''-'' @ to_string (ep_index p device_type);
          nonce = claims_nonce c in
      if ep_nonce p \<noteq> '''' \<and> ep_nonce p \<noteq> nonce then pure (fail BadArgument)
      else
      sbind (draw_jti env) (\<lambda>jti.
      pure (bind (submod_to_json (common\<lparr>ea_jti := jti\<rparr>) c) (\<lambda>payload.
            bind (sign_token env options payload) (\<lambda>token.
            bind (compute_sha256_hex (ee_sha256 env) token) (\<lambda>digest.
            ret \<lparr>ep_index = (ep_index p)(device_type := ep_index p device_type + 1),
                 ep_nonce = (if ep_nonce p = '''' then nonce else ep_nonce p),
                 ep_digests = AList.update submod_key digest (ep_digests p),
                 ep_tokens = AList.update submod_key token (ep_tokens p)\<rparr>))))))"

fun submod_loop ::
  "('g, 'e) eat_env \<Rightarrow> eat_options \<Rightarrow> eat_common \<Rightarrow> claims list \<Rightarrow> eat_progress \<Rightarrow> ('g, eat_progress) step" where
  "submod_loop env options common [] p = pure (ret p)"
| "submod_loop env options common (c # cs) p =
     sbind (submod_step env options common c p) (submod_loop env options common cs)"

definition new_eat_progress :: eat_progress where
  "new_eat_progress = \<lparr>ep_index = (\<lambda>t. 0), ep_nonce = '''', ep_digests = [], ep_tokens = []\<rparr>"

text \<open>The text that is written, and the overall result that decides which code is returned.\<close>

definition build_detached_eat ::
  "('g, 'e) eat_env \<Rightarrow> int \<Rightarrow> eat_options \<Rightarrow> claims list \<Rightarrow> ('g, string \<times> bool) step" where
  "build_detached_eat env now options cs =
     (case get_current_times now of (iat, exp) \<Rightarrow>
      sbind (draw_jti env) (\<lambda>jti.
      let common = \<lparr>ea_iat = iat, ea_exp = exp, ea_iss = eo_issuer options, ea_jti = jti\<rparr> in
      sbind (submod_loop env options common cs new_eat_progress) (\<lambda>p.
      pure (bind (evaluate_claims (ee_dump env) (ee_parse env) (ee_rego env) (ee_overall_policy env) cs) (\<lambda>result.
            bind (if result then ret ''''  else collection_serialize_json (ee_dump env) cs) (\<lambda>_.
            let overall = \<lparr>ov_sub = ''NVIDIA-PLATFORM-ATTESTATION'', ov_common = common, ov_claims_version = ''3.0'',
                           ov_submod_digests = ep_digests p, ov_overall_result = result, ov_eat_nonce = ep_nonce p\<rparr> in
            bind (sign_token env options (overall_to_json overall)) (\<lambda>token.
            bind (serialize_to_json (ee_dump env) (\<lambda>e. ret (detached_eat_to_json e))
                   \<lparr>de_overall_jwt_token = token, de_device_jwt_tokens = ep_tokens p\<rparr>) (\<lambda>text.
            ret (text, result)))))))))"

text \<open>The token is handed out even when the overall result is false, together with an error code.\<close>

definition get_detached_eat ::
  "('g, 'e) eat_env \<Rightarrow> int \<Rightarrow> eat_options \<Rightarrow> claims list \<Rightarrow> 'g \<Rightarrow> unit outcome \<times> string option \<times> 'g" where
  "get_detached_eat env now options cs g =
     (case build_detached_eat env now options cs g of
        (Inl f, g') \<Rightarrow> (Inl f, None, g')
      | (Inr (text, result), g') \<Rightarrow> (if result then ret () else fail OverallResultFalse, Some text, g'))"

section \<open>Labels\<close>

lemma to_string_inj: "to_string m = to_string n \<Longrightarrow> m = n"
proof -
  have "digits_value 10 (to_string k) = k" for k
  proof (induction k rule: to_string.induct)
    case (1 k)
    then show ?case
      by (subst to_string.simps) (cases "k < 10"; simp add: digits_value_def)
  qed
  then show "to_string m = to_string n \<Longrightarrow> m = n" by metis
qed

text \<open>The label of a device: its type and the number of devices of that type before it.\<close>

definition label :: "string \<Rightarrow> nat \<Rightarrow> string" where
  "label t n = upper t @ ''-'' @ to_string n"

definition device_label :: "claims list \<Rightarrow> nat \<Rightarrow> string" where
  "device_label cs i = label (claims_device_type (cs ! i))
     (length (filter (\<lambda>c. claims_device_type c = claims_device_type (cs ! i)) (take i cs)))"

lemma device_type_cases: "claims_device_type c = ''gpu'' \<or> claims_device_type c = ''switch''"
  by (cases c) (simp_all add: claims_device_type_def)

lemma upper_device_type: "upper ''gpu'' = ''GPU''" "upper ''switch'' = ''SWITCH''"
  by code_simp+

lemma label_inj: "label (claims_device_type c) m = label (claims_device_type d) n \<Longrightarrow>
    claims_device_type c = claims_device_type d \<and> m = n"
  using device_type_cases [of c] device_type_cases [of d]
  by (auto simp: label_def upper_device_type dest: to_string_inj)

lemma device_label_prefix: "i < length cs \<Longrightarrow> device_label (cs @ ds) i = device_label cs i"
  by (simp add: device_label_def nth_append)

lemma device_label_last:
  "device_label (cs @ [c]) (length cs)
     = label (claims_device_type c) (length (filter (\<lambda>d. claims_device_type d = claims_device_type c) cs))"
  by (simp add: device_label_def)

lemma count_before:
  assumes "i < length cs" "P (cs ! i)"
  shows "length (filter P (take i cs)) < length (filter P cs)"
proof -
  have "cs = take i cs @ cs ! i # drop (Suc i) cs" using assms(1) by (rule id_take_nth_drop)
  then have "filter P cs = filter P (take i cs) @ cs ! i # filter P (drop (Suc i) cs)"
    using assms(2) by (metis filter.simps(2) filter_append)
  then show ?thesis by simp
qed

lemma device_label_fresh:
  assumes "i < length cs"
  shows "device_label cs i \<noteq> label (claims_device_type c) (length (filter (\<lambda>d. claims_device_type d = claims_device_type c) cs))"
proof
  assume "device_label cs i = label (claims_device_type c) (length (filter (\<lambda>d. claims_device_type d = claims_device_type c) cs))"
  then have t: "claims_device_type (cs ! i) = claims_device_type c"
    and n: "length (filter (\<lambda>d. claims_device_type d = claims_device_type c) (take i cs))
      = length (filter (\<lambda>d. claims_device_type d = claims_device_type c) cs)"
    unfolding device_label_def by (auto dest: label_inj)
  show False using count_before [OF assms, of "\<lambda>d. claims_device_type d = claims_device_type c"] t n by simp
qed

lemma distinct_labels: "distinct (map (device_label cs) [0..<length cs])"
proof (induction cs rule: rev_induct)
  case (snoc c cs)
  have eq: "map (device_label (cs @ [c])) [0..<length cs] = map (device_label cs) [0..<length cs]"
    by (simp add: device_label_prefix)
  have "device_label (cs @ [c]) (length cs) \<notin> set (map (device_label cs) [0..<length cs])"
    using device_label_fresh [of _ cs c] unfolding device_label_last by force
  then show ?case unfolding length_append_singleton upt_Suc_append [OF le0] map_append eq
    using snoc.IH by simp
qed simp

section \<open>What the loop builds\<close>

text \<open>The device token of a claim: signed payload, its digest, under the given label.\<close>

definition device_token ::
  "('g, 'e) eat_env \<Rightarrow> eat_options \<Rightarrow> eat_common \<Rightarrow> claims \<Rightarrow> string \<Rightarrow> string \<times> string \<Rightarrow> string \<times> string \<Rightarrow> bool" where
  "device_token env options common c key digest token =
     (\<exists>jti payload d. submod_to_json (common\<lparr>ea_jti := jti\<rparr>) c = Inr payload
        \<and> token = (key, snd token) \<and> sign_token env options payload = Inr (snd token)
        \<and> ee_sha256 env (snd token) = Some d \<and> digest = (key, to_hex_string d))"

definition progress_ok ::
  "('g, 'e) eat_env \<Rightarrow> eat_options \<Rightarrow> eat_common \<Rightarrow> claims list \<Rightarrow> eat_progress \<Rightarrow> bool" where
  "progress_ok env options common cs p =
     ((\<forall>c. ep_index p (upper (claims_device_type c)) = length (filter (\<lambda>d. claims_device_type d = claims_device_type c) cs))
      \<and> (\<forall>c \<in> set cs. claims_nonce c = '''' \<or> claims_nonce c = ep_nonce p)
      \<and> length (ep_digests p) = length cs \<and> length (ep_tokens p) = length cs
      \<and> (\<forall>i < length cs. device_token env options common (cs ! i) (device_label cs i)
            (ep_digests p ! i) (ep_tokens p ! i)))"

lemma update_fresh: "k \<notin> fst ` set xs \<Longrightarrow> AList.update k v xs = xs @ [(k, v)]"
  by (induction xs) auto

lemma device_token_keys:
  "device_token env options common c key digest token \<Longrightarrow> fst digest = key \<and> fst token = key"
  unfolding device_token_def by (metis fst_conv)

lemma progress_keys:
  assumes "progress_ok env options common cs p"
  shows "map fst (ep_digests p) = map (device_label cs) [0..<length cs]"
    and "map fst (ep_tokens p) = map (device_label cs) [0..<length cs]"
  using assms by (auto simp: progress_ok_def intro!: nth_equalityI dest!: device_token_keys)

lemma upper_type_inj: "upper (claims_device_type c) = upper (claims_device_type d) \<longleftrightarrow> claims_device_type c = claims_device_type d"
  using device_type_cases [of c] device_type_cases [of d] by (auto simp: upper_device_type)

lemma submod_step_ok:
  assumes "submod_step env options common c p g = (Inr p', g')"
  defines "key \<equiv> label (claims_device_type c) (ep_index p (upper (claims_device_type c)))"
  shows "\<exists>digest token. device_token env options common c key (key, digest) (key, token)
    \<and> (ep_nonce p = '''' \<or> ep_nonce p = claims_nonce c)
    \<and> p' = \<lparr>ep_index = (ep_index p)(upper (claims_device_type c) := ep_index p (upper (claims_device_type c)) + 1),
            ep_nonce = (if ep_nonce p = '''' then claims_nonce c else ep_nonce p),
            ep_digests = AList.update key digest (ep_digests p),
            ep_tokens = AList.update key token (ep_tokens p)\<rparr>"
  using assms(1) unfolding key_def
  by (auto simp: submod_step_def Let_def step_simps outcome_simps compute_sha256_hex_def device_token_def label_def
      split: if_splits option.splits) blast+

lemma progress_step:
  assumes ok: "progress_ok env options common cs p"
    and step: "submod_step env options common c p g = (Inr p', g')"
  shows "progress_ok env options common (cs @ [c]) p'"
proof -
  let ?key = "label (claims_device_type c) (ep_index p (upper (claims_device_type c)))"
  obtain digest token where t: "device_token env options common c ?key (?key, digest) (?key, token)"
    and nonce: "ep_nonce p = '''' \<or> ep_nonce p = claims_nonce c"
    and p': "p' = \<lparr>ep_index = (ep_index p)(upper (claims_device_type c) := ep_index p (upper (claims_device_type c)) + 1),
            ep_nonce = (if ep_nonce p = '''' then claims_nonce c else ep_nonce p),
            ep_digests = AList.update ?key digest (ep_digests p),
            ep_tokens = AList.update ?key token (ep_tokens p)\<rparr>"
    using submod_step_ok [OF step] by blast
  have idx: "ep_index p (upper (claims_device_type c)) = length (filter (\<lambda>d. claims_device_type d = claims_device_type c) cs)"
    using ok by (simp add: progress_ok_def)
  have key: "?key = device_label (cs @ [c]) (length cs)" by (simp add: device_label_last idx)
  have "?key \<notin> set (map (device_label cs) [0..<length cs])"
    unfolding idx using device_label_fresh [of _ cs c] by force
  then have fresh: "?key \<notin> fst ` set (ep_digests p)" "?key \<notin> fst ` set (ep_tokens p)"
    by (simp_all only: set_map [symmetric] progress_keys [OF ok] not_False_eq_True)
  have upd: "ep_digests p' = ep_digests p @ [(device_label (cs @ [c]) (length cs), digest)]"
    "ep_tokens p' = ep_tokens p @ [(device_label (cs @ [c]) (length cs), token)]"
    using update_fresh [OF fresh(1), of digest] update_fresh [OF fresh(2), of token] by (simp_all add: p' key)
  have len: "length (ep_digests p) = length cs" "length (ep_tokens p) = length cs"
    and old: "\<And>i. i < length cs \<Longrightarrow> device_token env options common (cs ! i) (device_label cs i)
            (ep_digests p ! i) (ep_tokens p ! i)"
    using ok by (simp_all add: progress_ok_def)
  have "\<forall>i < length (cs @ [c]). device_token env options common ((cs @ [c]) ! i) (device_label (cs @ [c]) i)
            (ep_digests p' ! i) (ep_tokens p' ! i)"
    using old t len key by (auto simp: upd nth_append device_label_prefix less_Suc_eq)
  moreover have "\<forall>d. ep_index p' (upper (claims_device_type d))
      = length (filter (\<lambda>e. claims_device_type e = claims_device_type d) (cs @ [c]))"
    using ok by (auto simp: p' progress_ok_def upper_type_inj)
  moreover have "\<forall>d \<in> set (cs @ [c]). claims_nonce d = '''' \<or> claims_nonce d = ep_nonce p'"
    using ok nonce by (auto simp: p' progress_ok_def)
  ultimately show ?thesis
    unfolding progress_ok_def using len by (simp add: upd)
qed

lemma progress_loop:
  "progress_ok env options common done p \<Longrightarrow> submod_loop env options common cs p g = (Inr p', g')
     \<Longrightarrow> progress_ok env options common (done @ cs) p'"
proof (induction cs arbitrary: "done" p g)
  case (Cons c cs)
  from Cons.prems(2) obtain q h where "submod_step env options common c p g = (Inr q, h)"
    "submod_loop env options common cs q h = (Inr p', g')" by (auto simp: step_simps)
  then show ?case using Cons.IH [OF progress_step [OF Cons.prems(1)]] by simp
qed (simp add: step_simps ret_def)

section \<open>The token\<close>

text \<open>
  C25 (detached_eat_binds_devices): when a detached token is written, it has one device token per
  claim, in order, under distinct labels (GPU-0, GPU-1, SWITCH-0, ...); each is the signature of
  the payload made of that claim's JSON form and the common members; the overall token is the
  signature of a payload that holds, under the same labels, the SHA-256 digest of each device
  token, the overall result of the built-in policy, a validity of one hour from the time of
  issue, and a nonce that every claim with a nonce carries.
\<close>

theorem detached_eat_binds_devices:
  assumes "get_detached_eat env now options cs g = (status, Some text, g')"
  shows "\<exists>ov e. ee_dump env (detached_eat_to_json e) = Inr text
    \<and> sign_token env options (overall_to_json ov) = Inr (de_overall_jwt_token e)
    \<and> distinct (map (device_label cs) [0..<length cs])
    \<and> length (ov_submod_digests ov) = length cs \<and> length (de_device_jwt_tokens e) = length cs
    \<and> (\<forall>i < length cs. device_token env options (ov_common ov) (cs ! i) (device_label cs i)
          (ov_submod_digests ov ! i) (de_device_jwt_tokens e ! i))
    \<and> (\<forall>c \<in> set cs. claims_nonce c = '''' \<or> claims_nonce c = ov_eat_nonce ov)
    \<and> evaluate_claims (ee_dump env) (ee_parse env) (ee_rego env) (ee_overall_policy env) cs = Inr (ov_overall_result ov)
    \<and> status = (if ov_overall_result ov then Inr () else Inl (Err OverallResultFalse))
    \<and> ea_iat (ov_common ov) = now \<and> ea_exp (ov_common ov) = now + 3600"
proof -
  obtain result where b: "build_detached_eat env now options cs g = (Inr (text, result), g')"
    and st: "status = (if result then ret () else fail OverallResultFalse)"
    using assms by (auto simp: get_detached_eat_def split: prod.splits sum.splits)
  obtain jti h p token where
    loop: "submod_loop env options \<lparr>ea_iat = now, ea_exp = now + 3600, ea_iss = eo_issuer options, ea_jti = jti\<rparr> cs
        new_eat_progress h = (Inr p, g')"
    and ev: "evaluate_claims (ee_dump env) (ee_parse env) (ee_rego env) (ee_overall_policy env) cs = Inr result"
    and ov: "sign_token env options (overall_to_json \<lparr>ov_sub = ''NVIDIA-PLATFORM-ATTESTATION'',
        ov_common = \<lparr>ea_iat = now, ea_exp = now + 3600, ea_iss = eo_issuer options, ea_jti = jti\<rparr>,
        ov_claims_version = ''3.0'', ov_submod_digests = ep_digests p, ov_overall_result = result,
        ov_eat_nonce = ep_nonce p\<rparr>) = Inr token"
    and out: "ee_dump env (detached_eat_to_json \<lparr>de_overall_jwt_token = token, de_device_jwt_tokens = ep_tokens p\<rparr>) = Inr text"
    using b unfolding build_detached_eat_def get_current_times_def JWT_TTL_SECONDS_def Let_def prod.case
    by (auto simp only: step_simps outcome_simps serialize_to_json_def prod.inject)
  let ?common = "\<lparr>ea_iat = now, ea_exp = now + 3600, ea_iss = eo_issuer options, ea_jti = jti\<rparr>"
  have "progress_ok env options ?common [] new_eat_progress" by (simp add: progress_ok_def new_eat_progress_def)
  from progress_loop [OF this loop] have "progress_ok env options ?common cs p" by simp
  then show ?thesis
    using ev ov out st distinct_labels [of cs]
    by (intro exI [of _ "\<lparr>ov_sub = ''NVIDIA-PLATFORM-ATTESTATION'', ov_common = ?common,
        ov_claims_version = ''3.0'', ov_submod_digests = ep_digests p, ov_overall_result = result,
        ov_eat_nonce = ep_nonce p\<rparr>"] exI [of _ "\<lparr>de_overall_jwt_token = token, de_device_jwt_tokens = ep_tokens p\<rparr>"])
      (simp add: progress_ok_def ret_def fail_def)
qed

lemma fold_assign_distinct: "distinct (map fst (m @ es)) \<Longrightarrow> fold assign_entry es m = m @ es"
proof (induction es arbitrary: m)
  case (Cons e es)
  then have "map_of m (fst e) = None" by (simp add: map_of_eq_None_iff)
  then show ?case using Cons.IH [of "m @ [e]"] Cons.prems by (simp add: assign_entry_def AList_update_new)
qed simp

lemma fold_insert_distinct: "distinct (map fst (m @ es)) \<Longrightarrow> fold insert_entry es m = m @ es"
proof (induction es arbitrary: m)
  case (Cons e es)
  then have "map_of m (fst e) = None" by (simp add: map_of_eq_None_iff)
  then show ?case using Cons.IH [of "m @ [e]"] Cons.prems by (simp add: insert_entry_def)
qed simp

lemma distinct_fold_assign: "distinct (map fst m) \<Longrightarrow> distinct (map fst (fold assign_entry es m))"
  by (induction es arbitrary: m) (auto simp: assign_entry_def distinct_update)

text \<open>
  A reader of the token gets back what was written: the overall payload
  of a token with at least one device, with its times in the 64-bit range, and the detached token
  with all device tokens under their labels, which are distinct.
\<close>

theorem eat_json_round_trip:
  assumes "ov_submod_digests ov \<noteq> []"
    and "distinct (map fst (ov_submod_digests ov))" "distinct (map fst (de_device_jwt_tokens e))"
    and "- (2 ^ 63) \<le> ea_iat (ov_common ov)" "ea_iat (ov_common ov) < 2 ^ 63"
    and "- (2 ^ 63) \<le> ea_exp (ov_common ov)" "ea_exp (ov_common ov) < 2 ^ 63"
  shows "overall_from_json (overall_to_json ov) = Inr ov \<and> detached_eat_from_json (detached_eat_to_json e) = Inr e"
proof -
  have "traverse digest_of_item (map (\<lambda>(k, d). (k, JArray [JString ''DIGEST'', JArray [JString ''SHA256'', JString d]])) ds) = ret ds" for ds
    by (rule traverse_map) (auto simp: digest_of_item_def json_nth_def json_simps)
  moreover have "traverse token_of_item (map (\<lambda>(k, t). (k, JString t)) ts) = ret ts" for ts
    by (rule traverse_map) (auto simp: token_of_item_def json_simps)
  ultimately show ?thesis
    using assms fold_assign_distinct [of "[]" "ov_submod_digests ov"] fold_insert_distinct [of "[]" "de_device_jwt_tokens e"]
    by (cases ov, cases "ov_common ov", cases e)
      (simp add: overall_from_json_def overall_to_json_def common_from_json_def common_members_def
        detached_eat_from_json_def detached_eat_to_json_def json_items_def json_nth_def json_simps ret_def)
qed

theorem eat_json_round_trip_witness:
  "overall_from_json (overall_to_json \<lparr>ov_sub = ''s'', ov_common = \<lparr>ea_iat = 1, ea_exp = 3601, ea_iss = ''i'', ea_jti = ''j''\<rparr>,
      ov_claims_version = ''3.0'', ov_submod_digests = [(''GPU-0'', ''aa'')], ov_overall_result = True, ov_eat_nonce = ''00''\<rparr>)
   = Inr \<lparr>ov_sub = ''s'', ov_common = \<lparr>ea_iat = 1, ea_exp = 3601, ea_iss = ''i'', ea_jti = ''j''\<rparr>,
      ov_claims_version = ''3.0'', ov_submod_digests = [(''GPU-0'', ''aa'')], ov_overall_result = True, ov_eat_nonce = ''00''\<rparr>"
  using eat_json_round_trip [of "\<lparr>ov_sub = ''s'', ov_common = \<lparr>ea_iat = 1, ea_exp = 3601, ea_iss = ''i'', ea_jti = ''j''\<rparr>,
      ov_claims_version = ''3.0'', ov_submod_digests = [(''GPU-0'', ''aa'')], ov_overall_result = True, ov_eat_nonce = ''00''\<rparr>"
      "\<lparr>de_overall_jwt_token = '''', de_device_jwt_tokens = [(''GPU-0'', ''t'')]\<rparr>"]
  by simp

definition demo_eat_env :: "(unit, json) eat_env" where
  "demo_eat_env = \<lparr>ee_rand_bytes = (\<lambda>n g. (Some (replicate n 0), g)), ee_sha256 = (\<lambda>t. Some [1]),
     ee_sign_none = (\<lambda>kid p. Inr ''token''), ee_sign_es384 = (\<lambda>kid key p. Inr ''token''),
     ee_dump = (\<lambda>j. Inr []),
     ee_parse = (\<lambda>t. Inr (JObject [(''result'', JArray [JObject [(''expressions'', JArray [JObject [(''value'', JBool True)]])]])])),
     ee_rego = demo_rego (\<lambda>t. JNull) (\<lambda>b. []), ee_overall_policy = []\<rparr>"

lemma demo_eat_written: "get_detached_eat demo_eat_env 5 default_eat_options [demo_good_claims] () = (Inr (), Some [], ())"
proof -
  obtain m where m: "claims_to_json demo_good_claims = JObject m"
    by (simp add: claims_to_json_def demo_good_claims_def switch_claims_to_json_def)
  have t: "upper (claims_device_type demo_good_claims) = ''SWITCH''" by code_simp
  show ?thesis
    by (simp add: get_detached_eat_def build_detached_eat_def get_current_times_def draw_jti_def demo_eat_env_def
        generate_nonce_def JTI_SIZE_BYTES_def submod_step_def t submod_to_json_def m json_update_def sign_token_def
        default_eat_options_def compute_sha256_hex_def evaluate_claims_def collection_serialize_json_def
        evaluate_policy_def demo_rego_def query_value_def json_simps json_nth_def serialize_to_json_def sbind_def pure_def
        MIN_VALID_NONCE_LEN_def new_eat_progress_def Let_def ret_def)
qed

theorem detached_eat_binds_devices_witness:
  "\<exists>ov (e :: detached_eat). distinct (map (device_label [demo_good_claims]) [0..<1]) \<and> ea_exp (ov_common ov) = 3605
    \<and> sign_token demo_eat_env default_eat_options (overall_to_json ov) = Inr (de_overall_jwt_token e)
    \<and> device_token demo_eat_env default_eat_options (ov_common ov) demo_good_claims
        (device_label [demo_good_claims] 0) (ov_submod_digests ov ! 0) (de_device_jwt_tokens e ! 0)"
proof -
  obtain ov and e :: detached_eat
    where "sign_token demo_eat_env default_eat_options (overall_to_json ov) = Inr (de_overall_jwt_token e)"
    and "\<forall>i < length [demo_good_claims]. device_token demo_eat_env default_eat_options (ov_common ov) ([demo_good_claims] ! i)
        (device_label [demo_good_claims] i) (ov_submod_digests ov ! i) (de_device_jwt_tokens e ! i)"
    and "ea_exp (ov_common ov) = 5 + 3600"
    using detached_eat_binds_devices [OF demo_eat_written] by blast
  then show ?thesis by (intro exI [of _ ov] exI [of _ e]) simp
qed

end
