(* ===== verification/Gpu_Verify.thy ===== *)
theory Gpu_Verify
  imports Gpu_Report Measurement_Match Detached_Eat "HOL-Library.Multiset"
begin

text \<open>
  The local GPU verifier (\<^verbatim>\<open>LocalGpuVerifier\<close> in \<^verbatim>\<open>src/gpu/verify.cpp\<close>): it parses and authenticates the
  evidence, fetches the driver and firmware manifests, judges the three certificate chains,
  compares the measurements and fills the claims.  The OCSP client and the RIM store are objects
  with a state of their own, threaded through the steps.
\<close>

section \<open>The verifier\<close>

record ('c, 'd, 'n, 'o, 'r) verifier =
  lv_x509 :: "'c x509_api"
  lv_xml :: "('d, 'n) xml_api"
  lv_ocsp :: "'o \<Rightarrow> 'c \<Rightarrow> 'c \<Rightarrow> 'c list \<Rightarrow> 'c \<Rightarrow> ocsp_response outcome \<times> 'o"
  lv_rim_store :: "'r \<Rightarrow> string \<Rightarrow> 'd rim_document outcome \<times> 'r"
  lv_reason_str :: "int \<Rightarrow> string"
  lv_clock :: "'o \<Rightarrow> int"
  lv_device_root_cert :: string
  lv_rim_root_cert :: string
  lv_detached_eat_options :: eat_options

text \<open>\<^verbatim>\<open>create\<close>: the store and the client are pointers that must not be null.\<close>

definition verifier_create ::
  "('r \<Rightarrow> string \<Rightarrow> 'd rim_document outcome \<times> 'r) option
    \<Rightarrow> ('o \<Rightarrow> 'c \<Rightarrow> 'c \<Rightarrow> 'c list \<Rightarrow> 'c \<Rightarrow> ocsp_response outcome \<times> 'o) option
    \<Rightarrow> eat_options \<Rightarrow> ('c, 'd, 'n, 'o, 'r) verifier \<Rightarrow> ('c, 'd, 'n, 'o, 'r) verifier outcome" where
  "verifier_create store_ptr client_ptr options out_verifier =
     (case store_ptr of
        None \<Rightarrow> fail BadArgument
      | Some store \<Rightarrow>
          (case client_ptr of
             None \<Rightarrow> fail BadArgument
           | Some client \<Rightarrow> ret (out_verifier\<lparr>lv_rim_store := store, lv_ocsp := client, lv_detached_eat_options := options\<rparr>)))"

section \<open>Filling the claims\<close>

text \<open>The copy of chain claims that each of the three setters writes out.\<close>

definition to_chain_json_claims :: "cert_chain_claims \<Rightarrow> chain_json_claims" where
  "to_chain_json_claims c =
     (let oc = cc_ocsp_claims c in
      \<lparr>sc_cert_expiration_date = cc_expiration_date c,
       sc_cert_status = chain_status_to_string (cc_status c),
       sc_cert_ocsp_status = ocsp_status_to_string (oc_status oc),
       sc_cert_revocation_reason = oc_revocation_reason oc,
       sc_ocsp_nonce_matches = oc_nonce_matches oc,
       sc_ocsp_response_valid = oc_response_valid oc,
       sc_ocsp_signed_age = make_signed_age_status (oc_signed_age oc) (oc_verification_time oc)
         (oc_status_deadline oc) (oc_oldest_this_update oc) (of_nat (oc_covered_certificates oc))\<rparr>)"

text \<open>Without chain verification the status of the chain claims is read uninitialised.\<close>

definition rim_chain_json_claims :: "cert_chain_claims option \<Rightarrow> chain_json_claims outcome" where
  "rim_chain_json_claims cc = (case cc of None \<Rightarrow> undefined_behaviour | Some c \<Rightarrow> ret (to_chain_json_claims c))"

definition set_gpu_evidence_claims :: "gpu_evidence_claims \<Rightarrow> gpu_claims \<Rightarrow> gpu_claims" where
  "set_gpu_evidence_claims ec out =
     (let rc = ec_attestation_report_claims ec in
      out\<lparr>gc_gpu_arch_match := ec_gpu_ar_arch_match ec,
          gc_driver_version := ec_driver_version ec,
          gc_vbios_version := ec_vbios_version ec,
          gc_gpu_switch_pdis := ec_gpu_switch_pdis ec,
          gc_ar_cert_chain := to_chain_json_claims (rc_cert_chain_claims rc),
          gc_ar_cert_chain_fwid_match := rc_fwid_match rc,
          gc_ar_parsed := rc_parsed rc,
          gc_ar_signature_verified := rc_signature_verified rc,
          gc_gpu_ar_nonce_match := ec_gpu_ar_nonce_match ec,
          gc_hwmodel := rc_hwmodel rc,
          gc_ueid := rc_ueid rc\<rparr>)"

definition MIN_OPAQUE_DATA_VERSION_FOR_FEATURE_FLAG :: u64 where
  "MIN_OPAQUE_DATA_VERSION_FOR_FEATURE_FLAG = 1"

definition add_gpu_mode_claim :: "'c gpu_report \<Rightarrow> gpu_claims \<Rightarrow> gpu_claims outcome" where
  "add_gpu_mode_claim rep out =
     (if get_opaque_data_version rep < MIN_OPAQUE_DATA_VERSION_FOR_FEATURE_FLAG then ret out
      else bind (get_feature_flag rep) (\<lambda>flag. ret (out\<lparr>gc_mode := feature_flag_to_string flag\<rparr>)))"

definition verifier_rim_claims ::
  "('c, 'd, 'n, 'o, 'r) verifier \<Rightarrow> 'd rim_document \<Rightarrow> evidence_policy \<Rightarrow> ('o, rim_claims) step" where
  "verifier_rim_claims v doc policy o1 =
     generate_rim_claims (lv_x509 v) (lv_xml v) (lv_ocsp v) (lv_reason_str v) (lv_clock v o1) (lv_rim_root_cert v) doc policy o1"

definition set_driver_rim_claims ::
  "('c, 'd, 'n, 'o, 'r) verifier \<Rightarrow> 'd rim_document \<Rightarrow> evidence_policy \<Rightarrow> gpu_claims \<Rightarrow> ('o, gpu_claims) step" where
  "set_driver_rim_claims v doc policy out =
     sbind (verifier_rim_claims v doc policy) (\<lambda>rm.
     pure (bind (rim_chain_json_claims (rm_cert_chain_claims rm)) (\<lambda>cc.
           bind (get_manufacturer_id (lv_xml v) doc) (\<lambda>oemid.
           ret (out\<lparr>gc_driver_rim_fetched := True, gc_driver_rim_cert_chain := cc,
                    gc_driver_rim_signature_verified := rm_signature_verified rm, gc_oem_id := oemid\<rparr>)))))"

definition set_vbios_rim_claims ::
  "('c, 'd, 'n, 'o, 'r) verifier \<Rightarrow> 'd rim_document \<Rightarrow> evidence_policy \<Rightarrow> gpu_claims \<Rightarrow> ('o, gpu_claims) step" where
  "set_vbios_rim_claims v doc policy out =
     sbind (verifier_rim_claims v doc policy) (\<lambda>rm.
     pure (bind (rim_chain_json_claims (rm_cert_chain_claims rm)) (\<lambda>cc.
           ret (out\<lparr>gc_vbios_rim_fetched := True, gc_vbios_rim_cert_chain := cc,
                    gc_vbios_rim_signature_verified := rm_signature_verified rm\<rparr>))))"

section \<open>Measurements\<close>

definition NVDEC_STATUS_ENABLED :: byte where
  "NVDEC_STATUS_ENABLED = 0xAA"

definition NVDEC_STATUS_DISABLED :: byte where
  "NVDEC_STATUS_DISABLED = 0x55"

definition is_msr_35_valid :: "'c gpu_report \<Rightarrow> bool outcome" where
  "is_msr_35_valid rep =
     bind (get_nvdec0_status rep) (\<lambda>status.
     if status = NVDEC_STATUS_DISABLED then ret False
     else if status = NVDEC_STATUS_ENABLED then ret True
     else fail InternalError)"

definition has_index_conflict :: "measurements \<Rightarrow> measurements \<Rightarrow> bool" where
  "has_index_conflict driver vbios =
     list_ex (\<lambda>index. has_measurement_at_index driver index \<and> has_measurement_at_index vbios index)
       (get_all_indices driver @ get_all_indices vbios)"

definition compare_golden ::
  "bool \<Rightarrow> (int \<times> buffer) list \<Rightarrow> measurements \<Rightarrow> measurements \<Rightarrow> mismatched_measurement list outcome" where
  "compare_golden msr_35_valid runtime driver vbios =
     (let skip = (\<lambda>index. index = 35 \<and> \<not> msr_35_valid) in
      bind (compare_loop runtime DRIVER skip driver (get_all_indices driver) []) (\<lambda>mismatches.
      compare_loop runtime VBIOS skip vbios (get_all_indices vbios) mismatches))"

definition generate_set_measurement_claims ::
  "measurements \<Rightarrow> measurements \<Rightarrow> 'c gpu_report \<Rightarrow> gpu_claims \<Rightarrow> gpu_claims outcome" where
  "generate_set_measurement_claims driver vbios rep out =
     guard RimMeasurementConflict (\<not> has_index_conflict driver vbios)
     (bind (is_msr_35_valid rep) (\<lambda>msr_35_valid.
      bind (compare_golden msr_35_valid (get_measurements rep) driver vbios) (\<lambda>mismatches.
      let out = out\<lparr>gc_vbios_index_no_conflict := True\<rparr> in
      if mismatches = []
      then ret (out\<lparr>gc_measurements_matching := MeasSuccess, gc_secure_boot := Some True,
                    gc_debug_status := Some ''disabled'', gc_mismatched_measurements := None\<rparr>)
      else ret (out\<lparr>gc_measurements_matching := MeasFailure, gc_secure_boot := None,
                    gc_debug_status := None, gc_mismatched_measurements := Some mismatches\<rparr>))))"

section \<open>Verification of evidence\<close>

definition fetch_rim ::
  "('c, 'd, 'n, 'o, 'r) verifier \<Rightarrow> string \<Rightarrow> ('o \<times> 'r, 'd rim_document) step" where
  "fetch_rim v rim_id = on_snd (\<lambda>r. lv_rim_store v r rim_id)"

text \<open>One pass of the loop over the evidence.\<close>

definition verify_gpu_item ::
  "('c, 'd, 'n, 'o, 'r) verifier \<Rightarrow> evidence_policy \<Rightarrow> gpu_evidence \<Rightarrow> ('o \<times> 'r, gpu_claims) step" where
  "verify_gpu_item v policy ev =
     sbind (pure (get_parsed_attestation_report (lv_x509 v) (lv_device_root_cert v) ev)) (\<lambda>rep.
     sbind (on_fst (\<lambda>o1. generate_gpu_evidence_claims (lv_x509 v) (lv_ocsp v) (lv_reason_str v) (lv_clock v o1) ev rep o1)) (\<lambda>ec.
     let claims = set_gpu_evidence_claims ec (new_gpu_claims\<lparr>gc_nonce := to_hex_string (ge_nonce ev)\<rparr>) in
     sbind (pure (add_gpu_mode_claim rep claims)) (\<lambda>claims.
     sbind (pure (get_driver_rim_id rep (ge_gpu_architecture ev))) (\<lambda>driver_rim_id.
     sbind (fetch_rim v driver_rim_id) (\<lambda>driver_rim.
     sbind (pure (bind (get_version (lv_xml v) driver_rim) (\<lambda>version.
            guard GpuEvidenceDriverRimVersionMismatch (version = ec_driver_version ec) (ret ())))) (\<lambda>_.
     sbind (on_fst (set_driver_rim_claims v driver_rim policy (claims\<lparr>gc_gpu_driver_rim_version_match := True\<rparr>))) (\<lambda>claims.
     sbind (pure (get_vbios_rim_id rep)) (\<lambda>vbios_rim_id.
     sbind (fetch_rim v vbios_rim_id) (\<lambda>vbios_rim.
     sbind (pure (bind (get_version (lv_xml v) vbios_rim) (\<lambda>version.
            guard GpuEvidenceVbiosRimVersionMismatch (version = ec_vbios_version ec) (ret ())))) (\<lambda>_.
     sbind (on_fst (set_vbios_rim_claims v vbios_rim policy (claims\<lparr>gc_gpu_vbios_rim_version_match := True\<rparr>))) (\<lambda>claims.
     pure (bind (rim_measurements (lv_xml v) driver_rim) (\<lambda>driver.
           bind (rim_measurements (lv_xml v) vbios_rim) (\<lambda>vbios.
           generate_set_measurement_claims driver vbios rep
             (claims\<lparr>gc_driver_rim_measurements_available := True, gc_vbios_rim_measurements_available := True\<rparr>)))))))))))))))"

text \<open>The claims already appended stay in the collection of the caller when a later item fails.\<close>

fun verify_gpu_loop ::
  "('c, 'd, 'n, 'o, 'r) verifier \<Rightarrow> evidence_policy \<Rightarrow> gpu_evidence list \<Rightarrow> claims list \<Rightarrow> 'o \<times> 'r
    \<Rightarrow> unit outcome \<times> claims list \<times> ('o \<times> 'r)" where
  "verify_gpu_loop v policy [] out s = (ret (), out, s)"
| "verify_gpu_loop v policy (ev # evs) out s =
     (case verify_gpu_item v policy ev s of
        (Inl f, s) \<Rightarrow> (Inl f, out, s)
      | (Inr c, s) \<Rightarrow> verify_gpu_loop v policy evs (out @ [GpuClaims c]) s)"

text \<open>
  \<^verbatim>\<open>generate_claims_v3\<close> and \<^verbatim>\<open>verify_evidence\<close>: \<open>want_eat\<close> says whether the caller passed a place
  for the detached token.  A claims version other than 3 is accepted and produces nothing.
\<close>

definition generate_claims_v3 ::
  "('c, 'd, 'n, 'o, 'r) verifier \<Rightarrow> ('g, 'e) eat_env \<Rightarrow> int \<Rightarrow> bool
    \<Rightarrow> gpu_evidence list \<Rightarrow> evidence_policy \<Rightarrow> claims list \<Rightarrow> ('o \<times> 'r) \<times> 'g
    \<Rightarrow> unit outcome \<times> string option \<times> claims list \<times> (('o \<times> 'r) \<times> 'g)" where
  "generate_claims_v3 v env now want_eat evs policy out s =
     (case verify_gpu_loop v policy evs out (fst s) of
        (Inl f, out, s') \<Rightarrow> (Inl f, None, out, (s', snd s))
      | (Inr _, out, s') \<Rightarrow>
          if want_eat
          then (case get_detached_eat env now (lv_detached_eat_options v) out (snd s) of
                  (status, token, g) \<Rightarrow> (status, token, out, (s', g)))
          else (ret (), None, out, (s', snd s)))"

definition local_gpu_verify_evidence ::
  "('c, 'd, 'n, 'o, 'r) verifier \<Rightarrow> ('g, 'e) eat_env \<Rightarrow> int \<Rightarrow> bool
    \<Rightarrow> gpu_evidence list \<Rightarrow> evidence_policy \<Rightarrow> claims list \<Rightarrow> ('o \<times> 'r) \<times> 'g
    \<Rightarrow> unit outcome \<times> string option \<times> claims list \<times> (('o \<times> 'r) \<times> 'g)" where
  "local_gpu_verify_evidence v env now want_eat evs policy out s =
     (if ep_gpu_claims_version policy = GpuClaimsV3 then generate_claims_v3 v env now want_eat evs policy out s
      else (ret (), None, out, s))"

section \<open>Measurement claims\<close>

lemma sorted_entries:
  assumes "distinct (map fst ms)"
  shows "map (\<lambda>i. (i, the (map_of ms i))) (get_all_indices ms) = sort_key fst ms"
proof -
  have "map fst (sort_key fst ms) = sort (map fst ms)"
    by (rule properties_for_sort [symmetric]) simp_all
  moreover have "map_of ms i = Some m" if "(i, m) \<in> set (sort_key fst ms)" for i m
    using that assms by simp
  then have "map (\<lambda>p. (fst p, the (map_of ms (fst p)))) (sort_key fst ms) = sort_key fst ms"
    by (auto intro!: map_idI)
  ultimately show ?thesis
    unfolding get_all_indices_def by (metis (no_types, lifting) comp_apply map_eq_conv map_map)
qed

lemma unmatched_entries:
  assumes "distinct (map fst ms)"
  shows "unmatched runtime skip ms (get_all_indices ms)
    = filter (\<lambda>(i, m). \<not> skip i \<and> \<not> matches runtime i m) (sort_key fst ms)"
proof -
  have "map (\<lambda>i. (i, the (map_of ms i))) (filter (\<lambda>i. \<not> skip i) (get_all_indices ms))
      = filter (\<lambda>p. \<not> skip (fst p)) (map (\<lambda>i. (i, the (map_of ms i))) (get_all_indices ms))"
    by (simp add: filter_map comp_def)
  then show ?thesis
    unfolding unmatched_def sorted_entries [OF assms] by (simp add: conj_commute case_prod_unfold)
qed

lemma set_all_indices [simp]: "set (get_all_indices ms) = fst ` set ms"
  by (simp add: get_all_indices_def)

lemma no_index_conflict: "\<not> has_index_conflict driver vbios \<longleftrightarrow> fst ` set driver \<inter> fst ` set vbios = {}"
  by (auto simp: has_index_conflict_def list_ex_iff has_measurement_at_index_def map_of_eq_None_iff)

lemma compare_golden_ok:
  assumes "distinct (map fst driver)" "distinct (map fst vbios)"
    and "compare_golden valid runtime driver vbios = Inr r"
  shows "r = map (\<lambda>(i, m). mismatch_record runtime DRIVER i m)
        (filter (\<lambda>(i, m). (i = 35 \<longrightarrow> valid) \<and> \<not> matches runtime i m) (sort_key fst driver))
      @ map (\<lambda>(i, m). mismatch_record runtime VBIOS i m)
        (filter (\<lambda>(i, m). (i = 35 \<longrightarrow> valid) \<and> \<not> matches runtime i m) (sort_key fst vbios))"
  using assms(3)
  by (auto simp: compare_golden_def Let_def bind_eq_Inr compare_loop_ok unmatched_entries assms(1,2))

lemma measurement_claims_ok:
  assumes "generate_set_measurement_claims driver vbios rep out = Inr c"
  obtains valid r where "is_msr_35_valid rep = Inr valid" "\<not> has_index_conflict driver vbios"
    "compare_golden valid (get_measurements rep) driver vbios = Inr r"
    "c = (if r = [] then out\<lparr>gc_vbios_index_no_conflict := True, gc_measurements_matching := MeasSuccess,
        gc_secure_boot := Some True, gc_debug_status := Some ''disabled'', gc_mismatched_measurements := None\<rparr>
      else out\<lparr>gc_vbios_index_no_conflict := True, gc_measurements_matching := MeasFailure, gc_secure_boot := None,
        gc_debug_status := None, gc_mismatched_measurements := Some r\<rparr>)"
  using assms unfolding generate_set_measurement_claims_def Let_def guard_eq_Inr bind_eq_Inr
  by (auto simp: ret_def split: if_splits)

lemma no_mismatch:
  assumes "distinct (map fst driver)" "distinct (map fst vbios)" "compare_golden valid runtime driver vbios = Inr r"
  shows "r = [] \<longleftrightarrow> (\<forall>(i, m) \<in> set driver \<union> set vbios. (i = 35 \<longrightarrow> valid) \<longrightarrow> matches runtime i m)"
  unfolding compare_golden_ok [OF assms] by (auto simp: filter_empty_conv)


section \<open>What issued claims rest on\<close>

lemma rim_claims_ok:
  assumes "verifier_rim_claims v doc policy s = (Inr rm, s')"
  shows "rm_signature_verified rm = verify_rim_signature policy
    \<and> (verify_rim_signature policy \<longrightarrow> rim_verify_signature (lv_xml v) doc = Inr ())
    \<and> (rm_cert_chain_claims rm = None \<longleftrightarrow> \<not> verify_rim_cert_chain policy)
    \<and> (\<forall>cc. rm_cert_chain_claims rm = Some cc \<longrightarrow> (\<exists>chain s1. get_cert_chain (lv_x509 v) (lv_xml v) (lv_rim_root_cert v) doc = Inr chain
          \<and> generate_cert_chain_claims (lv_x509 v) (lv_ocsp v) (lv_reason_str v) (lv_clock v s) chain s = (Inr cc, s1)))"
  using assms
  by (auto simp: verifier_rim_claims_def generate_rim_claims_def rim_chain_claims_def outcome_simps
      split: if_splits sum.splits prod.splits)

definition rim_accepted ::
  "('c, 'd, 'n, 'o, 'r) verifier \<Rightarrow> evidence_policy \<Rightarrow> 'd rim_document \<Rightarrow> chain_json_claims \<Rightarrow> bool" where
  "rim_accepted v policy doc cc =
     (verify_rim_cert_chain policy
      \<and> (verify_rim_signature policy \<longrightarrow> rim_verify_signature (lv_xml v) doc = Inr ())
      \<and> (\<exists>chain claims s s1. get_cert_chain (lv_x509 v) (lv_xml v) (lv_rim_root_cert v) doc = Inr chain
          \<and> generate_cert_chain_claims (lv_x509 v) (lv_ocsp v) (lv_reason_str v) (lv_clock v s) chain s = (Inr claims, s1)
          \<and> cc = to_chain_json_claims claims))"

lemma rim_accepted_intro:
  assumes "verifier_rim_claims v doc policy s = (Inr rm, s')" and "rim_chain_json_claims (rm_cert_chain_claims rm) = Inr cc"
  shows "rim_accepted v policy doc cc"
proof -
  obtain claims where "rm_cert_chain_claims rm = Some claims" "cc = to_chain_json_claims claims"
    using assms(2) by (auto simp: rim_chain_json_claims_def undefined_behaviour_def ret_def split: option.splits)
  moreover note rim_claims_ok [OF assms(1)]
  ultimately show ?thesis unfolding rim_accepted_def by (metis option.discI)
qed

lemma set_driver_rim_claims_ok:
  assumes "set_driver_rim_claims v doc policy out s = (Inr c, s')"
  shows "\<exists>cc oemid. rim_accepted v policy doc cc
    \<and> c = out\<lparr>gc_driver_rim_fetched := True, gc_driver_rim_cert_chain := cc,
              gc_driver_rim_signature_verified := verify_rim_signature policy, gc_oem_id := oemid\<rparr>"
proof -
  obtain rm cc oemid where r: "verifier_rim_claims v doc policy s = (Inr rm, s')"
    "rim_chain_json_claims (rm_cert_chain_claims rm) = Inr cc"
    and c: "c = out\<lparr>gc_driver_rim_fetched := True, gc_driver_rim_cert_chain := cc,
             gc_driver_rim_signature_verified := rm_signature_verified rm, gc_oem_id := oemid\<rparr>"
    using assms by (auto simp: set_driver_rim_claims_def step_simps bind_eq_Inr ret_eq)
  show ?thesis using rim_accepted_intro [OF r] rim_claims_ok [OF r(1), THEN conjunct1] c by auto
qed

lemma set_vbios_rim_claims_ok:
  assumes "set_vbios_rim_claims v doc policy out s = (Inr c, s')"
  shows "\<exists>cc. rim_accepted v policy doc cc
    \<and> c = out\<lparr>gc_vbios_rim_fetched := True, gc_vbios_rim_cert_chain := cc,
              gc_vbios_rim_signature_verified := verify_rim_signature policy\<rparr>"
proof -
  obtain rm cc where r: "verifier_rim_claims v doc policy s = (Inr rm, s')"
    "rim_chain_json_claims (rm_cert_chain_claims rm) = Inr cc"
    and c: "c = out\<lparr>gc_vbios_rim_fetched := True, gc_vbios_rim_cert_chain := cc,
             gc_vbios_rim_signature_verified := rm_signature_verified rm\<rparr>"
    using assms by (auto simp: set_vbios_rim_claims_def step_simps bind_eq_Inr ret_eq)
  show ?thesis using rim_accepted_intro [OF r] rim_claims_ok [OF r(1), THEN conjunct1] c by auto
qed

lemma add_gpu_mode_claim_ok:
  assumes "add_gpu_mode_claim rep out = Inr c"
  shows "\<exists>mode. c = out\<lparr>gc_mode := mode\<rparr>"
proof -
  have "c = out \<or> (\<exists>mode. c = out\<lparr>gc_mode := mode\<rparr>)"
    using assms by (auto simp: add_gpu_mode_claim_def outcome_simps split: if_splits)
  then show ?thesis
  proof
    assume "c = out"
    then have "c = out\<lparr>gc_mode := gc_mode out\<rparr>" by simp
    then show ?thesis by blast
  qed
qed

text \<open>The steps of one pass, with the documents and measurements they went through.\<close>

lemma verify_gpu_item_steps:
  assumes "verify_gpu_item v policy ev s = (Inr c, s')"
  obtains rep ec o1 o2 o3 driver_rim vbios_rim driver_id vbios_id r1 r2 driver vbios dcc vcc mode oemid base where
    "get_parsed_attestation_report (lv_x509 v) (lv_device_root_cert v) ev = Inr rep"
    "generate_gpu_evidence_claims (lv_x509 v) (lv_ocsp v) (lv_reason_str v) (lv_clock v o1) ev rep o1 = (Inr ec, o2)"
    "get_driver_rim_id rep (ge_gpu_architecture ev) = Inr driver_id" "lv_rim_store v (snd s) driver_id = (Inr driver_rim, r1)"
    "get_version (lv_xml v) driver_rim = Inr (ec_driver_version ec)" "rim_accepted v policy driver_rim dcc"
    "get_vbios_rim_id rep = Inr vbios_id" "lv_rim_store v r1 vbios_id = (Inr vbios_rim, r2)" "s' = (o3, r2)"
    "get_version (lv_xml v) vbios_rim = Inr (ec_vbios_version ec)" "rim_accepted v policy vbios_rim vcc"
    "rim_measurements (lv_xml v) driver_rim = Inr driver" "rim_measurements (lv_xml v) vbios_rim = Inr vbios"
    "generate_set_measurement_claims driver vbios rep base = Inr c"
    "base = (set_gpu_evidence_claims ec (new_gpu_claims\<lparr>gc_nonce := to_hex_string (ge_nonce ev)\<rparr>))\<lparr>gc_mode := mode,
       gc_gpu_driver_rim_version_match := True, gc_driver_rim_fetched := True, gc_driver_rim_cert_chain := dcc,
       gc_driver_rim_signature_verified := verify_rim_signature policy, gc_oem_id := oemid,
       gc_gpu_vbios_rim_version_match := True, gc_vbios_rim_fetched := True, gc_vbios_rim_cert_chain := vcc,
       gc_vbios_rim_signature_verified := verify_rim_signature policy,
       gc_driver_rim_measurements_available := True, gc_vbios_rim_measurements_available := True\<rparr>"
  using assms unfolding verify_gpu_item_def Let_def fetch_rim_def step_simps bind_eq_Inr guard_eq_Inr ret_eq
  apply (elim exE conjE)
  apply (drule add_gpu_mode_claim_ok)
  apply (drule set_driver_rim_claims_ok)
  apply (drule set_vbios_rim_claims_ok)
  apply (elim exE conjE)
  apply hypsubst
  apply (unfold fst_conv snd_conv)
  apply (rule that)
  apply (assumption | rule refl)+
  done

lemma rim_measurements_distinct: "rim_measurements xml doc = Inr ms \<Longrightarrow> distinct (map fst ms)"
  unfolding rim_measurements_def
  by (cases "xpath xml (rd_doc doc) MEASUREMENT_XPATH")
    (auto simp: measurement_loop_ok outcome_simps comp_def)

lemma gpu_item_justified:
  assumes "wf_buffer (ge_attestation_report ev)" and "verify_gpu_item v policy ev s = (Inr c, s')"
  shows "\<exists>rep driver_id driver_rim vbios_id vbios_rim r1 r2.
    get_parsed_attestation_report (lv_x509 v) (lv_device_root_cert v) ev = Inr rep
    \<and> signature_ok (lv_x509 v) (gr_attestation_cert_chain rep)
        (encode_request (gr_spdm_request rep) @ unsigned_response (gr_spdm_response rep))
        (resp_signature (gr_spdm_response rep))
    \<and> (\<exists>path. chain_verify (lv_x509 v) (gr_attestation_cert_chain rep) = Inr path)
    \<and> req_nonce (gr_spdm_request rep) = ge_nonce ev \<and> gc_nonce c = to_hex_string (ge_nonce ev)
    \<and> get_driver_rim_id rep (ge_gpu_architecture ev) = Inr driver_id
    \<and> lv_rim_store v (snd s) driver_id = (Inr driver_rim, r1)
    \<and> get_vbios_rim_id rep = Inr vbios_id \<and> lv_rim_store v r1 vbios_id = (Inr vbios_rim, r2) \<and> snd s' = r2
    \<and> get_driver_version rep = Inr (gc_driver_version c) \<and> get_version (lv_xml v) driver_rim = Inr (gc_driver_version c)
    \<and> get_vbios_version rep = Inr (gc_vbios_version c) \<and> get_version (lv_xml v) vbios_rim = Inr (gc_vbios_version c)
    \<and> rim_accepted v policy driver_rim (gc_driver_rim_cert_chain c)
    \<and> rim_accepted v policy vbios_rim (gc_vbios_rim_cert_chain c)
    \<and> (\<exists>driver vbios. rim_measurements (lv_xml v) driver_rim = Inr driver \<and> rim_measurements (lv_xml v) vbios_rim = Inr vbios
        \<and> (gc_measurements_matching c = MeasSuccess \<longrightarrow>
             (\<forall>(i, m) \<in> set driver \<union> set vbios. i \<noteq> 35 \<longrightarrow> matches (get_measurements rep) i m)))"
proof -
  from assms(2) obtain rep ec o1 o2 o3 driver_rim vbios_rim driver_id vbios_id r1 r2 driver vbios dcc vcc mode oemid base
    where rep: "get_parsed_attestation_report (lv_x509 v) (lv_device_root_cert v) ev = Inr rep"
    and ec: "generate_gpu_evidence_claims (lv_x509 v) (lv_ocsp v) (lv_reason_str v) (lv_clock v o1) ev rep o1 = (Inr ec, o2)"
    and d: "get_driver_rim_id rep (ge_gpu_architecture ev) = Inr driver_id" "lv_rim_store v (snd s) driver_id = (Inr driver_rim, r1)"
      "get_version (lv_xml v) driver_rim = Inr (ec_driver_version ec)" "rim_accepted v policy driver_rim dcc"
    and w: "get_vbios_rim_id rep = Inr vbios_id" "lv_rim_store v r1 vbios_id = (Inr vbios_rim, r2)"
    "s' = (o3, r2)" "get_version (lv_xml v) vbios_rim = Inr (ec_vbios_version ec)" "rim_accepted v policy vbios_rim vcc"
    and m: "rim_measurements (lv_xml v) driver_rim = Inr driver" "rim_measurements (lv_xml v) vbios_rim = Inr vbios"
    and c: "generate_set_measurement_claims driver vbios rep base = Inr c"
    and base: "base = (set_gpu_evidence_claims ec (new_gpu_claims\<lparr>gc_nonce := to_hex_string (ge_nonce ev)\<rparr>))\<lparr>gc_mode := mode,
       gc_gpu_driver_rim_version_match := True, gc_driver_rim_fetched := True, gc_driver_rim_cert_chain := dcc,
       gc_driver_rim_signature_verified := verify_rim_signature policy, gc_oem_id := oemid,
       gc_gpu_vbios_rim_version_match := True, gc_vbios_rim_fetched := True, gc_vbios_rim_cert_chain := vcc,
       gc_vbios_rim_signature_verified := verify_rim_signature policy,
       gc_driver_rim_measurements_available := True, gc_vbios_rim_measurements_available := True\<rparr>"
    by (rule verify_gpu_item_steps)
  note created = report_create_ok [OF assms(1) rep [unfolded get_parsed_attestation_report_def]]
  note ecs = evidence_claims_ok [OF ec]
  have path: "\<exists>path. chain_verify (lv_x509 v) (gr_attestation_cert_chain rep) = Inr path"
    using ecs by (auto simp: generate_cert_chain_claims_def split: sum.splits)
  from c obtain valid r where r: "compare_golden valid (get_measurements rep) driver vbios = Inr r"
    and cr: "gc_measurements_matching c = MeasSuccess \<longrightarrow> r = []"
    and keep: "gc_nonce c = gc_nonce base" "gc_driver_version c = gc_driver_version base" "gc_vbios_version c = gc_vbios_version base"
      "gc_driver_rim_cert_chain c = gc_driver_rim_cert_chain base" "gc_vbios_rim_cert_chain c = gc_vbios_rim_cert_chain base"
    by (rule measurement_claims_ok) auto
  have fields: "gc_nonce c = to_hex_string (ge_nonce ev)" "gc_driver_version c = ec_driver_version ec"
    "gc_vbios_version c = ec_vbios_version ec" "gc_driver_rim_cert_chain c = dcc" "gc_vbios_rim_cert_chain c = vcc"
    by (simp_all add: keep base set_gpu_evidence_claims_def Let_def)
  have "gc_measurements_matching c = MeasSuccess \<longrightarrow>
      (\<forall>(i, m) \<in> set driver \<union> set vbios. i \<noteq> 35 \<longrightarrow> matches (get_measurements rep) i m)"
    using no_mismatch [OF rim_measurements_distinct [OF m(1)] rim_measurements_distinct [OF m(2)] r] cr by auto
  moreover have "snd s' = r2" using w by simp
  ultimately show ?thesis using rep created ecs path d w m unfolding fields by blast
qed

text \<open>
  GPU claims are issued only for evidence whose report is signed, in full,
  by the leaf of a chain that was verified, over the very nonce of the evidence, which is also the
  nonce of the claims; both manifests were obtained under the identifiers that the signed report
  determines, and carry the versions that the report gives; each manifest's chain was judged and
  its signature verified where the policy asks for it; and measurements are reported as matching
  only if every golden measurement of both manifests, index 35 aside, is matched by the report.
\<close>

theorem gpu_claims_justified:
  assumes "wf_buffer (ge_attestation_report ev)" and "verify_gpu_item v policy ev s = (Inr c, s')"
  shows "\<exists>rep driver_id driver_rim vbios_id vbios_rim r1 r2.
    get_parsed_attestation_report (lv_x509 v) (lv_device_root_cert v) ev = Inr rep
    \<and> signature_ok (lv_x509 v) (gr_attestation_cert_chain rep)
        (encode_request (gr_spdm_request rep) @ unsigned_response (gr_spdm_response rep))
        (resp_signature (gr_spdm_response rep))
    \<and> (\<exists>path. chain_verify (lv_x509 v) (gr_attestation_cert_chain rep) = Inr path)
    \<and> req_nonce (gr_spdm_request rep) = ge_nonce ev \<and> gc_nonce c = to_hex_string (ge_nonce ev)
    \<and> get_driver_rim_id rep (ge_gpu_architecture ev) = Inr driver_id
    \<and> lv_rim_store v (snd s) driver_id = (Inr driver_rim, r1)
    \<and> get_vbios_rim_id rep = Inr vbios_id \<and> lv_rim_store v r1 vbios_id = (Inr vbios_rim, r2)
    \<and> get_driver_version rep = Inr (gc_driver_version c) \<and> get_version (lv_xml v) driver_rim = Inr (gc_driver_version c)
    \<and> get_vbios_version rep = Inr (gc_vbios_version c) \<and> get_version (lv_xml v) vbios_rim = Inr (gc_vbios_version c)
    \<and> rim_accepted v policy driver_rim (gc_driver_rim_cert_chain c)
    \<and> rim_accepted v policy vbios_rim (gc_vbios_rim_cert_chain c)
    \<and> (\<exists>driver vbios. rim_measurements (lv_xml v) driver_rim = Inr driver \<and> rim_measurements (lv_xml v) vbios_rim = Inr vbios
        \<and> (gc_measurements_matching c = MeasSuccess \<longrightarrow>
             (\<forall>(i, m) \<in> set driver \<union> set vbios. i \<noteq> 35 \<longrightarrow> matches (get_measurements rep) i m)))"
  using gpu_item_justified [OF assms] by (elim exE conjE) (intro exI conjI; assumption)

section \<open>A concrete verification\<close>

text \<open>A document is its version; its nodes are lists of attributes.\<close>

definition demo_rim_xml :: "(string, (string \<times> string) list) xml_api" where
  "demo_rim_xml = \<lparr>xml_read_doc = Some,
     xpath = (\<lambda>d e. if e = MEASUREMENT_XPATH
        then Nodes (if d = ''A'' then [[(''active'', ''True''), (''index'', ''0''), (''alternatives'', ''1''),
               (''name'', ''m''), (''size'', ''1''), (''Hash0'', ''aa'')]] else [])
        else Nodes [[(''colloquialVersion'', d), (''FirmwareManufacturerId'', ''nv'')]]),
     get_prop = map_of, get_ns_prop = (\<lambda>n a u. map_of n a), node_content = (\<lambda>n. Some ''''), dsig_verify = (\<lambda>d. DsigSucceeded)\<rparr>"

definition demo_verifier :: "(nat, string, (string \<times> string) list, unit, unit) verifier" where
  "demo_verifier = \<lparr>lv_x509 = demo_x509, lv_xml = demo_rim_xml, lv_ocsp = (\<lambda>s a b is ts. (Inr good_response, s)),
     lv_rim_store = (\<lambda>r i. (Inr \<lparr>rd_rim_id = i,
        rd_doc = (if i = ''NV_GPU_DRIVER_GH100_A'' then ''A'' else case get_vbios_version demo_gpu_report of Inr w \<Rightarrow> w | _ \<Rightarrow> ''''),
        rd_rim_data = ''''\<rparr>, r)),
     lv_reason_str = (\<lambda>r. []), lv_clock = (\<lambda>s. 5), lv_device_root_cert = [], lv_rim_root_cert = [],
     lv_detached_eat_options = default_eat_options\<rparr>"

definition demo_policy :: evidence_policy where
  "demo_policy = \<lparr>ep_gpu_claims_version = GpuClaimsV3, ep_switch_claims_version = SwitchClaimsV3,
     verify_rim_signature = True, verify_rim_cert_chain = True\<rparr>"

lemma demo_verified: "is_ok (fst (verify_gpu_item demo_verifier demo_policy demo_gpu_evidence ((), ())))"
proof -
  have sel: "lv_x509 demo_verifier = demo_x509" "lv_device_root_cert demo_verifier = []"
    by (simp_all add: demo_verifier_def)
  show ?thesis
    unfolding verify_gpu_item_def sel demo_report_parsed pure_bind by code_simp
qed

lemma is_ok_step: "is_ok (fst x) \<Longrightarrow> \<exists>y s. x = (Inr y, s)"
  by (cases x) (auto simp: is_ok_def split: sum.splits)

theorem gpu_claims_justified_witness:
  "\<exists>c s'. verify_gpu_item demo_verifier demo_policy demo_gpu_evidence ((), ()) = (Inr c, s')
    \<and> gc_nonce c = to_hex_string (replicate 32 7)
    \<and> (\<exists>rim. rim_accepted demo_verifier demo_policy rim (gc_driver_rim_cert_chain c))"
proof -
  obtain c s' where call: "verify_gpu_item demo_verifier demo_policy demo_gpu_evidence ((), ()) = (Inr c, s')"
    using is_ok_step [OF demo_verified] by blast
  have "wf_buffer (ge_attestation_report demo_gpu_evidence)"
    by (simp add: wf_buffer_def demo_gpu_evidence_def length_demo_report)
  then have "gc_nonce c = to_hex_string (ge_nonce demo_gpu_evidence)"
    "\<exists>rim. rim_accepted demo_verifier demo_policy rim (gc_driver_rim_cert_chain c)"
    using gpu_claims_justified [OF _ call] by blast+
  moreover have "ge_nonce demo_gpu_evidence = replicate 32 7" by (simp add: demo_gpu_evidence_def)
  ultimately show ?thesis using call by metis
qed

definition demo_golden :: measurements where
  "demo_golden = [(0, \<lparr>me_active = True, me_index = 0, me_size = 1, me_count = 1, me_values = [[0xbb]], me_name = ''m''\<rparr>)]"

lemma demo_measured:
  "is_ok (generate_set_measurement_claims demo_golden [] demo_gpu_report new_gpu_claims)"
  "map_of (get_measurements demo_gpu_report) 0 = Some [0xaa]"
  by code_simp+


end
