(* ===== verification/Jwk_Store.thy ===== *)
theory Jwk_Store
  imports Http Gpu_Verify
begin

text \<open>
  The store of the service's signing keys and the validation of its tokens (\<^verbatim>\<open>JwkStore\<close> and
  \<^verbatim>\<open>NvJwt\<close> in \<^verbatim>\<open>src/nv_jwt.cpp\<close>).  Every call holds the store's mutex, so calls are atomic steps.  The
  network is the function \<open>perform\<close> of the HTTP client and the clock an argument, both of the call; the
  JWT library is the record \<open>jwt_api\<close>.
\<close>

section \<open>The key store\<close>

record jwk =
  jwk_kid :: string
  jwk_pem_public_key :: string

record jwk_store =
  js_jwks_url :: string
  js_cache_duration_ms :: int
  js_last_update_unix_ms :: int
  js_jwks :: "(string \<times> jwk) list"
  js_http_client :: http_client

definition DEFAULT_JWKS_CACHE_DURATION_MS :: int where
  "DEFAULT_JWKS_CACHE_DURATION_MS = 900000"

definition jwk_store_init :: "string \<Rightarrow> http_client \<Rightarrow> int \<Rightarrow> jwk_store" where
  "jwk_store_init jwks_url client cache_duration_ms =
     \<lparr>js_jwks_url = jwks_url, js_cache_duration_ms = cache_duration_ms, js_last_update_unix_ms = 0,
      js_jwks = [], js_http_client = client\<rparr>"

definition PEM_LINE_LENGTH :: nat where
  "PEM_LINE_LENGTH = 64"

text \<open>The base64 text in lines of 64 characters.\<close>

function pem_lines :: "string \<Rightarrow> string" where
  "pem_lines raw = (if raw = [] then [] else take PEM_LINE_LENGTH raw @ [CHR 0x0A] @ pem_lines (drop PEM_LINE_LENGTH raw))"
  by pat_completeness auto
termination
  by (relation "measure length") (auto simp: PEM_LINE_LENGTH_def)

declare pem_lines.simps [simp del]

definition wrap_certificate :: "string \<Rightarrow> string" where
  "wrap_certificate raw = ''-----BEGIN CERTIFICATE-----'' @ [CHR 0x0A] @ pem_lines raw @ ''-----END CERTIFICATE-----'' @ [CHR 0x0A]"

text \<open>
  One key of the set: a key without a string \<^verbatim>\<open>kid\<close> or without a certificate list is passed over; a
  first certificate that is not a string throws.
\<close>

definition jwk_of_json :: "json \<Rightarrow> jwk option outcome" where
  "jwk_of_json key =
     (case json_at key ''kid'' of
        Inr (JString kid) \<Rightarrow>
          (case json_at key ''x5c'' of
             Inr (JArray (c # cs)) \<Rightarrow>
               bind (get_string c) (\<lambda>raw. ret (Some \<lparr>jwk_kid = kid, jwk_pem_public_key = wrap_certificate raw\<rparr>))
           | _ \<Rightarrow> ret None)
      | _ \<Rightarrow> ret None)"

text \<open>The loop over the keys, with the keys stored when it ends early.\<close>

fun jwks_loop :: "json list \<Rightarrow> (string \<times> jwk) list \<Rightarrow> unit outcome \<times> (string \<times> jwk) list" where
  "jwks_loop [] m = (ret (), m)"
| "jwks_loop (key # keys) m =
     (case jwk_of_json key of
        Inl f \<Rightarrow> (Inl f, m)
      | Inr None \<Rightarrow> jwks_loop keys m
      | Inr (Some k) \<Rightarrow> jwks_loop keys (AList.update (jwk_kid k) k m))"

definition jwks_request :: "jwk_store \<Rightarrow> nv_request" where
  "jwks_request st = \<lparr>nr_url = js_jwks_url st, nr_method = HTTP_METHOD_GET, nr_headers = [], nr_payload = []\<rparr>"

text \<open>\<^verbatim>\<open>refresh_jwks\<close>: the HTTP status is not looked at.\<close>

definition refresh_jwks ::
  "(curl_setup \<Rightarrow> nat \<Rightarrow> curl_attempt) \<Rightarrow> (string \<Rightarrow> json outcome) \<Rightarrow> jwk_store \<Rightarrow> unit outcome \<times> jwk_store" where
  "refresh_jwks perform parse st =
     (case bind (do_request_as_string perform (js_http_client st) (jwks_request st)) (\<lambda>(status, response).
           deserialize_from_json parse ret response) of
        Inl f \<Rightarrow> (Inl f, st)
      | Inr jwks_response \<Rightarrow>
          if \<not> json_contains jwks_response ''keys'' then (fail NrasAttestationError, st)
          else (case json_at jwks_response ''keys'' of
             Inl f \<Rightarrow> (Inl f, st)
           | Inr keys \<Rightarrow>
               (case jwks_loop (map snd (json_items keys)) (js_jwks st) of
                  (r, m) \<Rightarrow> (r, st\<lparr>js_jwks := m\<rparr>))))"

definition int64_ok :: "int \<Rightarrow> bool" where
  "int64_ok i \<longleftrightarrow> - (2 ^ 63) \<le> i \<and> i < 2 ^ 63"

text \<open>
  \<^verbatim>\<open>get_jwk_by_kid\<close>.  The time of the update is written after the refresh also when the refresh
  returned an error, but not when it threw.  The sum of two \<^verbatim>\<open>long long\<close> values must not overflow.
\<close>

definition get_jwk_by_kid ::
  "(curl_setup \<Rightarrow> nat \<Rightarrow> curl_attempt) \<Rightarrow> (string \<Rightarrow> json outcome) \<Rightarrow> int \<Rightarrow> string \<Rightarrow> jwk_store
    \<Rightarrow> jwk outcome \<times> jwk_store" where
  "get_jwk_by_kid perform parse now_ms kid st =
     (let expires = js_last_update_unix_ms st + js_cache_duration_ms st;
          lookup = (\<lambda>st. case map_of (js_jwks st) kid of None \<Rightarrow> fail CertNotFound | Some k \<Rightarrow> ret k) in
      if \<not> int64_ok expires then (undefined_behaviour, st)
      else if expires < now_ms \<or> map_of (js_jwks st) kid = None then
        (case refresh_jwks perform parse (st\<lparr>js_jwks := []\<rparr>) of
           (Inl (Err e), st') \<Rightarrow> (fail e, st'\<lparr>js_last_update_unix_ms := now_ms\<rparr>)
         | (Inl f, st') \<Rightarrow> (Inl f, st')
         | (Inr _, st') \<Rightarrow> let st' = st'\<lparr>js_last_update_unix_ms := now_ms\<rparr> in (lookup st', st'))
      else (lookup st, st))"

section \<open>Keys come from the published set\<close>

text \<open>A body that was fetched from the store's URL, and a key that it lists.\<close>

definition fetched :: "(curl_setup \<Rightarrow> nat \<Rightarrow> curl_attempt) \<Rightarrow> jwk_store \<Rightarrow> string \<Rightarrow> bool" where
  "fetched perform st body \<longleftrightarrow>
     (\<exists>status. do_request_as_string perform (js_http_client st) (jwks_request st) = Inr (status, body))"

definition listed :: "(string \<Rightarrow> json outcome) \<Rightarrow> string \<Rightarrow> jwk \<Rightarrow> bool" where
  "listed parse body k \<longleftrightarrow>
     (\<exists>j keys key. parse body = Inr j \<and> json_at j ''keys'' = Inr keys \<and> key \<in> snd ` set (json_items keys)
        \<and> jwk_of_json key = Inr (Some k))"

lemma jwks_loop_entries:
  assumes "jwks_loop keys m = (r, m')" and "(kid, k) \<in> set m'"
  shows "(kid, k) \<in> set m \<or> (kid = jwk_kid k \<and> (\<exists>key \<in> set keys. jwk_of_json key = Inr (Some k)))"
  using assms
proof (induction keys m rule: jwks_loop.induct)
  case (2 key keys m)
  consider f where "jwk_of_json key = Inl f" | "jwk_of_json key = Inr None"
    | k' where "jwk_of_json key = Inr (Some k')"
    by (metis not_None_eq old.sum.exhaust)
  then show ?case
  proof cases
    case 3
    then have "(kid, k) \<in> set (AList.update (jwk_kid k') k' m)
        \<or> (kid = jwk_kid k \<and> (\<exists>key \<in> set keys. jwk_of_json key = Inr (Some k)))"
      using 2 by auto
    moreover have "(kid, k) \<in> set (AList.update (jwk_kid k') k' m) \<Longrightarrow> (kid, k) \<in> set m \<or> (kid = jwk_kid k' \<and> k = k')"
      by (induction m) (auto split: if_splits)
    ultimately show ?thesis using 3 by auto
  qed (use 2 in auto)
qed auto

lemma deserialize_ok: "deserialize_from_json parse ret t = Inr j \<longleftrightarrow> parse t = Inr j"
  by (auto simp: deserialize_from_json_def catch_all_def outcome_simps split: sum.splits failure.splits)

lemma refresh_jwks_entries:
  assumes "refresh_jwks perform parse st = (r, st')" and "js_jwks st = []"
  shows "st'\<lparr>js_jwks := []\<rparr> = st
    \<and> (\<forall>(kid, k) \<in> set (js_jwks st'). kid = jwk_kid k \<and> (\<exists>body. fetched perform st body \<and> listed parse body k))"
proof (cases "\<exists>status body j keys. do_request_as_string perform (js_http_client st) (jwks_request st) = Inr (status, body)
    \<and> parse body = Inr j \<and> json_contains j ''keys'' \<and> json_at j ''keys'' = Inr keys")
  case True
  then obtain status body j keys where body: "do_request_as_string perform (js_http_client st) (jwks_request st) = Inr (status, body)"
    and j: "parse body = Inr j" "json_contains j ''keys''" "json_at j ''keys'' = Inr keys"
    by blast
  obtain m where m: "jwks_loop (map snd (json_items keys)) [] = (r, m)" and st': "st' = st\<lparr>js_jwks := m\<rparr>"
    using assms body j by (auto simp: refresh_jwks_def deserialize_ok [THEN iffD2] split: prod.splits)
  have "kid = jwk_kid k \<and> (\<exists>body. fetched perform st body \<and> listed parse body k)" if e: "(kid, k) \<in> set m" for kid k
  proof -
    obtain key where "kid = jwk_kid k" "key \<in> set (map snd (json_items keys))" "jwk_of_json key = Inr (Some k)"
      using jwks_loop_entries [OF m e] by auto
    then show ?thesis using body j unfolding fetched_def listed_def by auto
  qed
  then show ?thesis using assms(2) by (auto simp: st')
next
  case False
  then have "st' = st"
    using assms(1)
    by (auto simp: refresh_jwks_def bind_def deserialize_ok split: sum.splits if_splits prod.splits)
  then show ?thesis using assms(2) by auto
qed

section \<open>A history of calls\<close>

text \<open>
  The states a store reaches from its initialisation by calls of \<^verbatim>\<open>get_jwk_by_kid\<close> for any keys, while
  the clock does not run backwards.  The list records the time and the network of each call.
\<close>

inductive store_history ::
  "(string \<Rightarrow> json outcome) \<Rightarrow> jwk_store \<Rightarrow> (int \<times> (curl_setup \<Rightarrow> nat \<Rightarrow> curl_attempt)) list \<Rightarrow> jwk_store \<Rightarrow> bool"
  for parse :: "string \<Rightarrow> json outcome" and st0 :: jwk_store where
  initialised: "js_jwks st0 = [] \<Longrightarrow> store_history parse st0 [] st0"
| called: "store_history parse st0 h st \<Longrightarrow> \<forall>(t, p) \<in> set h. t \<le> now_ms
    \<Longrightarrow> get_jwk_by_kid perform parse now_ms kid st = (r, st')
    \<Longrightarrow> store_history parse st0 (h @ [(now_ms, perform)]) st'"

text \<open>Every key in the store was listed in a body fetched at a time not before the last update.\<close>

definition keys_from :: "(string \<Rightarrow> json outcome) \<Rightarrow> jwk_store \<Rightarrow> (int \<times> (curl_setup \<Rightarrow> nat \<Rightarrow> curl_attempt)) list \<Rightarrow> jwk_store \<Rightarrow> bool" where
  "keys_from parse st0 h st \<longleftrightarrow>
     js_jwks_url st = js_jwks_url st0 \<and> js_http_client st = js_http_client st0
     \<and> js_cache_duration_ms st = js_cache_duration_ms st0
     \<and> (\<forall>e \<in> set (js_jwks st). fst e = jwk_kid (snd e)
          \<and> (\<exists>x \<in> set h. js_last_update_unix_ms st \<le> fst x \<and> (\<exists>body. fetched (snd x) st0 body \<and> listed parse body (snd e))))
     \<and> (js_last_update_unix_ms st = js_last_update_unix_ms st0 \<or> js_last_update_unix_ms st \<in> fst ` set h)"

lemma keys_from_later: "keys_from parse st0 h st \<Longrightarrow> keys_from parse st0 (h @ h') st"
  unfolding keys_from_def by (simp add: bex_Un) blast

text \<open>One call, whatever its outcome.\<close>

lemma keys_from_call:
  assumes "keys_from parse st0 h st" and "\<forall>(t, p) \<in> set h. t \<le> now_ms" and "js_last_update_unix_ms st0 \<le> now_ms"
    and "get_jwk_by_kid perform parse now_ms kid st = (r, st')"
  shows "keys_from parse st0 (h @ [(now_ms, perform)]) st'"
proof -
  let ?st = "st\<lparr>js_jwks := []\<rparr>"
  obtain q st1 where q: "refresh_jwks perform parse ?st = (q, st1)" by fastforce
  note st1 = refresh_jwks_entries [OF q]
  have same: "js_jwks_url st1 = js_jwks_url st" "js_http_client st1 = js_http_client st"
    "js_cache_duration_ms st1 = js_cache_duration_ms st" "js_last_update_unix_ms st1 = js_last_update_unix_ms st"
    using arg_cong [OF st1 [THEN conjunct1], of js_jwks_url] arg_cong [OF st1 [THEN conjunct1], of js_http_client]
      arg_cong [OF st1 [THEN conjunct1], of js_cache_duration_ms] arg_cong [OF st1 [THEN conjunct1], of js_last_update_unix_ms]
    by simp_all
  have f: "fetched perform ?st body = fetched perform st0 body" for body
    using assms(1) by (simp add: fetched_def jwks_request_def keys_from_def)
  have last: "js_last_update_unix_ms st \<le> now_ms"
    using assms(1-3) unfolding keys_from_def by auto
  have new: "kid = jwk_kid k \<and> (\<exists>body. fetched perform st0 body \<and> listed parse body k)" if "(kid, k) \<in> set (js_jwks st1)" for kid k
    using st1 that unfolding f by fastforce
  have kept: "keys_from parse st0 (h @ [(now_ms, perform)]) st1"
    "keys_from parse st0 (h @ [(now_ms, perform)]) (st1\<lparr>js_last_update_unix_ms := now_ms\<rparr>)"
    using assms(1) new last unfolding keys_from_def by (auto simp: same)
  have "st' \<in> {st, st1, st1\<lparr>js_last_update_unix_ms := now_ms\<rparr>}"
    using assms(4) unfolding get_jwk_by_kid_def Let_def q
    by (auto split: if_splits sum.splits failure.splits)
  then show ?thesis using kept keys_from_later [OF assms(1)] by blast
qed

lemma history_keys:
  assumes "store_history parse st0 h st" and "\<forall>(t, p) \<in> set h. js_last_update_unix_ms st0 \<le> t"
  shows "keys_from parse st0 h st"
  using assms
proof induction
  case initialised
  then show ?case by (simp add: keys_from_def)
next
  case (called h st now_ms perform kid r st')
  then show ?case by (intro keys_from_call [OF _ called(2) _ called(3)]) auto
qed

lemma get_jwk_by_kid_ok:
  assumes "get_jwk_by_kid perform parse now_ms kid st = (Inr k, st')" and "0 \<le> js_cache_duration_ms st"
  shows "map_of (js_jwks st') kid = Some k \<and> now_ms \<le> js_last_update_unix_ms st' + js_cache_duration_ms st"
proof -
  obtain q st1 where q: "refresh_jwks perform parse (st\<lparr>js_jwks := []\<rparr>) = (q, st1)" by fastforce
  show ?thesis
    using assms unfolding get_jwk_by_kid_def Let_def q
    by (auto simp: outcome_simps undefined_behaviour_def split: if_splits sum.splits failure.splits option.splits)
qed

text \<open>
  C6 (key_store_fresh): whatever calls were made before, a key that the store returns has the
  identifier that was asked for and stands in a key set that was fetched from the store's own URL
  during one of these calls, at most the cache duration ago.  This holds after failed and
  interrupted refreshes too.
\<close>

theorem key_store_fresh:
  assumes "store_history parse (jwk_store_init url client duration) h st" and "0 \<le> duration"
    and "\<forall>(t, p) \<in> set h. 0 \<le> t \<and> t \<le> now_ms" and "0 \<le> now_ms"
    and "get_jwk_by_kid perform parse now_ms kid st = (Inr k, st')"
  shows "jwk_kid k = kid
    \<and> (\<exists>(t, p) \<in> set (h @ [(now_ms, perform)]). t \<le> now_ms \<and> now_ms \<le> t + duration
        \<and> (\<exists>body. fetched p (jwk_store_init url client duration) body \<and> listed parse body k))"
proof -
  let ?st0 = "jwk_store_init url client duration" and ?h = "h @ [(now_ms, perform)]"
  have 0: "js_last_update_unix_ms ?st0 = 0" "js_cache_duration_ms ?st0 = duration" by (simp_all add: jwk_store_init_def)
  have st: "keys_from parse ?st0 h st" using history_keys [OF assms(1)] assms(3) by (auto simp: 0)
  have st': "keys_from parse ?st0 ?h st'"
    using keys_from_call [OF st _ _ assms(5)] assms(3,4) by (auto simp: 0)
  have d: "js_cache_duration_ms st = duration" using st by (simp add: keys_from_def 0)
  have k: "map_of (js_jwks st') kid = Some k" "now_ms \<le> js_last_update_unix_ms st' + duration"
    using get_jwk_by_kid_ok [OF assms(5)] assms(2) by (simp_all add: d)
  then have "(kid, k) \<in> set (js_jwks st')" by (auto dest: map_of_SomeD)
  moreover have "\<forall>e \<in> set (js_jwks st'). fst e = jwk_kid (snd e) \<and> (\<exists>x \<in> set ?h. js_last_update_unix_ms st' \<le> fst x
      \<and> (\<exists>body. fetched (snd x) ?st0 body \<and> listed parse body (snd e)))"
    using st' unfolding keys_from_def by (elim conjE)
  ultimately obtain x where "kid = jwk_kid k" and x: "x \<in> set ?h" "js_last_update_unix_ms st' \<le> fst x"
    "\<exists>body. fetched (snd x) ?st0 body \<and> listed parse body k"
    by (metis fst_conv snd_conv)
  moreover have "fst x \<le> now_ms" using x(1) assms(3) by auto
  ultimately show ?thesis using k(2) by (auto intro!: bexI [of _ x])
qed

definition demo_jwks :: json where
  "demo_jwks = JObject [(''keys'', JArray [JObject [(''kid'', JString ''a''), (''x5c'', JArray [JString ''QQ''])]])]"

theorem key_store_fresh_witness:
  "\<exists>k st'. get_jwk_by_kid demo_perform (\<lambda>t. Inr demo_jwks) 5 ''a'' (jwk_store_init '''' demo_client 10) = (Inr k, st')
     \<and> jwk_kid k = ''a'' \<and> listed (\<lambda>t. Inr demo_jwks) '''' k"
proof -
  let ?st = "jwk_store_init '''' demo_client 10"
  have "is_ok (fst (get_jwk_by_kid demo_perform (\<lambda>t. Inr demo_jwks) 5 ''a'' ?st))" by code_simp
  then obtain k st' where k: "get_jwk_by_kid demo_perform (\<lambda>t. Inr demo_jwks) 5 ''a'' ?st = (Inr k, st')"
    using is_ok_step by metis
  have "store_history (\<lambda>t. Inr demo_jwks) ?st [] ?st" by (rule initialised) (simp add: jwk_store_init_def)
  from key_store_fresh [OF this _ _ _ k] have "jwk_kid k = ''a''" "listed (\<lambda>t. Inr demo_jwks) '''' k"
    by (auto simp: listed_def)
  with k show ?thesis by blast
qed

section \<open>Validation of a token\<close>

text \<open>
  \<open>jwt_decode\<close> is \<^verbatim>\<open>jwt::decode\<close>, which throws on a malformed token; \<open>jwt_es384\<close> loads the key and throws
  when it cannot; \<open>jwt_verify\<close> says that \<^verbatim>\<open>verify\<close> did not throw: the algorithm is ES384, the signature
  is the key's, and the time claims hold.
\<close>

record ('j, 'k) jwt_api =
  jwt_decode :: "string \<Rightarrow> 'j outcome"
  jwt_header :: "'j \<Rightarrow> string"
  jwt_payload :: "'j \<Rightarrow> string"
  jwt_es384 :: "string \<Rightarrow> 'k outcome"
  jwt_verify :: "'k \<Rightarrow> 'j \<Rightarrow> bool"

text \<open>The network and the clock: each access to the key store sees the next state of the world.\<close>

record 'w network =
  nw_now_ms :: "'w \<Rightarrow> int"
  nw_perform :: "'w \<Rightarrow> curl_setup \<Rightarrow> nat \<Rightarrow> curl_attempt"
  nw_next :: "'w \<Rightarrow> 'w"

definition lookup_jwk :: "'w network \<Rightarrow> (string \<Rightarrow> json outcome) \<Rightarrow> string \<Rightarrow> ('w \<times> jwk_store, jwk) step" where
  "lookup_jwk net parse kid s =
     (case get_jwk_by_kid (nw_perform net (fst s)) parse (nw_now_ms net (fst s)) kid (snd s) of
        (r, st) \<Rightarrow> (r, (nw_next net (fst s), st)))"

text \<open>Only the exceptions of the JSON library are caught.\<close>

definition catch_json :: "error \<Rightarrow> 'a outcome \<Rightarrow> 'a outcome" where
  "catch_json e m = (if m = Inl (Exn JsonException) then fail e else m)"

definition token_kid_and_issuer :: "('j, 'k) jwt_api \<Rightarrow> (string \<Rightarrow> json outcome) \<Rightarrow> 'j \<Rightarrow> (string \<times> string) outcome" where
  "token_kid_and_issuer api parse decoded =
     catch_json NrasTokenInvalid
       (bind (parse (jwt_header api decoded)) (\<lambda>header.
        bind (parse (jwt_payload api decoded)) (\<lambda>payload.
        bind (bind (json_at header ''kid'') get_string) (\<lambda>kid.
        bind (bind (json_at payload ''iss'') get_string) (\<lambda>issuer.
        ret (kid, issuer))))))"

definition validate_and_decode ::
  "('j, 'k) jwt_api \<Rightarrow> 'w network \<Rightarrow> (string \<Rightarrow> json outcome) \<Rightarrow> string \<Rightarrow> string \<Rightarrow> ('w \<times> jwk_store, string) step" where
  "validate_and_decode api net parse eat_issuer jwt_token =
     sbind (pure (jwt_decode api jwt_token)) (\<lambda>decoded.
     sbind (pure (token_kid_and_issuer api parse decoded)) (\<lambda>(kid, issuer).
     sbind (pure (guard NrasTokenInvalid (issuer = eat_issuer) (ret ()))) (\<lambda>_.
     sbind (lookup_jwk net parse kid) (\<lambda>k.
     sbind (pure (jwt_es384 api (jwk_pem_public_key k))) (\<lambda>key.
     pure (guard NrasTokenInvalid (jwt_verify api key decoded) (ret (jwt_payload api decoded))))))))"

text \<open>What a validated token is: signed under a key that the store returned for its key identifier.\<close>

definition token_valid ::
  "('j, 'k) jwt_api \<Rightarrow> 'w network \<Rightarrow> (string \<Rightarrow> json outcome) \<Rightarrow> string \<Rightarrow> string \<Rightarrow> string \<Rightarrow> bool" where
  "token_valid api net parse eat_issuer jwt_token payload \<longleftrightarrow>
     (\<exists>decoded kid s s' k key. jwt_decode api jwt_token = Inr decoded \<and> payload = jwt_payload api decoded
        \<and> token_kid_and_issuer api parse decoded = Inr (kid, eat_issuer)
        \<and> lookup_jwk net parse kid s = (Inr k, s')
        \<and> jwt_es384 api (jwk_pem_public_key k) = Inr key \<and> jwt_verify api key decoded)"

lemma validate_and_decode_ok:
  "validate_and_decode api net parse eat_issuer jwt_token s = (Inr payload, s')
    \<Longrightarrow> token_valid api net parse eat_issuer jwt_token payload"
  unfolding validate_and_decode_def token_valid_def
  by (auto simp: step_simps guard_eq_Inr ret_eq split: prod.splits) (metis surj_pair)

end
