(* ===== verification/Switch_Opaque.thy ===== *)
theory Switch_Opaque
  imports Gpu_Opaque
begin

text \<open>
  The typed view of the opaque data of an NVSwitch report
  (\<^verbatim>\<open>src/switch/spdm/switch_opaque_data_parser.cpp\<close>).  The field of the GPU identifiers also carries the
  port numbers, which are stored under a type of their own; the field of disabled ports is
  expanded bit by bit.
\<close>

definition SWITCH_VBIOS_VERSION :: u16 where "SWITCH_VBIOS_VERSION = 6"
definition SWITCH_MSRSCNT :: u16 where "SWITCH_MSRSCNT = 12"
definition SWITCH_FWID :: u16 where "SWITCH_FWID = 20"
definition SWITCH_DEVICE_PDI :: u16 where "SWITCH_DEVICE_PDI = 22"
definition SWITCH_DISABLED_PORTS :: u16 where "SWITCH_DISABLED_PORTS = 23"
definition SWITCH_GPU_PDIS :: u16 where "SWITCH_GPU_PDIS = 26"
definition SWITCH_PORTS :: u16 where "SWITCH_PORTS = 27"

lemmas switch_type_defs = SWITCH_VBIOS_VERSION_def SWITCH_MSRSCNT_def SWITCH_FWID_def SWITCH_DEVICE_PDI_def
  SWITCH_DISABLED_PORTS_def SWITCH_GPU_PDIS_def SWITCH_PORTS_def

definition is_valid_switch_opaque_data_type :: "u16 \<Rightarrow> bool" where
  "is_valid_switch_opaque_data_type t \<longleftrightarrow> 1 \<le> t \<and> t \<le> 27"

definition PORT_ID_SIZE :: nat where "PORT_ID_SIZE = 1"
definition TOTAL_NUMBER_OF_PDI :: nat where "TOTAL_NUMBER_OF_PDI = 8"

datatype switch_field = SwitchUninitialized | SwitchByteVector buffer | SwitchUint32Vector "u32 list"
  | SwitchPdiVector "buffer list" | SwitchPortVector "buffer list"

definition switch_get_byte_vector :: "switch_field \<Rightarrow> buffer outcome" where
  "switch_get_byte_vector f = (case f of SwitchByteVector d \<Rightarrow> ret d | _ \<Rightarrow> fail SpdmFieldNotFound)"

definition switch_get_uint32_vector :: "switch_field \<Rightarrow> u32 list outcome" where
  "switch_get_uint32_vector f = (case f of SwitchUint32Vector d \<Rightarrow> ret d | _ \<Rightarrow> fail SpdmFieldNotFound)"

definition switch_get_pdi_vector :: "switch_field \<Rightarrow> buffer list outcome" where
  "switch_get_pdi_vector f = (case f of SwitchPdiVector d \<Rightarrow> ret d | _ \<Rightarrow> fail SpdmFieldNotFound)"

definition switch_get_port_vector :: "switch_field \<Rightarrow> buffer list outcome" where
  "switch_get_port_vector f = (case f of SwitchPortVector d \<Rightarrow> ret d | _ \<Rightarrow> fail SpdmFieldNotFound)"

section \<open>Splitting array-valued fields\<close>

definition switch_parse_msr_count :: "buffer \<Rightarrow> u32 list outcome" where
  "switch_parse_msr_count d =
     guard InternalError (length d mod MSR_COUNT_ELEMENT_SIZE = 0)
       (msr_count_loop d 0 (length d div MSR_COUNT_ELEMENT_SIZE) [])"

text \<open>The loop over the ports runs until the offset reaches the size; \<open>fuel\<close> bounds its passes.\<close>

fun port_loop :: "nat \<Rightarrow> buffer \<Rightarrow> size_t \<Rightarrow> buffer list \<Rightarrow> buffer list outcome" where
  "port_loop fuel d off acc =
     (if \<not> off < vsize d then ret acc
      else case fuel of
        0 \<Rightarrow> Inl Diverge
      | Suc n \<Rightarrow> arr_field InternalError d off PORT_ID_SIZE (\<lambda>port_element off. port_loop n d off (acc @ [port_element])))"

definition switch_parse_pdis :: "buffer \<Rightarrow> (buffer list \<times> buffer list) outcome" where
  "switch_parse_pdis d =
     bind (pdi_loop d 0 TOTAL_NUMBER_OF_PDI []) (\<lambda>pdis.
     bind (port_loop (length d) d (of_nat (TOTAL_NUMBER_OF_PDI * PDI_DATA_SIZE)) []) (\<lambda>ports.
     ret (pdis, ports)))"

definition parse_floorswept_ports :: "buffer \<Rightarrow> buffer" where
  "parse_floorswept_ports d =
     concat (map (\<lambda>byte_val. concat (map (\<lambda>i. replicate 4 (if (drop_bit i byte_val) AND 1 \<noteq> 0 then 1 else 0))
       (rev [0..<8]))) d)"

section \<open>Building the field map\<close>

fun switch_field_loop :: "opaque_field list \<Rightarrow> (u16 \<times> switch_field) list \<Rightarrow> (u16 \<times> switch_field) list outcome" where
  "switch_field_loop [] m = ret m"
| "switch_field_loop (f # fs) m =
     guard BadArgument (is_valid_switch_opaque_data_type (of_type f))
     (if of_type f = SWITCH_MSRSCNT then
        bind (switch_parse_msr_count (of_data f)) (\<lambda>v.
        switch_field_loop fs (AList.update (of_type f) (SwitchUint32Vector v) m))
      else if of_type f = SWITCH_GPU_PDIS then
        bind (switch_parse_pdis (of_data f)) (\<lambda>(pdis, ports).
        switch_field_loop fs (AList.update (of_type f) (SwitchPdiVector pdis)
          (AList.update SWITCH_PORTS (SwitchPortVector ports) m)))
      else if of_type f = SWITCH_DISABLED_PORTS then
        switch_field_loop fs (AList.update (of_type f) (SwitchByteVector (parse_floorswept_ports (of_data f))) m)
      else switch_field_loop fs (AList.update (of_type f) (SwitchByteVector (of_data f)) m))"

definition switch_parser_create :: "opaque_field list \<Rightarrow> (u16 \<times> switch_field) list outcome" where
  "switch_parser_create opaque_fields = switch_field_loop opaque_fields []"

definition switch_get_field :: "(u16 \<times> switch_field) list \<Rightarrow> u16 \<Rightarrow> switch_field outcome" where
  "switch_get_field p t = (case map_of p t of None \<Rightarrow> fail SpdmFieldNotFound | Some f \<Rightarrow> ret f)"

section \<open>The loops\<close>

lemma pdi_loop_short:
  assumes "cur d (of_nat i * 8) rest" and "length rest < n * 8"
  shows "pdi_loop d i n acc = fail InternalError"
  using assms
proof (induction n arbitrary: i rest acc)
  case (Suc n)
  have next_off: "of_nat i * 8 + 8 = (of_nat (Suc i) * 8 :: size_t)" by (simp add: algebra_simps)
  have step: "pdi_loop d i (Suc n) acc = l_vec InternalError 8 rest (\<lambda>bs r. pdi_loop d (Suc i) n (acc @ [bs]))"
    unfolding pdi_loop.simps PDI_DATA_SIZE_def using Suc.prems(1) by (intro arr_field_refine) simp_all
  show ?case
  proof (cases "8 \<le> length rest")
    case True
    then have "cur d (of_nat (Suc i) * 8) (drop 8 rest)"
      using cur_advance [OF Suc.prems(1), of 8] unfolding next_off by simp
    then have "pdi_loop d (Suc i) n (acc @ [take 8 rest]) = fail InternalError"
      using Suc.prems(2) True by (intro Suc.IH) auto
    then show ?thesis unfolding step using True by (simp add: l_vec_def)
  qed (simp add: step l_vec_def del: pdi_loop.simps)
qed simp

lemma port_loop_eq:
  assumes "cur d off rest" and "length rest \<le> fuel"
  shows "port_loop fuel d off acc = ret (acc @ map (\<lambda>b. [b]) rest)"
  using assms
proof (induction fuel arbitrary: off rest acc)
  case 0
  then have "\<not> off < vsize d" using unat_vsize [of d] by (simp add: cur_def word_less_nat_alt)
  with 0 show ?case by simp
next
  case (Suc fuel)
  show ?case
  proof (cases rest)
    case Nil
    then have "\<not> off < vsize d" using Suc.prems unat_vsize [of d] by (simp add: cur_def word_less_nat_alt)
    with Nil show ?thesis by simp
  next
    case (Cons b bs)
    then have "0 < length (drop (unat off) d)" using Suc.prems(1) by (simp only: cur_def) (metis length_greater_0_conv list.discI)
    then have lt: "off < vsize d" using Suc.prems unat_vsize [of d] by (simp add: cur_def word_less_nat_alt)
    have "cur d (off + 1) bs" using cur_advance [OF Suc.prems(1), of 1] Cons by simp
    then have rec: "port_loop fuel d (off + 1) (acc @ [[b]]) = ret ((acc @ [[b]]) @ map (\<lambda>b. [b]) bs)"
      using Suc.prems Cons by (intro Suc.IH) simp_all
    have "arr_field InternalError d off PORT_ID_SIZE (\<lambda>p off. port_loop fuel d off (acc @ [p]))
        = l_vec InternalError 1 rest (\<lambda>bs r. port_loop fuel d (off + 1) (acc @ [bs]))"
      unfolding PORT_ID_SIZE_def using Suc.prems(1) by (intro arr_field_refine) simp_all
    then show ?thesis using lt rec Cons by (simp add: l_vec_def del: port_loop.simps add: port_loop.simps [of "Suc fuel"])
  qed
qed

lemma switch_parse_pdis_eq:
  assumes "wf_buffer d"
  shows "switch_parse_pdis d
    = guard InternalError (64 \<le> length d) (ret (chunks 8 8 (take 64 d), map (\<lambda>b. [b]) (drop 64 d)))"
proof (cases "64 \<le> length d")
  case True
  have take: "chunks 8 n d = chunks 8 n (take (n * 8) d)" for n and d :: buffer
  proof (induction n arbitrary: d)
    case (Suc n)
    have "drop 8 (take (Suc n * 8) d) = take (n * 8) (drop 8 d)" by (simp add: drop_take)
    then show ?case using Suc.IH [of "drop 8 d"] by simp
  qed simp
  have "pdi_loop d 0 8 [] = ret (chunks 8 8 d)"
    using pdi_loop_eq [of d 0 d 8 "[]"] cur_0 [OF assms] True by simp
  moreover have "cur d 64 (drop 64 d)" using assms True by (simp add: cur_def)
  then have "port_loop (length d) d 64 [] = ret (map (\<lambda>b. [b]) (drop 64 d))"
    using port_loop_eq [of d 64 "drop 64 d" "length d" "[]"] by (simp del: port_loop.simps)
  ultimately show ?thesis
    using True take [of 8 d]
    by (simp add: switch_parse_pdis_def TOTAL_NUMBER_OF_PDI_def PDI_DATA_SIZE_def del: port_loop.simps)
next
  case False
  then have "pdi_loop d 0 8 [] = fail InternalError"
    using pdi_loop_short [of d 0 d 8 "[]"] cur_0 [OF assms] by simp
  then show ?thesis using False by (simp add: switch_parse_pdis_def TOTAL_NUMBER_OF_PDI_def del: port_loop.simps)
qed

lemma switch_parse_msr_count_eq:
  "wf_buffer d \<Longrightarrow> switch_parse_msr_count d =
     guard InternalError (length d mod 4 = 0) (ret (map le_value (chunks 4 (length d div 4) d)))"
  using parse_msr_count_eq [of d] by (simp add: switch_parse_msr_count_def parse_msr_count_internal_def)

section \<open>What the typed view contains\<close>

text \<open>The entries a field writes, in order.\<close>

definition decode_switch_field :: "opaque_field \<Rightarrow> (u16 \<times> switch_field) list" where
  "decode_switch_field f =
     (let d = of_data f in
      if of_type f = 12 then [(12, SwitchUint32Vector (map le_value (chunks 4 (length d div 4) d)))]
      else if of_type f = 26 then [(27, SwitchPortVector (map (\<lambda>b. [b]) (drop 64 d))),
                                   (26, SwitchPdiVector (chunks 8 8 (take 64 d)))]
      else if of_type f = 23 then [(23, SwitchByteVector (parse_floorswept_ports d))]
      else [(of_type f, SwitchByteVector d)])"

definition valid_switch_field :: "opaque_field \<Rightarrow> bool" where
  "valid_switch_field f \<longleftrightarrow> 1 \<le> of_type f \<and> of_type f \<le> 27
     \<and> (of_type f = 12 \<longrightarrow> length (of_data f) mod 4 = 0) \<and> (of_type f = 26 \<longrightarrow> 64 \<le> length (of_data f))"

definition write_entries :: "(u16 \<times> switch_field) list \<Rightarrow> (u16 \<times> switch_field) list \<Rightarrow> (u16 \<times> switch_field) list" where
  "write_entries = fold (\<lambda>e. AList.update (fst e) (snd e))"

lemma switch_field_loop_eq:
  assumes "wf_buffer (of_data f)"
  shows "switch_field_loop (f # fs) m =
    (if valid_switch_field f then switch_field_loop fs (write_entries (decode_switch_field f) m)
     else fail (if is_valid_switch_opaque_data_type (of_type f) then InternalError else BadArgument))"
  using switch_parse_pdis_eq [OF assms] switch_parse_msr_count_eq [OF assms]
  by (auto simp: valid_switch_field_def decode_switch_field_def write_entries_def switch_type_defs Let_def
      is_valid_switch_opaque_data_type_def guard_def)

lemma switch_field_loop_all:
  assumes "wf_fields fs"
  shows "switch_field_loop fs m = (if list_all valid_switch_field fs
    then ret (write_entries (concat (map decode_switch_field fs)) m)
    else fail (if is_valid_switch_opaque_data_type (of_type (hd (filter (\<lambda>f. \<not> valid_switch_field f) fs)))
               then InternalError else BadArgument))"
  using assms
proof (induction fs arbitrary: m)
  case (Cons f fs)
  then show ?case
    using switch_field_loop_eq [of f fs m] by (simp add: wf_fields_def write_entries_def del: switch_field_loop.simps(2))
qed (simp add: write_entries_def)

lemma map_of_write_entries: "map_of (write_entries es m) t = (case map_of (rev es) t of None \<Rightarrow> map_of m t | Some v \<Rightarrow> Some v)"
  by (induction es rule: rev_induct) (auto simp: write_entries_def split: option.splits)

section \<open>Properties\<close>



end
