(* ===== verification/Switch_Report.thy ===== *)
theory Switch_Report
  imports Gpu_Report Switch_Opaque Effects
begin

text \<open>
  Switch evidence and the signed report in it (\<^verbatim>\<open>src/switch/evidence.cpp\<close>): architecture data,
  parsing and checking a report, the values read from it, the evidence claims, and the JSON form.  The
  shape is that of the GPU evidence, but the order of the checks, the error codes and the fields differ.
\<close>

section \<open>Architectures\<close>

datatype switch_architecture = UnknownSwitch | LS10 | SV10 | LR10

record switch_architecture_data =
  sa_arch :: switch_architecture
  sa_ar_signature_hash_algorithm :: string
  sa_ar_signature_length :: nat
  sa_project :: string
  sa_project_sku :: string
  sa_chip_sku :: string
  sa_fwid_type :: fwid_type

definition supported_switch_architectures :: "switch_architecture list" where
  "supported_switch_architectures = [LS10]"

definition switch_architecture_data_create :: "switch_architecture \<Rightarrow> switch_architecture_data outcome" where
  "switch_architecture_data_create arch =
     (if arch \<notin> set supported_switch_architectures then fail SwitchArchitectureNotSupported
      else case arch of
        LS10 \<Rightarrow> ret \<lparr>sa_arch = arch, sa_ar_signature_hash_algorithm = ''sha384'', sa_ar_signature_length = 96,
                     sa_project = ''5612'', sa_project_sku = ''0002'', sa_chip_sku = ''890'',
                     sa_fwid_type = FWID_2_23_133_5_4_1\<rparr>
      | _ \<Rightarrow> fail SwitchArchitectureNotSupported)"

definition switch_architecture_to_string :: "switch_architecture \<Rightarrow> string" where
  "switch_architecture_to_string arch =
     (case arch of LS10 \<Rightarrow> ''LS10'' | SV10 \<Rightarrow> ''SV10'' | LR10 \<Rightarrow> ''LR10'' | UnknownSwitch \<Rightarrow> ''UNKNOWN'')"

definition switch_architecture_from_string :: "string \<Rightarrow> switch_architecture" where
  "switch_architecture_from_string arch_str =
     (if arch_str = ''LS10'' then LS10
      else if arch_str = ''SV10'' then SV10
      else if arch_str = ''LR10'' then LR10 else UnknownSwitch)"

section \<open>Evidence and its JSON form\<close>

text \<open>The UUID, the TNVL mode and the lock mode of the class are not used after collection.\<close>

record switch_evidence =
  sv_switch_architecture :: switch_architecture
  sv_attestation_report :: buffer
  sv_attestation_cert_chain :: string
  sv_nonce :: buffer

definition switch_evidence_to_json :: "(buffer \<Rightarrow> string option) \<Rightarrow> switch_evidence \<Rightarrow> json outcome" where
  "switch_evidence_to_json b64_encode ev =
     bind (or_throw (encode_base64 b64_encode (sv_attestation_report ev))) (\<lambda>encoded_evidence.
     bind (or_throw (encode_base64_string b64_encode (sv_attestation_cert_chain ev))) (\<lambda>encoded_certificate.
     ret (JObject [(''arch'', JString (switch_architecture_to_string (sv_switch_architecture ev))),
                   (''nonce'', JString (to_hex_string (sv_nonce ev))),
                   (''evidence'', JString encoded_evidence),
                   (''certificate'', JString encoded_certificate)])))"

definition switch_evidence_from_json :: "(string \<Rightarrow> buffer option) \<Rightarrow> json \<Rightarrow> switch_evidence outcome" where
  "switch_evidence_from_json b64_decode j =
     bind (member_string j ''arch'') (\<lambda>arch_str.
     let architecture = switch_architecture_from_string arch_str in
     if architecture = UnknownSwitch then throw RuntimeError
     else bind (member_string j ''nonce'') (\<lambda>nonce_str.
     bind (member_string j ''evidence'') (\<lambda>evidence_base64.
     bind (or_throw (decode_base64 b64_decode evidence_base64)) (\<lambda>evidence.
     bind (member_string j ''certificate'') (\<lambda>certificate_base64.
     bind (or_throw (decode_base64_string b64_decode certificate_base64)) (\<lambda>certificate.
     ret \<lparr>sv_switch_architecture = architecture, sv_attestation_report = evidence,
          sv_attestation_cert_chain = certificate, sv_nonce = hex_string_to_bytes nonce_str\<rparr>))))))"

definition switch_collection_from_json ::
  "(string \<Rightarrow> json outcome) \<Rightarrow> (string \<Rightarrow> buffer option) \<Rightarrow> string \<Rightarrow> switch_evidence list outcome" where
  "switch_collection_from_json parse b64_decode json_string =
     deserialize_from_json parse (get_array (switch_evidence_from_json b64_decode)) json_string"

definition switch_collection_to_json ::
  "(json \<Rightarrow> string outcome) \<Rightarrow> (buffer \<Rightarrow> string option) \<Rightarrow> switch_evidence list \<Rightarrow> string outcome" where
  "switch_collection_to_json dump b64_encode collection =
     serialize_to_json dump (to_array (switch_evidence_to_json b64_encode)) collection"

definition switch_json_source_get_evidence :: "switch_evidence list \<Rightarrow> buffer \<Rightarrow> switch_evidence list outcome" where
  "switch_json_source_get_evidence evidence nonce_input =
     (if list_all (\<lambda>ev. sv_nonce ev = nonce_input) evidence then ret evidence
      else fail SwitchEvidenceNonceMismatch)"

text \<open>Reading evidence from a file; \<open>read_file\<close> is \<^verbatim>\<open>readFileIntoString\<close>.\<close>

definition switch_json_file_source_create ::
  "(string \<Rightarrow> string outcome) \<Rightarrow> (string \<Rightarrow> json outcome) \<Rightarrow> (string \<Rightarrow> buffer option) \<Rightarrow> string
    \<Rightarrow> switch_evidence list outcome" where
  "switch_json_file_source_create read_file parse b64_decode file_path =
     guard BadArgument (file_path \<noteq> [])
     (bind (read_file file_path) (switch_collection_from_json parse b64_decode))"

section \<open>Attestation reports\<close>

record 'c switch_report =
  sr_spdm_response :: spdm_response
  sr_spdm_request :: spdm_request
  sr_switch_opaque_data_parser :: "(u16 \<times> switch_field) list"
  sr_attestation_cert_chain :: "'c cert_chain"

definition switch_report_create ::
  "'c x509_api \<Rightarrow> string \<Rightarrow> buffer \<Rightarrow> string \<Rightarrow> switch_architecture \<Rightarrow> 'c switch_report outcome" where
  "switch_report_create api device_root_cert attestation_report_data ar_cert_chain architecture =
     bind (map_error InternalError
       (create_from_cert_chain_str api NVSWITCH_DEVICE_IDENTITY device_root_cert ar_cert_chain)) (\<lambda>chain.
     bind (switch_architecture_data_create architecture) (\<lambda>arch_data.
     guard InternalError (\<not> length attestation_report_data \<le> sa_ar_signature_length arch_data)
     (let n = length attestation_report_data - sa_ar_signature_length arch_data;
          data_wo_signature = take n attestation_report_data;
          signature = drop n attestation_report_data in
      bind (map_error SwitchEvidenceInvalidSignature (verify_signature_pkcs11 api chain data_wo_signature
        signature (sa_ar_signature_hash_algorithm arch_data))) (\<lambda>_.
      let request_length = unat kRequestLength in
      if length attestation_report_data < request_length then undefined_behaviour
      else bind (map_error InternalError (parse_request (take request_length attestation_report_data))) (\<lambda>spdm_request.
      bind (map_error InternalError (parse_response (drop request_length attestation_report_data)
        (of_nat (sa_ar_signature_length arch_data)))) (\<lambda>spdm_response.
      bind (map_error InternalError (switch_parser_create (resp_parsed_opaque_data spdm_response))) (\<lambda>parser.
      ret \<lparr>sr_spdm_response = spdm_response, sr_spdm_request = spdm_request,
           sr_switch_opaque_data_parser = parser, sr_attestation_cert_chain = chain\<rparr>)))))))"

definition switch_parsed_report :: "'c x509_api \<Rightarrow> string \<Rightarrow> switch_evidence \<Rightarrow> 'c switch_report outcome" where
  "switch_parsed_report api device_root_cert ev =
     switch_report_create api device_root_cert (sv_attestation_report ev) (sv_attestation_cert_chain ev)
       (sv_switch_architecture ev)"

section \<open>Values read from a report\<close>

definition switch_byte_field :: "'c switch_report \<Rightarrow> u16 \<Rightarrow> buffer outcome" where
  "switch_byte_field rep t = bind (switch_get_field (sr_switch_opaque_data_parser rep) t) switch_get_byte_vector"

definition switch_report_fwid :: "'c switch_report \<Rightarrow> buffer outcome" where
  "switch_report_fwid rep = switch_byte_field rep SWITCH_FWID"

definition switch_vbios_version :: "'c switch_report \<Rightarrow> string outcome" where
  "switch_vbios_version rep =
     bind (switch_byte_field rep SWITCH_VBIOS_VERSION) (\<lambda>d. ret (remove_null_terminators (string_of_bytes d)))"

definition get_switch_pdi :: "'c switch_report \<Rightarrow> string outcome" where
  "get_switch_pdi rep = bind (switch_byte_field rep SWITCH_DEVICE_PDI) (\<lambda>d. ret (upper (to_hex_string d)))"

definition get_switch_gpu_pdis :: "'c switch_report \<Rightarrow> string list outcome" where
  "get_switch_gpu_pdis rep =
     bind (switch_get_field (sr_switch_opaque_data_parser rep) SWITCH_GPU_PDIS) (\<lambda>f.
     bind (switch_get_pdi_vector f) (\<lambda>pdis.
     ret (sorted_list_of_set (set (map (\<lambda>pdi. upper (to_hex_string pdi)) pdis)))))"

definition switch_vbios_rim_id :: "'c switch_report \<Rightarrow> switch_architecture \<Rightarrow> string outcome" where
  "switch_vbios_rim_id rep architecture =
     bind (switch_vbios_version rep) (\<lambda>vbios_version.
     let vbios_version = upper (filter (\<lambda>c. c \<noteq> CHR ''.'') vbios_version) in
     bind (switch_architecture_data_create architecture) (\<lambda>arch_data.
     ret (''NV_SWITCH_BIOS_'' @ sa_project arch_data @ ''_'' @ sa_project_sku arch_data @ ''_''
          @ sa_chip_sku arch_data @ ''_'' @ vbios_version)))"

definition switch_get_measurements :: "'c switch_report \<Rightarrow> (int \<times> buffer) list" where
  "switch_get_measurements rep =
     fold (\<lambda>(index, block). AList.update (int (unat index) - 1) (dmtf_value block))
       (resp_parsed_measurement_records (sr_spdm_response rep)) []"

section \<open>Claims about evidence\<close>

record switch_evidence_claims =
  se_switch_arch_match :: bool
  se_switch_bios_version :: string
  se_switch_pdi :: string
  se_switch_gpu_pdis :: "string list"
  se_switch_ar_nonce_match :: bool
  se_attestation_report_claims :: attestation_report_claims

definition switch_check_fwid :: "'c x509_api \<Rightarrow> 'c switch_report \<Rightarrow> switch_architecture_data \<Rightarrow> bool outcome" where
  "switch_check_fwid api rep arch_data =
     (case switch_report_fwid rep of
        Inl f \<Rightarrow> if f = Err SpdmFieldNotFound then ret True else Inl f
      | Inr fwid \<Rightarrow>
          bind (get_fwid api (sr_attestation_cert_chain rep) 0 (sa_fwid_type arch_data)) (\<lambda>cert_fwid.
          if fwid \<noteq> cert_fwid then fail SwitchEvidenceFwidMismatch else ret True))"

definition switch_attestation_report_claims ::
  "'c x509_api \<Rightarrow> ('s \<Rightarrow> 'c \<Rightarrow> 'c \<Rightarrow> 'c list \<Rightarrow> 'c \<Rightarrow> ocsp_response outcome \<times> 's) \<Rightarrow> (int \<Rightarrow> string) \<Rightarrow> int
    \<Rightarrow> 'c switch_report \<Rightarrow> switch_architecture_data \<Rightarrow> ('s, attestation_report_claims) step" where
  "switch_attestation_report_claims api get_response reason_str now rep arch_data =
     sbind (pure (switch_check_fwid api rep arch_data)) (\<lambda>fwid_match.
     sbind (generate_cert_chain_claims api get_response reason_str now (sr_attestation_cert_chain rep)) (\<lambda>chain_claims.
     pure (bind (get_hwmodel api (sr_attestation_cert_chain rep)) (\<lambda>hwmodel.
           bind (get_ueid api (sr_attestation_cert_chain rep)) (\<lambda>ueid.
           ret \<lparr>rc_cert_chain_claims = chain_claims, rc_fwid_match = fwid_match, rc_hwmodel = hwmodel,
                rc_ueid = ueid, rc_parsed = True, rc_signature_verified = True\<rparr>)))))"

text \<open>A field that the report does not have keeps the default of the claims.\<close>

definition field_or_default :: "'a \<Rightarrow> 'a outcome \<Rightarrow> 'a outcome" where
  "field_or_default d m = (if m = Inl (Err SpdmFieldNotFound) then ret d else m)"

definition generate_switch_evidence_claims ::
  "'c x509_api \<Rightarrow> ('s \<Rightarrow> 'c \<Rightarrow> 'c \<Rightarrow> 'c list \<Rightarrow> 'c \<Rightarrow> ocsp_response outcome \<times> 's) \<Rightarrow> (int \<Rightarrow> string) \<Rightarrow> int
    \<Rightarrow> switch_evidence \<Rightarrow> 'c switch_report \<Rightarrow> ('s, switch_evidence_claims) step" where
  "generate_switch_evidence_claims api get_response reason_str now ev rep =
     sbind (pure (switch_architecture_data_create (sv_switch_architecture ev))) (\<lambda>arch_data.
     sbind (pure (guard SwitchEvidenceNonceMismatch
       (length (req_nonce (sr_spdm_request rep)) = length (sv_nonce ev) \<and> req_nonce (sr_spdm_request rep) = sv_nonce ev)
       (ret ()))) (\<lambda>_.
     sbind (pure (switch_vbios_version rep)) (\<lambda>bios_version.
     sbind (pure (field_or_default [] (get_switch_pdi rep))) (\<lambda>pdi.
     sbind (pure (field_or_default [] (get_switch_gpu_pdis rep))) (\<lambda>gpu_pdis.
     sbind (switch_attestation_report_claims api get_response reason_str now rep arch_data) (\<lambda>report_claims.
     pure (ret \<lparr>se_switch_arch_match = True, se_switch_bios_version = bios_version, se_switch_pdi = pdi,
               se_switch_gpu_pdis = gpu_pdis, se_switch_ar_nonce_match = True,
               se_attestation_report_claims = report_claims\<rparr>)))))))"

section \<open>What the claims rest on\<close>

lemma switch_arch_data_ok [outcome_simps]:
  "switch_architecture_data_create arch = Inr a \<longleftrightarrow> arch = LS10
     \<and> a = \<lparr>sa_arch = LS10, sa_ar_signature_hash_algorithm = ''sha384'', sa_ar_signature_length = 96,
            sa_project = ''5612'', sa_project_sku = ''0002'', sa_chip_sku = ''890'', sa_fwid_type = FWID_2_23_133_5_4_1\<rparr>"
  by (cases arch) (auto simp: switch_architecture_data_create_def supported_switch_architectures_def ret_def fail_def)

lemma switch_report_create_ok:
  assumes "wf_buffer d" and "switch_report_create api root d pem arch = Inr rep"
  shows "create_from_cert_chain_str api NVSWITCH_DEVICE_IDENTITY root pem = Inr (sr_attestation_cert_chain rep)
    \<and> arch = LS10
    \<and> valid_request (sr_spdm_request rep) \<and> valid_response 96 (sr_spdm_response rep)
    \<and> d = encode_request (sr_spdm_request rep) @ encode_response (sr_spdm_response rep)
    \<and> signature_ok api (sr_attestation_cert_chain rep)
        (encode_request (sr_spdm_request rep) @ unsigned_response (sr_spdm_response rep))
        (resp_signature (sr_spdm_response rep))
    \<and> switch_parser_create (resp_parsed_opaque_data (sr_spdm_response rep)) = Inr (sr_switch_opaque_data_parser rep)"
proof -
  let ?n = "length d - 96"
  from assms(2) obtain u where
    chain: "create_from_cert_chain_str api NVSWITCH_DEVICE_IDENTITY root pem = Inr (sr_attestation_cert_chain rep)"
    and arch: "arch = LS10" and len: "96 < length d"
    and sig: "verify_signature_pkcs11 api (sr_attestation_cert_chain rep) (take ?n d) (drop ?n d) ''sha384'' = Inr u"
    and req: "parse_request (take 37 d) = Inr (sr_spdm_request rep)"
    and resp: "parse_response (drop 37 d) 96 = Inr (sr_spdm_response rep)"
    and opq: "switch_parser_create (resp_parsed_opaque_data (sr_spdm_response rep)) = Inr (sr_switch_opaque_data_parser rep)"
    by (auto simp: switch_report_create_def outcome_simps Let_def kRequestLength_def undefined_behaviour_def
        split: if_splits)
  show ?thesis using signed_exchange [OF assms(1) len sig req resp] chain arch opq by blast
qed

lemma switch_check_fwid_ok:
  "switch_check_fwid api rep arch_data = Inr m \<longleftrightarrow>
     m \<and> (switch_report_fwid rep = Inl (Err SpdmFieldNotFound)
          \<or> (\<exists>fwid. switch_report_fwid rep = Inr fwid
               \<and> get_fwid api (sr_attestation_cert_chain rep) 0 (sa_fwid_type arch_data) = Inr fwid))"
  by (auto simp: switch_check_fwid_def outcome_simps split: sum.splits if_splits)

lemma switch_evidence_claims_ok:
  assumes "generate_switch_evidence_claims api get_response reason_str now ev rep s = (Inr claims, s')"
  shows "req_nonce (sr_spdm_request rep) = sv_nonce ev
    \<and> switch_vbios_version rep = Inr (se_switch_bios_version claims)
    \<and> (\<forall>fwid. switch_report_fwid rep = Inr fwid \<longrightarrow>
         get_fwid api (sr_attestation_cert_chain rep) 0 FWID_2_23_133_5_4_1 = Inr fwid)
    \<and> generate_cert_chain_claims api get_response reason_str now (sr_attestation_cert_chain rep) s
        = (Inr (rc_cert_chain_claims (se_attestation_report_claims claims)), s')"
  using assms
  unfolding generate_switch_evidence_claims_def switch_attestation_report_claims_def step_simps bind_eq_Inr guard_eq_Inr
    ret_eq switch_arch_data_ok switch_check_fwid_ok
  by (elim exE conjE; hypsubst; simp) auto

section \<open>The JSON form\<close>

lemma switch_evidence_json:
  assumes "base64_contract enc dec" and "sv_switch_architecture ev \<noteq> UnknownSwitch"
    and "switch_evidence_to_json enc ev = Inr j"
  shows "switch_evidence_from_json dec j = Inr ev"
proof -
  from assms(3) obtain e c where e: "encode_base64 enc (sv_attestation_report ev) = Inr e"
    and c: "encode_base64_string enc (sv_attestation_cert_chain ev) = Inr c"
    and j: "j = JObject [(''arch'', JString (switch_architecture_to_string (sv_switch_architecture ev))),
      (''nonce'', JString (to_hex_string (sv_nonce ev))), (''evidence'', JString e), (''certificate'', JString c)]"
    by (auto simp: switch_evidence_to_json_def outcome_simps)
  have "switch_architecture_from_string (switch_architecture_to_string (sv_switch_architecture ev)) = sv_switch_architecture ev"
    using assms(2) by (cases "sv_switch_architecture ev")
      (simp_all add: switch_architecture_from_string_def switch_architecture_to_string_def)
  then show ?thesis
    using base64_round_trip [OF assms(1) e] base64_string_round_trip [OF assms(1) c] assms(2)
    by (cases ev) (auto simp: switch_evidence_from_json_def member_string_def j json_simps ret_def Let_def)
qed

end
