(* ===== verification/Switch_Verify.thy ===== *)
theory Switch_Verify
  imports Switch_Report Gpu_Verify
begin

text \<open>
  The local switch verifier (\<^verbatim>\<open>LocalSwitchVerifier\<close> in \<^verbatim>\<open>src/switch/verify.cpp\<close>).  Its members are those of the
  GPU verifier, so the record \<open>verifier\<close> is shared; a switch has one manifest, and no measurement is
  skipped.
\<close>

section \<open>Filling the claims\<close>

definition set_switch_evidence_claims :: "switch_evidence_claims \<Rightarrow> switch_claims \<Rightarrow> switch_claims" where
  "set_switch_evidence_claims ec out =
     (let rc = se_attestation_report_claims ec in
      out\<lparr>sw_switch_arch_match := se_switch_arch_match ec,
          sw_switch_ar_nonce_match := se_switch_ar_nonce_match ec,
          sw_switch_bios_version := se_switch_bios_version ec,
          sw_switch_pdi := se_switch_pdi ec,
          sw_switch_gpu_pdis := se_switch_gpu_pdis ec,
          sw_ar_cert_chain_claims := to_chain_json_claims (rc_cert_chain_claims rc),
          sw_ar_cert_chain_fwid_match := rc_fwid_match rc,
          sw_ar_parsed := rc_parsed rc,
          sw_ar_signature_verified := rc_signature_verified rc,
          sw_hwmodel := rc_hwmodel rc,
          sw_ueid := rc_ueid rc\<rparr>)"

definition set_bios_rim_claims ::
  "('c, 'd, 'n, 'o, 'r) verifier \<Rightarrow> 'd rim_document \<Rightarrow> evidence_policy \<Rightarrow> switch_claims \<Rightarrow> ('o, switch_claims) step" where
  "set_bios_rim_claims v doc policy out =
     sbind (verifier_rim_claims v doc policy) (\<lambda>rm.
     pure (bind (rim_chain_json_claims (rm_cert_chain_claims rm)) (\<lambda>cc.
           ret (out\<lparr>sw_bios_rim_fetched := True, sw_bios_rim_cert_chain := cc,
                    sw_bios_rim_signature_verified := rm_signature_verified rm\<rparr>))))"

definition set_switch_measurement_claims ::
  "measurements \<Rightarrow> 'c switch_report \<Rightarrow> switch_claims \<Rightarrow> switch_claims outcome" where
  "set_switch_measurement_claims golden rep out =
     bind (compare_loop (switch_get_measurements rep) VBIOS (\<lambda>index. False) golden (get_all_indices golden) []) (\<lambda>mismatches.
     if mismatches = []
     then ret (out\<lparr>sw_measurements_matching := MeasSuccess, sw_secure_boot := Some True,
                   sw_debug_status := Some ''disabled'', sw_mismatched_measurements := None\<rparr>)
     else ret (out\<lparr>sw_measurements_matching := MeasFailure, sw_secure_boot := None,
                   sw_debug_status := None, sw_mismatched_measurements := Some mismatches\<rparr>))"

section \<open>Verification of evidence\<close>

definition verify_switch_item ::
  "('c, 'd, 'n, 'o, 'r) verifier \<Rightarrow> evidence_policy \<Rightarrow> switch_evidence \<Rightarrow> ('o \<times> 'r, switch_claims) step" where
  "verify_switch_item v policy ev =
     sbind (pure (switch_parsed_report (lv_x509 v) (lv_device_root_cert v) ev)) (\<lambda>rep.
     sbind (on_fst (\<lambda>o1. generate_switch_evidence_claims (lv_x509 v) (lv_ocsp v) (lv_reason_str v) (lv_clock v o1) ev rep o1)) (\<lambda>ec.
     let claims = (set_switch_evidence_claims ec new_switch_claims)\<lparr>sw_nonce := to_hex_string (sv_nonce ev)\<rparr> in
     sbind (pure (switch_vbios_rim_id rep (sv_switch_architecture ev))) (\<lambda>rim_id.
     sbind (fetch_rim v rim_id) (\<lambda>rim.
     sbind (pure (bind (get_version (lv_xml v) rim) (\<lambda>version.
            guard SwitchEvidenceVbiosRimVersionMismatch (version = se_switch_bios_version ec) (ret ())))) (\<lambda>_.
     sbind (on_fst (set_bios_rim_claims v rim policy (claims\<lparr>sw_switch_bios_rim_version_match := True\<rparr>))) (\<lambda>claims.
     pure (bind (rim_measurements (lv_xml v) rim) (\<lambda>golden.
           set_switch_measurement_claims golden rep (claims\<lparr>sw_bios_rim_measurements_available := True\<rparr>)))))))))"

fun verify_switch_loop ::
  "('c, 'd, 'n, 'o, 'r) verifier \<Rightarrow> evidence_policy \<Rightarrow> switch_evidence list \<Rightarrow> claims list \<Rightarrow> 'o \<times> 'r
    \<Rightarrow> unit outcome \<times> claims list \<times> ('o \<times> 'r)" where
  "verify_switch_loop v policy [] out s = (ret (), out, s)"
| "verify_switch_loop v policy (ev # evs) out s =
     (case verify_switch_item v policy ev s of
        (Inl f, s) \<Rightarrow> (Inl f, out, s)
      | (Inr c, s) \<Rightarrow> verify_switch_loop v policy evs (out @ [SwitchClaims c]) s)"

definition switch_generate_claims_v3 ::
  "('c, 'd, 'n, 'o, 'r) verifier \<Rightarrow> ('g, 'e) eat_env \<Rightarrow> int \<Rightarrow> bool
    \<Rightarrow> switch_evidence list \<Rightarrow> evidence_policy \<Rightarrow> claims list \<Rightarrow> ('o \<times> 'r) \<times> 'g
    \<Rightarrow> unit outcome \<times> string option \<times> claims list \<times> (('o \<times> 'r) \<times> 'g)" where
  "switch_generate_claims_v3 v env now want_eat evs policy out s =
     (case verify_switch_loop v policy evs out (fst s) of
        (Inl f, out, s') \<Rightarrow> (Inl f, None, out, (s', snd s))
      | (Inr _, out, s') \<Rightarrow>
          if want_eat
          then (case get_detached_eat env now (lv_detached_eat_options v) out (snd s) of
                  (status, token, g) \<Rightarrow> (status, token, out, (s', g)))
          else (ret (), None, out, (s', snd s)))"

text \<open>Version 3 is the only version a policy can name.\<close>

definition local_switch_verify_evidence ::
  "('c, 'd, 'n, 'o, 'r) verifier \<Rightarrow> ('g, 'e) eat_env \<Rightarrow> int \<Rightarrow> bool
    \<Rightarrow> switch_evidence list \<Rightarrow> evidence_policy \<Rightarrow> claims list \<Rightarrow> ('o \<times> 'r) \<times> 'g
    \<Rightarrow> unit outcome \<times> string option \<times> claims list \<times> (('o \<times> 'r) \<times> 'g)" where
  "local_switch_verify_evidence v env now want_eat evs policy out s =
     (case ep_switch_claims_version policy of
        SwitchClaimsV3 \<Rightarrow> switch_generate_claims_v3 v env now want_eat evs policy out s)"

section \<open>What issued claims rest on\<close>

lemma set_bios_rim_claims_ok:
  assumes "set_bios_rim_claims v doc policy out s = (Inr c, s')"
  shows "\<exists>cc. rim_accepted v policy doc cc
    \<and> c = out\<lparr>sw_bios_rim_fetched := True, sw_bios_rim_cert_chain := cc,
              sw_bios_rim_signature_verified := verify_rim_signature policy\<rparr>"
proof -
  obtain rm cc where r: "verifier_rim_claims v doc policy s = (Inr rm, s')"
    "rim_chain_json_claims (rm_cert_chain_claims rm) = Inr cc"
    and c: "c = out\<lparr>sw_bios_rim_fetched := True, sw_bios_rim_cert_chain := cc,
             sw_bios_rim_signature_verified := rm_signature_verified rm\<rparr>"
    using assms by (auto simp: set_bios_rim_claims_def step_simps bind_eq_Inr ret_eq)
  show ?thesis using rim_accepted_intro [OF r] rim_claims_ok [OF r(1), THEN conjunct1] c by auto
qed

lemma switch_measurement_claims_ok:
  assumes "distinct (map fst golden)" and "set_switch_measurement_claims golden rep out = Inr c"
  defines "bad \<equiv> filter (\<lambda>(i, m). \<not> matches (switch_get_measurements rep) i m) (sort_key fst golden)"
  shows "c = (if bad = [] then out\<lparr>sw_measurements_matching := MeasSuccess, sw_secure_boot := Some True,
        sw_debug_status := Some ''disabled'', sw_mismatched_measurements := None\<rparr>
      else out\<lparr>sw_measurements_matching := MeasFailure, sw_secure_boot := None, sw_debug_status := None,
        sw_mismatched_measurements := Some (map (\<lambda>(i, m). mismatch_record (switch_get_measurements rep) VBIOS i m) bad)\<rparr>)"
proof -
  have "unmatched (switch_get_measurements rep) (\<lambda>i. False) golden (get_all_indices golden) = bad"
    by (simp add: unmatched_entries [OF assms(1)] bad_def)
  then show ?thesis
    using assms(2) by (auto simp: set_switch_measurement_claims_def bind_eq_Inr compare_loop_ok ret_eq split: if_splits)
qed

lemma verify_switch_item_steps:
  assumes "verify_switch_item v policy ev s = (Inr c, s')"
  obtains rep ec o1 o2 o3 rim rim_id r1 golden cc base where
    "switch_parsed_report (lv_x509 v) (lv_device_root_cert v) ev = Inr rep"
    "generate_switch_evidence_claims (lv_x509 v) (lv_ocsp v) (lv_reason_str v) (lv_clock v o1) ev rep o1 = (Inr ec, o2)"
    "switch_vbios_rim_id rep (sv_switch_architecture ev) = Inr rim_id" "lv_rim_store v (snd s) rim_id = (Inr rim, r1)"
    "s' = (o3, r1)" "get_version (lv_xml v) rim = Inr (se_switch_bios_version ec)" "rim_accepted v policy rim cc"
    "rim_measurements (lv_xml v) rim = Inr golden" "set_switch_measurement_claims golden rep base = Inr c"
    "base = (set_switch_evidence_claims ec new_switch_claims)\<lparr>sw_nonce := to_hex_string (sv_nonce ev),
       sw_switch_bios_rim_version_match := True, sw_bios_rim_fetched := True, sw_bios_rim_cert_chain := cc,
       sw_bios_rim_signature_verified := verify_rim_signature policy, sw_bios_rim_measurements_available := True\<rparr>"
  using assms unfolding verify_switch_item_def Let_def fetch_rim_def step_simps bind_eq_Inr guard_eq_Inr ret_eq
  apply (elim exE conjE)
  apply (drule set_bios_rim_claims_ok)
  apply (elim exE conjE)
  apply hypsubst
  apply (unfold fst_conv snd_conv)
  apply (rule that)
  apply (assumption | rule refl)+
  done

text \<open>
  C3 (switch_claims_justified): switch claims are issued only for evidence of a supported
  architecture whose report is signed, in full, by the leaf of a chain that was verified, over the
  nonce of the evidence, which is the nonce of the claims; the manifest was obtained under the
  identifier built from the firmware version of the signed report, carries that version, and was
  judged as the policy asks.  The measurement result is success, with secure boot and the debug
  status claimed, exactly when every golden measurement of the manifest is matched by the report;
  otherwise the claims list exactly the golden measurements that are not.
\<close>

theorem switch_claims_justified:
  assumes "wf_buffer (sv_attestation_report ev)" and "verify_switch_item v policy ev s = (Inr c, s')"
  shows "\<exists>rep rim_id rim r1 golden.
    switch_parsed_report (lv_x509 v) (lv_device_root_cert v) ev = Inr rep \<and> sv_switch_architecture ev = LS10
    \<and> signature_ok (lv_x509 v) (sr_attestation_cert_chain rep)
        (encode_request (sr_spdm_request rep) @ unsigned_response (sr_spdm_response rep))
        (resp_signature (sr_spdm_response rep))
    \<and> (\<exists>path. chain_verify (lv_x509 v) (sr_attestation_cert_chain rep) = Inr path)
    \<and> req_nonce (sr_spdm_request rep) = sv_nonce ev \<and> sw_nonce c = to_hex_string (sv_nonce ev)
    \<and> switch_vbios_rim_id rep (sv_switch_architecture ev) = Inr rim_id \<and> lv_rim_store v (snd s) rim_id = (Inr rim, r1)
    \<and> switch_vbios_version rep = Inr (sw_switch_bios_version c) \<and> get_version (lv_xml v) rim = Inr (sw_switch_bios_version c)
    \<and> rim_accepted v policy rim (sw_bios_rim_cert_chain c)
    \<and> rim_measurements (lv_xml v) rim = Inr golden
    \<and> (let bad = filter (\<lambda>(i, m). \<not> matches (switch_get_measurements rep) i m) (sort_key fst golden) in
        (sw_measurements_matching c = MeasSuccess \<longleftrightarrow> bad = [])
        \<and> sw_secure_boot c = (if bad = [] then Some True else None)
        \<and> sw_debug_status c = (if bad = [] then Some ''disabled'' else None)
        \<and> sw_mismatched_measurements c = (if bad = [] then None
            else Some (map (\<lambda>(i, m). mismatch_record (switch_get_measurements rep) VBIOS i m) bad)))"
proof -
  from assms(2) obtain rep ec o1 o2 o3 rim rim_id r1 golden cc base
    where rep: "switch_parsed_report (lv_x509 v) (lv_device_root_cert v) ev = Inr rep"
    and ec: "generate_switch_evidence_claims (lv_x509 v) (lv_ocsp v) (lv_reason_str v) (lv_clock v o1) ev rep o1 = (Inr ec, o2)"
    and d: "switch_vbios_rim_id rep (sv_switch_architecture ev) = Inr rim_id" "lv_rim_store v (snd s) rim_id = (Inr rim, r1)"
      "s' = (o3, r1)" "get_version (lv_xml v) rim = Inr (se_switch_bios_version ec)" "rim_accepted v policy rim cc"
    and m: "rim_measurements (lv_xml v) rim = Inr golden" "set_switch_measurement_claims golden rep base = Inr c"
    and base: "base = (set_switch_evidence_claims ec new_switch_claims)\<lparr>sw_nonce := to_hex_string (sv_nonce ev),
       sw_switch_bios_rim_version_match := True, sw_bios_rim_fetched := True, sw_bios_rim_cert_chain := cc,
       sw_bios_rim_signature_verified := verify_rim_signature policy, sw_bios_rim_measurements_available := True\<rparr>"
    by (rule verify_switch_item_steps)
  note created = switch_report_create_ok [OF assms(1) rep [unfolded switch_parsed_report_def]]
  note ecs = switch_evidence_claims_ok [OF ec]
  have path: "\<exists>path. chain_verify (lv_x509 v) (sr_attestation_cert_chain rep) = Inr path"
    using ecs by (auto simp: generate_cert_chain_claims_def split: sum.splits)
  note c = switch_measurement_claims_ok [OF rim_measurements_distinct [OF m(1)] m(2)]
  let ?bad = "filter (\<lambda>(i, m). \<not> matches (switch_get_measurements rep) i m) (sort_key fst golden)"
  have fields: "sw_nonce c = to_hex_string (sv_nonce ev)" "sw_switch_bios_version c = se_switch_bios_version ec"
    "sw_bios_rim_cert_chain c = cc"
    by (simp_all add: c base set_switch_evidence_claims_def Let_def)
  have "sw_measurements_matching c = MeasSuccess \<longleftrightarrow> ?bad = []"
    "sw_secure_boot c = (if ?bad = [] then Some True else None)"
    "sw_debug_status c = (if ?bad = [] then Some ''disabled'' else None)"
    "sw_mismatched_measurements c = (if ?bad = [] then None
       else Some (map (\<lambda>(i, m). mismatch_record (switch_get_measurements rep) VBIOS i m) ?bad))"
    by (simp_all add: c)
  then show ?thesis using rep created ecs path d m(1) unfolding fields Let_def by blast
qed

section \<open>A concrete verification\<close>

text \<open>The messages of the GPU example, read as a switch report.\<close>

definition demo_switch_evidence :: switch_evidence where
  "demo_switch_evidence = \<lparr>sv_switch_architecture = LS10,
     sv_attestation_report = encode_request demo_gpu_request @ encode_response demo_gpu_response,
     sv_attestation_cert_chain = END_CERTIFICATE @ END_CERTIFICATE, sv_nonce = replicate 32 7\<rparr>"

definition demo_switch_report :: "nat switch_report" where
  "demo_switch_report = \<lparr>sr_spdm_response = demo_gpu_response, sr_spdm_request = demo_gpu_request,
     sr_switch_opaque_data_parser = [(3, SwitchByteVector [0x41]), (6, SwitchByteVector [1, 2]),
         (11, SwitchByteVector [0xaa]), (15, SwitchByteVector [0x42]), (17, SwitchByteVector [0x43]), (18, SwitchByteVector [0x44])],
     sr_attestation_cert_chain = \<lparr>xc_certs = [25, 25], xc_type = GPU_DEVICE_IDENTITY, xc_trust_store = Some 0\<rparr>\<rparr>"

definition demo_switch_verifier :: "(nat, string, (string \<times> string) list, unit, unit) verifier" where
  "demo_switch_verifier = demo_verifier\<lparr>
     lv_xml := demo_rim_xml\<lparr>get_prop := (\<lambda>n a. if a = ''colloquialVersion'' then Some (string_of_bytes [1, 2]) else map_of n a)\<rparr>,
     lv_rim_store := (\<lambda>r i. (Inr \<lparr>rd_rim_id = i, rd_doc = ''A'', rd_rim_data = ''''\<rparr>, r))\<rparr>"

lemma demo_switch_parsed: "switch_parsed_report demo_x509 [] demo_switch_evidence = Inr demo_switch_report"
proof -
  let ?rq = "encode_request demo_gpu_request" and ?rs = "encode_response demo_gpu_response"
  have wf: "wf_buffer ?rq" "wf_buffer ?rs" by (simp_all add: wf_buffer_def length_demo_report)
  have "parse_request ?rq = Inr demo_gpu_request" by (rule request.dec_enc [OF valid_demo_gpu_request wf(1)])
  moreover have "parse_response ?rs 96 = Inr demo_gpu_response"
    by (rule response.dec_enc [OF valid_demo_gpu_response wf(2)])
  moreover have "create_from_cert_chain_str demo_x509 NVSWITCH_DEVICE_IDENTITY [] (END_CERTIFICATE @ END_CERTIFICATE)
     = Inr (sr_attestation_cert_chain demo_switch_report)"
    by code_simp
  moreover have "switch_parser_create (resp_parsed_opaque_data demo_gpu_response)
     = Inr (sr_switch_opaque_data_parser demo_switch_report)"
    by code_simp
  moreover have "verify_signature_pkcs11 demo_x509 (sr_attestation_cert_chain demo_switch_report) d sig md = Inr ()"
    if "length sig = 96" for d sig md
    using that by (simp add: verify_signature_pkcs11_def verify_signature_def demo_x509_def demo_switch_report_def ret_def)
  ultimately show ?thesis
    using length_demo_report
    by (simp add: switch_parsed_report_def switch_report_create_def demo_switch_evidence_def
        switch_arch_data_ok switch_architecture_data_create_def supported_switch_architectures_def kRequestLength_def
        Let_def) (simp add: demo_switch_report_def ret_def)
qed

lemma demo_switch_verified: "is_ok (fst (verify_switch_item demo_switch_verifier demo_policy demo_switch_evidence ((), ())))"
proof -
  have sel: "lv_x509 demo_switch_verifier = demo_x509" "lv_device_root_cert demo_switch_verifier = []"
    by (simp_all add: demo_switch_verifier_def demo_verifier_def)
  show ?thesis
    unfolding verify_switch_item_def sel demo_switch_parsed pure_bind by code_simp
qed

theorem switch_claims_justified_witness:
  "\<exists>c s'. verify_switch_item demo_switch_verifier demo_policy demo_switch_evidence ((), ()) = (Inr c, s')
    \<and> sw_nonce c = to_hex_string (replicate 32 7)
    \<and> (\<exists>rim. rim_accepted demo_switch_verifier demo_policy rim (sw_bios_rim_cert_chain c))"
proof -
  obtain c s' where call: "verify_switch_item demo_switch_verifier demo_policy demo_switch_evidence ((), ()) = (Inr c, s')"
    using is_ok_step [OF demo_switch_verified] by blast
  have "wf_buffer (sv_attestation_report demo_switch_evidence)"
    by (simp add: wf_buffer_def demo_switch_evidence_def length_demo_report)
  then have "sw_nonce c = to_hex_string (sv_nonce demo_switch_evidence)"
    "\<exists>rim. rim_accepted demo_switch_verifier demo_policy rim (sw_bios_rim_cert_chain c)"
    using switch_claims_justified [OF _ call] by blast+
  moreover have "sv_nonce demo_switch_evidence = replicate 32 7" by (simp add: demo_switch_evidence_def)
  ultimately show ?thesis using call by metis
qed

end
