(* ===== verification/Nras.thy ===== *)
theory Nras
  imports Jwk_Store Switch_Verify
begin

text \<open>
  Remote verification by the attestation service (\<^verbatim>\<open>src/verify.cpp\<close>, and \<^verbatim>\<open>NvRemoteGpuVerifier\<close> and
  \<^verbatim>\<open>NvRemoteSwitchVerifier\<close> in \<^verbatim>\<open>src/gpu/verify.cpp\<close> and \<^verbatim>\<open>src/switch/verify.cpp\<close>): the request, the
  validation of the detached token that comes back, the service's error claims and the claims that
  are handed to the caller.  The two verifiers repeat the same function body, which is modelled once.
  A map that is iterated is an association list, in one of its possible orders.
\<close>

section \<open>The request\<close>

record nras_request =
  nq_nonce :: string
  nq_arch :: string
  nq_claims_version :: string
  nq_evidence_list :: "(string \<times> string) list"

definition nras_request_to_json :: "nras_request \<Rightarrow> json" where
  "nras_request_to_json q = JObject
     [(''nonce'', JString (nq_nonce q)), (''arch'', JString (nq_arch q)),
      (''claims_version'', JString (nq_claims_version q)),
      (''evidence_list'', JArray (map (\<lambda>(e, c). JObject [(''evidence'', JString e), (''certificate'', JString c)])
         (nq_evidence_list q)))]"

text \<open>The report and the chain of one piece of evidence, encoded.\<close>

definition encode_evidence :: "(buffer \<Rightarrow> string option) \<Rightarrow> buffer \<times> string \<Rightarrow> (string \<times> string) outcome" where
  "encode_evidence b64_encode ev =
     bind (encode_base64 b64_encode (fst ev)) (\<lambda>e.
     bind (encode_base64_string b64_encode (snd ev)) (\<lambda>c. ret (e, c)))"

section \<open>The detached token\<close>

text \<open>One pass of the loop over the digests of the overall token.\<close>

definition submod_check ::
  "('j, 'k) jwt_api \<Rightarrow> 'w network \<Rightarrow> (string \<Rightarrow> json outcome) \<Rightarrow> (string \<Rightarrow> buffer option) \<Rightarrow> string
    \<Rightarrow> (string \<times> string) list \<Rightarrow> string \<times> string \<Rightarrow> ('w \<times> jwk_store, string) step" where
  "submod_check api net parse sha256 eat_issuer tokens item =
     (case map_of tokens (fst item) of
        None \<Rightarrow> pure (fail NrasTokenInvalid)
      | Some jwt \<Rightarrow>
          sbind (validate_and_decode api net parse eat_issuer jwt) (\<lambda>claims_payload.
          sbind (pure (compute_sha256_hex sha256 jwt)) (\<lambda>digest.
          pure (guard NrasTokenInvalid (digest = snd item) (ret claims_payload)))))"

fun submods_loop ::
  "('j, 'k) jwt_api \<Rightarrow> 'w network \<Rightarrow> (string \<Rightarrow> json outcome) \<Rightarrow> (string \<Rightarrow> buffer option) \<Rightarrow> string
    \<Rightarrow> (string \<times> string) list \<Rightarrow> (string \<times> string) list \<Rightarrow> (string \<times> string) list
    \<Rightarrow> ('w \<times> jwk_store, (string \<times> string) list) step" where
  "submods_loop api net parse sha256 eat_issuer tokens [] claims = pure (ret claims)"
| "submods_loop api net parse sha256 eat_issuer tokens (item # items) claims =
     sbind (submod_check api net parse sha256 eat_issuer tokens item) (\<lambda>payload.
     submods_loop api net parse sha256 eat_issuer tokens items
       (insert_entry (fst item, payload) claims))"

text \<open>The nonce of the token, the payloads of the devices, and the overall result.\<close>

definition validate_and_decode_EAT ::
  "('j, 'k) jwt_api \<Rightarrow> 'w network \<Rightarrow> (string \<Rightarrow> json outcome) \<Rightarrow> (string \<Rightarrow> buffer option) \<Rightarrow> string
    \<Rightarrow> detached_eat \<Rightarrow> ('w \<times> jwk_store, buffer \<times> (string \<times> string) list \<times> bool) step" where
  "validate_and_decode_EAT api net parse sha256 eat_issuer eat =
     sbind (validate_and_decode api net parse eat_issuer (de_overall_jwt_token eat)) (\<lambda>payload.
     sbind (pure (deserialize_from_json parse overall_from_json payload)) (\<lambda>overall.
     sbind (pure (guard NrasTokenInvalid (ov_eat_nonce overall \<noteq> []) (ret ()))) (\<lambda>_.
     sbind (submods_loop api net parse sha256 eat_issuer (de_device_jwt_tokens eat) (ov_submod_digests overall) []) (\<lambda>claims.
     pure (guard NrasTokenInvalid (length (ov_submod_digests overall) = length (de_device_jwt_tokens eat))
       (ret (hex_string_to_bytes (ov_eat_nonce overall), claims, ov_overall_result overall)))))))"

section \<open>Error claims of the service\<close>

record nras_error_claim =
  ne_code :: int
  ne_http_status :: string
  ne_description :: string
  ne_message :: string

definition nras_error_claim_from_json :: "json \<Rightarrow> nras_error_claim outcome" where
  "nras_error_claim_from_json j =
     bind (bind (json_at j ''code'') get_int) (\<lambda>code.
     bind (member_string j ''httpStatus'') (\<lambda>http_status.
     bind (member_string j ''description'') (\<lambda>description.
     bind (member_string j ''message'') (\<lambda>message.
     ret \<lparr>ne_code = code, ne_http_status = http_status, ne_description = description, ne_message = message\<rparr>))))"

datatype nvat_device = NVAT_DEVICE_GPU | NVAT_DEVICE_NVSWITCH

definition device_error :: "nvat_device \<Rightarrow> error \<Rightarrow> error \<Rightarrow> error" where
  "device_error device gpu_error switch_error =
     (case device of NVAT_DEVICE_GPU \<Rightarrow> gpu_error | NVAT_DEVICE_NVSWITCH \<Rightarrow> switch_error)"

text \<open>The error code of the service decides; an error claim that cannot be read throws.\<close>

definition handle_nras_error_claim :: "json \<Rightarrow> nvat_device \<Rightarrow> evidence_policy \<Rightarrow> unit outcome" where
  "handle_nras_error_claim nras_claims device policy =
     (if \<not> json_contains nras_claims ''x-nvidia-error-details'' \<or> json_at nras_claims ''x-nvidia-error-details'' = Inr JNull
      then ret ()
      else bind (bind (json_at nras_claims ''x-nvidia-error-details'') nras_error_claim_from_json) (\<lambda>e.
        if ne_code e \<in> {4003, 4010}
        then fail (device_error device GpuEvidenceNonceMismatch SwitchEvidenceNonceMismatch)
        else if ne_code e \<in> {4007, 4014, 4015} then fail CertChainVerificationFailure
        else if ne_code e = 4013
        then fail (device_error device GpuEvidenceInvalidSignature SwitchEvidenceInvalidSignature)
        else if ne_code e = 5013
        then (if verify_rim_signature policy then fail RimInvalidSignature else ret ())
        else fail InternalError))"

section \<open>The remote verifiers\<close>

record remote_verifier =
  rv_nras_url :: string
  rv_eat_issuer :: string
  rv_http_client :: http_client
  rv_jwks_url :: string

definition NRAS_DEFAULT_BASE_URL :: string where
  "NRAS_DEFAULT_BASE_URL = ''https://nras.attestation.nvidia.com''"

text \<open>\<^verbatim>\<open>init_from_env\<close> with the path of the device type; the key store starts empty.\<close>

definition remote_init_from_env ::
  "(string \<Rightarrow> string option) \<Rightarrow> string \<Rightarrow> string option \<Rightarrow> string \<Rightarrow> http_options \<Rightarrow> remote_verifier \<times> jwk_store" where
  "remote_init_from_env env path nras_url service_key http_options =
     (let base = (case nras_url of
            None \<Rightarrow> get_env_or_default env ''NVAT_NRAS_BASE_URL'' NRAS_DEFAULT_BASE_URL
          | Some u \<Rightarrow> if u = [] then get_env_or_default env ''NVAT_NRAS_BASE_URL'' NRAS_DEFAULT_BASE_URL else u);
          client = \<lparr>hc_options = http_options, hc_service_key = service_key\<rparr>;
          jwks_url = base @ ''/.well-known/jwks.json'' in
      (\<lparr>rv_nras_url = base @ path, rv_eat_issuer = base, rv_http_client = client, rv_jwks_url = jwks_url\<rparr>,
       jwk_store_init jwks_url client DEFAULT_JWKS_CACHE_DURATION_MS))"

text \<open>What the verifier calls: the JWT library, the network, JSON, SHA-256 and base64.\<close>

record ('j, 'k, 'w) nras_env =
  ne_jwt :: "('j, 'k) jwt_api"
  ne_network :: "'w network"
  ne_dump :: "json \<Rightarrow> string outcome"
  ne_parse :: "string \<Rightarrow> json outcome"
  ne_sha256 :: "string \<Rightarrow> buffer option"
  ne_b64_encode :: "buffer \<Rightarrow> string option"

definition nras_payload ::
  "('j, 'k, 'w) nras_env \<Rightarrow> string \<Rightarrow> string \<Rightarrow> string \<Rightarrow> (buffer \<times> string) list \<Rightarrow> string outcome" where
  "nras_payload env nonce arch claims_version evidence =
     bind (traverse (encode_evidence (ne_b64_encode env)) evidence) (\<lambda>evidence_list.
     serialize_to_json (ne_dump env) (\<lambda>q. ret (nras_request_to_json q))
       \<lparr>nq_nonce = nonce, nq_arch = arch, nq_claims_version = claims_version, nq_evidence_list = evidence_list\<rparr>)"

definition nras_http_request :: "remote_verifier \<Rightarrow> string \<Rightarrow> nv_request" where
  "nras_http_request v payload = \<lparr>nr_url = rv_nras_url v, nr_method = HTTP_METHOD_POST,
     nr_headers = [(''Content-Type'', ''application/json'')], nr_payload = payload\<rparr>"

definition post_evidence :: "('j, 'k, 'w) nras_env \<Rightarrow> remote_verifier \<Rightarrow> string \<Rightarrow> ('w \<times> jwk_store, string) step" where
  "post_evidence env v payload s =
     (bind (do_request_as_string (nw_perform (ne_network env) (fst s)) (rv_http_client v) (nras_http_request v payload))
        (\<lambda>(status, response).
           if status \<noteq> 200 then
             (if status = 403 \<or> status = 401 then fail NrasForbidden else fail NrasAttestationError)
           else ret response),
      (nw_next (ne_network env) (fst s), snd s))"

text \<open>The steps up to the comparison of the nonces.\<close>

definition nras_exchange ::
  "('j, 'k, 'w) nras_env \<Rightarrow> remote_verifier \<Rightarrow> buffer \<Rightarrow> string \<Rightarrow> string \<Rightarrow> (buffer \<times> string) list
    \<Rightarrow> ('w \<times> jwk_store, string \<times> (string \<times> string) list \<times> bool) step" where
  "nras_exchange env v nonce arch claims_version evidence =
     sbind (pure (nras_payload env (to_hex_string nonce) arch claims_version evidence)) (\<lambda>payload.
     sbind (post_evidence env v payload) (\<lambda>response.
     sbind (pure (deserialize_from_json (ne_parse env) detached_eat_from_json response)) (\<lambda>eat.
     sbind (validate_and_decode_EAT (ne_jwt env) (ne_network env) (ne_parse env) (ne_sha256 env) (rv_eat_issuer v) eat)
       (\<lambda>(eat_nonce, claims, overall_result).
     pure (guard NrasTokenInvalid (eat_nonce = nonce) (ret (response, claims, overall_result)))))))"

text \<open>The claims of one device; the loop keeps what it appended when a later payload fails.\<close>

definition nras_claims_of_payload ::
  "('j, 'k, 'w) nras_env \<Rightarrow> (json \<Rightarrow> claims outcome) \<Rightarrow> nvat_device \<Rightarrow> evidence_policy \<Rightarrow> string \<Rightarrow> claims outcome" where
  "nras_claims_of_payload env from_json device policy payload =
     bind (deserialize_from_json (ne_parse env) ret payload) (\<lambda>nras_claims.
     bind (handle_nras_error_claim nras_claims device policy) (\<lambda>_.
     deserialize_from_json_object from_json nras_claims))"

fun nras_claims_loop ::
  "('j, 'k, 'w) nras_env \<Rightarrow> (json \<Rightarrow> claims outcome) \<Rightarrow> nvat_device \<Rightarrow> evidence_policy \<Rightarrow> (string \<times> string) list
    \<Rightarrow> claims list \<Rightarrow> unit outcome \<times> claims list" where
  "nras_claims_loop env from_json device policy [] out = (ret (), out)"
| "nras_claims_loop env from_json device policy (item # items) out =
     (case nras_claims_of_payload env from_json device policy (snd item) of
        Inl f \<Rightarrow> (Inl f, out)
      | Inr c \<Rightarrow> nras_claims_loop env from_json device policy items (out @ [c]))"

definition nras_verify ::
  "('j, 'k, 'w) nras_env \<Rightarrow> remote_verifier \<Rightarrow> (json \<Rightarrow> claims outcome) \<Rightarrow> nvat_device \<Rightarrow> evidence_policy
    \<Rightarrow> buffer \<Rightarrow> string \<Rightarrow> string \<Rightarrow> (buffer \<times> string) list \<Rightarrow> bool \<Rightarrow> claims list \<Rightarrow> 'w \<times> jwk_store
    \<Rightarrow> unit outcome \<times> string option \<times> claims list \<times> ('w \<times> jwk_store)" where
  "nras_verify env v from_json device policy nonce arch claims_version evidence want_eat out s =
     (case nras_exchange env v nonce arch claims_version evidence s of
        (Inl f, s') \<Rightarrow> (Inl f, None, out, s')
      | (Inr (response, claims, overall_result), s') \<Rightarrow>
          (case nras_claims_loop env from_json device policy claims [] of
             (Inl f, out') \<Rightarrow> (Inl f, None, out', s')
           | (Inr _, out') \<Rightarrow>
               (if overall_result then ret () else fail OverallResultFalse,
                if want_eat then Some response else None, out', s')))"

definition remote_gpu_verify_evidence ::
  "('j, 'k, 'w) nras_env \<Rightarrow> remote_verifier \<Rightarrow> gpu_evidence list \<Rightarrow> evidence_policy \<Rightarrow> bool \<Rightarrow> claims list \<Rightarrow> 'w \<times> jwk_store
    \<Rightarrow> unit outcome \<times> string option \<times> claims list \<times> ('w \<times> jwk_store)" where
  "remote_gpu_verify_evidence env v evs policy want_eat out s =
     (case evs of
        [] \<Rightarrow> (fail BadArgument, None, out, s)
      | ev # _ \<Rightarrow>
          nras_verify env v (\<lambda>j. bind (gpu_claims_from_json j) (\<lambda>c. ret (GpuClaims c))) NVAT_DEVICE_GPU policy
            (ge_nonce ev) (gpu_architecture_to_string (ge_gpu_architecture ev)) (gpu_claims_version_to_string GpuClaimsV3)
            (map (\<lambda>ev. (ge_attestation_report ev, ge_attestation_cert_chain ev)) evs) want_eat out s)"

definition remote_switch_verify_evidence ::
  "('j, 'k, 'w) nras_env \<Rightarrow> remote_verifier \<Rightarrow> switch_evidence list \<Rightarrow> evidence_policy \<Rightarrow> bool \<Rightarrow> claims list \<Rightarrow> 'w \<times> jwk_store
    \<Rightarrow> unit outcome \<times> string option \<times> claims list \<times> ('w \<times> jwk_store)" where
  "remote_switch_verify_evidence env v evs policy want_eat out s =
     (case evs of
        [] \<Rightarrow> (fail BadArgument, None, out, s)
      | ev # _ \<Rightarrow>
          nras_verify env v (\<lambda>j. bind (switch_claims_from_json j) (\<lambda>c. ret (SwitchClaims c))) NVAT_DEVICE_NVSWITCH policy
            (sv_nonce ev) (switch_architecture_to_string (sv_switch_architecture ev)) (switch_claims_version_to_string SwitchClaimsV3)
            (map (\<lambda>ev. (sv_attestation_report ev, sv_attestation_cert_chain ev)) evs) want_eat out s)"

section \<open>What accepted claims rest on\<close>

text \<open>A device token that belongs to a digest of the overall token, with its payload.\<close>

definition device_token_ok ::
  "('j, 'k) jwt_api \<Rightarrow> 'w network \<Rightarrow> (string \<Rightarrow> json outcome) \<Rightarrow> (string \<Rightarrow> buffer option) \<Rightarrow> string
    \<Rightarrow> (string \<times> string) list \<Rightarrow> string \<times> string \<Rightarrow> string \<Rightarrow> bool" where
  "device_token_ok api net parse sha256 eat_issuer tokens item payload \<longleftrightarrow>
     (\<exists>jwt. map_of tokens (fst item) = Some jwt \<and> compute_sha256_hex sha256 jwt = Inr (snd item)
        \<and> token_valid api net parse eat_issuer jwt payload)"

lemma submod_check_ok:
  "submod_check api net parse sha256 eat_issuer tokens item s = (Inr p, s')
    \<Longrightarrow> device_token_ok api net parse sha256 eat_issuer tokens item p"
  by (auto simp: submod_check_def device_token_ok_def step_simps guard_eq_Inr ret_eq fail_def
      split: option.splits dest: validate_and_decode_ok)

lemma submods_loop_ok:
  assumes "submods_loop api net parse sha256 eat_issuer tokens items claims s = (Inr r, s')"
    and "distinct (map fst claims @ map fst items)"
  shows "\<exists>ps. r = claims @ zip (map fst items) ps
    \<and> list_all2 (device_token_ok api net parse sha256 eat_issuer tokens) items ps"
  using assms
proof (induction items arbitrary: claims s)
  case Nil
  then show ?case by (simp add: step_simps ret_eq)
next
  case (Cons item items)
  obtain p u where p: "submod_check api net parse sha256 eat_issuer tokens item s = (Inr p, u)"
    and rest: "submods_loop api net parse sha256 eat_issuer tokens items (insert_entry (fst item, p) claims) u = (Inr r, s')"
    using Cons.prems(1) by (auto simp: step_simps)
  have "map_of claims (fst item) = None" using Cons.prems(2) by (auto simp: map_of_eq_None_iff)
  then have new: "insert_entry (fst item, p) claims = claims @ [(fst item, p)]" by (simp add: insert_entry_def)
  obtain ps where "r = (claims @ [(fst item, p)]) @ zip (map fst items) ps"
    and "list_all2 (device_token_ok api net parse sha256 eat_issuer tokens) items ps"
    using Cons.IH [OF rest [unfolded new]] Cons.prems(2) by auto
  then show ?case using submod_check_ok [OF p] by (intro exI [of _ "p # ps"]) simp
qed

lemma nras_claims_loop_ok:
  assumes "nras_claims_loop env from_json device policy items out = (Inr u, out')"
  shows "\<exists>cs. out' = out @ cs
    \<and> list_all2 (\<lambda>item c. nras_claims_of_payload env from_json device policy (snd item) = Inr c) items cs"
  using assms
proof (induction items arbitrary: out)
  case (Cons item items)
  then obtain c where c: "nras_claims_of_payload env from_json device policy (snd item) = Inr c"
    and "nras_claims_loop env from_json device policy items (out @ [c]) = (Inr u, out')"
    by (auto split: sum.splits)
  from Cons.IH [OF this(2)] obtain cs where "out' = (out @ [c]) @ cs"
    and "list_all2 (\<lambda>item c. nras_claims_of_payload env from_json device policy (snd item) = Inr c) items cs" by blast
  then show ?case using c by (intro exI [of _ "c # cs"]) simp
qed simp

lemma deserialize_conv_ok: "deserialize_from_json parse conv t = Inr x \<longleftrightarrow> (\<exists>j. parse t = Inr j \<and> conv j = Inr x)"
  by (auto simp: deserialize_from_json_def catch_all_def outcome_simps bind_def split: sum.splits failure.splits)

lemma deserialize_object_ok: "deserialize_from_json_object conv j = Inr x \<longleftrightarrow> conv j = Inr x"
  by (auto simp: deserialize_from_json_object_def catch_all_def fail_def split: sum.splits failure.splits)

lemma nras_claims_of_payload_ok:
  "nras_claims_of_payload env from_json device policy p = Inr c \<longleftrightarrow>
     (\<exists>j. ne_parse env p = Inr j \<and> handle_nras_error_claim j device policy = Inr () \<and> from_json j = Inr c)"
  by (simp add: nras_claims_of_payload_def bind_eq_Inr deserialize_ok deserialize_object_ok)

text \<open>The claims of the service for a device, and the token they were taken from.\<close>

definition nras_claims_ok ::
  "('j, 'k, 'w) nras_env \<Rightarrow> remote_verifier \<Rightarrow> (json \<Rightarrow> claims outcome) \<Rightarrow> nvat_device \<Rightarrow> evidence_policy
    \<Rightarrow> (string \<times> string) list \<Rightarrow> string \<times> string \<Rightarrow> claims \<Rightarrow> bool" where
  "nras_claims_ok env v from_json device policy tokens item c \<longleftrightarrow>
     (\<exists>p j. device_token_ok (ne_jwt env) (ne_network env) (ne_parse env) (ne_sha256 env) (rv_eat_issuer v) tokens item p
        \<and> ne_parse env p = Inr j \<and> handle_nras_error_claim j device policy = Inr () \<and> from_json j = Inr c)"

lemma payloads_and_claims:
  assumes "list_all2 (device_token_ok api net parse sha256 iss tokens) items ps"
    and "list_all2 (\<lambda>item c. nras_claims_of_payload env from_json device policy (snd item) = Inr c) (zip (map fst items) ps) cs"
    and "api = ne_jwt env" "net = ne_network env" "parse = ne_parse env" "sha256 = ne_sha256 env" "iss = rv_eat_issuer v"
  shows "list_all2 (nras_claims_ok env v from_json device policy tokens) items cs"
  using assms(1,2)
proof (induction items ps arbitrary: cs rule: list_all2_induct)
  case (Cons item items p ps)
  then obtain c cs' where "cs = c # cs'" "nras_claims_of_payload env from_json device policy p = Inr c"
    and "list_all2 (\<lambda>item c. nras_claims_of_payload env from_json device policy (snd item) = Inr c) (zip (map fst items) ps) cs'"
    by (auto simp: list_all2_Cons1)
  then show ?case
    using Cons.IH Cons.hyps unfolding nras_claims_of_payload_ok nras_claims_ok_def assms(3-7) by auto
qed simp

lemma validate_EAT_ok:
  assumes "validate_and_decode_EAT api net parse sha256 iss eat s = (Inr (n, claims, result), s')"
  obtains payload overall ps where "token_valid api net parse iss (de_overall_jwt_token eat) payload"
    "deserialize_from_json parse overall_from_json payload = Inr overall"
    "n = hex_string_to_bytes (ov_eat_nonce overall)" "ov_eat_nonce overall \<noteq> []" "result = ov_overall_result overall"
    "claims = zip (map fst (ov_submod_digests overall)) ps"
    "list_all2 (device_token_ok api net parse sha256 iss (de_device_jwt_tokens eat)) (ov_submod_digests overall) ps"
    "length (ov_submod_digests overall) = length (de_device_jwt_tokens eat)"
proof -
  obtain payload overall u u' where v: "validate_and_decode api net parse iss (de_overall_jwt_token eat) s = (Inr payload, u)"
    and ov: "deserialize_from_json parse overall_from_json payload = Inr overall"
    and loop: "submods_loop api net parse sha256 iss (de_device_jwt_tokens eat) (ov_submod_digests overall) [] u = (Inr claims, u')"
    and rest: "ov_eat_nonce overall \<noteq> []" "n = hex_string_to_bytes (ov_eat_nonce overall)" "result = ov_overall_result overall"
      "length (ov_submod_digests overall) = length (de_device_jwt_tokens eat)"
    using assms unfolding validate_and_decode_EAT_def step_simps guard_eq_Inr ret_eq by blast
  have "distinct (map fst (ov_submod_digests overall))"
    using ov by (auto simp: deserialize_conv_ok overall_from_json_def outcome_simps distinct_fold_assign)
  then obtain ps where "claims = zip (map fst (ov_submod_digests overall)) ps"
    "list_all2 (device_token_ok api net parse sha256 iss (de_device_jwt_tokens eat)) (ov_submod_digests overall) ps"
    using submods_loop_ok [OF loop] by auto
  then show thesis using that [OF validate_and_decode_ok [OF v] ov] rest by blast
qed


section \<open>A concrete exchange\<close>

text \<open>Tokens are named by one letter; the service answers with one device.\<close>

definition demo_device_payload :: json where
  "demo_device_payload = JObject ((''iss'', JString ''i'') # (case gpu_claims_to_json new_gpu_claims of JObject m \<Rightarrow> m | _ \<Rightarrow> []))"

definition demo_nras_parse :: "string \<Rightarrow> json outcome" where
  "demo_nras_parse t =
     (if t = ''R'' then Inr (detached_eat_to_json \<lparr>de_overall_jwt_token = ''O'', de_device_jwt_tokens = [(''GPU-0'', ''D'')]\<rparr>)
      else if t = ''H'' then Inr (JObject [(''kid'', JString ''a'')])
      else if t = ''O'' then Inr (overall_to_json \<lparr>ov_sub = ''s'', ov_common = \<lparr>ea_iat = 1, ea_exp = 2, ea_iss = ''i'', ea_jti = ''j''\<rparr>,
        ov_claims_version = ''3.0'', ov_submod_digests = [(''GPU-0'', ''01'')], ov_overall_result = True, ov_eat_nonce = ''07''\<rparr>)
      else if t = ''D'' then Inr demo_device_payload
      else Inr demo_jwks)"

definition demo_nras_env :: "(string, string, nat) nras_env" where
  "demo_nras_env = \<lparr>ne_jwt = \<lparr>jwt_decode = Inr, jwt_header = (\<lambda>t. ''H''), jwt_payload = (\<lambda>t. t), jwt_es384 = Inr, jwt_verify = (\<lambda>k t. True)\<rparr>,
     ne_network = \<lparr>nw_now_ms = int, nw_perform = (\<lambda>w c i. Performed 200 (if cs_method c = ''POST'' then ''R'' else ''K'')), nw_next = Suc\<rparr>,
     ne_dump = (\<lambda>j. Inr ''Q''), ne_parse = demo_nras_parse, ne_sha256 = (\<lambda>t. Some [1]), ne_b64_encode = (\<lambda>bs. Some (to_hex_string bs))\<rparr>"

definition demo_nras_verifier :: "remote_verifier \<times> jwk_store" where
  "demo_nras_verifier = remote_init_from_env (\<lambda>n. None) ''/v4/attest/gpu'' (Some ''i'') [] (hc_options demo_client)"

abbreviation demo_gpu_from_json :: "json \<Rightarrow> claims outcome" where
  "demo_gpu_from_json \<equiv> \<lambda>j. bind (gpu_claims_from_json j) (\<lambda>c. ret (GpuClaims c))"

lemma demo_remote_verified:
  "is_ok (fst (nras_verify demo_nras_env (fst demo_nras_verifier) demo_gpu_from_json NVAT_DEVICE_GPU demo_policy [7] ''HOPPER'' ''3.0''
     [([1, 2, 3], ''pem'')] True [] (0, snd demo_nras_verifier)))"
  by code_simp


end
