(* ===== verification/Attestation.thy ===== *)
theory Attestation
  imports Nras
begin

text \<open>
  The attestation context (\<^verbatim>\<open>AttestationContext\<close> in \<^verbatim>\<open>src/attestation.cpp\<close>): the settings, the objects that are
  created from them on first use, and the attestation of the selected device type.  A shared pointer
  is a reference: either an object the caller supplied, by its identity, or an object the context
  created, by what it was created from.
\<close>

section \<open>References and state\<close>

datatype rim_store_ref = GivenRimStore nat | NvRemoteRimStore string http_client

datatype ocsp_client_ref = GivenOcspClient nat | NvHttpOcspClient string http_client

datatype verifier_ref =
    GivenVerifier nat
  | LocalVerifier rim_store_ref ocsp_client_ref eat_options
  | RemoteVerifier remote_verifier

datatype gpu_source_ref =
    GivenGpuSource nat | NvmlEvidenceCollector | CorelibEvidenceCollector gpu_architecture | GpuJsonFileSource "gpu_evidence list"

datatype switch_source_ref = GivenSwitchSource nat | NscqEvidenceCollector | SwitchJsonFileSource "switch_evidence list"

datatype verifier_type = LocalType | RemoteType

record attestation_ctx =
  ac_default_verifier_type :: verifier_type
  ac_default_http_options :: http_options
  ac_default_ocsp_client :: "ocsp_client_ref option"
  ac_default_ocsp_url :: string
  ac_default_rim_store :: "rim_store_ref option"
  ac_default_rim_store_url :: string
  ac_gpu_enabled :: bool
  ac_gpu_evidence_source :: "gpu_source_ref option"
  ac_gpu_verifier :: "verifier_ref option"
  ac_switch_enabled :: bool
  ac_switch_evidence_source :: "switch_source_ref option"
  ac_switch_verifier :: "verifier_ref option"
  ac_default_nras_url :: string
  ac_evidence_policy :: evidence_policy
  ac_claims_evaluator :: "nat option"
  ac_eat_options :: eat_options
  ac_service_key :: string

definition default_evidence_policy :: evidence_policy where
  "default_evidence_policy = \<lparr>ep_gpu_claims_version = GpuClaimsV3, ep_switch_claims_version = SwitchClaimsV3,
     verify_rim_signature = True, verify_rim_cert_chain = True\<rparr>"

definition new_context :: "http_options \<Rightarrow> attestation_ctx" where
  "new_context options = \<lparr>ac_default_verifier_type = RemoteType, ac_default_http_options = options,
     ac_default_ocsp_client = None, ac_default_ocsp_url = [], ac_default_rim_store = None, ac_default_rim_store_url = [],
     ac_gpu_enabled = True, ac_gpu_evidence_source = None, ac_gpu_verifier = None,
     ac_switch_enabled = False, ac_switch_evidence_source = None, ac_switch_verifier = None,
     ac_default_nras_url = [], ac_evidence_policy = default_evidence_policy, ac_claims_evaluator = None,
     ac_eat_options = default_eat_options, ac_service_key = []\<rparr>"

section \<open>Settings\<close>

text \<open>Device types 0 and 1 are the GPU and the switch; any other value changes nothing.\<close>

definition set_device_type :: "u32 \<Rightarrow> attestation_ctx \<Rightarrow> attestation_ctx" where
  "set_device_type device_type c =
     (if device_type \<noteq> 0 \<and> device_type \<noteq> 1 then c
      else c\<lparr>ac_gpu_enabled := device_type = 0, ac_switch_enabled := device_type = 1\<rparr>)"

definition wipe_verifiers :: "attestation_ctx \<Rightarrow> attestation_ctx" where
  "wipe_verifiers c = c\<lparr>ac_gpu_verifier := None, ac_switch_verifier := None\<rparr>"

definition set_verifier_type :: "verifier_type \<Rightarrow> attestation_ctx \<Rightarrow> attestation_ctx" where
  "set_verifier_type ty c =
     (if ac_default_verifier_type c \<noteq> ty then wipe_verifiers c else c)\<lparr>ac_default_verifier_type := ty\<rparr>"

definition set_default_http_options :: "http_options \<Rightarrow> attestation_ctx \<Rightarrow> attestation_ctx" where
  "set_default_http_options options c = c\<lparr>ac_default_http_options := options\<rparr>"

definition set_default_rim_store_url :: "string \<Rightarrow> attestation_ctx \<Rightarrow> attestation_ctx" where
  "set_default_rim_store_url url c =
     wipe_verifiers (c\<lparr>ac_default_rim_store_url := url, ac_default_rim_store := None\<rparr>)"

definition set_default_ocsp_url :: "string \<Rightarrow> attestation_ctx \<Rightarrow> attestation_ctx" where
  "set_default_ocsp_url url c =
     wipe_verifiers (c\<lparr>ac_default_ocsp_url := url, ac_default_ocsp_client := None\<rparr>)"

definition set_default_nras_url :: "string \<Rightarrow> attestation_ctx \<Rightarrow> attestation_ctx" where
  "set_default_nras_url url c = wipe_verifiers (c\<lparr>ac_default_nras_url := url\<rparr>)"

definition set_default_rim_store :: "nat option \<Rightarrow> attestation_ctx \<Rightarrow> attestation_ctx" where
  "set_default_rim_store store c = wipe_verifiers (c\<lparr>ac_default_rim_store := map_option GivenRimStore store\<rparr>)"

definition set_default_ocsp_client :: "nat option \<Rightarrow> attestation_ctx \<Rightarrow> attestation_ctx" where
  "set_default_ocsp_client client c = wipe_verifiers (c\<lparr>ac_default_ocsp_client := map_option GivenOcspClient client\<rparr>)"

definition set_evidence_policy :: "evidence_policy \<Rightarrow> attestation_ctx \<Rightarrow> attestation_ctx" where
  "set_evidence_policy policy c = wipe_verifiers (c\<lparr>ac_evidence_policy := policy\<rparr>)"

definition set_claims_evaluator :: "nat option \<Rightarrow> attestation_ctx \<Rightarrow> attestation_ctx" where
  "set_claims_evaluator evaluator c = c\<lparr>ac_claims_evaluator := evaluator\<rparr>"

definition set_gpu_evidence_source :: "nat option \<Rightarrow> attestation_ctx \<Rightarrow> attestation_ctx" where
  "set_gpu_evidence_source source c = c\<lparr>ac_gpu_evidence_source := map_option GivenGpuSource source\<rparr>"

definition set_switch_evidence_source :: "nat option \<Rightarrow> attestation_ctx \<Rightarrow> attestation_ctx" where
  "set_switch_evidence_source source c = c\<lparr>ac_switch_evidence_source := map_option GivenSwitchSource source\<rparr>"

text \<open>Reading evidence from a file; \<open>read_file\<close> is \<^verbatim>\<open>readFileIntoString\<close>.\<close>

definition gpu_json_file_source_create ::
  "(string \<Rightarrow> string outcome) \<Rightarrow> (string \<Rightarrow> json outcome) \<Rightarrow> (string \<Rightarrow> buffer option) \<Rightarrow> string \<Rightarrow> gpu_evidence list outcome" where
  "gpu_json_file_source_create read_file parse b64_decode file_path =
     guard BadArgument (file_path \<noteq> [])
     (bind (read_file file_path) (evidence_collection_from_json parse b64_decode))"

definition set_gpu_evidence_source_json_file ::
  "(string \<Rightarrow> string outcome) \<Rightarrow> (string \<Rightarrow> json outcome) \<Rightarrow> (string \<Rightarrow> buffer option) \<Rightarrow> string \<Rightarrow> (attestation_ctx, unit) step" where
  "set_gpu_evidence_source_json_file read_file parse b64_decode file_path c =
     (case gpu_json_file_source_create read_file parse b64_decode file_path of
        Inl f \<Rightarrow> (Inl f, c)
      | Inr evs \<Rightarrow> (ret (), c\<lparr>ac_gpu_evidence_source := Some (GpuJsonFileSource evs)\<rparr>))"

definition set_switch_evidence_source_json_file ::
  "(string \<Rightarrow> string outcome) \<Rightarrow> (string \<Rightarrow> json outcome) \<Rightarrow> (string \<Rightarrow> buffer option) \<Rightarrow> string \<Rightarrow> (attestation_ctx, unit) step" where
  "set_switch_evidence_source_json_file read_file parse b64_decode file_path c =
     (case switch_json_file_source_create read_file parse b64_decode file_path of
        Inl f \<Rightarrow> (Inl f, c)
      | Inr evs \<Rightarrow> (ret (), c\<lparr>ac_switch_evidence_source := Some (SwitchJsonFileSource evs)\<rparr>))"

definition set_gpu_verifier :: "nat option \<Rightarrow> attestation_ctx \<Rightarrow> attestation_ctx" where
  "set_gpu_verifier v c = c\<lparr>ac_gpu_verifier := map_option GivenVerifier v\<rparr>"

definition set_switch_verifier :: "nat option \<Rightarrow> attestation_ctx \<Rightarrow> attestation_ctx" where
  "set_switch_verifier v c = c\<lparr>ac_switch_verifier := map_option GivenVerifier v\<rparr>"

definition set_detached_eat_options :: "eat_options \<Rightarrow> attestation_ctx \<Rightarrow> attestation_ctx" where
  "set_detached_eat_options options c = wipe_verifiers (c\<lparr>ac_eat_options := options\<rparr>)"

definition set_service_key :: "string \<Rightarrow> attestation_ctx \<Rightarrow> attestation_ctx" where
  "set_service_key key c =
     wipe_verifiers (c\<lparr>ac_service_key := key, ac_default_rim_store := None, ac_default_ocsp_client := None\<rparr>)"

section \<open>Objects created on first use\<close>

text \<open>A URL that is not empty wins over the environment variable, and that over the default.\<close>

definition resolve_base_url :: "(string \<Rightarrow> string option) \<Rightarrow> string \<Rightarrow> string \<Rightarrow> string \<Rightarrow> string" where
  "resolve_base_url env url name default_url = (if url = [] then get_env_or_default env name default_url else url)"

definition RIM_DEFAULT_BASE_URL :: string where
  "RIM_DEFAULT_BASE_URL = ''https://rim.attestation.nvidia.com''"

definition OCSP_DEFAULT_BASE_URL :: string where
  "OCSP_DEFAULT_BASE_URL = ''https://ocsp.ndis.nvidia.com''"

definition rim_store_init_from_env :: "(string \<Rightarrow> string option) \<Rightarrow> string \<Rightarrow> string \<Rightarrow> http_options \<Rightarrow> rim_store_ref" where
  "rim_store_init_from_env env base_url service_key options =
     NvRemoteRimStore (resolve_base_url env base_url ''NVAT_RIM_SERVICE_BASE_URL'' RIM_DEFAULT_BASE_URL)
       \<lparr>hc_options = options, hc_service_key = service_key\<rparr>"

definition ocsp_client_init_from_env :: "(string \<Rightarrow> string option) \<Rightarrow> string \<Rightarrow> string \<Rightarrow> http_options \<Rightarrow> ocsp_client_ref" where
  "ocsp_client_init_from_env env base_url service_key options =
     NvHttpOcspClient (resolve_base_url env base_url ''NVAT_OCSP_BASE_URL'' OCSP_DEFAULT_BASE_URL)
       \<lparr>hc_options = options, hc_service_key = service_key\<rparr>"

text \<open>A local verifier checks that the store and the client it is given are not null.\<close>

definition create_verifier :: "(string \<Rightarrow> string option) \<Rightarrow> string \<Rightarrow> attestation_ctx \<Rightarrow> verifier_ref outcome" where
  "create_verifier env path c =
     (case ac_default_verifier_type c of
        LocalType \<Rightarrow>
          (case ac_default_rim_store c of
             None \<Rightarrow> fail BadArgument
           | Some store \<Rightarrow>
               (case ac_default_ocsp_client c of
                  None \<Rightarrow> fail BadArgument
                | Some client \<Rightarrow> ret (LocalVerifier store client (ac_eat_options c))))
      | RemoteType \<Rightarrow> ret (RemoteVerifier (fst (remote_init_from_env env path (Some (ac_default_nras_url c)) (ac_service_key c)
          (ac_default_http_options c)))))"

text \<open>Filling a null pointer; creating the HTTP client of the store and of the OCSP client cannot fail.\<close>

definition or_new :: "'a \<Rightarrow> 'a option \<Rightarrow> 'a" where
  "or_new x p = (case p of None \<Rightarrow> x | Some y \<Rightarrow> y)"

definition init_defaults :: "(string \<Rightarrow> string option) \<Rightarrow> attestation_ctx \<Rightarrow> attestation_ctx" where
  "init_defaults env c = c\<lparr>
     ac_default_rim_store := Some (or_new (rim_store_init_from_env env (ac_default_rim_store_url c) (ac_service_key c)
        (ac_default_http_options c)) (ac_default_rim_store c)),
     ac_default_ocsp_client := Some (or_new (ocsp_client_init_from_env env (ac_default_ocsp_url c) (ac_service_key c)
        (ac_default_http_options c)) (ac_default_ocsp_client c))\<rparr>"

definition init_gpu :: "(string \<Rightarrow> string option) \<Rightarrow> (attestation_ctx, unit) step" where
  "init_gpu env c =
     (if \<not> ac_gpu_enabled c then (ret (), c)
      else let c = c\<lparr>ac_gpu_evidence_source := Some (or_new NvmlEvidenceCollector (ac_gpu_evidence_source c))\<rparr> in
        (case ac_gpu_verifier c of
           Some _ \<Rightarrow> (ret (), c)
         | None \<Rightarrow>
             (case create_verifier env ''/v4/attest/gpu'' c of
                Inl f \<Rightarrow> (Inl f, c)
              | Inr v \<Rightarrow> (ret (), c\<lparr>ac_gpu_verifier := Some v\<rparr>))))"

definition init_switch :: "(string \<Rightarrow> string option) \<Rightarrow> (attestation_ctx, unit) step" where
  "init_switch env c =
     (if \<not> ac_switch_enabled c then (ret (), c)
      else let c = c\<lparr>ac_switch_evidence_source := Some (or_new NscqEvidenceCollector (ac_switch_evidence_source c))\<rparr> in
        (case ac_switch_verifier c of
           Some _ \<Rightarrow> (ret (), c)
         | None \<Rightarrow>
             (case create_verifier env ''/v4/attest/switch'' c of
                Inl f \<Rightarrow> (Inl f, c)
              | Inr v \<Rightarrow> (ret (), c\<lparr>ac_switch_verifier := Some v\<rparr>))))"

definition ensure_init :: "(string \<Rightarrow> string option) \<Rightarrow> (attestation_ctx, unit) step" where
  "ensure_init env c = sbind (init_gpu env) (\<lambda>_. init_switch env) (init_defaults env c)"

section \<open>Attestation\<close>

text \<open>The interfaces the context calls, over a state \<open>'w\<close> that the objects share.\<close>

record 'w attest_env =
  at_env :: "string \<Rightarrow> string option"
  at_rand_bytes :: "nat \<Rightarrow> 'w \<Rightarrow> buffer option \<times> 'w"
  at_gpu_source :: "gpu_source_ref \<Rightarrow> buffer \<Rightarrow> ('w, gpu_evidence list) step"
  at_switch_source :: "switch_source_ref \<Rightarrow> buffer \<Rightarrow> ('w, switch_evidence list) step"
  at_gpu_verify :: "verifier_ref \<Rightarrow> gpu_evidence list \<Rightarrow> evidence_policy \<Rightarrow> bool \<Rightarrow> claims list \<Rightarrow> 'w
    \<Rightarrow> unit outcome \<times> string option \<times> claims list \<times> 'w"
  at_switch_verify :: "verifier_ref \<Rightarrow> switch_evidence list \<Rightarrow> evidence_policy \<Rightarrow> bool \<Rightarrow> claims list \<Rightarrow> 'w
    \<Rightarrow> unit outcome \<times> string option \<times> claims list \<times> 'w"
  at_evaluate :: "nat \<Rightarrow> claims list \<Rightarrow> ('w, bool) step"

text \<open>The sources that read JSON files are those of the evidence theories; a null pointer is undefined.\<close>

definition get_gpu_evidence :: "'w attest_env \<Rightarrow> gpu_source_ref option \<Rightarrow> buffer \<Rightarrow> ('w, gpu_evidence list) step" where
  "get_gpu_evidence env src nonce =
     (case src of
        None \<Rightarrow> pure undefined_behaviour
      | Some (GpuJsonFileSource evs) \<Rightarrow> pure (json_source_get_evidence evs nonce)
      | Some r \<Rightarrow> at_gpu_source env r nonce)"

definition get_switch_evidence :: "'w attest_env \<Rightarrow> switch_source_ref option \<Rightarrow> buffer \<Rightarrow> ('w, switch_evidence list) step" where
  "get_switch_evidence env src nonce =
     (case src of
        None \<Rightarrow> pure undefined_behaviour
      | Some (SwitchJsonFileSource evs) \<Rightarrow> pure (switch_json_source_get_evidence evs nonce)
      | Some r \<Rightarrow> at_switch_source env r nonce)"

definition attest_gpus ::
  "'w attest_env \<Rightarrow> attestation_ctx \<Rightarrow> buffer \<Rightarrow> bool \<Rightarrow> claims list \<Rightarrow> 'w \<Rightarrow> unit outcome \<times> string option \<times> claims list \<times> 'w" where
  "attest_gpus env c nonce want_eat out w =
     (case get_gpu_evidence env (ac_gpu_evidence_source c) nonce w of
        (Inl f, w) \<Rightarrow> (Inl f, None, out, w)
      | (Inr evidence, w) \<Rightarrow>
          (case ac_gpu_verifier c of
             None \<Rightarrow> (undefined_behaviour, None, out, w)
           | Some v \<Rightarrow> at_gpu_verify env v evidence (ac_evidence_policy c) want_eat out w))"

definition attest_switches ::
  "'w attest_env \<Rightarrow> attestation_ctx \<Rightarrow> buffer \<Rightarrow> bool \<Rightarrow> claims list \<Rightarrow> 'w \<Rightarrow> unit outcome \<times> string option \<times> claims list \<times> 'w" where
  "attest_switches env c nonce want_eat out w =
     (case get_switch_evidence env (ac_switch_evidence_source c) nonce w of
        (Inl f, w) \<Rightarrow> (Inl f, None, out, w)
      | (Inr evidence, w) \<Rightarrow>
          (case ac_switch_verifier c of
             None \<Rightarrow> (undefined_behaviour, None, out, w)
           | Some v \<Rightarrow> at_switch_verify env v evidence (ac_evidence_policy c) want_eat out w))"

definition GPU_SPDM_REQ_NONCE_SIZE :: nat where
  "GPU_SPDM_REQ_NONCE_SIZE = 32"

text \<open>An empty nonce is replaced by random bytes.\<close>

definition choose_nonce :: "'w attest_env \<Rightarrow> buffer \<Rightarrow> ('w, buffer) step" where
  "choose_nonce env nonce w =
     (if nonce \<noteq> [] then (ret nonce, w)
      else case at_rand_bytes env GPU_SPDM_REQ_NONCE_SIZE w of
        (r, w) \<Rightarrow> (generate_nonce (\<lambda>n. r) (replicate GPU_SPDM_REQ_NONCE_SIZE 0), w))"

text \<open>
  The relying party's policy: it is asked when the verifier succeeded, and also when the overall
  result was false, which is then ignored.
\<close>

definition judge_claims :: "'w attest_env \<Rightarrow> nat option \<Rightarrow> unit outcome \<Rightarrow> claims list \<Rightarrow> ('w, unit) step" where
  "judge_claims env evaluator status claims w =
     (if status \<noteq> ret () \<and> (status \<noteq> fail OverallResultFalse \<or> evaluator = None) then (status, w)
      else case evaluator of
        None \<Rightarrow> (ret (), w)
      | Some e \<Rightarrow>
          (case at_evaluate env e claims w of
             (Inl f, w) \<Rightarrow> (Inl f, w)
           | (Inr policy_match, w) \<Rightarrow> (if policy_match then ret () else fail RelyingPartyPolicyMismatch, w)))"

definition attest_device ::
  "'w attest_env \<Rightarrow> attestation_ctx \<Rightarrow> buffer \<Rightarrow> bool \<Rightarrow> claims list \<Rightarrow> 'w
    \<Rightarrow> unit outcome \<times> string option \<times> claims list \<times> attestation_ctx \<times> 'w" where
  "attest_device env c nonce want_eat out w =
     (case ensure_init (at_env env) c of
        (Inl f, c) \<Rightarrow> (Inl f, None, out, c, w)
      | (Inr _, c) \<Rightarrow>
     (case choose_nonce env nonce w of
        (Inl f, w) \<Rightarrow> (Inl f, None, out, c, w)
      | (Inr nonce, w) \<Rightarrow>
          (case (if ac_gpu_enabled c then attest_gpus env c nonce want_eat [] w
                 else if ac_switch_enabled c then attest_switches env c nonce want_eat [] w
                 else (fail InternalError, None, [], w)) of
             (status, token, claims, w) \<Rightarrow>
               (case judge_claims env (ac_claims_evaluator c) status claims w of
                  (r, w) \<Rightarrow> (r, token, claims, c, w)))))"

section \<open>Created objects follow the settings\<close>

text \<open>
  What an object that the context created must have been created from.  The HTTP options are left
  out: \<^verbatim>\<open>set_default_http_options\<close> does not discard the objects that were created before.
\<close>

definition store_current :: "(string \<Rightarrow> string option) \<Rightarrow> attestation_ctx \<Rightarrow> rim_store_ref \<Rightarrow> bool" where
  "store_current env c r \<longleftrightarrow>
     (\<forall>url client. r = NvRemoteRimStore url client \<longrightarrow>
        url = resolve_base_url env (ac_default_rim_store_url c) ''NVAT_RIM_SERVICE_BASE_URL'' RIM_DEFAULT_BASE_URL
        \<and> hc_service_key client = ac_service_key c)"

definition client_current :: "(string \<Rightarrow> string option) \<Rightarrow> attestation_ctx \<Rightarrow> ocsp_client_ref \<Rightarrow> bool" where
  "client_current env c r \<longleftrightarrow>
     (\<forall>url client. r = NvHttpOcspClient url client \<longrightarrow>
        url = resolve_base_url env (ac_default_ocsp_url c) ''NVAT_OCSP_BASE_URL'' OCSP_DEFAULT_BASE_URL
        \<and> hc_service_key client = ac_service_key c)"

definition verifier_current :: "(string \<Rightarrow> string option) \<Rightarrow> string \<Rightarrow> attestation_ctx \<Rightarrow> verifier_ref \<Rightarrow> bool" where
  "verifier_current env path c v \<longleftrightarrow>
     (\<forall>s oc e. v = LocalVerifier s oc e \<longrightarrow>
        ac_default_verifier_type c = LocalType \<and> ac_default_rim_store c = Some s \<and> ac_default_ocsp_client c = Some oc
        \<and> e = ac_eat_options c)
     \<and> (\<forall>rv. v = RemoteVerifier rv \<longrightarrow>
        ac_default_verifier_type c = RemoteType
        \<and> (\<exists>options. rv = fst (remote_init_from_env env path (Some (ac_default_nras_url c)) (ac_service_key c) options)))"

definition ctx_coherent :: "(string \<Rightarrow> string option) \<Rightarrow> attestation_ctx \<Rightarrow> bool" where
  "ctx_coherent env c \<longleftrightarrow>
     (\<forall>s. ac_default_rim_store c = Some s \<longrightarrow> store_current env c s)
     \<and> (\<forall>oc. ac_default_ocsp_client c = Some oc \<longrightarrow> client_current env c oc)
     \<and> (\<forall>v. ac_gpu_verifier c = Some v \<longrightarrow> verifier_current env ''/v4/attest/gpu'' c v)
     \<and> (\<forall>v. ac_switch_verifier c = Some v \<longrightarrow> verifier_current env ''/v4/attest/switch'' c v)"

text \<open>The contexts that calls of the interface reach, in a fixed environment.\<close>

inductive ctx_reachable :: "(string \<Rightarrow> string option) \<Rightarrow> attestation_ctx \<Rightarrow> bool" for env where
  created: "ctx_reachable env (new_context options)"
| device_type: "ctx_reachable env c \<Longrightarrow> ctx_reachable env (set_device_type t c)"
| verifier_type: "ctx_reachable env c \<Longrightarrow> ctx_reachable env (set_verifier_type ty c)"
| http_options: "ctx_reachable env c \<Longrightarrow> ctx_reachable env (set_default_http_options options c)"
| rim_store_url: "ctx_reachable env c \<Longrightarrow> ctx_reachable env (set_default_rim_store_url url c)"
| ocsp_url: "ctx_reachable env c \<Longrightarrow> ctx_reachable env (set_default_ocsp_url url c)"
| nras_url: "ctx_reachable env c \<Longrightarrow> ctx_reachable env (set_default_nras_url url c)"
| store: "ctx_reachable env c \<Longrightarrow> ctx_reachable env (set_default_rim_store p c)"
| client: "ctx_reachable env c \<Longrightarrow> ctx_reachable env (set_default_ocsp_client p c)"
| policy: "ctx_reachable env c \<Longrightarrow> ctx_reachable env (set_evidence_policy pol c)"
| evaluator: "ctx_reachable env c \<Longrightarrow> ctx_reachable env (set_claims_evaluator p c)"
| gpu_source: "ctx_reachable env c \<Longrightarrow> ctx_reachable env (set_gpu_evidence_source p c)"
| switch_source: "ctx_reachable env c \<Longrightarrow> ctx_reachable env (set_switch_evidence_source p c)"
| gpu_file: "ctx_reachable env c \<Longrightarrow> ctx_reachable env (snd (set_gpu_evidence_source_json_file rd parse dec path c))"
| switch_file: "ctx_reachable env c \<Longrightarrow> ctx_reachable env (snd (set_switch_evidence_source_json_file rd parse dec path c))"
| gpu_verifier: "ctx_reachable env c \<Longrightarrow> ctx_reachable env (set_gpu_verifier p c)"
| switch_verifier: "ctx_reachable env c \<Longrightarrow> ctx_reachable env (set_switch_verifier p c)"
| eat: "ctx_reachable env c \<Longrightarrow> ctx_reachable env (set_detached_eat_options e c)"
| service_key: "ctx_reachable env c \<Longrightarrow> ctx_reachable env (set_service_key k c)"
| attested: "ctx_reachable env c \<Longrightarrow> ctx_reachable env (snd (ensure_init env c))"

named_theorems setting_defs "the setters of the context"

lemmas setter_defs [setting_defs] =
  set_device_type_def wipe_verifiers_def set_verifier_type_def set_default_http_options_def set_default_rim_store_url_def
  set_default_ocsp_url_def set_default_nras_url_def set_default_rim_store_def set_default_ocsp_client_def
  set_evidence_policy_def set_claims_evaluator_def set_gpu_evidence_source_def set_switch_evidence_source_def
  set_gpu_verifier_def set_switch_verifier_def set_detached_eat_options_def set_service_key_def

lemmas current_defs = ctx_coherent_def store_current_def client_current_def verifier_current_def

text \<open>The three parts of \<^verbatim>\<open>ensure_init\<close>.\<close>

lemma init_defaults_coherent: "ctx_coherent env c \<Longrightarrow> ctx_coherent env (init_defaults env c)"
  by (cases "ac_default_rim_store c"; cases "ac_default_ocsp_client c")
    (simp_all add: init_defaults_def current_defs or_new_def rim_store_init_from_env_def ocsp_client_init_from_env_def)

lemma create_verifier_current: "create_verifier env path c = Inr v \<Longrightarrow> verifier_current env path c v"
  by (auto simp: create_verifier_def verifier_current_def ret_def fail_def split: verifier_type.splits option.splits)

lemma create_verifier_ok:
  assumes "ac_default_rim_store c \<noteq> None" and "ac_default_ocsp_client c \<noteq> None"
  shows "\<exists>v. create_verifier env path c = Inr v"
  using assms by (auto simp: create_verifier_def ret_def split: verifier_type.splits)

lemma init_gpu_coherent:
  assumes "ctx_coherent env c" and "ac_default_rim_store c \<noteq> None" and "ac_default_ocsp_client c \<noteq> None"
  shows "\<exists>src v. init_gpu env c = (Inr (), c\<lparr>ac_gpu_evidence_source := src, ac_gpu_verifier := v\<rparr>)
    \<and> ctx_coherent env (snd (init_gpu env c)) \<and> (ac_gpu_enabled c \<longrightarrow> src \<noteq> None \<and> v \<noteq> None)"
proof (cases "ac_gpu_enabled c")
  case True
  let ?c = "c\<lparr>ac_gpu_evidence_source := Some (or_new NvmlEvidenceCollector (ac_gpu_evidence_source c))\<rparr>"
  obtain v where v: "create_verifier env ''/v4/attest/gpu'' ?c = Inr v" using create_verifier_ok [of ?c] assms(2,3) by auto
  have "ctx_coherent env ?c" "ctx_coherent env (?c\<lparr>ac_gpu_verifier := Some v\<rparr>)"
    using assms(1) create_verifier_current [OF v] by (simp_all add: current_defs)
  note coherent = this
  show ?thesis
  proof (cases "ac_gpu_verifier c")
    case None
    then show ?thesis using True v coherent by (auto simp: init_gpu_def Let_def ret_def)
  next
    case (Some a)
    then have "?c\<lparr>ac_gpu_verifier := Some a\<rparr> = ?c" by (cases c) simp
    moreover have "init_gpu env c = (Inr (), ?c)" using True Some by (simp add: init_gpu_def Let_def ret_def)
    ultimately have "init_gpu env c = (Inr (), ?c\<lparr>ac_gpu_verifier := Some a\<rparr>)" "snd (init_gpu env c) = ?c" by simp_all
    then show ?thesis using coherent by fastforce
  qed
next
  case False
  then have "init_gpu env c = (Inr (), c\<lparr>ac_gpu_evidence_source := ac_gpu_evidence_source c, ac_gpu_verifier := ac_gpu_verifier c\<rparr>)"
    by (simp add: init_gpu_def ret_def)
  moreover have "snd (init_gpu env c) = c" using False by (simp add: init_gpu_def)
  ultimately show ?thesis using False assms(1) by metis
qed

lemma init_switch_coherent:
  assumes "ctx_coherent env c" and "ac_default_rim_store c \<noteq> None" and "ac_default_ocsp_client c \<noteq> None"
  shows "\<exists>src v. init_switch env c = (Inr (), c\<lparr>ac_switch_evidence_source := src, ac_switch_verifier := v\<rparr>)
    \<and> ctx_coherent env (snd (init_switch env c)) \<and> (ac_switch_enabled c \<longrightarrow> src \<noteq> None \<and> v \<noteq> None)"
proof (cases "ac_switch_enabled c")
  case True
  let ?c = "c\<lparr>ac_switch_evidence_source := Some (or_new NscqEvidenceCollector (ac_switch_evidence_source c))\<rparr>"
  obtain v where v: "create_verifier env ''/v4/attest/switch'' ?c = Inr v" using create_verifier_ok [of ?c] assms(2,3) by auto
  have "ctx_coherent env ?c" "ctx_coherent env (?c\<lparr>ac_switch_verifier := Some v\<rparr>)"
    using assms(1) create_verifier_current [OF v] by (simp_all add: current_defs)
  note coherent = this
  show ?thesis
  proof (cases "ac_switch_verifier c")
    case None
    then show ?thesis using True v coherent by (auto simp: init_switch_def Let_def ret_def)
  next
    case (Some a)
    then have "?c\<lparr>ac_switch_verifier := Some a\<rparr> = ?c" by (cases c) simp
    moreover have "init_switch env c = (Inr (), ?c)" using True Some by (simp add: init_switch_def Let_def ret_def)
    ultimately have "init_switch env c = (Inr (), ?c\<lparr>ac_switch_verifier := Some a\<rparr>)" "snd (init_switch env c) = ?c" by simp_all
    then show ?thesis using coherent by fastforce
  qed
next
  case False
  then have "init_switch env c = (Inr (), c\<lparr>ac_switch_evidence_source := ac_switch_evidence_source c, ac_switch_verifier := ac_switch_verifier c\<rparr>)"
    by (simp add: init_switch_def ret_def)
  moreover have "snd (init_switch env c) = c" using False by (simp add: init_switch_def)
  ultimately show ?thesis using False assms(1) by metis
qed

lemma ensure_init_ok:
  assumes "ctx_coherent env c"
  shows "\<exists>d gs gv ss sv. ensure_init env c = (Inr (), d) \<and> ctx_coherent env d
    \<and> d = (init_defaults env c)\<lparr>ac_gpu_evidence_source := gs, ac_gpu_verifier := gv,
         ac_switch_evidence_source := ss, ac_switch_verifier := sv\<rparr>
    \<and> (ac_gpu_enabled c \<longrightarrow> gs \<noteq> None \<and> gv \<noteq> None) \<and> (ac_switch_enabled c \<longrightarrow> ss \<noteq> None \<and> sv \<noteq> None)"
proof -
  let ?c = "init_defaults env c"
  have set: "ac_default_rim_store ?c \<noteq> None" "ac_default_ocsp_client ?c \<noteq> None"
    "ac_gpu_enabled ?c = ac_gpu_enabled c" "ac_switch_enabled ?c = ac_switch_enabled c" by (simp_all add: init_defaults_def)
  obtain gs gv where g: "init_gpu env ?c = (Inr (), ?c\<lparr>ac_gpu_evidence_source := gs, ac_gpu_verifier := gv\<rparr>)"
    "ctx_coherent env (?c\<lparr>ac_gpu_evidence_source := gs, ac_gpu_verifier := gv\<rparr>)" "ac_gpu_enabled c \<longrightarrow> gs \<noteq> None \<and> gv \<noteq> None"
    using init_gpu_coherent [OF init_defaults_coherent [OF assms] set(1,2)] unfolding set by auto
  let ?d = "?c\<lparr>ac_gpu_evidence_source := gs, ac_gpu_verifier := gv\<rparr>"
  have d: "ac_default_rim_store ?d \<noteq> None" "ac_default_ocsp_client ?d \<noteq> None" "ac_switch_enabled ?d = ac_switch_enabled c"
    using set by simp_all
  obtain ss sv where "init_switch env ?d = (Inr (), ?d\<lparr>ac_switch_evidence_source := ss, ac_switch_verifier := sv\<rparr>)"
    "ctx_coherent env (?d\<lparr>ac_switch_evidence_source := ss, ac_switch_verifier := sv\<rparr>)" "ac_switch_enabled c \<longrightarrow> ss \<noteq> None \<and> sv \<noteq> None"
    using init_switch_coherent [OF g(2) d(1,2)] unfolding d(3) by auto
  then show ?thesis
    using g by (intro exI [of _ "?d\<lparr>ac_switch_evidence_source := ss, ac_switch_verifier := sv\<rparr>"] exI [of _ gs] exI [of _ gv]
        exI [of _ ss] exI [of _ sv]) (simp add: ensure_init_def)
qed

lemma reachable_coherent: "ctx_reachable env c \<Longrightarrow> ctx_coherent env c"
proof (induction rule: ctx_reachable.induct)
  case (attested c)
  then show ?case using ensure_init_ok [of env c] by fastforce
next
  case (gpu_file c rd parse dec path)
  then show ?case by (cases "gpu_json_file_source_create rd parse dec path") (simp_all add: set_gpu_evidence_source_json_file_def current_defs)
next
  case (switch_file c rd parse dec path)
  then show ?case by (cases "switch_json_file_source_create rd parse dec path") (simp_all add: set_switch_evidence_source_json_file_def current_defs)
qed (auto simp: new_context_def setting_defs current_defs)



text \<open>HTTP options set after the first attestation reach none of the objects in use.\<close>

lemma http_options_not_followed:
  assumes "ctx_coherent env c" and "ensure_init env c = (Inr (), d)" and "ac_gpu_enabled c" "\<not> ac_switch_enabled c"
  shows "ensure_init env (set_default_http_options options d) = (Inr (), set_default_http_options options d)"
proof -
  obtain gs gv ss sv where d: "d = (init_defaults env c)\<lparr>ac_gpu_evidence_source := gs, ac_gpu_verifier := gv,
         ac_switch_evidence_source := ss, ac_switch_verifier := sv\<rparr>" "gs \<noteq> None" "gv \<noteq> None"
    using ensure_init_ok [OF assms(1)] assms(2,3) by auto
  then show ?thesis
    using assms(3,4) by (cases c) (auto simp: ensure_init_def init_gpu_def init_switch_def init_defaults_def or_new_def
        set_default_http_options_def Let_def ret_def)
qed

section \<open>Acceptance\<close>

lemma judge_claims_ok:
  "judge_claims env evaluator status claims w = (Inr u, w') \<longleftrightarrow>
     (case evaluator of
        None \<Rightarrow> status = Inr () \<and> w' = w
      | Some e \<Rightarrow> status \<in> {Inr (), fail OverallResultFalse} \<and> at_evaluate env e claims w = (Inr True, w'))"
  by (auto simp: judge_claims_def ret_def fail_def split: option.splits prod.splits sum.splits if_splits)

lemma attest_gpus_ok:
  assumes "\<forall>src n s s'. get_gpu_evidence env src n s \<noteq> (fail OverallResultFalse, s')"
    and "status \<in> {Inr (), fail OverallResultFalse}"
  shows "attest_gpus env d n want_eat out w1 = (status, token, claims, w3) \<longleftrightarrow>
    (\<exists>w2 evs v. get_gpu_evidence env (ac_gpu_evidence_source d) n w1 = (Inr evs, w2) \<and> ac_gpu_verifier d = Some v
        \<and> at_gpu_verify env v evs (ac_evidence_policy d) want_eat out w2 = (status, token, claims, w3))"
  using assms by (cases "get_gpu_evidence env (ac_gpu_evidence_source d) n w1"; cases "ac_gpu_verifier d")
    (auto simp: attest_gpus_def undefined_behaviour_def fail_def split: sum.splits)

lemma attest_switches_ok:
  assumes "\<forall>src n s s'. get_switch_evidence env src n s \<noteq> (fail OverallResultFalse, s')"
    and "status \<in> {Inr (), fail OverallResultFalse}"
  shows "attest_switches env d n want_eat out w1 = (status, token, claims, w3) \<longleftrightarrow>
    (\<exists>w2 evs v. get_switch_evidence env (ac_switch_evidence_source d) n w1 = (Inr evs, w2) \<and> ac_switch_verifier d = Some v
        \<and> at_switch_verify env v evs (ac_evidence_policy d) want_eat out w2 = (status, token, claims, w3))"
  using assms by (cases "get_switch_evidence env (ac_switch_evidence_source d) n w1"; cases "ac_switch_verifier d")
    (auto simp: attest_switches_def undefined_behaviour_def fail_def split: sum.splits)


text \<open>A verifier that reports a false overall result, and a relying party that accepts all claims.\<close>

definition demo_attest_env :: "unit attest_env" where
  "demo_attest_env = \<lparr>at_env = (\<lambda>n. None), at_rand_bytes = (\<lambda>n w. (Some (replicate n 0), w)),
     at_gpu_source = (\<lambda>r n w. (Inr [], w)), at_switch_source = (\<lambda>r n w. (Inr [], w)),
     at_gpu_verify = (\<lambda>v evs p want out w. (fail OverallResultFalse, None, out, w)),
     at_switch_verify = (\<lambda>v evs p want out w. (ret (), None, out, w)), at_evaluate = (\<lambda>e cs w. (Inr True, w))\<rparr>"


end
