(* ===== verification/Error_Codes.thy ===== *)
theory Error_Codes
  imports Prelude
begin

text \<open>
  The numeric return codes of the C interface and the texts of the error codes
  (\<^verbatim>\<open>include/nv_attestation/error.h\<close>, \<^verbatim>\<open>include/nvat.h.in\<close>).  A C++ error is an \<open>enum\<close> value equal to
  the return code, so that the conversions are casts; the code 0 is \<^verbatim>\<open>Ok\<close>.
\<close>

primrec rc_of_error :: "error \<Rightarrow> nat" where
  "rc_of_error Unknown = 1"
| "rc_of_error InternalError = 2"
| "rc_of_error NotInitialized = 3"
| "rc_of_error BadArgument = 4"
| "rc_of_error AllocFailed = 5"
| "rc_of_error FeatureNotEnabled = 6"
| "rc_of_error XmlInitFailed = 7"
| "rc_of_error RelyingPartyPolicyMismatch = 11"
| "rc_of_error OverallResultFalse = 12"
| "rc_of_error RimForbidden = 101"
| "rc_of_error RimInternalError = 102"
| "rc_of_error RimConnectionError = 103"
| "rc_of_error RimNotFound = 104"
| "rc_of_error RimInvalidSignature = 105"
| "rc_of_error RimInvalidSchema = 106"
| "rc_of_error RimMeasurementNotFound = 107"
| "rc_of_error RimMeasurementConflict = 108"
| "rc_of_error NrasAttestationError = 700"
| "rc_of_error NrasTokenInvalid = 701"
| "rc_of_error NrasForbidden = 702"
| "rc_of_error OcspInvalidResponse = 201"
| "rc_of_error OcspServerError = 202"
| "rc_of_error OcspInvalidRequest = 203"
| "rc_of_error OcspStatusNotGood = 204"
| "rc_of_error OcspForbidden = 205"
| "rc_of_error PolicyEvaluationError = 301"
| "rc_of_error SpdmParseError = 401"
| "rc_of_error SpdmOpaqueDataParseError = 402"
| "rc_of_error SpdmMeasurementRecordParseError = 403"
| "rc_of_error SpdmRequestParseError = 404"
| "rc_of_error SpdmFieldNotFound = 405"
| "rc_of_error NvmlInitFailed = 500"
| "rc_of_error NvmlError = 501"
| "rc_of_error GpuArchitectureNotSupported = 502"
| "rc_of_error GpuEvidenceInvalid = 503"
| "rc_of_error GpuEvidenceNonceMismatch = 504"
| "rc_of_error GpuEvidenceDriverRimVersionMismatch = 505"
| "rc_of_error GpuEvidenceVbiosRimVersionMismatch = 506"
| "rc_of_error GpuEvidenceFwidMismatch = 507"
| "rc_of_error GpuEvidenceInvalidSignature = 508"
| "rc_of_error GpuModeNotSupported = 509"
| "rc_of_error GpuFwNotSupported = 510"
| "rc_of_error CertFwidNotFound = 800"
| "rc_of_error CertNotFound = 801"
| "rc_of_error CertChainVerificationFailure = 802"
| "rc_of_error JsonSerializationError = 13"
| "rc_of_error LibXml2Error = 10"
| "rc_of_error NscqInitFailed = 600"
| "rc_of_error NscqError = 601"
| "rc_of_error CorelibInitFailed = 607"
| "rc_of_error CorelibError = 608"
| "rc_of_error SwitchArchitectureNotSupported = 602"
| "rc_of_error SwitchEvidenceNonceMismatch = 603"
| "rc_of_error SwitchEvidenceVbiosRimVersionMismatch = 604"
| "rc_of_error SwitchEvidenceFwidMismatch = 605"
| "rc_of_error SwitchEvidenceInvalidSignature = 606"
| "rc_of_error CacheObjectNotFound = 14"

primrec error_to_string :: "error \<Rightarrow> string" where
  "error_to_string Unknown = ''Unknown''"
| "error_to_string InternalError = ''Internal Error''"
| "error_to_string NotInitialized = ''Not initialized''"
| "error_to_string BadArgument = ''Bad Argument''"
| "error_to_string AllocFailed = ''Allocation Failed''"
| "error_to_string FeatureNotEnabled = ''Feature is not enabled''"
| "error_to_string XmlInitFailed = ''XML Initialization Failed''"
| "error_to_string RelyingPartyPolicyMismatch = ''Relying Party Policy Mismatch''"
| "error_to_string OverallResultFalse = ''Overall Attestation Result is False''"
| "error_to_string RimForbidden = ''RIM Forbidden''"
| "error_to_string RimInternalError = ''RIM Internal Error''"
| "error_to_string RimConnectionError = ''RIM Connection Error''"
| "error_to_string RimNotFound = ''RIM Not Found''"
| "error_to_string RimInvalidSignature = ''RIM Invalid Signature''"
| "error_to_string RimInvalidSchema = ''RIM Invalid Schema''"
| "error_to_string RimMeasurementNotFound = ''RIM Measurement Not Found''"
| "error_to_string RimMeasurementConflict = ''RIM Measurement Conflict''"
| "error_to_string NrasAttestationError = ''NRAS Attestation Error''"
| "error_to_string NrasTokenInvalid = ''NRAS Token Invalid''"
| "error_to_string NrasForbidden = ''NRAS Forbidden''"
| "error_to_string OcspInvalidResponse = ''OCSP Invalid Response''"
| "error_to_string OcspServerError = ''OCSP Server Error''"
| "error_to_string OcspInvalidRequest = ''OCSP Invalid Request''"
| "error_to_string OcspStatusNotGood = ''OCSP Status Not Good''"
| "error_to_string OcspForbidden = ''OCSP Forbidden''"
| "error_to_string PolicyEvaluationError = ''Policy Evaluation Error''"
| "error_to_string SpdmParseError = ''SPDM Parse Error''"
| "error_to_string SpdmOpaqueDataParseError = ''SPDM Opaque Data Parse Error''"
| "error_to_string SpdmMeasurementRecordParseError = ''SPDM Measurement Record Parse Error''"
| "error_to_string SpdmRequestParseError = ''SPDM Request Parse Error''"
| "error_to_string SpdmFieldNotFound = ''SPDM Field Not Found''"
| "error_to_string NvmlInitFailed = ''NVML Initialization Failed''"
| "error_to_string NvmlError = ''NVML Error''"
| "error_to_string GpuArchitectureNotSupported = ''GPU Architecture Not Supported''"
| "error_to_string GpuEvidenceInvalid = ''GPU Evidence Invalid''"
| "error_to_string GpuEvidenceNonceMismatch = ''GPU Evidence Nonce Mismatch''"
| "error_to_string GpuEvidenceDriverRimVersionMismatch = ''GPU Evidence Driver RIM Version Mismatch''"
| "error_to_string GpuEvidenceVbiosRimVersionMismatch = ''GPU Evidence VBios RIM Version Mismatch''"
| "error_to_string GpuEvidenceFwidMismatch = ''GPU Evidence FWID Mismatch''"
| "error_to_string GpuEvidenceInvalidSignature = ''GPU Evidence Invalid Signature''"
| "error_to_string GpuModeNotSupported = ''GPU is neither in CC nor in PPCIe mode''"
| "error_to_string GpuFwNotSupported = ''GPU FW version exceeds SDK support''"
| "error_to_string CertFwidNotFound = ''Certificate FWID Not Found''"
| "error_to_string CertNotFound = ''Certificate Not Found''"
| "error_to_string CertChainVerificationFailure = ''Certificate Chain Verification Failure''"
| "error_to_string JsonSerializationError = ''JSON Serialization Error''"
| "error_to_string LibXml2Error = ''LibXml2 Error''"
| "error_to_string NscqInitFailed = ''NSCQ Initialization Failed''"
| "error_to_string NscqError = ''NSCQ Error''"
| "error_to_string CorelibInitFailed = ''Corelib Initialization Failed''"
| "error_to_string CorelibError = ''Corelib Error''"
| "error_to_string SwitchArchitectureNotSupported = ''NVSwitch Architecture Not Supported''"
| "error_to_string SwitchEvidenceNonceMismatch = ''NVSwitch Evidence Nonce Mismatch''"
| "error_to_string SwitchEvidenceVbiosRimVersionMismatch = ''NVSwitch Evidence VBIOS RIM Version Mismatch''"
| "error_to_string SwitchEvidenceFwidMismatch = ''NVSwitch Evidence FWID Mismatch''"
| "error_to_string SwitchEvidenceInvalidSignature = ''NVSwitch Evidence Invalid Signature''"
| "error_to_string CacheObjectNotFound = ''Cache Object Not Found''"

definition all_errors :: "error list" where
  "all_errors = [Unknown, InternalError, NotInitialized, BadArgument, AllocFailed, FeatureNotEnabled,
     XmlInitFailed, RelyingPartyPolicyMismatch, OverallResultFalse, RimForbidden, RimInternalError,
     RimConnectionError, RimNotFound, RimInvalidSignature, RimInvalidSchema, RimMeasurementNotFound,
     RimMeasurementConflict, NrasAttestationError, NrasTokenInvalid, NrasForbidden, OcspInvalidResponse,
     OcspServerError, OcspInvalidRequest, OcspStatusNotGood, OcspForbidden, PolicyEvaluationError,
     SpdmParseError, SpdmOpaqueDataParseError, SpdmMeasurementRecordParseError, SpdmRequestParseError,
     SpdmFieldNotFound, NvmlInitFailed, NvmlError, GpuArchitectureNotSupported, GpuEvidenceInvalid,
     GpuEvidenceNonceMismatch, GpuEvidenceDriverRimVersionMismatch, GpuEvidenceVbiosRimVersionMismatch,
     GpuEvidenceFwidMismatch, GpuEvidenceInvalidSignature, GpuModeNotSupported, GpuFwNotSupported,
     CertFwidNotFound, CertNotFound, CertChainVerificationFailure, JsonSerializationError, LibXml2Error,
     NscqInitFailed, NscqError, CorelibInitFailed, CorelibError, SwitchArchitectureNotSupported,
     SwitchEvidenceNonceMismatch, SwitchEvidenceVbiosRimVersionMismatch, SwitchEvidenceFwidMismatch,
     SwitchEvidenceInvalidSignature, CacheObjectNotFound]"

text \<open>
  \<^verbatim>\<open>static_cast<Error>(rc)\<close>: \<open>Some None\<close> is \<^verbatim>\<open>Ok\<close>, and \<open>None\<close> is a number that is not the value of an
  enumerator.
\<close>

definition nvat_rc_to_cpp :: "nat \<Rightarrow> error option option" where
  "nvat_rc_to_cpp rc =
     (if rc = 0 then Some None else map_option Some (find (\<lambda>e. rc_of_error e = rc) all_errors))"

definition nvat_rc_from_cpp :: "error option \<Rightarrow> nat" where
  "nvat_rc_from_cpp e = (case e of None \<Rightarrow> 0 | Some e \<Rightarrow> rc_of_error e)"

definition nvat_rc_to_string :: "nat \<Rightarrow> string" where
  "nvat_rc_to_string rc =
     (case nvat_rc_to_cpp rc of
        None \<Rightarrow> ''Undefined''
      | Some None \<Rightarrow> ''Ok''
      | Some (Some e) \<Rightarrow> error_to_string e)"

lemma all_errors_complete: "e \<in> set all_errors"
  by (cases e) (simp_all add: all_errors_def)

lemma rc_of_error_table:
  "list_all (\<lambda>e. rc_of_error e \<noteq> 0 \<and> find (\<lambda>e'. rc_of_error e' = rc_of_error e) all_errors = Some e) all_errors"
  by code_simp

lemma rc_of_error_nonzero [simp]: "rc_of_error e \<noteq> 0"
  and rc_of_error_found: "find (\<lambda>e'. rc_of_error e' = rc_of_error e) all_errors = Some e"
  using rc_of_error_table all_errors_complete [of e] by (auto simp: list_all_iff)

lemma rc_round_trip [simp]: "nvat_rc_to_cpp (nvat_rc_from_cpp e) = Some e"
  using rc_of_error_found by (auto simp: nvat_rc_to_cpp_def nvat_rc_from_cpp_def split: option.splits)

lemma rc_of_error_inject [simp]: "rc_of_error e = rc_of_error e' \<longleftrightarrow> e = e'"
  using rc_of_error_found by (metis option.inject)

end
