(* ===== verification/Device_Library.thy ===== *)
theory Device_Library
  imports Effects
begin

text \<open>
  The protocol by which the clients of the device libraries NVML, NSCQ and Corelib
  (\<^verbatim>\<open>src/gpu/nvml_client.cpp\<close>, \<^verbatim>\<open>src/switch/nscq_client.cpp\<close>, \<^verbatim>\<open>src/gpu/corelib_client.cpp\<close>) load a shared library
  at run time: a flag that says whether the library is usable, a \<^verbatim>\<open>std::once_flag\<close> around the attempt to load
  it, and a shutdown that clears the flag but cannot rearm the \<^verbatim>\<open>once_flag\<close>.  The dynamic linker and the
  library's own start and stop functions are parameters.
\<close>

section \<open>One thread\<close>

record device_lib =
  dl_once :: bool
  dl_handle :: bool
  dl_initialized :: bool
  dl_symbols :: "string list"

definition new_device_lib :: device_lib where
  "new_device_lib = \<lparr>dl_once = False, dl_handle = False, dl_initialized = False, dl_symbols = []\<rparr>"

record 'w lib_env =
  le_dlopen :: "'w \<Rightarrow> bool \<times> 'w"
  le_has_symbol :: "string \<Rightarrow> bool"
  le_start :: "'w \<Rightarrow> int \<times> 'w"
  le_stop :: "'w \<Rightarrow> 'w"
  le_dlclose :: "'w \<Rightarrow> 'w"

text \<open>Every symbol is tried, also after one was not found.\<close>

definition load_all_symbols :: "(string \<Rightarrow> bool) \<Rightarrow> string list \<Rightarrow> string list \<times> bool" where
  "load_all_symbols has names = (filter has names, list_all has names)"

text \<open>What the lambda under \<^verbatim>\<open>std::call_once\<close> does.\<close>

definition load_library :: "string list \<Rightarrow> error \<Rightarrow> 'w lib_env \<Rightarrow> (device_lib \<times> 'w, unit) step" where
  "load_library names init_failed env s =
     (case s of (lib, w) \<Rightarrow>
      (case le_dlopen env w of (opened, w) \<Rightarrow>
       if \<not> opened then (fail init_failed, (lib\<lparr>dl_handle := False\<rparr>, w))
       else (case load_all_symbols (le_has_symbol env) names of (loaded, success) \<Rightarrow>
         let lib = lib\<lparr>dl_symbols := loaded\<rparr> in
         if \<not> success then (fail init_failed, (lib\<lparr>dl_handle := False\<rparr>, le_dlclose env w))
         else (case le_start env w of (result, w) \<Rightarrow>
           if result \<noteq> 0 then (fail init_failed, (lib\<lparr>dl_handle := False\<rparr>, le_dlclose env w))
           else (ret (), (lib\<lparr>dl_handle := True, dl_initialized := True\<rparr>, w))))))"

definition init_library :: "string list \<Rightarrow> error \<Rightarrow> 'w lib_env \<Rightarrow> (device_lib \<times> 'w, unit) step" where
  "init_library names init_failed env s =
     (case s of (lib, w) \<Rightarrow>
      if dl_initialized lib then (ret (), s)
      else if dl_once lib then (fail init_failed, s)
      else load_library names init_failed env (lib\<lparr>dl_once := True\<rparr>, w))"

definition shutdown_library :: "'w lib_env \<Rightarrow> device_lib \<times> 'w \<Rightarrow> device_lib \<times> 'w" where
  "shutdown_library env s =
     (case s of (lib, w) \<Rightarrow>
      if \<not> dl_initialized lib \<or> \<not> dl_handle lib then s
      else (lib\<lparr>dl_handle := False, dl_initialized := False, dl_symbols := []\<rparr>, le_dlclose env (le_stop env w)))"

section \<open>Collection loops\<close>

text \<open>One entry per item; entries that were appended before a failure stay in the caller's list.\<close>

fun collect_loop :: "('i \<Rightarrow> ('w, 'e) step) \<Rightarrow> 'i list \<Rightarrow> 'e list \<Rightarrow> 'w \<Rightarrow> unit outcome \<times> 'e list \<times> 'w" where
  "collect_loop item [] out w = (ret (), out, w)"
| "collect_loop item (i # is) out w =
     (case item i w of
        (Inl f, w) \<Rightarrow> (Inl f, out, w)
      | (Inr ev, w) \<Rightarrow> collect_loop item is (out @ [ev]) w)"

lemma collect_loop_ok:
  assumes "collect_loop item is out w = (r, out', w')"
    and "\<And>i w ev w'. item i w = (Inr ev, w') \<Longrightarrow> P i ev"
  shows "\<exists>evs. out' = out @ evs \<and> list_all2 P (take (length evs) is) evs
    \<and> (r = Inr () \<longrightarrow> length evs = length is) \<and> length evs \<le> length is"
  using assms(1)
proof (induction "is" arbitrary: out w)
  case Nil
  then show ?case by (intro exI [of _ "[]"]) (simp add: ret_def)
next
  case (Cons i "is")
  obtain a w1 where item: "item i w = (a, w1)" by (cases "item i w")
  show ?case
  proof (cases a)
    case (Inl f)
    with Cons.prems item show ?thesis by (intro exI [of _ "[]"]) auto
  next
    case (Inr ev)
    with Cons.prems item have "collect_loop item is (out @ [ev]) w1 = (r, out', w')" by simp
    from Cons.IH [OF this] obtain evs where "out' = (out @ [ev]) @ evs" "list_all2 P (take (length evs) is) evs"
      "r = Inr () \<longrightarrow> length evs = length is" "length evs \<le> length is" by blast
    moreover have "P i ev" using assms(2) item Inr by metis
    ultimately show ?thesis by (intro exI [of _ "ev # evs"]) simp
  qed
qed

lemma collect_loop_all:
  assumes "collect_loop item is [] w = (Inr (), evs, w')"
    and "\<And>i w ev w'. item i w = (Inr ev, w') \<Longrightarrow> P i ev"
  shows "list_all2 P is evs"
proof -
  from collect_loop_ok [OF assms(1), of P] assms(2) show ?thesis by auto
qed

lemma collect_loop_first:
  assumes "collect_loop item (i # is) out w = (Inr (), evs, w')"
  obtains ev w1 where "item i w = (Inr ev, w1)"
  using assms by (auto split: prod.splits sum.splits)

section \<open>What the protocol guarantees\<close>

text \<open>
  A client calls the library's functions through pointers that are only set while the library is usable,
  and a usable library has been tried.
\<close>

definition lib_ok :: "string list \<Rightarrow> device_lib \<Rightarrow> bool" where
  "lib_ok names lib \<longleftrightarrow>
     (dl_initialized lib \<longrightarrow> dl_once lib \<and> dl_handle lib \<and> set names \<subseteq> set (dl_symbols lib))"

locale device_client =
  fixes names :: "string list" and init_failed :: error and env :: "'w lib_env"
    and init :: "(device_lib \<times> 'w, unit) step" and shutdown :: "device_lib \<times> 'w \<Rightarrow> device_lib \<times> 'w"
  assumes init_eq: "init s = init_library names init_failed env s"
    and shutdown_eq: "shutdown s = shutdown_library env s"
begin

lemma ok_new: "lib_ok names new_device_lib"
  by (simp add: lib_ok_def new_device_lib_def)

lemma init_cases:
  obtains (ready) "dl_initialized lib" "init (lib, w) = (ret (), (lib, w))"
  | (spent) "\<not> dl_initialized lib" "dl_once lib" "init (lib, w) = (fail init_failed, (lib, w))"
  | (loads) "\<not> dl_initialized lib" "\<not> dl_once lib" "init (lib, w) = load_library names init_failed env (lib\<lparr>dl_once := True\<rparr>, w)"
  by (auto simp: init_eq init_library_def)

lemma load_result:
  assumes "load_library names init_failed env (lib, w) = (r, (lib', w'))" and "\<not> dl_initialized lib"
  shows "dl_once lib' = dl_once lib" and "r = ret () \<or> r = fail init_failed"
    and "dl_initialized lib' \<longleftrightarrow> r = ret ()"
    and "r = ret () \<Longrightarrow> dl_handle lib' \<and> set names \<subseteq> set (dl_symbols lib')"
  using assms by (auto simp: load_library_def load_all_symbols_def list_all_iff ret_def fail_def Let_def split: prod.splits if_splits)

lemma init_ok:
  assumes "init (lib, w) = (r, (lib', w'))" and "lib_ok names lib"
  shows "lib_ok names lib'" and "dl_once lib'" and "r = ret () \<longleftrightarrow> dl_initialized lib'"
    and "r = ret () \<or> r = fail init_failed"
proof -
  have "lib_ok names lib' \<and> dl_once lib' \<and> (r = ret () \<longleftrightarrow> dl_initialized lib') \<and> (r = ret () \<or> r = fail init_failed)"
  proof (cases rule: init_cases [of lib w])
    case loads
    then have "load_library names init_failed env (lib\<lparr>dl_once := True\<rparr>, w) = (r, (lib', w'))"
      using assms(1) by simp
    from load_result [OF this] loads(1) show ?thesis by (auto simp: lib_ok_def)
  qed (use assms in \<open>auto simp: lib_ok_def ret_def fail_def\<close>)
  then show "lib_ok names lib'" "dl_once lib'" "r = ret () \<longleftrightarrow> dl_initialized lib'" "r = ret () \<or> r = fail init_failed"
    by auto
qed

lemma shutdown_ok: "lib_ok names lib \<Longrightarrow> shutdown (lib, w) = (lib', w') \<Longrightarrow> lib_ok names lib' \<and> \<not> dl_initialized lib'"
  by (auto simp: shutdown_eq shutdown_library_def lib_ok_def split: if_splits)

text \<open>Once the attempt has been made, a library that is not usable never becomes usable again.\<close>

lemma never_again: "dl_once lib \<Longrightarrow> \<not> dl_initialized lib \<Longrightarrow> init (lib, w) = (fail init_failed, (lib, w))"
  by (simp add: init_eq init_library_def)

lemma restart_fails:
  assumes "init (lib, w) = (ret (), (lib1, w1))" and "lib_ok names lib" and "shutdown (lib1, w1) = (lib2, w2)"
  shows "init (lib2, w2) = (fail init_failed, (lib2, w2))"
proof (rule never_again)
  show "\<not> dl_initialized lib2" using init_ok [OF assms(1,2)] shutdown_ok assms(3) by blast
  have "dl_once lib2 = dl_once lib1" using assms(3) by (auto simp: shutdown_eq shutdown_library_def split: if_splits)
  then show "dl_once lib2" using init_ok(2) [OF assms(1,2)] by simp
qed

end

section \<open>Several threads\<close>

text \<open>
  The initialisation as the threads interleave: the test of the flag, the entry into \<^verbatim>\<open>std::call_once\<close>, and the
  attempt are separate steps.  A thread that finds the attempt running waits; when it is over the thread's
  own lambda is not run, and its local result keeps the initial failure.
\<close>

datatype once_state = NotCalled | Running nat | Called

datatype thread_pc = Idle | Checked | Loading | Returned bool

record lib_threads =
  lt_initialized :: bool
  lt_once :: once_state
  lt_attempts :: nat
  lt_pc :: "nat \<Rightarrow> thread_pc"

inductive lib_step :: "lib_threads \<Rightarrow> lib_threads \<Rightarrow> bool" where
  check_ready: "lt_pc s t = Idle \<Longrightarrow> lt_initialized s \<Longrightarrow> lib_step s (s\<lparr>lt_pc := (lt_pc s)(t := Returned True)\<rparr>)"
| check_not: "lt_pc s t = Idle \<Longrightarrow> \<not> lt_initialized s \<Longrightarrow> lib_step s (s\<lparr>lt_pc := (lt_pc s)(t := Checked)\<rparr>)"
| enter: "lt_pc s t = Checked \<Longrightarrow> lt_once s = NotCalled
    \<Longrightarrow> lib_step s (s\<lparr>lt_once := Running t, lt_pc := (lt_pc s)(t := Loading)\<rparr>)"
| skip: "lt_pc s t = Checked \<Longrightarrow> lt_once s = Called \<Longrightarrow> lib_step s (s\<lparr>lt_pc := (lt_pc s)(t := Returned False)\<rparr>)"
| finish: "lt_pc s t = Loading \<Longrightarrow> lt_once s = Running t
    \<Longrightarrow> lib_step s (s\<lparr>lt_initialized := success, lt_once := Called, lt_attempts := lt_attempts s + 1,
                        lt_pc := (lt_pc s)(t := Returned success)\<rparr>)"
| again: "lt_pc s t = Returned b \<Longrightarrow> lib_step s (s\<lparr>lt_pc := (lt_pc s)(t := Idle)\<rparr>)"

inductive_cases lib_stepE: "lib_step s s'"

definition threads_start :: lib_threads where
  "threads_start = \<lparr>lt_initialized = False, lt_once = NotCalled, lt_attempts = 0, lt_pc = (\<lambda>_. Idle)\<rparr>"

definition threads_ok :: "lib_threads \<Rightarrow> bool" where
  "threads_ok s \<longleftrightarrow>
     (\<forall>t. lt_pc s t = Loading \<longleftrightarrow> lt_once s = Running t)
     \<and> lt_attempts s = (if lt_once s = Called then 1 else 0)
     \<and> (lt_initialized s \<longrightarrow> lt_once s = Called)
     \<and> (\<forall>t. lt_pc s t = Returned True \<longrightarrow> lt_initialized s)"

lemma threads_step: "lib_step s s' \<Longrightarrow> threads_ok s \<Longrightarrow> threads_ok s'"
  by (induction rule: lib_step.induct)
     (auto simp: threads_ok_def split: if_splits dest: spec [where x = t for t], (metis thread_pc.distinct)+)

lemma threads_reachable_ok: "lib_step\<^sup>*\<^sup>* threads_start s \<Longrightarrow> threads_ok s"
proof (induction rule: rtranclp_induct)
  case base
  show ?case by (simp add: threads_ok_def threads_start_def)
qed (rule threads_step)

text \<open>A waiting thread is told that the initialisation failed although the library is usable.\<close>

lemma spurious_failure:
  "\<exists>s. lib_step\<^sup>*\<^sup>* threads_start s \<and> lt_initialized s \<and> lt_pc s 1 = Returned False"
proof -
  let ?s1 = "threads_start\<lparr>lt_pc := (\<lambda>_. Idle)(0 := Checked)\<rparr>"
  let ?s2 = "?s1\<lparr>lt_pc := (lt_pc ?s1)(1 := Checked)\<rparr>"
  let ?s3 = "?s2\<lparr>lt_once := Running 0, lt_pc := (lt_pc ?s2)(0 := Loading)\<rparr>"
  let ?s4 = "?s3\<lparr>lt_initialized := True, lt_once := Called, lt_attempts := lt_attempts ?s3 + 1,
               lt_pc := (lt_pc ?s3)(0 := Returned True)\<rparr>"
  let ?s5 = "?s4\<lparr>lt_pc := (lt_pc ?s4)(1 := Returned False)\<rparr>"
  have "lib_step threads_start ?s1" using check_not [of threads_start 0] by (simp add: threads_start_def)
  moreover have "lib_step ?s1 ?s2" by (rule check_not) (simp_all add: threads_start_def)
  moreover have "lib_step ?s2 ?s3" by (rule enter) (simp_all add: threads_start_def)
  moreover have "lib_step ?s3 ?s4" by (rule finish) simp_all
  moreover have "lib_step ?s4 ?s5" by (rule skip) simp_all
  ultimately have "lib_step\<^sup>*\<^sup>* threads_start ?s5" by (meson converse_rtranclp_into_rtranclp rtranclp.rtrancl_refl)
  then show ?thesis by (intro exI [of _ ?s5]) simp
qed

end
