(* ===== verification/Nvml.thy ===== *)
theory Nvml
  imports Device_Library Gpu_Report
begin

text \<open>
  The NVML client and the evidence source built on it (\<^verbatim>\<open>src/gpu/nvml_client.cpp\<close>, \<^verbatim>\<open>NvmlEvidenceCollector\<close>).  The
  functions of NVML are a record of operations that return an NVML code and what they wrote to their
  out-parameters; a code other than 0 is an error.
\<close>

section \<open>Loading\<close>

definition NVML_SYMBOLS :: "string list" where
  "NVML_SYMBOLS =
     [''nvmlInit_v2'', ''nvmlShutdown'', ''nvmlErrorString'', ''nvmlSystemGetConfComputeState'',
      ''nvmlSystemGetConfComputeSettings'', ''nvmlSystemSetConfComputeGpusReadyState'',
      ''nvmlSystemGetConfComputeGpusReadyState'', ''nvmlSystemGetDriverVersion'', ''nvmlDeviceGetCount'',
      ''nvmlDeviceGetHandleByIndex'', ''nvmlDeviceGetConfComputeGpuCertificate'',
      ''nvmlDeviceGetConfComputeGpuAttestationReport'', ''nvmlDeviceGetVbiosVersion'', ''nvmlDeviceGetUUID'',
      ''nvmlDeviceGetArchitecture'', ''nvmlDeviceGetBoardId'']"

definition init_nvml :: "'w lib_env \<Rightarrow> (device_lib \<times> 'w, unit) step" where
  "init_nvml env = init_library NVML_SYMBOLS NvmlInitFailed env"

definition shutdown_nvml :: "'w lib_env \<Rightarrow> device_lib \<times> 'w \<Rightarrow> device_lib \<times> 'w" where
  "shutdown_nvml env = shutdown_library env"

interpretation nvml: device_client NVML_SYMBOLS NvmlInitFailed env "init_nvml env" "shutdown_nvml env" for env
  by unfold_locales (simp_all add: init_nvml_def shutdown_nvml_def)

section \<open>Queries\<close>

type_synonym ('w, 'a) lib_call = "'w \<Rightarrow> (int \<times> 'a) \<times> 'w"

record ('h, 'w) nvml_api =
  nv_cc_feature :: "('w, u32) lib_call"
  nv_multi_gpu_mode :: "('w, u32) lib_call"
  nv_ready_state :: "('w, u32) lib_call"
  nv_driver_version :: "('w, string) lib_call"
  nv_device_count :: "('w, u32) lib_call"
  nv_handle :: "u32 \<Rightarrow> ('w, 'h) lib_call"
  nv_certificate :: "'h \<Rightarrow> ('w, u32 \<times> string) lib_call"
  nv_report :: "'h \<Rightarrow> buffer \<Rightarrow> ('w, u32 \<times> buffer) lib_call"
  nv_vbios_version :: "'h \<Rightarrow> ('w, string) lib_call"
  nv_uuid :: "'h \<Rightarrow> ('w, string) lib_call"
  nv_architecture :: "'h \<Rightarrow> ('w, u32) lib_call"
  nv_board_id :: "'h \<Rightarrow> ('w, u32) lib_call"

definition checked_call :: "error \<Rightarrow> ('w, 'a) lib_call \<Rightarrow> ('w, 'a) step" where
  "checked_call e call w = (case call w of ((rc, x), w) \<Rightarrow> (if rc \<noteq> 0 then fail e else ret x, w))"

text \<open>
  The prefix of a fixed array that the library says is used; a length beyond the array is read out of
  bounds.  A string is read up to the terminator, which the array must contain.
\<close>

definition sized_prefix :: "u32 \<Rightarrow> 'a list \<Rightarrow> 'a list outcome" where
  "sized_prefix n xs = (if unat n \<le> length xs then ret (take (unat n) xs) else undefined_behaviour)"

definition c_array_string :: "string \<Rightarrow> string outcome" where
  "c_array_string cs = (if CHR 0x00 \<in> set cs then ret (takeWhile (\<lambda>c. c \<noteq> CHR 0x00) cs) else undefined_behaviour)"

definition is_cc_enabled :: "('h, 'w) nvml_api \<Rightarrow> ('w, bool) step" where
  "is_cc_enabled api = sbind (checked_call NvmlError (nv_cc_feature api)) (\<lambda>feature. pure (ret (feature = 1)))"

definition is_ppcie_mode_enabled :: "('h, 'w) nvml_api \<Rightarrow> ('w, bool) step" where
  "is_ppcie_mode_enabled api = sbind (checked_call NvmlError (nv_multi_gpu_mode api)) (\<lambda>mode. pure (ret (mode = 1)))"

definition get_device_count :: "('h, 'w) nvml_api \<Rightarrow> ('w, u32) step" where
  "get_device_count api = checked_call NvmlError (nv_device_count api)"

definition get_gpu_ready_state :: "device_lib \<Rightarrow> ('h, 'w) nvml_api \<Rightarrow> ('w, u32) step" where
  "get_gpu_ready_state lib api =
     sguard NvmlError (dl_initialized lib \<and> ''nvmlSystemGetConfComputeGpusReadyState'' \<in> set (dl_symbols lib))
       (checked_call NvmlError (nv_ready_state api))"

definition nvml_cert_chain :: "('h, 'w) nvml_api \<Rightarrow> 'h \<Rightarrow> ('w, string) step" where
  "nvml_cert_chain api device =
     sbind (checked_call NvmlError (nv_certificate api device)) (\<lambda>(size, chain). pure (sized_prefix size chain))"

text \<open>An empty nonce leaves the nonce of the request at 0.\<close>

definition nvml_report :: "('h, 'w) nvml_api \<Rightarrow> 'h \<Rightarrow> buffer \<Rightarrow> ('w, buffer) step" where
  "nvml_report api device nonce_input =
     sguard NvmlError (nonce_input = [] \<or> length nonce_input = 32)
     (sbind (checked_call NvmlError (nv_report api device (if nonce_input = [] then replicate 32 0 else nonce_input)))
        (\<lambda>(size, report). pure (bind (sized_prefix size report) (\<lambda>r. guard NvmlError (r \<noteq> []) (ret r)))))"

definition nvml_driver_version :: "('h, 'w) nvml_api \<Rightarrow> ('w, string) step" where
  "nvml_driver_version api = sbind (checked_call NvmlError (nv_driver_version api)) (\<lambda>v. pure (c_array_string v))"

definition get_device_handle_by_index :: "('h, 'w) nvml_api \<Rightarrow> u32 \<Rightarrow> ('w, 'h) step" where
  "get_device_handle_by_index api index = checked_call NvmlError (nv_handle api index)"

definition nvml_vbios_version :: "('h, 'w) nvml_api \<Rightarrow> 'h \<Rightarrow> ('w, string) step" where
  "nvml_vbios_version api device =
     sbind (checked_call NvmlError (nv_vbios_version api device)) (\<lambda>v. pure (bind (c_array_string v) (\<lambda>v. ret (upper v))))"

definition get_uuid :: "('h, 'w) nvml_api \<Rightarrow> 'h \<Rightarrow> ('w, string) step" where
  "get_uuid api device = sbind (checked_call NvmlError (nv_uuid api device)) (\<lambda>v. pure (c_array_string v))"

definition get_gpu_architecture :: "('h, 'w) nvml_api \<Rightarrow> 'h \<Rightarrow> ('w, gpu_architecture) step" where
  "get_gpu_architecture api device =
     sbind (checked_call NvmlError (nv_architecture api device)) (\<lambda>arch.
     pure (ret (if arch = 7 then Ampere else if arch = 9 then Hopper else if arch = 10 then Blackwell else UnknownArch)))"

definition get_gpu_board_id :: "('h, 'w) nvml_api \<Rightarrow> 'h \<Rightarrow> ('w, u32) step" where
  "get_gpu_board_id api device = checked_call NvmlError (nv_board_id api device)"

section \<open>Collection\<close>

text \<open>The evidence as it is collected; the verifiers use the part before the board identifier.\<close>

record collected_gpu_evidence = gpu_evidence +
  ge_board_id :: u32
  ge_uuid :: string

definition nvml_item :: "('h, 'w) nvml_api \<Rightarrow> buffer \<Rightarrow> u32 \<Rightarrow> ('w, collected_gpu_evidence) step" where
  "nvml_item api nonce_input i =
     sbind (get_device_handle_by_index api i) (\<lambda>device.
     sbind (get_gpu_architecture api device) (\<lambda>architecture.
     sbind (get_gpu_board_id api device) (\<lambda>board_id.
     sbind (get_uuid api device) (\<lambda>uuid.
     sbind (nvml_report api device nonce_input) (\<lambda>report.
     sbind (nvml_cert_chain api device) (\<lambda>chain.
     pure (ret \<lparr>ge_gpu_architecture = architecture, ge_attestation_report = report, ge_attestation_cert_chain = chain,
                ge_nonce = nonce_input, ge_board_id = board_id, ge_uuid = uuid\<rparr>)))))))"

definition nvml_preconditions :: "device_lib \<Rightarrow> ('h, 'w) nvml_api \<Rightarrow> ('w, u32) step" where
  "nvml_preconditions lib api =
     sguard NvmlError (dl_initialized lib)
     (sbind (is_cc_enabled api) (\<lambda>cc_enabled.
      sbind (is_ppcie_mode_enabled api) (\<lambda>ppcie_enabled.
      sguard GpuModeNotSupported (cc_enabled \<or> ppcie_enabled)
      (sbind (get_device_count api) (\<lambda>device_count.
       sguard NvmlError (device_count \<noteq> 0) (pure (ret device_count)))))))"

definition collect_evidence_nvml :: "device_lib \<Rightarrow> ('h, 'w) nvml_api \<Rightarrow> buffer \<Rightarrow> collected_gpu_evidence list \<Rightarrow> 'w
    \<Rightarrow> unit outcome \<times> collected_gpu_evidence list \<times> 'w" where
  "collect_evidence_nvml lib api nonce_input out w =
     (case nvml_preconditions lib api w of
        (Inl f, w) \<Rightarrow> (Inl f, out, w)
      | (Inr device_count, w) \<Rightarrow> collect_loop (nvml_item api nonce_input) (map word_of_nat [0..<unat device_count]) out w)"

definition nvml_get_evidence ::
  "'w lib_env \<Rightarrow> ('h, 'w) nvml_api \<Rightarrow> buffer \<Rightarrow> collected_gpu_evidence list \<Rightarrow> device_lib \<times> 'w
    \<Rightarrow> unit outcome \<times> collected_gpu_evidence list \<times> (device_lib \<times> 'w)" where
  "nvml_get_evidence env api nonce_input out s =
     (case init_nvml env s of
        (Inl f, s) \<Rightarrow> (Inl f, out, s)
      | (Inr _, (lib, w)) \<Rightarrow>
          (case collect_evidence_nvml lib api nonce_input out w of (r, out, w) \<Rightarrow> (r, out, (lib, w))))"

section \<open>What is collected\<close>

text \<open>What the client relies on: the library never reports more bytes than it wrote, and terminates its strings.\<close>

definition nvml_contract :: "('h, 'w) nvml_api \<Rightarrow> bool" where
  "nvml_contract api \<longleftrightarrow>
     (\<forall>h w size chain w'. nv_certificate api h w = ((0, size, chain), w') \<longrightarrow> unat size \<le> length chain)
     \<and> (\<forall>h n w size report w'. nv_report api h n w = ((0, size, report), w') \<longrightarrow> unat size \<le> length report)
     \<and> (\<forall>h w uuid w'. nv_uuid api h w = ((0, uuid), w') \<longrightarrow> CHR 0x00 \<in> set uuid)"

text \<open>The evidence of one device: what the library returned for the handle of the index.\<close>

definition evidence_of_device :: "('h, 'w) nvml_api \<Rightarrow> buffer \<Rightarrow> u32 \<Rightarrow> collected_gpu_evidence \<Rightarrow> bool" where
  "evidence_of_device api nonce i ev \<longleftrightarrow>
     ge_nonce ev = nonce \<and> ge_attestation_report ev \<noteq> []
     \<and> (\<exists>h w1 w2 w3 w4 w5 w6 size report size' chain.
          nv_handle api i w1 = ((0, h), w2)
          \<and> nv_report api h (if nonce = [] then replicate 32 0 else nonce) w3 = ((0, size, report), w4)
          \<and> ge_attestation_report ev = take (unat size) report
          \<and> nv_certificate api h w5 = ((0, size', chain), w6)
          \<and> ge_attestation_cert_chain ev = take (unat size') chain)"

lemma checked_call_ok [step_simps]: "checked_call e call w = (Inr x, w') \<longleftrightarrow> call w = ((0, x), w')"
  by (auto simp: checked_call_def fail_def ret_def split: prod.splits)

lemma sized_prefix_ok: "sized_prefix n xs = Inr ys \<longleftrightarrow> unat n \<le> length xs \<and> ys = take (unat n) xs"
  by (auto simp: sized_prefix_def ret_def undefined_behaviour_def)

lemma nvml_item_ok:
  assumes "nvml_item api nonce i w = (Inr ev, w')"
  shows "evidence_of_device api nonce i ev" and "nonce = [] \<or> length nonce = 32"
proof -
  obtain h w2 w3 size report w4 w5 size' chain w6 where
    steps: "nv_handle api i w = ((0, h), w2)"
    "nvml_report api h nonce w3 = (Inr (ge_attestation_report ev), w4)"
    "nvml_cert_chain api h w5 = (Inr (ge_attestation_cert_chain ev), w6)"
    "ge_nonce ev = nonce"
    using assms by (auto simp: nvml_item_def get_device_handle_by_index_def step_simps ret_eq)
  from steps(2) obtain size report where r: "nonce = [] \<or> length nonce = 32"
    "nv_report api h (if nonce = [] then replicate 32 0 else nonce) w3 = ((0, size, report), w4)"
    "ge_attestation_report ev = take (unat size) report" "ge_attestation_report ev \<noteq> []"
    by (auto simp: nvml_report_def step_simps bind_eq_Inr guard_eq_Inr ret_eq sized_prefix_ok)
  from steps(3) obtain size' chain where c: "nv_certificate api h w5 = ((0, size', chain), w6)"
    "ge_attestation_cert_chain ev = take (unat size') chain"
    by (auto simp: nvml_cert_chain_def step_simps sized_prefix_ok)
  show "evidence_of_device api nonce i ev"
    unfolding evidence_of_device_def using steps(1,4) r(2-) c by blast
  show "nonce = [] \<or> length nonce = 32" by (rule r(1))
qed

lemma preconditions_ok:
  assumes "nvml_preconditions lib api w = (Inr n, w')"
  shows "dl_initialized lib" and "n \<noteq> 0" and "\<exists>w1 w2. nv_device_count api w1 = ((0, n), w2)"
    and "(\<exists>w1 w2. nv_cc_feature api w1 = ((0, 1), w2)) \<or> (\<exists>w1 w2. nv_multi_gpu_mode api w1 = ((0, 1), w2))"
  using assms
  by (auto simp: nvml_preconditions_def is_cc_enabled_def is_ppcie_mode_enabled_def get_device_count_def step_simps ret_eq)

text \<open>
  C13 (nvml_evidence_complete): when the NVML evidence source returns evidence, the library was loaded with all the
  functions the client uses, the system reported confidential-computing or protected-PCIe mode, and the
  evidence has exactly one entry for every device index below the device count, in order; each entry holds
  the report and the certificate chain that NVML returned for that device when asked with the caller's
  nonce, and its report is not empty.  A nonce that is neither empty nor 32 bytes long is never accepted.
\<close>

theorem nvml_evidence_complete:
  assumes "lib_ok NVML_SYMBOLS lib"
    and run: "nvml_get_evidence env api nonce [] (lib, w) = (Inr (), evs, (lib', w'))"
  shows "dl_initialized lib' \<and> set NVML_SYMBOLS \<subseteq> set (dl_symbols lib')
    \<and> (nonce = [] \<or> length nonce = 32)
    \<and> ((\<exists>w1 w2. nv_cc_feature api w1 = ((0, 1), w2)) \<or> (\<exists>w1 w2. nv_multi_gpu_mode api w1 = ((0, 1), w2)))
    \<and> (\<exists>n w1 w2. nv_device_count api w1 = ((0, n), w2) \<and> 0 < n
         \<and> list_all2 (evidence_of_device api nonce) (map word_of_nat [0..<unat n]) evs)"
proof -
  obtain u w1 where init: "init_nvml env (lib, w) = (Inr u, (lib', w1))"
    and collect: "collect_evidence_nvml lib' api nonce [] w1 = (Inr (), evs, w')"
    using run by (auto simp: nvml_get_evidence_def split: prod.splits sum.splits)
  obtain n w2 where n: "nvml_preconditions lib' api w1 = (Inr n, w2)"
    and loop: "collect_loop (nvml_item api nonce) (map word_of_nat [0..<unat n]) [] w2 = (Inr (), evs, w')"
    using collect by (auto simp: collect_evidence_nvml_def split: prod.splits sum.splits)
  note pre = preconditions_ok [OF n]
  have "lib_ok NVML_SYMBOLS lib'" using nvml.init_ok(1) [OF init assms(1)] .
  then have lib: "set NVML_SYMBOLS \<subseteq> set (dl_symbols lib')" using pre(1) by (simp add: lib_ok_def)
  have all: "list_all2 (evidence_of_device api nonce) (map word_of_nat [0..<unat n]) evs"
    using collect_loop_all [OF loop] nvml_item_ok(1) by metis
  have pos: "0 < n" using pre(2) by (simp add: word_gt_0)
  then obtain i :: u32 and "is" where indices: "map word_of_nat [0..<unat n] = i # is"
    by (cases "map word_of_nat [0..<unat n] :: u32 list") (auto simp: unat_eq_0)
  obtain ev w3 where "nvml_item api nonce i w2 = (Inr ev, w3)"
    using collect_loop_first loop unfolding indices by metis
  then have "nonce = [] \<or> length nonce = 32" by (rule nvml_item_ok(2))
  then show ?thesis using pre all pos lib by blast
qed

text \<open>A system with one device.\<close>

definition demo_lib_env :: "unit lib_env" where
  "demo_lib_env = \<lparr>le_dlopen = (\<lambda>w. (True, w)), le_has_symbol = (\<lambda>_. True), le_start = (\<lambda>w. (0, w)),
     le_stop = (\<lambda>w. w), le_dlclose = (\<lambda>w. w)\<rparr>"

definition demo_nvml :: "(nat, unit) nvml_api" where
  "demo_nvml = \<lparr>nv_cc_feature = (\<lambda>w. ((0, 1), w)), nv_multi_gpu_mode = (\<lambda>w. ((0, 0), w)), nv_ready_state = (\<lambda>w. ((0, 1), w)),
     nv_driver_version = (\<lambda>w. ((0, ''1'' @ [CHR 0x00]), w)), nv_device_count = (\<lambda>w. ((0, 1), w)),
     nv_handle = (\<lambda>i w. ((0, unat i), w)), nv_certificate = (\<lambda>h w. ((0, 2, ''PEM''), w)),
     nv_report = (\<lambda>h n w. ((0, 3, [1, 2, 3, 0]), w)), nv_vbios_version = (\<lambda>h w. ((0, [CHR 0x00]), w)),
     nv_uuid = (\<lambda>h w. ((0, ''GPU'' @ [CHR 0x00]), w)), nv_architecture = (\<lambda>h w. ((0, 9), w)), nv_board_id = (\<lambda>h w. ((0, 5), w))\<rparr>"

theorem nvml_evidence_complete_witness:
  "\<exists>evs lib'. nvml_get_evidence demo_lib_env demo_nvml (replicate 32 7) [] (new_device_lib, ()) = (Inr (), evs, (lib', ()))
    \<and> dl_initialized lib' \<and> list_all2 (evidence_of_device demo_nvml (replicate 32 7)) [0] evs"
proof -
  have "fst (nvml_get_evidence demo_lib_env demo_nvml (replicate 32 7) [] (new_device_lib, ())) = Inr ()"
    by code_simp
  then obtain evs lib' where run:
    "nvml_get_evidence demo_lib_env demo_nvml (replicate 32 7) [] (new_device_lib, ()) = (Inr (), evs, (lib', ()))"
    by (metis prod.collapse unit.exhaust)
  from nvml_evidence_complete [OF nvml.ok_new run] show ?thesis
    using run by (auto simp: demo_nvml_def)
qed

text \<open>
  A library that was shut down is not loaded again: the \<^verbatim>\<open>once_flag\<close> is spent, and every later request for
  evidence fails.
\<close>

lemma nvml_not_restarted:
  assumes "lib_ok NVML_SYMBOLS lib" and "init_nvml env (lib, w) = (ret (), (lib1, w1))"
    and "shutdown_nvml env (lib1, w1) = (lib2, w2)"
  shows "nvml_get_evidence env api nonce out (lib2, w2) = (fail NvmlInitFailed, out, (lib2, w2))"
  using nvml.restart_fails [OF assms(2,1,3)] by (simp add: nvml_get_evidence_def fail_def)

end
