(* ===== verification/Nscq.thy ===== *)
theory Nscq
  imports Nvml Switch_Report
begin

text \<open>
  The NSCQ client and the switch evidence source built on it (\<^verbatim>\<open>src/switch/nscq_client.cpp\<close>,
  \<^verbatim>\<open>NscqEvidenceCollector\<close>).  Observing a path makes the library call a callback any number of times; the
  record of operations returns the arguments of these calls, in order, and the callbacks fold over them.
  The session pointer is set exactly while the library is usable.
\<close>

section \<open>Loading\<close>

definition NSCQ_SYMBOLS :: "string list" where
  "NSCQ_SYMBOLS = [''nscq_session_create'', ''nscq_session_destroy'', ''nscq_session_path_observe'',
     ''nscq_session_set_input'', ''nscq_uuid_to_label'']"

definition init_nscq :: "'w lib_env \<Rightarrow> (device_lib \<times> 'w, unit) step" where
  "init_nscq env = init_library NSCQ_SYMBOLS NscqInitFailed env"

definition shutdown_nscq :: "'w lib_env \<Rightarrow> device_lib \<times> 'w \<Rightarrow> device_lib \<times> 'w" where
  "shutdown_nscq env = shutdown_library env"

interpretation nscq: device_client NSCQ_SYMBOLS NscqInitFailed env "init_nscq env" "shutdown_nscq env" for env
  by unfold_locales (simp_all add: init_nscq_def shutdown_nscq_def)

definition nscq_session :: "device_lib \<Rightarrow> string list \<Rightarrow> bool" where
  "nscq_session lib functions \<longleftrightarrow> dl_initialized lib \<and> set functions \<subseteq> set (dl_symbols lib)"

section \<open>Callbacks\<close>

datatype switch_tnvl_mode = TnvlUnknown | TnvlDisabled | TnvlEnabled | TnvlFailure | TnvlLocked | TnvlOther int

definition tnvl_mode_of_int :: "int \<Rightarrow> switch_tnvl_mode" where
  "tnvl_mode_of_int n =
     (if n = - 1 then TnvlUnknown else if n = 0 then TnvlDisabled else if n = 1 then TnvlEnabled
      else if n = 2 then TnvlFailure else if n = 3 then TnvlLocked else TnvlOther n)"

record 'w nscq_api =
  nq_uuid_to_label :: "buffer \<Rightarrow> int \<times> string"
  nq_observe_uuids :: "string \<Rightarrow> ('w, (int \<times> buffer option) list) lib_call"
  nq_observe_arch :: "string \<Rightarrow> ('w, (int \<times> int) list) lib_call"
  nq_observe_tnvl :: "string \<Rightarrow> ('w, (int \<times> int) list) lib_call"
  nq_observe_cert :: "string \<Rightarrow> ('w, (int \<times> u32 \<times> string) list) lib_call"
  nq_observe_report :: "string \<Rightarrow> ('w, (int \<times> u32 \<times> buffer) list) lib_call"
  nq_set_input :: "buffer \<Rightarrow> ('w, unit) lib_call"

definition uuid_callback :: "'w nscq_api \<Rightarrow> string list \<Rightarrow> int \<times> buffer option \<Rightarrow> string list outcome" where
  "uuid_callback api uuids call =
     (case call of (rc, uuid) \<Rightarrow>
      if rc \<noteq> 0 then ret uuids
      else case uuid of
        None \<Rightarrow> ret uuids
      | Some u \<Rightarrow>
          (case nq_uuid_to_label api u of (label_rc, label) \<Rightarrow>
           if label_rc \<noteq> 0 then ret uuids else bind (c_array_string label) (\<lambda>l. ret (uuids @ [l]))))"

definition tnvl_status_callback :: "switch_tnvl_mode \<Rightarrow> int \<times> int \<Rightarrow> switch_tnvl_mode outcome" where
  "tnvl_status_callback mode call = (case call of (rc, status) \<Rightarrow> if rc \<noteq> 0 then ret mode else ret (tnvl_mode_of_int status))"

definition attestation_cert_chain_callback :: "string \<Rightarrow> int \<times> u32 \<times> string \<Rightarrow> string outcome" where
  "attestation_cert_chain_callback chain call =
     (case call of (rc, n, cert) \<Rightarrow> if rc \<noteq> 0 then ret chain else sized_prefix n cert)"

definition attestation_report_callback :: "buffer \<Rightarrow> int \<times> u32 \<times> buffer \<Rightarrow> buffer outcome" where
  "attestation_report_callback report call =
     (case call of (rc, n, data) \<Rightarrow> if rc \<noteq> 0 then ret report else sized_prefix n data)"

definition architecture_callback :: "int \<Rightarrow> int \<times> int \<Rightarrow> int outcome" where
  "architecture_callback val call = (case call of (rc, arch) \<Rightarrow> if rc \<noteq> 0 then ret val else ret arch)"

fun run_callbacks :: "('a \<Rightarrow> 'c \<Rightarrow> 'a outcome) \<Rightarrow> 'a \<Rightarrow> 'c list \<Rightarrow> 'a outcome" where
  "run_callbacks f a [] = ret a"
| "run_callbacks f a (c # cs) = bind (f a c) (\<lambda>a. run_callbacks f a cs)"

text \<open>The callbacks run before the result of the observation is known.\<close>

definition observe :: "('a \<Rightarrow> 'c \<Rightarrow> 'a outcome) \<Rightarrow> 'a \<Rightarrow> ('w, 'c list) lib_call \<Rightarrow> ('w, 'a) step" where
  "observe f a call w =
     (case call w of ((rc, calls), w) \<Rightarrow>
      (bind (run_callbacks f a calls) (\<lambda>x. if rc \<noteq> 0 then fail NscqError else ret x), w))"

section \<open>Queries\<close>

definition get_switch_architecture :: "device_lib \<Rightarrow> 'w nscq_api \<Rightarrow> ('w, switch_architecture) step" where
  "get_switch_architecture lib api =
     sguard NscqError (nscq_session lib [''nscq_session_path_observe''])
     (sbind (observe architecture_callback (- 1) (nq_observe_arch api ''/{nvswitch}/id/arch'')) (\<lambda>arch_val.
      pure (if arch_val = 0 then ret SV10 else if arch_val = 1 then ret LR10 else if arch_val = 2 then ret LS10
            else fail NscqError)))"

definition get_all_switch_uuid :: "device_lib \<Rightarrow> 'w nscq_api \<Rightarrow> ('w, string list) step" where
  "get_all_switch_uuid lib api =
     sguard NscqError (nscq_session lib [''nscq_session_path_observe''])
       (observe (uuid_callback api) [] (nq_observe_uuids api ''/drv/nvswitch/{device}/uuid''))"

definition get_switch_tnvl_status :: "device_lib \<Rightarrow> 'w nscq_api \<Rightarrow> string \<Rightarrow> ('w, switch_tnvl_mode) step" where
  "get_switch_tnvl_status lib api uuid =
     sguard NscqError (nscq_session lib [''nscq_session_path_observe''])
     (sguard NscqError (uuid \<noteq> [])
       (observe tnvl_status_callback TnvlUnknown (nq_observe_tnvl api (''/'' @ uuid @ ''/config/pcie_mode''))))"

definition nscq_cert_chain :: "device_lib \<Rightarrow> 'w nscq_api \<Rightarrow> string \<Rightarrow> ('w, string) step" where
  "nscq_cert_chain lib api uuid =
     sguard NscqError (nscq_session lib [''nscq_session_path_observe''])
     (sguard NscqError (uuid \<noteq> [])
     (sbind (observe attestation_cert_chain_callback [] (nq_observe_cert api (''/'' @ uuid @ ''/config/certificate''))) (\<lambda>chain.
      pure (guard NscqError (chain \<noteq> []) (ret chain)))))"

definition nscq_report :: "device_lib \<Rightarrow> 'w nscq_api \<Rightarrow> string \<Rightarrow> buffer \<Rightarrow> ('w, buffer) step" where
  "nscq_report lib api uuid nonce_input =
     sguard NscqError (nscq_session lib [''nscq_session_set_input'', ''nscq_session_path_observe''])
     (sguard NscqError (uuid \<noteq> [])
     (sguard NscqError (length nonce_input = 32)
     (sbind (checked_call NscqError (nq_set_input api nonce_input)) (\<lambda>_.
      sbind (observe attestation_report_callback [] (nq_observe_report api (''/'' @ uuid @ ''/config/attestation_report''))) (\<lambda>report.
      pure (guard NscqError (report \<noteq> []) (ret report)))))))"

section \<open>Collection\<close>

text \<open>The evidence as it is collected; the verifiers use the part before the UUID.\<close>

record collected_switch_evidence = switch_evidence +
  sv_uuid :: string
  sv_tnvl_mode :: bool
  sv_lock_mode :: bool

definition nscq_item ::
  "device_lib \<Rightarrow> 'w nscq_api \<Rightarrow> buffer \<Rightarrow> switch_architecture \<Rightarrow> string \<Rightarrow> ('w, collected_switch_evidence) step" where
  "nscq_item lib api nonce_input arch uuid =
     sbind (nscq_report lib api uuid nonce_input) (\<lambda>report.
     sbind (nscq_cert_chain lib api uuid) (\<lambda>chain.
     sbind (get_switch_tnvl_status lib api uuid) (\<lambda>mode.
     pure (ret \<lparr>sv_switch_architecture = arch, sv_attestation_report = report, sv_attestation_cert_chain = chain,
                sv_nonce = nonce_input, sv_uuid = uuid, sv_tnvl_mode = (mode = TnvlEnabled),
                sv_lock_mode = (mode = TnvlLocked)\<rparr>))))"

definition nscq_preconditions :: "device_lib \<Rightarrow> 'w nscq_api \<Rightarrow> ('w, string list \<times> switch_architecture) step" where
  "nscq_preconditions lib api =
     sguard NscqError (dl_initialized lib)
     (sbind (get_all_switch_uuid lib api) (\<lambda>uuids.
      sguard NscqError (uuids \<noteq> [])
      (sbind (get_switch_architecture lib api) (\<lambda>arch. pure (ret (uuids, arch))))))"

definition collect_evidence_nscq :: "device_lib \<Rightarrow> 'w nscq_api \<Rightarrow> buffer \<Rightarrow> collected_switch_evidence list \<Rightarrow> 'w
    \<Rightarrow> unit outcome \<times> collected_switch_evidence list \<times> 'w" where
  "collect_evidence_nscq lib api nonce_input out w =
     (case nscq_preconditions lib api w of
        (Inl f, w) \<Rightarrow> (Inl f, out, w)
      | (Inr (uuids, arch), w) \<Rightarrow> collect_loop (nscq_item lib api nonce_input arch) uuids out w)"

definition nscq_get_evidence ::
  "'w lib_env \<Rightarrow> 'w nscq_api \<Rightarrow> buffer \<Rightarrow> collected_switch_evidence list \<Rightarrow> device_lib \<times> 'w
    \<Rightarrow> unit outcome \<times> collected_switch_evidence list \<times> (device_lib \<times> 'w)" where
  "nscq_get_evidence env api nonce_input out s =
     (case init_nscq env s of
        (Inl f, s) \<Rightarrow> (Inl f, out, s)
      | (Inr _, (lib, w)) \<Rightarrow>
          (case collect_evidence_nscq lib api nonce_input out w of (r, out, w) \<Rightarrow> (r, out, (lib, w))))"

section \<open>What is collected\<close>

text \<open>
  The evidence of one switch: the library was given the nonce and, right after that, asked for the report
  of this switch.
\<close>

definition evidence_of_switch :: "'w nscq_api \<Rightarrow> buffer \<Rightarrow> switch_architecture \<Rightarrow> string \<Rightarrow> collected_switch_evidence \<Rightarrow> bool" where
  "evidence_of_switch api nonce arch uuid ev \<longleftrightarrow>
     sv_nonce ev = nonce \<and> sv_uuid ev = uuid \<and> sv_switch_architecture ev = arch \<and> uuid \<noteq> []
     \<and> sv_attestation_report ev \<noteq> [] \<and> sv_attestation_cert_chain ev \<noteq> [] \<and> \<not> (sv_tnvl_mode ev \<and> sv_lock_mode ev)
     \<and> (\<exists>w1 w2 w3 reports w4 w5 chains.
          nq_set_input api nonce w1 = ((0, ()), w2)
          \<and> nq_observe_report api (''/'' @ uuid @ ''/config/attestation_report'') w2 = ((0, reports), w3)
          \<and> run_callbacks attestation_report_callback [] reports = Inr (sv_attestation_report ev)
          \<and> nq_observe_cert api (''/'' @ uuid @ ''/config/certificate'') w4 = ((0, chains), w5)
          \<and> run_callbacks attestation_cert_chain_callback [] chains = Inr (sv_attestation_cert_chain ev))"

lemma observe_ok [step_simps]:
  "observe f a call w = (Inr x, w') \<longleftrightarrow> (\<exists>calls. call w = ((0, calls), w') \<and> run_callbacks f a calls = Inr x)"
  by (auto simp: observe_def bind_eq_Inr fail_def ret_def split: prod.splits if_splits)

lemma nscq_item_ok:
  assumes "nscq_item lib api nonce arch uuid w = (Inr ev, w')"
  shows "evidence_of_switch api nonce arch uuid ev" and "length nonce = 32"
  using assms
  by (auto simp: nscq_item_def nscq_report_def nscq_cert_chain_def get_switch_tnvl_status_def step_simps guard_eq_Inr ret_eq
      evidence_of_switch_def intro!: exI conjI)


definition demo_nscq :: "unit nscq_api" where
  "demo_nscq = \<lparr>nq_uuid_to_label = (\<lambda>u. (0, ''SWX'' @ [CHR 0x00])), nq_observe_uuids = (\<lambda>p w. ((0, [(0, Some [1])]), w)),
     nq_observe_arch = (\<lambda>p w. ((0, [(0, 2)]), w)), nq_observe_tnvl = (\<lambda>p w. ((0, [(0, 3)]), w)),
     nq_observe_cert = (\<lambda>p w. ((0, [(0, 3, ''PEM'')]), w)), nq_observe_report = (\<lambda>p w. ((0, [(0, 2, [1, 2, 0])]), w)),
     nq_set_input = (\<lambda>n w. ((0, ()), w))\<rparr>"


end
