(* ===== verification/Corelib.thy ===== *)
theory Corelib
  imports Nvml
begin

text \<open>
  The Corelib client and the evidence source built on it (\<^verbatim>\<open>src/gpu/corelib_client.cpp\<close>,
  \<^verbatim>\<open>CorelibEvidenceCollector\<close>).  The device manager, the devices and the SPDM clients are owned by
  \<^verbatim>\<open>nv_unique_ptr\<close>s, whose deleters run on every way out of the function.
\<close>

section \<open>Loading\<close>

definition CORELIB_SYMBOLS :: "string list" where
  "CORELIB_SYMBOLS =
     [''corelib_device_manager_create'', ''corelib_device_manager_destroy'', ''corelib_device_manager_discover_inband_gpus'',
      ''corelib_device_destroy'', ''corelib_device_get_description'', ''corelib_spdm_client_create'',
      ''corelib_spdm_client_destroy'', ''corelib_spdm_reset_session'', ''corelib_spdm_get_digests'',
      ''corelib_spdm_get_certificate'', ''corelib_spdm_get_measurement_transcript'']"

text \<open>Corelib itself has no start and stop functions.\<close>

definition without_start :: "'w lib_env \<Rightarrow> 'w lib_env" where
  "without_start env = env\<lparr>le_start := (\<lambda>w. (0, w)), le_stop := (\<lambda>w. w)\<rparr>"

definition init_corelib :: "'w lib_env \<Rightarrow> (device_lib \<times> 'w, unit) step" where
  "init_corelib env = init_library CORELIB_SYMBOLS CorelibInitFailed (without_start env)"

definition shutdown_corelib :: "'w lib_env \<Rightarrow> device_lib \<times> 'w \<Rightarrow> device_lib \<times> 'w" where
  "shutdown_corelib env = shutdown_library (without_start env)"

interpretation corelib: device_client CORELIB_SYMBOLS CorelibInitFailed "without_start env" "init_corelib env" "shutdown_corelib env"
  for env
  by unfold_locales (simp_all add: init_corelib_def shutdown_corelib_def)

section \<open>Certificates\<close>

text \<open>
  \<open>d2i\<close> parses one certificate and returns it with the number of bytes it read; a parser that reads
  nothing would make the loop run forever, and one that reads past the end is undefined.
\<close>

function der_loop :: "(buffer \<Rightarrow> ('c \<times> nat) option) \<Rightarrow> ('c \<Rightarrow> string option) \<Rightarrow> buffer \<Rightarrow> string list \<Rightarrow> string list outcome" where
  "der_loop d2i to_pem data pems =
     (if data = [] then ret pems
      else case d2i data of
        None \<Rightarrow> fail InternalError
      | Some (cert, n) \<Rightarrow>
          (case to_pem cert of
             None \<Rightarrow> fail InternalError
           | Some pem \<Rightarrow>
               if pem = [] then fail InternalError
               else if n = 0 then Inl Diverge
               else if length data < n then undefined_behaviour
               else der_loop d2i to_pem (drop n data) (pems @ [pem])))"
  by pat_completeness auto
termination
  by (relation "measure (\<lambda>(d2i, to_pem, data, pems). length data)") auto

definition convert_der_cert_chain_to_pem ::
  "(buffer \<Rightarrow> ('c \<times> nat) option) \<Rightarrow> ('c \<Rightarrow> string option) \<Rightarrow> buffer \<Rightarrow> string outcome" where
  "convert_der_cert_chain_to_pem d2i to_pem der_chain =
     guard InternalError (der_chain \<noteq> [])
     (bind (der_loop d2i to_pem der_chain []) (\<lambda>pem_certs.
      guard InternalError (pem_certs \<noteq> []) (ret (concat (rev pem_certs)))))"

section \<open>Collection\<close>

record ('m, 'd, 'c, 'w) corelib_api =
  co_manager_create :: "('w, 'm) lib_call"
  co_manager_destroy :: "'m \<Rightarrow> 'w \<Rightarrow> 'w"
  co_discover_count :: "'m \<Rightarrow> ('w, u64) lib_call"
  co_discover :: "'m \<Rightarrow> u64 \<Rightarrow> ('w, u64 \<times> 'd option list) lib_call"
  co_device_destroy :: "'d \<Rightarrow> 'w \<Rightarrow> 'w"
  co_description :: "'d option \<Rightarrow> ('w, u64 \<times> string) lib_call"
  co_client_create :: "'d option \<Rightarrow> ('w, 'c) lib_call"
  co_client_destroy :: "'c \<Rightarrow> 'w \<Rightarrow> 'w"
  co_reset_session :: "'c \<Rightarrow> ('w, unit) lib_call"
  co_digest_count :: "'c \<Rightarrow> ('w, u64) lib_call"
  co_digests :: "'c \<Rightarrow> u64 \<Rightarrow> ('w, byte list) lib_call"
  co_certificate_size :: "'c \<Rightarrow> byte \<Rightarrow> ('w, u64) lib_call"
  co_certificate :: "'c \<Rightarrow> byte \<Rightarrow> u64 \<Rightarrow> ('w, u64 \<times> buffer) lib_call"
  co_transcript_size :: "'c \<Rightarrow> byte \<Rightarrow> buffer \<Rightarrow> ('w, u64) lib_call"
  co_transcript :: "'c \<Rightarrow> byte \<Rightarrow> buffer \<Rightarrow> u64 \<Rightarrow> ('w, u64 \<times> buffer) lib_call"

definition SPDM_CERT_DIGEST_SIZE :: nat where "SPDM_CERT_DIGEST_SIZE = 52"
definition ALL_MEASUREMENTS_INDEX :: byte where "ALL_MEASUREMENTS_INDEX = 0xff"

definition resize :: "nat \<Rightarrow> buffer \<Rightarrow> buffer" where
  "resize n xs = take n xs @ replicate (n - length xs) 0"

text \<open>An owner: what was acquired is destroyed on every way out.\<close>

definition bracket :: "('r \<Rightarrow> 's \<Rightarrow> 's) \<Rightarrow> ('s, 'r) step \<Rightarrow> ('r \<Rightarrow> ('s, 'a) step) \<Rightarrow> ('s, 'a) step" where
  "bracket destroy acquire body s =
     (case acquire s of
        (Inl f, s) \<Rightarrow> (Inl f, s)
      | (Inr r, s) \<Rightarrow> (case body r s of (x, s) \<Rightarrow> (x, destroy r s)))"

text \<open>The description is only a label: when it cannot be read, the label is a fixed text.\<close>

definition device_description :: "('m, 'd, 'c, 'w) corelib_api \<Rightarrow> 'd option \<Rightarrow> ('w, string) step" where
  "device_description api device w =
     (case co_description api device w of ((rc, n, text_buffer), w) \<Rightarrow>
      (if rc \<noteq> 0 then ret ''Unknown''
       else if length text_buffer < unat n then undefined_behaviour
       else ret (take (unat n) text_buffer), w))"

definition first_slot :: "byte list \<Rightarrow> byte outcome" where
  "first_slot slots = (case slots of [] \<Rightarrow> undefined_behaviour | slot # _ \<Rightarrow> ret slot)"

definition read_certificate :: "('m, 'd, 'c, 'w) corelib_api \<Rightarrow> 'c \<Rightarrow> ('w, buffer) step" where
  "read_certificate api client =
     sbind (checked_call CorelibError (co_digest_count api client)) (\<lambda>digest_count.
     sguard CorelibError (digest_count \<noteq> 0)
     (sbind (checked_call CorelibError (co_digests api client digest_count)) (\<lambda>digests.
      sbind (pure (first_slot digests)) (\<lambda>cert_slot.
      sbind (checked_call CorelibError (co_reset_session api client)) (\<lambda>_.
      sbind (checked_call CorelibError (co_certificate_size api client cert_slot)) (\<lambda>cert_size.
      sguard CorelibError (cert_size \<noteq> 0)
      (sbind (checked_call CorelibError (co_certificate api client cert_slot cert_size)) (\<lambda>(cert_size, cert_data).
       pure (guard CorelibError (SPDM_CERT_DIGEST_SIZE < unat cert_size)
               (ret (drop SPDM_CERT_DIGEST_SIZE (resize (unat cert_size) cert_data))))))))))))"

definition read_transcript :: "('m, 'd, 'c, 'w) corelib_api \<Rightarrow> buffer \<Rightarrow> 'c \<Rightarrow> ('w, buffer) step" where
  "read_transcript api nonce_input client =
     sbind (checked_call CorelibError (co_reset_session api client)) (\<lambda>_.
     sbind (checked_call CorelibError (co_transcript_size api client ALL_MEASUREMENTS_INDEX nonce_input)) (\<lambda>transcript_size.
     sguard CorelibError (transcript_size \<noteq> 0)
     (sbind (checked_call CorelibError (co_transcript api client ALL_MEASUREMENTS_INDEX nonce_input transcript_size))
        (\<lambda>(transcript_size, data). pure (ret (resize (unat transcript_size) data))))))"

definition corelib_item ::
  "(buffer \<Rightarrow> ('x \<times> nat) option) \<Rightarrow> ('x \<Rightarrow> string option) \<Rightarrow> ('m, 'd, 'c, 'w) corelib_api \<Rightarrow> buffer \<Rightarrow> gpu_architecture
    \<Rightarrow> 'd option list \<Rightarrow> nat \<Rightarrow> ('w, collected_gpu_evidence) step" where
  "corelib_item d2i to_pem api nonce_input architecture devices i =
     sbind (pure (if i < length devices then ret (devices ! i) else undefined_behaviour)) (\<lambda>device.
     sbind (device_description api device) (\<lambda>device_desc.
     bracket (co_client_destroy api) (checked_call CorelibError (co_client_create api device)) (\<lambda>client.
     sbind (read_certificate api client) (\<lambda>cert_chain.
     sbind (read_transcript api nonce_input client) (\<lambda>transcript.
     sbind (pure (map_error CorelibError (convert_der_cert_chain_to_pem d2i to_pem cert_chain))) (\<lambda>pem_cert_chain.
     pure (ret \<lparr>ge_gpu_architecture = architecture, ge_attestation_report = transcript,
                ge_attestation_cert_chain = pem_cert_chain, ge_nonce = nonce_input, ge_board_id = 0,
                ge_uuid = device_desc\<rparr>)))))))"

definition destroy_devices :: "('m, 'd, 'c, 'w) corelib_api \<Rightarrow> 'd option list \<Rightarrow> 'w \<Rightarrow> 'w" where
  "destroy_devices api devices = fold (\<lambda>d w. case d of None \<Rightarrow> w | Some d \<Rightarrow> co_device_destroy api d w) devices"

text \<open>The state is the caller's list together with the library's.\<close>

definition collect_evidence_corelib ::
  "(buffer \<Rightarrow> ('x \<times> nat) option) \<Rightarrow> ('x \<Rightarrow> string option) \<Rightarrow> ('m, 'd, 'c, 'w) corelib_api \<Rightarrow> buffer \<Rightarrow> gpu_architecture
    \<Rightarrow> (collected_gpu_evidence list \<times> 'w, unit) step" where
  "collect_evidence_corelib d2i to_pem api nonce_input architecture =
     sguard BadArgument (length nonce_input = 32)
     (bracket (\<lambda>manager (out, w). (out, co_manager_destroy api manager w))
        (on_snd (checked_call CorelibError (co_manager_create api))) (\<lambda>manager.
      sbind (on_snd (checked_call CorelibError (co_discover_count api manager))) (\<lambda>device_count.
      sguard CorelibError (device_count \<noteq> 0)
      (bracket (\<lambda>(device_count, devices) (out, w). (out, destroy_devices api devices w))
         (on_snd (checked_call CorelibError (co_discover api manager device_count))) (\<lambda>(device_count, devices) (out, w).
           collect_loop (corelib_item d2i to_pem api nonce_input architecture devices) [0..<unat device_count] out w)))))"

definition corelib_get_evidence ::
  "(buffer \<Rightarrow> ('x \<times> nat) option) \<Rightarrow> ('x \<Rightarrow> string option) \<Rightarrow> 'w lib_env \<Rightarrow> ('m, 'd, 'c, 'w) corelib_api \<Rightarrow> gpu_architecture
    \<Rightarrow> buffer \<Rightarrow> collected_gpu_evidence list \<Rightarrow> device_lib \<times> 'w
    \<Rightarrow> unit outcome \<times> collected_gpu_evidence list \<times> (device_lib \<times> 'w)" where
  "corelib_get_evidence d2i to_pem env api architecture nonce_input out s =
     (if nonce_input = [] then (fail BadArgument, out, s)
      else case init_corelib env s of
        (Inl f, s) \<Rightarrow> (Inl f, out, s)
      | (Inr _, (lib, w)) \<Rightarrow>
          (case collect_evidence_corelib d2i to_pem api nonce_input architecture (out, w) of (r, (out, w)) \<Rightarrow> (r, out, (lib, w))))"

section \<open>Ownership\<close>

text \<open>
  What the client relies on: creating and discovering hands out objects that did not exist before and
  nothing when it fails, destroying removes one object, and the queries create and destroy nothing.
\<close>

datatype ('m, 'd, 'c) resource = ManagerRes 'm | DeviceRes 'd | ClientRes 'c

definition keeps :: "('w \<Rightarrow> 'r set) \<Rightarrow> ('w, 'a) lib_call \<Rightarrow> bool" where
  "keeps live call \<longleftrightarrow> (\<forall>w rc x w'. call w = ((rc, x), w') \<longrightarrow> live w' = live w)"

definition acquires :: "('w \<Rightarrow> 'r set) \<Rightarrow> ('a \<Rightarrow> 'r set) \<Rightarrow> ('w, 'a) lib_call \<Rightarrow> bool" where
  "acquires live res call \<longleftrightarrow>
     (\<forall>w rc x w'. call w = ((rc, x), w') \<longrightarrow>
        (if rc = 0 then res x \<inter> live w = {} \<and> live w' = live w \<union> res x else live w' = live w))"

definition device_resources :: "u64 \<times> 'd option list \<Rightarrow> ('m, 'd, 'c) resource set" where
  "device_resources x = {DeviceRes d | d. Some d \<in> set (snd x)}"

definition corelib_contract :: "('w \<Rightarrow> ('m, 'd, 'c) resource set) \<Rightarrow> ('m, 'd, 'c, 'w) corelib_api \<Rightarrow> bool" where
  "corelib_contract live api \<longleftrightarrow>
     acquires live (\<lambda>m. {ManagerRes m}) (co_manager_create api)
     \<and> (\<forall>m w. live (co_manager_destroy api m w) = live w - {ManagerRes m})
     \<and> (\<forall>m. keeps live (co_discover_count api m))
     \<and> (\<forall>m n. acquires live device_resources (co_discover api m n))
     \<and> (\<forall>d w. live (co_device_destroy api d w) = live w - {DeviceRes d})
     \<and> (\<forall>d. keeps live (co_description api d))
     \<and> (\<forall>d. acquires live (\<lambda>c. {ClientRes c}) (co_client_create api d))
     \<and> (\<forall>c w. live (co_client_destroy api c w) = live w - {ClientRes c})
     \<and> (\<forall>c. keeps live (co_reset_session api c))
     \<and> (\<forall>c. keeps live (co_digest_count api c)) \<and> (\<forall>c n. keeps live (co_digests api c n))
     \<and> (\<forall>c n. keeps live (co_certificate_size api c n)) \<and> (\<forall>c n k. keeps live (co_certificate api c n k))
     \<and> (\<forall>c n b. keeps live (co_transcript_size api c n b)) \<and> (\<forall>c n b k. keeps live (co_transcript api c n b k))"

text \<open>A step that leaves as many objects as it found, whatever its outcome.\<close>

definition balanced :: "('s \<Rightarrow> 'r set) \<Rightarrow> ('s, 'a) step \<Rightarrow> bool" where
  "balanced live m \<longleftrightarrow> (\<forall>s. live (snd (m s)) = live s)"

named_theorems balance "rules that build balanced steps"

lemma balanced_sbind [balance]: "balanced live m \<Longrightarrow> (\<And>x. balanced live (k x)) \<Longrightarrow> balanced live (sbind m k)"
  by (auto simp: balanced_def sbind_def split: prod.splits sum.splits) (metis snd_conv)+

lemma balanced_pure [balance]: "balanced live (pure m)"
  by (simp add: balanced_def pure_def)

lemma balanced_sguard [balance]: "balanced live m \<Longrightarrow> balanced live (sguard e c m)"
  by (simp add: balanced_def sguard_def)

lemma balanced_checked_call [balance]: "keeps live call \<Longrightarrow> balanced live (checked_call e call)"
  by (auto simp: balanced_def keeps_def checked_call_def split: prod.splits)

lemma balanced_on_snd [balance]: "balanced live m \<Longrightarrow> balanced (live \<circ> snd) (on_snd m)"
  by (simp add: balanced_def on_snd_def split: prod.splits) (metis snd_conv)

lemma balanced_prod [balance]: "(\<And>a b. balanced live (f a b)) \<Longrightarrow> balanced live (case p of (a, b) \<Rightarrow> f a b)"
  by (cases p) simp

lemma balanced_bracket:
  assumes "acquires live res call" and "\<And>r. balanced live (body r)" and "\<And>r w. live (destroy r w) = live w - res r"
  shows "balanced live (bracket destroy (checked_call e call) body)"
  unfolding balanced_def
proof
  fix w
  obtain rc x w1 where call: "call w = ((rc, x), w1)" by (metis prod.exhaust)
  show "live (snd (bracket destroy (checked_call e call) body w)) = live w"
  proof (cases "rc = 0")
    case True
    then have "live w1 = live w \<union> res x" "res x \<inter> live w = {}" using assms(1) call by (auto simp: acquires_def)
    moreover have "live (snd (body x w1)) = live w1" using assms(2) by (simp add: balanced_def)
    ultimately show ?thesis using True assms(3)
      by (auto simp: bracket_def checked_call_def call ret_def split: prod.splits)
  next
    case False
    then show ?thesis using assms(1) call by (auto simp: bracket_def checked_call_def fail_def acquires_def)
  qed
qed

lemma balanced_bracket_snd:
  assumes "acquires live res call" and "\<And>r. balanced (live \<circ> snd) (body r)"
    and "\<And>r s. (live \<circ> snd) (destroy r s) = live (snd s) - res r"
  shows "balanced (live \<circ> snd) (bracket destroy (on_snd (checked_call e call)) body)"
  unfolding balanced_def
proof
  fix s :: "'d \<times> 'a"
  obtain rc x w1 where call: "call (snd s) = ((rc, x), w1)" by (metis prod.exhaust)
  show "(live \<circ> snd) (snd (bracket destroy (on_snd (checked_call e call)) body s)) = (live \<circ> snd) s"
  proof (cases "rc = 0")
    case True
    then have "live w1 = live (snd s) \<union> res x" "res x \<inter> live (snd s) = {}" using assms(1) call by (auto simp: acquires_def)
    moreover have "live (snd (snd (body x (fst s, w1)))) = live w1" using assms(2) by (simp add: balanced_def)
    ultimately show ?thesis using True assms(3)
      by (auto simp: bracket_def on_snd_def checked_call_def call ret_def split: prod.splits)
  next
    case False
    then show ?thesis using assms(1) call by (auto simp: bracket_def on_snd_def checked_call_def fail_def acquires_def)
  qed
qed

lemma balanced_collect_loop:
  assumes "\<And>i. balanced live (item i)"
  shows "live (snd (snd (collect_loop item is out w))) = live w"
proof (induction "is" arbitrary: out w)
  case (Cons i "is")
  obtain a w1 where item: "item i w = (a, w1)" by (cases "item i w")
  then have "live w1 = live w" using assms by (metis balanced_def snd_conv)
  then show ?case using Cons item by (cases a) auto
qed simp

lemma balanced_item:
  assumes "corelib_contract live api"
  shows "balanced live (corelib_item d2i to_pem api nonce architecture devices i)"
proof -
  note c = assms [unfolded corelib_contract_def]
  have desc: "balanced live (device_description api d)" for d
    using c by (auto simp: balanced_def device_description_def keeps_def split: prod.splits)
  have reads: "balanced live (read_certificate api client)" "balanced live (read_transcript api nonce client)" for client
    unfolding read_certificate_def read_transcript_def using c by (auto intro!: balance)
  have create: "acquires live (\<lambda>c. {ClientRes c}) (co_client_create api d)"
    and destroy: "live (co_client_destroy api k w) = live w - {ClientRes k}" for d k w
    using c by auto
  show ?thesis
    unfolding corelib_item_def
    by (intro balance desc reads balanced_bracket [OF create] destroy)
qed

lemma destroy_devices_live:
  assumes "corelib_contract live api"
  shows "live (destroy_devices api devices w) = live w - device_resources (n, devices)"
proof (induction devices arbitrary: w)
  case Nil
  show ?case by (simp add: destroy_devices_def device_resources_def)
next
  case (Cons d devices)
  have "\<forall>d w. live (co_device_destroy api d w) = live w - {DeviceRes d}" using assms by (simp add: corelib_contract_def)
  then show ?case using Cons by (auto simp: destroy_devices_def device_resources_def split: option.splits)
qed


text \<open>A library whose state is the set of its live objects, with one device.\<close>

definition demo_corelib :: "(nat, nat, nat, (nat, nat, nat) resource set) corelib_api" where
  "demo_corelib = \<lparr>co_manager_create = (\<lambda>w. if ManagerRes 0 \<in> w then ((1, 0), w) else ((0, 0), insert (ManagerRes 0) w)),
     co_manager_destroy = (\<lambda>m w. w - {ManagerRes m}), co_discover_count = (\<lambda>m w. ((0, 1), w)),
     co_discover = (\<lambda>m n w. if DeviceRes 0 \<in> w then ((1, 0, []), w) else ((0, 1, [Some 0]), insert (DeviceRes 0) w)),
     co_device_destroy = (\<lambda>d w. w - {DeviceRes d}), co_description = (\<lambda>d w. ((0, 1, ''G''), w)),
     co_client_create = (\<lambda>d w. if ClientRes 0 \<in> w then ((1, 0), w) else ((0, 0), insert (ClientRes 0) w)),
     co_client_destroy = (\<lambda>c w. w - {ClientRes c}), co_reset_session = (\<lambda>c w. ((0, ()), w)),
     co_digest_count = (\<lambda>c w. ((0, 1), w)), co_digests = (\<lambda>c n w. ((0, [0]), w)),
     co_certificate_size = (\<lambda>c n w. ((0, 53), w)), co_certificate = (\<lambda>c n k w. ((0, 53, replicate 53 1), w)),
     co_transcript_size = (\<lambda>c n b w. ((0, 2), w)), co_transcript = (\<lambda>c n b k w. ((0, 2, [1, 2]), w))\<rparr>"


end
