(* ===== verification/Sdk_Init.thy ===== *)
theory Sdk_Init
  imports Nscq Corelib
begin

text \<open>
  Logging and the life cycle of the SDK (\<^verbatim>\<open>src/log.cpp\<close>, \<^verbatim>\<open>src/init.cpp\<close>): the global logger, the global options, the
  result of the first initialisation, which a function-local static variable keeps, and the libraries that are
  shut down at the end.  spdlog, libxml2 and xmlsec are parameters; the Windows branch is not modelled.
\<close>

section \<open>Log levels\<close>

datatype log_level = TRACE | DEBUG | INFO | WARNING | ERROR | OFF

datatype spd_level = spd_trace | spd_debug | spd_info | spd_warn | spd_err | spd_off

definition log_level_from_c :: "nat \<Rightarrow> log_level" where
  "log_level_from_c c =
     (if c = 0 then OFF else if c = 1 then TRACE else if c = 2 then DEBUG else if c = 3 then INFO
      else if c = 4 then WARNING else if c = 5 then ERROR else INFO)"

definition log_level_to_c :: "log_level \<Rightarrow> nat" where
  "log_level_to_c l = (case l of TRACE \<Rightarrow> 1 | DEBUG \<Rightarrow> 2 | INFO \<Rightarrow> 3 | WARNING \<Rightarrow> 4 | ERROR \<Rightarrow> 5 | OFF \<Rightarrow> 0)"

definition get_spdlog_level :: "log_level \<Rightarrow> spd_level" where
  "get_spdlog_level l =
     (case l of TRACE \<Rightarrow> spd_trace | DEBUG \<Rightarrow> spd_debug | INFO \<Rightarrow> spd_info | WARNING \<Rightarrow> spd_warn | ERROR \<Rightarrow> spd_err | OFF \<Rightarrow> spd_off)"

definition log_level_to_string :: "log_level \<Rightarrow> string" where
  "log_level_to_string l =
     (case l of TRACE \<Rightarrow> ''TRACE'' | DEBUG \<Rightarrow> ''DEBUG'' | INFO \<Rightarrow> ''INFO'' | WARNING \<Rightarrow> ''WARNING'' | ERROR \<Rightarrow> ''ERROR''
      | OFF \<Rightarrow> ''UNKNOWN'')"

lemma log_level_round_trip: "log_level_from_c (log_level_to_c l) = l"
  by (cases l) (simp_all add: log_level_from_c_def log_level_to_c_def)

section \<open>Loggers\<close>

text \<open>A callback logger has up to three callbacks; a flag says whether one was given.\<close>

datatype logger =
    SpdLogLogger string spd_level
  | CallbackLogger bool bool bool

record 'w sdk_env =
  se_register :: "string \<Rightarrow> 'w \<Rightarrow> bool \<times> 'w"
  se_spd_should_log :: "string \<Rightarrow> spd_level \<Rightarrow> 'w \<Rightarrow> bool"
  se_spd_log :: "string \<Rightarrow> spd_level \<Rightarrow> string \<Rightarrow> 'w \<Rightarrow> 'w"
  se_spd_flush :: "string \<Rightarrow> 'w \<Rightarrow> 'w"
  se_should_log_callback :: "nat \<Rightarrow> 'w \<Rightarrow> bool"
  se_log_callback :: "nat \<Rightarrow> string \<Rightarrow> 'w \<Rightarrow> 'w"
  se_flush_callback :: "'w \<Rightarrow> 'w"
  se_xmlsec_init :: "'w \<Rightarrow> int \<times> 'w"
  se_xmlsec_check_version :: "'w \<Rightarrow> int"
  se_xmlsec_app_init :: "'w \<Rightarrow> int \<times> 'w"
  se_xmlsec_crypto_init :: "'w \<Rightarrow> int \<times> 'w"
  se_xmlsec_shutdown :: "'w \<Rightarrow> 'w"
  se_nvml :: "'w lib_env"
  se_nscq :: "'w lib_env"

text \<open>spdlog refuses a second logger of the same name with an exception.\<close>

definition spdlog_logger :: "'w sdk_env \<Rightarrow> string \<Rightarrow> log_level \<Rightarrow> ('w, logger) step" where
  "spdlog_logger env name level w =
     (case se_register env name w of (fresh, w) \<Rightarrow>
      (if fresh then ret (SpdLogLogger name (get_spdlog_level level)) else throw RuntimeError, w))"

definition should_log :: "'w sdk_env \<Rightarrow> logger \<Rightarrow> log_level \<Rightarrow> 'w \<Rightarrow> bool" where
  "should_log env l level w =
     (case l of
        SpdLogLogger name _ \<Rightarrow> se_spd_should_log env name (get_spdlog_level level) w
      | CallbackLogger should _ _ \<Rightarrow> if should then se_should_log_callback env (log_level_to_c level) w else True)"

definition log_message :: "'w sdk_env \<Rightarrow> logger \<Rightarrow> log_level \<Rightarrow> string \<Rightarrow> 'w \<Rightarrow> 'w" where
  "log_message env l level message w =
     (case l of
        SpdLogLogger name _ \<Rightarrow> se_spd_log env name (get_spdlog_level level) message w
      | CallbackLogger _ log _ \<Rightarrow> if log then se_log_callback env (log_level_to_c level) message w else w)"

definition flush_logger :: "'w sdk_env \<Rightarrow> logger \<Rightarrow> 'w \<Rightarrow> 'w" where
  "flush_logger env l w =
     (case l of
        SpdLogLogger name _ \<Rightarrow> se_spd_flush env name w
      | CallbackLogger _ _ flush \<Rightarrow> if flush then se_flush_callback env w else w)"

section \<open>Global state\<close>

text \<open>\<open>sg_xmlsec\<close> says whether the XML security library is running.\<close>

record sdk_globals =
  sg_options :: "logger option option"
  sg_initialized :: "unit outcome option"
  sg_logger :: "logger option"
  sg_xmlsec :: bool
  sg_nvml :: device_lib
  sg_nscq :: device_lib

definition sdk_start :: sdk_globals where
  "sdk_start = \<lparr>sg_options = None, sg_initialized = None, sg_logger = None, sg_xmlsec = False,
     sg_nvml = new_device_lib, sg_nscq = new_device_lib\<rparr>"

definition get_logger :: "sdk_globals \<Rightarrow> logger outcome" where
  "get_logger g = (case sg_logger g of None \<Rightarrow> undefined_behaviour | Some l \<Rightarrow> ret l)"

text \<open>A log macro, at the level it is named after.\<close>

definition log_macro :: "'w sdk_env \<Rightarrow> log_level \<Rightarrow> string \<Rightarrow> (sdk_globals \<times> 'w, unit) step" where
  "log_macro env level message s =
     (case get_logger (fst s) of
        Inl f \<Rightarrow> (Inl f, s)
      | Inr l \<Rightarrow> (ret (), if should_log env l level (snd s) then (fst s, log_message env l level message (snd s)) else s))"

definition set_logger :: "logger \<Rightarrow> sdk_globals \<Rightarrow> sdk_globals" where
  "set_logger l g = g\<lparr>sg_logger := Some l\<rparr>"

definition destroy_logger :: "'w sdk_env \<Rightarrow> sdk_globals \<times> 'w \<Rightarrow> sdk_globals \<times> 'w" where
  "destroy_logger env s =
     (case s of (g, w) \<Rightarrow>
      (g\<lparr>sg_logger := None\<rparr>, case sg_logger g of None \<Rightarrow> w | Some l \<Rightarrow> flush_logger env l w))"

definition handle_init_logger :: "'w sdk_env \<Rightarrow> logger option \<Rightarrow> (sdk_globals \<times> 'w, unit) step" where
  "handle_init_logger env options s =
     (case options of
        Some l \<Rightarrow> (ret (), (set_logger l (fst s), snd s))
      | None \<Rightarrow>
          sbind (on_snd (spdlog_logger env ''nvat'' DEBUG)) (\<lambda>l s. (ret (), (set_logger l (fst s), snd s))) s)"

definition xmlsec_call :: "('w \<Rightarrow> int \<times> 'w) \<Rightarrow> (sdk_globals \<times> 'w, unit) step" where
  "xmlsec_call f s = (case f (snd s) of (result, w) \<Rightarrow> (if result < 0 then fail XmlInitFailed else ret (), (fst s, w)))"

definition handle_init_xmlsec :: "'w sdk_env \<Rightarrow> (sdk_globals \<times> 'w, unit) step" where
  "handle_init_xmlsec env =
     sbind (xmlsec_call (se_xmlsec_init env)) (\<lambda>_.
     sbind (\<lambda>s. (if se_xmlsec_check_version env (snd s) \<noteq> 1 then fail XmlInitFailed else ret (), s)) (\<lambda>_.
     sbind (xmlsec_call (se_xmlsec_app_init env)) (\<lambda>_.
     sbind (xmlsec_call (se_xmlsec_crypto_init env)) (\<lambda>_ s.
       (ret (), ((fst s)\<lparr>sg_xmlsec := True\<rparr>, snd s))))))"

text \<open>
  The initialiser of the static variable.  An exception leaves the variable uninitialised, so that the
  next call runs the initialiser again; a result, also an error, is kept.
\<close>

definition run_initializer :: "'w sdk_env \<Rightarrow> logger option option \<Rightarrow> (sdk_globals \<times> 'w, unit) step" where
  "run_initializer env options s =
     (let opts = (case options of None \<Rightarrow> None | Some l \<Rightarrow> l);
          s = ((fst s)\<lparr>sg_options := Some opts\<rparr>, snd s) in
      sbind (handle_init_logger env opts) (\<lambda>_. handle_init_xmlsec env) s)"

definition sdk_init :: "'w sdk_env \<Rightarrow> logger option option \<Rightarrow> (sdk_globals \<times> 'w, unit) step" where
  "sdk_init env options s =
     (case sg_initialized (fst s) of
        Some result \<Rightarrow> (result, s)
      | None \<Rightarrow>
          (case run_initializer env options s of
             (Inl (Exn x), s) \<Rightarrow> (Inl (Exn x), s)
           | (result, s) \<Rightarrow> (result, ((fst s)\<lparr>sg_initialized := Some result\<rparr>, snd s))))"

definition handle_shutdown_xmlsec :: "'w sdk_env \<Rightarrow> sdk_globals \<times> 'w \<Rightarrow> sdk_globals \<times> 'w" where
  "handle_shutdown_xmlsec env s = ((fst s)\<lparr>sg_xmlsec := False\<rparr>, se_xmlsec_shutdown env (snd s))"

definition handle_shutdown_nvml :: "'w sdk_env \<Rightarrow> sdk_globals \<times> 'w \<Rightarrow> sdk_globals \<times> 'w" where
  "handle_shutdown_nvml env s =
     (if \<not> dl_initialized (sg_nvml (fst s)) then s
      else case shutdown_nvml (se_nvml env) (sg_nvml (fst s), snd s) of
        (lib, w) \<Rightarrow> ((fst s)\<lparr>sg_nvml := lib\<lparr>dl_initialized := False\<rparr>\<rparr>, w))"

definition handle_shutdown_nscq :: "'w sdk_env \<Rightarrow> sdk_globals \<times> 'w \<Rightarrow> sdk_globals \<times> 'w" where
  "handle_shutdown_nscq env s =
     (if \<not> dl_initialized (sg_nscq (fst s)) then s
      else case shutdown_nscq (se_nscq env) (sg_nscq (fst s), snd s) of
        (lib, w) \<Rightarrow> ((fst s)\<lparr>sg_nscq := lib\<lparr>dl_initialized := False\<rparr>\<rparr>, w))"

definition sdk_shutdown :: "'w sdk_env \<Rightarrow> sdk_globals \<times> 'w \<Rightarrow> sdk_globals \<times> 'w" where
  "sdk_shutdown env s =
     (if sg_options (fst s) = None then s
      else let s = handle_shutdown_nscq env (handle_shutdown_nvml env (handle_shutdown_xmlsec env s)) in
        destroy_logger env ((fst s)\<lparr>sg_options := None\<rparr>, snd s))"

section \<open>Reachable states\<close>

text \<open>A program calls init and shutdown in any order, and collects evidence.\<close>

inductive sdk_reachable :: "'w sdk_env \<Rightarrow> sdk_globals \<times> 'w \<Rightarrow> bool" for env where
  start: "sdk_reachable env (sdk_start, w)"
| init: "sdk_reachable env s \<Longrightarrow> sdk_reachable env (snd (sdk_init env options s))"
| shutdown: "sdk_reachable env s \<Longrightarrow> sdk_reachable env (sdk_shutdown env s)"
| use_nvml: "sdk_reachable env (g, w) \<Longrightarrow> sg_logger g \<noteq> None \<Longrightarrow> init_nvml (se_nvml env) (sg_nvml g, w) = (r, (lib, w'))
    \<Longrightarrow> sdk_reachable env (g\<lparr>sg_nvml := lib\<rparr>, w'')"
| use_nscq: "sdk_reachable env (g, w) \<Longrightarrow> sg_logger g \<noteq> None \<Longrightarrow> init_nscq (se_nscq env) (sg_nscq g, w) = (r, (lib, w'))
    \<Longrightarrow> sdk_reachable env (g\<lparr>sg_nscq := lib\<rparr>, w'')"

text \<open>
  While the options are held after a successful initialisation, there is a logger and the XML library runs;
  without options nothing is held.
\<close>

definition sdk_ok :: "sdk_globals \<Rightarrow> bool" where
  "sdk_ok g \<longleftrightarrow>
     lib_ok NVML_SYMBOLS (sg_nvml g) \<and> lib_ok NSCQ_SYMBOLS (sg_nscq g)
     \<and> (sg_options g \<noteq> None \<and> sg_initialized g = Some (ret ()) \<longrightarrow> sg_logger g \<noteq> None \<and> sg_xmlsec g)
     \<and> (sg_initialized g = None \<longrightarrow> \<not> sg_xmlsec g)
     \<and> (sg_options g = None \<longrightarrow> sg_logger g = None \<and> \<not> sg_xmlsec g
          \<and> \<not> dl_initialized (sg_nvml g) \<and> \<not> dl_initialized (sg_nscq g))"

lemma handle_init_logger_result:
  assumes "handle_init_logger env options s = (r, s')"
  shows "(r = ret () \<and> sg_logger (fst s') \<noteq> None \<and> fst s' = (fst s)\<lparr>sg_logger := sg_logger (fst s')\<rparr>)
    \<or> (r = throw RuntimeError \<and> fst s' = fst s)"
  using assms
  by (auto simp: set_logger_def handle_init_logger_def sbind_def on_snd_def spdlog_logger_def throw_def ret_def split: option.splits prod.splits if_splits)

lemma xmlsec_call_result: "xmlsec_call f s = (r, s') \<Longrightarrow> (r = ret () \<or> r = fail XmlInitFailed) \<and> fst s' = fst s"
  by (auto simp: xmlsec_call_def split: prod.splits if_splits)

lemma handle_init_xmlsec_result:
  assumes "handle_init_xmlsec env s = (r, s')"
  shows "(r = ret () \<and> fst s' = (fst s)\<lparr>sg_xmlsec := True\<rparr>) \<or> (r = fail XmlInitFailed \<and> fst s' = fst s)"
proof -
  obtain a1 s1 where 1: "xmlsec_call (se_xmlsec_init env) s = (a1, s1)" by (cases "xmlsec_call (se_xmlsec_init env) s")
  obtain a2 s2 where 2: "xmlsec_call (se_xmlsec_app_init env) s1 = (a2, s2)" by (cases "xmlsec_call (se_xmlsec_app_init env) s1")
  obtain a3 s3 where 3: "xmlsec_call (se_xmlsec_crypto_init env) s2 = (a3, s3)" by (cases "xmlsec_call (se_xmlsec_crypto_init env) s2")
  note r = xmlsec_call_result [OF 1] xmlsec_call_result [OF 2] xmlsec_call_result [OF 3]
  have "handle_init_xmlsec env s =
      (case a1 of Inl f \<Rightarrow> (Inl f, s1) | Inr _ \<Rightarrow>
       if se_xmlsec_check_version env (snd s1) \<noteq> 1 then (fail XmlInitFailed, s1)
       else case a2 of Inl f \<Rightarrow> (Inl f, s2) | Inr _ \<Rightarrow>
       case a3 of Inl f \<Rightarrow> (Inl f, s3) | Inr _ \<Rightarrow> (ret (), ((fst s3)\<lparr>sg_xmlsec := True\<rparr>, snd s3)))"
    by (simp add: handle_init_xmlsec_def sbind_def 1 2 3 fail_def ret_def split: sum.splits)
  then show ?thesis using assms r by (auto simp: ret_def fail_def split: sum.splits if_splits)
qed

lemma run_initializer_result:
  assumes "run_initializer env options s = (r, s')"
  shows "\<exists>opts. (r = ret () \<and> (\<exists>l. fst s' = (fst s)\<lparr>sg_options := Some opts, sg_logger := Some l, sg_xmlsec := True\<rparr>))
    \<or> (r = fail XmlInitFailed \<and> (\<exists>l. fst s' = (fst s)\<lparr>sg_options := Some opts, sg_logger := Some l\<rparr>))
    \<or> (r = throw RuntimeError \<and> fst s' = (fst s)\<lparr>sg_options := Some opts\<rparr>)"
proof -
  define opts where "opts = (case options of None \<Rightarrow> None | Some l \<Rightarrow> l)"
  define t where "t = ((fst s)\<lparr>sg_options := Some opts\<rparr>, snd s)"
  obtain a u where log: "handle_init_logger env opts t = (a, u)" by (cases "handle_init_logger env opts t")
  have run: "sbind (handle_init_logger env opts) (\<lambda>_. handle_init_xmlsec env) t = (r, s')"
    using assms by (simp add: run_initializer_def opts_def t_def Let_def)
  from handle_init_logger_result [OF log] show ?thesis
  proof (elim disjE conjE exE)
    assume a: "a = ret ()" and u: "sg_logger (fst u) \<noteq> None" "fst u = (fst t)\<lparr>sg_logger := sg_logger (fst u)\<rparr>"
    from u(1) obtain l where "sg_logger (fst u) = Some l" by blast
    then have l: "fst u = (fst t)\<lparr>sg_logger := Some l\<rparr>" using u(2) by simp
    have "handle_init_xmlsec env u = (r, s')" using run log a by (simp add: sbind_def ret_def)
    from handle_init_xmlsec_result [OF this] show ?thesis
      by (intro exI [of _ opts]) (auto simp: l t_def)
  next
    assume "a = throw RuntimeError" and "fst u = fst t"
    then show ?thesis using run log by (intro exI [of _ opts]) (auto simp: sbind_def throw_def t_def)
  qed
qed

lemma sdk_init_ok:
  assumes "sdk_init env options s = (r, s')" and "sdk_ok (fst s)"
  shows "sdk_ok (fst s')"
proof (cases "sg_initialized (fst s)")
  case (Some x)
  then show ?thesis using assms by (simp add: sdk_init_def)
next
  case None
  obtain a u where run: "run_initializer env options s = (a, u)" by (cases "run_initializer env options s")
  from run_initializer_result [OF run] show ?thesis
    using assms None run
    by (auto simp: sdk_init_def sdk_ok_def ret_def fail_def throw_def split: sum.splits failure.splits)
qed

lemma shutdown_nvml_fields:
  assumes "lib_ok NVML_SYMBOLS (sg_nvml (fst s))"
  shows "fst (handle_shutdown_nvml env s) = (fst s)\<lparr>sg_nvml := sg_nvml (fst (handle_shutdown_nvml env s))\<rparr>"
    and "lib_ok NVML_SYMBOLS (sg_nvml (fst (handle_shutdown_nvml env s)))"
    and "\<not> dl_initialized (sg_nvml (fst (handle_shutdown_nvml env s)))"
  using assms by (auto simp: handle_shutdown_nvml_def lib_ok_def split: prod.splits)

lemma shutdown_nscq_fields:
  assumes "lib_ok NSCQ_SYMBOLS (sg_nscq (fst s))"
  shows "fst (handle_shutdown_nscq env s) = (fst s)\<lparr>sg_nscq := sg_nscq (fst (handle_shutdown_nscq env s))\<rparr>"
    and "lib_ok NSCQ_SYMBOLS (sg_nscq (fst (handle_shutdown_nscq env s)))"
    and "\<not> dl_initialized (sg_nscq (fst (handle_shutdown_nscq env s)))"
  using assms by (auto simp: handle_shutdown_nscq_def lib_ok_def split: prod.splits)

text \<open>What a shutdown leaves of a state with options.\<close>

lemma sdk_shutdown_fields:
  assumes "sdk_ok (fst s)" and "sg_options (fst s) \<noteq> None"
  shows "\<exists>nvml nscq. fst (sdk_shutdown env s) = (fst s)\<lparr>sg_options := None, sg_logger := None, sg_xmlsec := False,
      sg_nvml := nvml, sg_nscq := nscq\<rparr> \<and> lib_ok NVML_SYMBOLS nvml \<and> \<not> dl_initialized nvml
      \<and> lib_ok NSCQ_SYMBOLS nscq \<and> \<not> dl_initialized nscq"
proof -
  define t where "t = handle_shutdown_xmlsec env s"
  define u where "u = handle_shutdown_nvml env t"
  define v where "v = handle_shutdown_nscq env u"
  have t: "fst t = (fst s)\<lparr>sg_xmlsec := False\<rparr>" by (simp add: t_def handle_shutdown_xmlsec_def)
  then have "lib_ok NVML_SYMBOLS (sg_nvml (fst t))" using assms(1) by (simp add: sdk_ok_def)
  note u = shutdown_nvml_fields [OF this, of env, folded u_def]
  have "lib_ok NSCQ_SYMBOLS (sg_nscq (fst u))" by (subst u(1)) (use t assms(1) in \<open>simp add: sdk_ok_def\<close>)
  note v = shutdown_nscq_fields [OF this, of env, folded v_def]
  have run: "sdk_shutdown env s = destroy_logger env ((fst v)\<lparr>sg_options := None\<rparr>, snd v)"
    using assms(2) by (auto simp: sdk_shutdown_def t_def u_def v_def Let_def)
  have "fst (sdk_shutdown env s) = (fst v)\<lparr>sg_options := None, sg_logger := None\<rparr>"
    by (simp add: run destroy_logger_def)
  also have "\<dots> = (fst s)\<lparr>sg_options := None, sg_logger := None, sg_xmlsec := False, sg_nvml := sg_nvml (fst u),
      sg_nscq := sg_nscq (fst v)\<rparr>"
    by (subst v(1), subst u(1), subst t) simp
  finally show ?thesis using u(2,3) v(2,3) by blast
qed

lemma sdk_reachable_ok: "sdk_reachable env s \<Longrightarrow> sdk_ok (fst s)"
proof (induction rule: sdk_reachable.induct)
  case (start w)
  show ?case using nvml.ok_new nscq.ok_new by (simp add: sdk_ok_def sdk_start_def new_device_lib_def)
next
  case (init s options)
  then show ?case using sdk_init_ok by (metis prod.collapse)
next
  case (shutdown s)
  show ?case
  proof (cases "sg_options (fst s) = None")
    case False
    from sdk_shutdown_fields [OF shutdown.IH False, of env] shutdown.IH show ?thesis by (auto simp: sdk_ok_def)
  qed (use shutdown in \<open>simp add: sdk_shutdown_def\<close>)
next
  case (use_nvml g w r lib w' w'')
  then have "lib_ok NVML_SYMBOLS lib" using nvml.init_ok(1) [OF use_nvml.hyps(3)] by (simp add: sdk_ok_def)
  then show ?case using use_nvml by (auto simp: sdk_ok_def)
next
  case (use_nscq g w r lib w' w'')
  then have "lib_ok NSCQ_SYMBOLS lib" using nscq.init_ok(1) [OF use_nscq.hyps(3)] by (simp add: sdk_ok_def)
  then show ?case using use_nscq by (auto simp: sdk_ok_def)
qed


definition demo_sdk_env :: "unit sdk_env" where
  "demo_sdk_env = \<lparr>se_register = (\<lambda>n w. (True, w)), se_spd_should_log = (\<lambda>n l w. True), se_spd_log = (\<lambda>n l m w. w),
     se_spd_flush = (\<lambda>n w. w), se_should_log_callback = (\<lambda>l w. True), se_log_callback = (\<lambda>l m w. w),
     se_flush_callback = (\<lambda>w. w), se_xmlsec_init = (\<lambda>w. (0, w)), se_xmlsec_check_version = (\<lambda>w. 1),
     se_xmlsec_app_init = (\<lambda>w. (0, w)), se_xmlsec_crypto_init = (\<lambda>w. (0, w)), se_xmlsec_shutdown = (\<lambda>w. w),
     se_nvml = demo_lib_env, se_nscq = demo_lib_env\<rparr>"


text \<open>
  The SDK cannot be started a second time: after a shutdown the initialisation reports the first success, but
  there is no logger, and the first message that is logged dereferences a null pointer.
\<close>

lemma sdk_not_reinitialised:
  assumes "sdk_reachable env (g, w)" and "sg_initialized g = Some (ret ())" and "sdk_shutdown env (g, w) = (h, w1)"
  shows "sdk_init env options (h, w1) = (ret (), (h, w1)) \<and> log_macro env level message (h, w1) = (undefined_behaviour, (h, w1))"
proof -
  have ok: "sdk_ok g" using sdk_reachable_ok [OF assms(1)] by simp
  have "sg_initialized h = Some (ret ())" "sg_logger h = None"
    using ok assms(2,3) sdk_shutdown_fields [of "(g, w)" env]
    by (cases "sg_options g"; auto simp: sdk_ok_def sdk_shutdown_def)+
  then show ?thesis by (simp add: sdk_init_def log_macro_def get_logger_def undefined_behaviour_def)
qed

end
