(* ===== verification/C_Objects.thy ===== *)
theory C_Objects
  imports Attestation Error_Codes Sdk_Init
begin

text \<open>
  The objects behind the opaque handles of the C interface (\<^verbatim>\<open>src/nvat.cpp\<close>,
  \<^verbatim>\<open>include/nv_attestation/nvat_private.hpp\<close>).  A handle is a null pointer (\<open>None\<close>) or the address of an
  object; the heap maps the addresses of live objects to their contents.  Reading or deleting through a
  handle that is not the address of a live object of the expected type is undefined behaviour.  A
  shared pointer to a RIM store or an OCSP client is the number of the object it shares, or null.
\<close>

section \<open>Handles and objects\<close>

type_synonym handle = "nat option"

datatype obj_kind =
    KLogger | KSdkOpts | KNonce | KGpuEvidence | KGpuEvidenceArray | KGpuEvidenceSource
  | KSwitchEvidence | KSwitchEvidenceArray | KSwitchEvidenceSource | KEvidencePolicy | KRelyingPartyPolicy
  | KHttpOptions | KOcspClient | KRimStore | KClaims | KClaimsCollection | KAttestationCtx
  | KGpuVerifier | KSwitchVerifier | KStr | KDetachedEatOptions

datatype c_object =
    LoggerObj logger
  | SdkOptsObj "logger option"
  | NonceObj buffer
  | GpuEvidenceObj gpu_evidence
  | GpuEvidenceArrayObj "handle list"
  | GpuEvidenceSourceObj gpu_source_ref
  | SwitchEvidenceObj switch_evidence
  | SwitchEvidenceArrayObj "handle list"
  | SwitchEvidenceSourceObj switch_source_ref
  | EvidencePolicyObj evidence_policy
  | RelyingPartyPolicyObj nat
  | HttpOptionsObj http_options
  | OcspClientObj "nat option"
  | RimStoreObj "nat option"
  | ClaimsObj claims
  | ClaimsCollectionObj "claims list"
  | AttestationCtxObj attestation_ctx
  | GpuVerifierObj verifier_ref
  | SwitchVerifierObj verifier_ref
  | StrObj string
  | DetachedEatOptionsObj eat_options

primrec kind_of :: "c_object \<Rightarrow> obj_kind" where
  "kind_of (LoggerObj _) = KLogger"
| "kind_of (SdkOptsObj _) = KSdkOpts"
| "kind_of (NonceObj _) = KNonce"
| "kind_of (GpuEvidenceObj _) = KGpuEvidence"
| "kind_of (GpuEvidenceArrayObj _) = KGpuEvidenceArray"
| "kind_of (GpuEvidenceSourceObj _) = KGpuEvidenceSource"
| "kind_of (SwitchEvidenceObj _) = KSwitchEvidence"
| "kind_of (SwitchEvidenceArrayObj _) = KSwitchEvidenceArray"
| "kind_of (SwitchEvidenceSourceObj _) = KSwitchEvidenceSource"
| "kind_of (EvidencePolicyObj _) = KEvidencePolicy"
| "kind_of (RelyingPartyPolicyObj _) = KRelyingPartyPolicy"
| "kind_of (HttpOptionsObj _) = KHttpOptions"
| "kind_of (OcspClientObj _) = KOcspClient"
| "kind_of (RimStoreObj _) = KRimStore"
| "kind_of (ClaimsObj _) = KClaims"
| "kind_of (ClaimsCollectionObj _) = KClaimsCollection"
| "kind_of (AttestationCtxObj _) = KAttestationCtx"
| "kind_of (GpuVerifierObj _) = KGpuVerifier"
| "kind_of (SwitchVerifierObj _) = KSwitchVerifier"
| "kind_of (StrObj _) = KStr"
| "kind_of (DetachedEatOptionsObj _) = KDetachedEatOptions"

text \<open>The RIM stores and OCSP clients a caller creates; a caching one shares its inner object, which may be null.\<close>

datatype rim_store_object =
    RemoteStoreObject string http_client
  | FilesystemStoreObject string
  | CachingStoreObject "nat option" u64 int

datatype 'b ocsp_client_object =
    HttpClientObject string http_client
  | RawProofClientObject "'b raw_client"
  | CacheClientObject "nat option" u64 int

record ('b, 'w) c_state =
  cs_objects :: "nat \<Rightarrow> c_object option"
  cs_next :: nat
  cs_stores :: "rim_store_object list"
  cs_clients :: "'b ocsp_client_object list"
  cs_evaluators :: "string list"
  cs_sdk :: sdk_globals
  cs_world :: 'w

section \<open>Access\<close>

text \<open>The contents of an object of one type, as the casts \<^verbatim>\<open>nvat_..._to_cpp\<close> assume it.\<close>

definition deref :: "(c_object \<Rightarrow> 'a option) \<Rightarrow> handle \<Rightarrow> (('b, 'w) c_state, 'a) step" where
  "deref sel h s =
     (case h of
        None \<Rightarrow> (undefined_behaviour, s)
      | Some a \<Rightarrow> (case Option.bind (cs_objects s a) sel of None \<Rightarrow> (undefined_behaviour, s) | Some x \<Rightarrow> (ret x, s)))"

definition assign :: "handle \<Rightarrow> c_object \<Rightarrow> (('b, 'w) c_state, unit) step" where
  "assign h ob s =
     (case h of
        None \<Rightarrow> (undefined_behaviour, s)
      | Some a \<Rightarrow> (ret (), s\<lparr>cs_objects := (cs_objects s)(a \<mapsto> ob)\<rparr>))"

definition allocate :: "c_object \<Rightarrow> (('b, 'w) c_state, handle) step" where
  "allocate ob s = (ret (Some (cs_next s)), s\<lparr>cs_objects := (cs_objects s)(cs_next s \<mapsto> ob), cs_next := cs_next s + 1\<rparr>)"

text \<open>\<^verbatim>\<open>delete\<close> of an object of the given type; deleting a null pointer does nothing.\<close>

definition delete_object :: "obj_kind \<Rightarrow> handle \<Rightarrow> (('b, 'w) c_state, unit) step" where
  "delete_object k h s =
     (case h of
        None \<Rightarrow> (ret (), s)
      | Some a \<Rightarrow>
          (case cs_objects s a of
             None \<Rightarrow> (undefined_behaviour, s)
           | Some ob \<Rightarrow> if kind_of ob = k then (ret (), s\<lparr>cs_objects := (cs_objects s)(a := None)\<rparr>)
                         else (undefined_behaviour, s)))"

definition as_sdk_opts where "as_sdk_opts ob = (case ob of SdkOptsObj x \<Rightarrow> Some x | _ \<Rightarrow> None)"
definition as_logger where "as_logger ob = (case ob of LoggerObj x \<Rightarrow> Some x | _ \<Rightarrow> None)"
definition as_nonce where "as_nonce ob = (case ob of NonceObj x \<Rightarrow> Some x | _ \<Rightarrow> None)"
definition as_gpu_evidence where "as_gpu_evidence ob = (case ob of GpuEvidenceObj x \<Rightarrow> Some x | _ \<Rightarrow> None)"
definition as_gpu_array where "as_gpu_array ob = (case ob of GpuEvidenceArrayObj x \<Rightarrow> Some x | _ \<Rightarrow> None)"
definition as_gpu_source where "as_gpu_source ob = (case ob of GpuEvidenceSourceObj x \<Rightarrow> Some x | _ \<Rightarrow> None)"
definition as_switch_evidence where "as_switch_evidence ob = (case ob of SwitchEvidenceObj x \<Rightarrow> Some x | _ \<Rightarrow> None)"
definition as_switch_array where "as_switch_array ob = (case ob of SwitchEvidenceArrayObj x \<Rightarrow> Some x | _ \<Rightarrow> None)"
definition as_switch_source where "as_switch_source ob = (case ob of SwitchEvidenceSourceObj x \<Rightarrow> Some x | _ \<Rightarrow> None)"
definition as_policy where "as_policy ob = (case ob of EvidencePolicyObj x \<Rightarrow> Some x | _ \<Rightarrow> None)"
definition as_rp_policy where "as_rp_policy ob = (case ob of RelyingPartyPolicyObj x \<Rightarrow> Some x | _ \<Rightarrow> None)"
definition as_http_options where "as_http_options ob = (case ob of HttpOptionsObj x \<Rightarrow> Some x | _ \<Rightarrow> None)"
definition as_ocsp_client where "as_ocsp_client ob = (case ob of OcspClientObj x \<Rightarrow> Some x | _ \<Rightarrow> None)"
definition as_rim_store where "as_rim_store ob = (case ob of RimStoreObj x \<Rightarrow> Some x | _ \<Rightarrow> None)"
definition as_claims where "as_claims ob = (case ob of ClaimsObj x \<Rightarrow> Some x | _ \<Rightarrow> None)"
definition as_collection where "as_collection ob = (case ob of ClaimsCollectionObj x \<Rightarrow> Some x | _ \<Rightarrow> None)"
definition as_ctx where "as_ctx ob = (case ob of AttestationCtxObj x \<Rightarrow> Some x | _ \<Rightarrow> None)"
definition as_gpu_verifier where "as_gpu_verifier ob = (case ob of GpuVerifierObj x \<Rightarrow> Some x | _ \<Rightarrow> None)"
definition as_switch_verifier where "as_switch_verifier ob = (case ob of SwitchVerifierObj x \<Rightarrow> Some x | _ \<Rightarrow> None)"
definition as_str where "as_str ob = (case ob of StrObj x \<Rightarrow> Some x | _ \<Rightarrow> None)"
definition as_eat_options where "as_eat_options ob = (case ob of DetachedEatOptionsObj x \<Rightarrow> Some x | _ \<Rightarrow> None)"

text \<open>A step on the objects the C++ layer shares.\<close>

definition on_world :: "('w, 'a) step \<Rightarrow> (('b, 'w) c_state, 'a) step" where
  "on_world m s = (case m (cs_world s) of (r, w) \<Rightarrow> (r, s\<lparr>cs_world := w\<rparr>))"

text \<open>A step on the SDK's global state.\<close>

definition on_sdk :: "(sdk_globals \<times> 'w, 'a) step \<Rightarrow> (('b, 'w) c_state, 'a) step" where
  "on_sdk m s = (case m (cs_sdk s, cs_world s) of (r, (g, w)) \<Rightarrow> (r, s\<lparr>cs_sdk := g, cs_world := w\<rparr>))"

section \<open>The boundary\<close>

text \<open>
  \<^verbatim>\<open>NVAT_C_API_END\<close>: an error becomes its return code and an exception the code of an internal error; undefined
  behaviour has no return code.  The second component is what the function wrote to its out-parameter.
\<close>

definition rc_of_outcome :: "'a outcome \<Rightarrow> nat outcome" where
  "rc_of_outcome r =
     (case r of
        Inr _ \<Rightarrow> ret 0
      | Inl (Err e) \<Rightarrow> ret (rc_of_error e)
      | Inl (Exn _) \<Rightarrow> ret (rc_of_error InternalError)
      | Inl f \<Rightarrow> Inl f)"

definition c_api :: "('s, 'a) step \<Rightarrow> 's \<Rightarrow> nat outcome \<times> 'a option \<times> 's" where
  "c_api m s = (case m s of (r, s') \<Rightarrow> (rc_of_outcome r, case r of Inr x \<Rightarrow> Some x | Inl _ \<Rightarrow> None, s'))"

text \<open>\<^verbatim>\<open>NVAT_C_API_END_VOID\<close>: errors and exceptions are dropped.\<close>

definition c_api_void :: "('s, unit) step \<Rightarrow> 's \<Rightarrow> unit outcome \<times> 's" where
  "c_api_void m s =
     (case m s of
        (Inl (Err _), s') \<Rightarrow> (ret (), s')
      | (Inl (Exn _), s') \<Rightarrow> (ret (), s')
      | (r, s') \<Rightarrow> (r, s'))"

section \<open>Releasing objects\<close>

text \<open>
  \<^verbatim>\<open>NVAT_FREE_FUNCTION\<close>: the argument points to the caller's handle variable (\<open>None\<close> is a null pointer); the
  result is what the variable holds afterwards.
\<close>

definition nvat_free :: "obj_kind \<Rightarrow> handle option \<Rightarrow> (('b, 'w) c_state, handle option) step" where
  "nvat_free k var =
     (case var of
        None \<Rightarrow> pure (ret None)
      | Some None \<Rightarrow> pure (ret (Some None))
      | Some h \<Rightarrow> sbind (delete_object k h) (\<lambda>_. pure (ret (Some None))))"

text \<open>
  \<^verbatim>\<open>NVAT_ARRAY_FREE_FUNCTION\<close>: the elements below the count the caller gives are released one by one, then the
  array.  Reading an element of a null array, or past its end, is undefined.
\<close>

fun free_elements :: "obj_kind \<Rightarrow> handle list \<Rightarrow> nat \<Rightarrow> (('b, 'w) c_state, unit) step" where
  "free_elements k hs 0 s = (ret (), s)"
| "free_elements k [] (Suc n) s = (undefined_behaviour, s)"
| "free_elements k (h # hs) (Suc n) s = sbind (delete_object k h) (\<lambda>_. free_elements k hs n) s"

definition nvat_array_free ::
  "obj_kind \<Rightarrow> obj_kind \<Rightarrow> (c_object \<Rightarrow> handle list option) \<Rightarrow> handle option \<Rightarrow> nat \<Rightarrow> (('b, 'w) c_state, handle option) step" where
  "nvat_array_free array_kind k sel var num_elements =
     (case var of
        None \<Rightarrow> pure (ret None)
      | Some h \<Rightarrow>
          sbind (case h of
                   None \<Rightarrow> pure (if num_elements = 0 then ret () else undefined_behaviour)
                 | Some _ \<Rightarrow> sbind (deref sel h) (\<lambda>hs. free_elements k hs num_elements)) (\<lambda>_.
          sbind (delete_object array_kind h) (\<lambda>_. pure (ret (Some None)))))"

end
