(* ===== verification/C_Api.thy ===== *)
theory C_Api
  imports C_Objects
begin

text \<open>
  The functions of the C interface (\<^verbatim>\<open>src/nvat.cpp\<close>), in the order of the file.  A \<^verbatim>\<open>const char*\<close> is an optional
  string; a flag stands for an out-pointer that is not null.  A function with a return code yields the code,
  what it wrote to its out-parameter, and the state.  Memory is unbounded: allocation does not fail.  The
  functions are called between initialisation and shutdown, when a logger is set; their messages are left out.
\<close>

section \<open>Environment\<close>

record ('c, 'r, 'b, 'i, 'e, 'w) c_env =
  ce_attest :: "'w attest_env"
  ce_sdk :: "'w sdk_env"
  ce_regular :: "string \<Rightarrow> bool"
  ce_compiled_ca :: string
  ce_ocsp :: "('c, 'r, 'b, 'i) ocsp_api"
  ce_read_file :: "string \<Rightarrow> string outcome"
  ce_dump :: "json \<Rightarrow> string outcome"
  ce_parse :: "string \<Rightarrow> json outcome"
  ce_b64_encode :: "buffer \<Rightarrow> string option"
  ce_b64_decode :: "string \<Rightarrow> buffer option"
  ce_eat :: "('w, 'e) eat_env"
  ce_now :: "'w \<Rightarrow> int"

type_synonym ('b, 'w, 'a) c_fun = "('b, 'w) c_state \<Rightarrow> nat outcome \<times> 'a option \<times> ('b, 'w) c_state"
type_synonym ('b, 'w) c_void = "('b, 'w) c_state \<Rightarrow> unit outcome \<times> ('b, 'w) c_state"

definition opt_string :: "string option \<Rightarrow> string" where
  "opt_string s = (case s of None \<Rightarrow> [] | Some t \<Rightarrow> t)"

text \<open>\<^verbatim>\<open>HttpOptions()\<close>.\<close>

definition resolve_ca :: "('c, 'r, 'b, 'i, 'e, 'w) c_env \<Rightarrow> string \<Rightarrow> ca_resolution" where
  "resolve_ca env = resolve_ca_bundle_path (ce_regular env) (at_env (ce_attest env)) (ce_compiled_ca env)"

definition default_http_options :: "('c, 'r, 'b, 'i, 'e, 'w) c_env \<Rightarrow> http_options" where
  "default_http_options env = new_http_options (resolve_ca env []) 5 100 30000 5000 30000"

definition http_options_or_default :: "('c, 'r, 'b, 'i, 'e, 'w) c_env \<Rightarrow> handle \<Rightarrow> (('b, 'w) c_state, http_options) step" where
  "http_options_or_default env h = (if h = None then pure (ret (default_http_options env)) else deref as_http_options h)"

definition update_object :: "(c_object \<Rightarrow> 'a option) \<Rightarrow> ('a \<Rightarrow> c_object) \<Rightarrow> handle \<Rightarrow> ('a \<Rightarrow> 'a) \<Rightarrow> (('b, 'w) c_state, unit) step" where
  "update_object sel con h f = sbind (deref sel h) (\<lambda>x. assign h (con (f x)))"

section \<open>Core SDK\<close>

definition nvat_str_length :: "handle \<Rightarrow> bool \<Rightarrow> ('b, 'w, nat) c_fun" where
  "nvat_str_length str out_length = c_api
     (sguard BadArgument (str \<noteq> None)
     (sbind (deref as_str str) (\<lambda>s. pure (if out_length then ret (length s) else undefined_behaviour))))"

definition nvat_str_get_data :: "handle \<Rightarrow> bool \<Rightarrow> ('b, 'w, string) c_fun" where
  "nvat_str_get_data str out_data = c_api
     (sguard BadArgument (str \<noteq> None)
     (sbind (deref as_str str) (\<lambda>s. pure (if out_data then ret s else undefined_behaviour))))"

definition nvat_sdk_opts_create :: "bool \<Rightarrow> ('b, 'w, handle) c_fun" where
  "nvat_sdk_opts_create out_opts = c_api (sguard BadArgument out_opts (allocate (SdkOptsObj None)))"

definition nvat_sdk_opts_set_logger :: "handle \<Rightarrow> handle \<Rightarrow> ('b, 'w) c_void" where
  "nvat_sdk_opts_set_logger opts l = c_api_void
     (if opts = None \<or> l = None then pure (ret ())
      else sbind (deref as_sdk_opts opts) (\<lambda>_. sbind (deref as_logger l) (\<lambda>cpp_logger. assign opts (SdkOptsObj (Some cpp_logger)))))"

definition nvat_sdk_init :: "('c, 'r, 'b, 'i, 'e, 'w) c_env \<Rightarrow> handle \<Rightarrow> ('b, 'w, unit) c_fun" where
  "nvat_sdk_init env opts = c_api
     (sbind (if opts = None then pure (ret None) else sbind (deref as_sdk_opts opts) (\<lambda>l. pure (ret (Some l)))) (\<lambda>cpp_opts.
      sbind (on_sdk (sdk_init (ce_sdk env) cpp_opts)) (\<lambda>_.
      on_sdk (log_macro (ce_sdk env) DEBUG ''Successfully initialized NVIDIA Attestation SDK''))))"

definition nvat_sdk_shutdown :: "('c, 'r, 'b, 'i, 'e, 'w) c_env \<Rightarrow> ('b, 'w) c_void" where
  "nvat_sdk_shutdown env = c_api_void (on_sdk (\<lambda>s. (ret (), sdk_shutdown (ce_sdk env) s)))"

definition nvat_logger_spdlog_create :: "('c, 'r, 'b, 'i, 'e, 'w) c_env \<Rightarrow> bool \<Rightarrow> string option \<Rightarrow> nat \<Rightarrow> ('b, 'w, handle) c_fun" where
  "nvat_logger_spdlog_create env out_logger c_name c_level = c_api
     (sguard BadArgument out_logger (sguard BadArgument (c_name \<noteq> None)
     (sbind (on_world (spdlog_logger (ce_sdk env) (opt_string c_name) (log_level_from_c c_level))) (\<lambda>l.
      allocate (LoggerObj l)))))"

definition nvat_logger_callback_create :: "bool \<Rightarrow> bool \<Rightarrow> bool \<Rightarrow> bool \<Rightarrow> ('b, 'w, handle) c_fun" where
  "nvat_logger_callback_create out_logger log_callback should_log_callback flush_callback = c_api
     (sguard BadArgument out_logger (allocate (LoggerObj (CallbackLogger should_log_callback log_callback flush_callback))))"

definition nvat_http_options_create_default :: "('c, 'r, 'b, 'i, 'e, 'w) c_env \<Rightarrow> bool \<Rightarrow> ('b, 'w, handle) c_fun" where
  "nvat_http_options_create_default env out = c_api (sguard BadArgument out (allocate (HttpOptionsObj (default_http_options env))))"

text \<open>The setters of the HTTP options do nothing on a null handle and clamp at 0.\<close>

definition set_http_option :: "(http_options \<Rightarrow> http_options) \<Rightarrow> handle \<Rightarrow> ('b, 'w) c_void" where
  "set_http_option f h = c_api_void (if h = None then pure (ret ()) else update_object as_http_options HttpOptionsObj h f)"

definition nvat_http_options_set_max_retry_count :: "handle \<Rightarrow> int \<Rightarrow> ('b, 'w) c_void" where
  "nvat_http_options_set_max_retry_count h n = set_http_option (max_retry_count_update (\<lambda>_. max 0 n)) h"

definition nvat_http_options_set_base_backoff_ms :: "handle \<Rightarrow> int \<Rightarrow> ('b, 'w) c_void" where
  "nvat_http_options_set_base_backoff_ms h n = set_http_option (base_backoff_ms_update (\<lambda>_. max 0 n)) h"

definition nvat_http_options_set_max_backoff_ms :: "handle \<Rightarrow> int \<Rightarrow> ('b, 'w) c_void" where
  "nvat_http_options_set_max_backoff_ms h n = set_http_option (max_backoff_ms_update (\<lambda>_. max 0 n)) h"

definition nvat_http_options_set_connection_timeout_ms :: "handle \<Rightarrow> int \<Rightarrow> ('b, 'w) c_void" where
  "nvat_http_options_set_connection_timeout_ms h n = set_http_option (connection_timeout_ms_update (\<lambda>_. max 0 n)) h"

definition nvat_http_options_set_request_timeout_ms :: "handle \<Rightarrow> int \<Rightarrow> ('b, 'w) c_void" where
  "nvat_http_options_set_request_timeout_ms h n = set_http_option (request_timeout_ms_update (\<lambda>_. max 0 n)) h"

text \<open>The resolution is stored also when it fails.\<close>

definition nvat_http_options_set_ca_bundle_path ::
  "('c, 'r, 'b, 'i, 'e, 'w) c_env \<Rightarrow> handle \<Rightarrow> string option \<Rightarrow> ('b, 'w, unit) c_fun" where
  "nvat_http_options_set_ca_bundle_path env h path = c_api
     (sguard BadArgument (h \<noteq> None \<and> path \<noteq> None)
     (case resolve_ca env (opt_string path) of (resolved, tier, err) \<Rightarrow>
      sbind (update_object as_http_options HttpOptionsObj h
               (\<lambda>o1. o1\<lparr>ca_bundle_path := resolved, ca_bundle_path_tier := tier, ca_bundle_path_error := err\<rparr>)) (\<lambda>_.
      pure (case err of None \<Rightarrow> ret () | Some e \<Rightarrow> fail e))))"

section \<open>Policies, clients and stores\<close>

definition nvat_relying_party_policy_create_rego_from_str :: "bool \<Rightarrow> string option \<Rightarrow> ('b, 'w, handle) c_fun" where
  "nvat_relying_party_policy_create_rego_from_str rp_policy rego_str = c_api
     (sguard BadArgument (rego_str \<noteq> None)
     (sbind (\<lambda>s. allocate (RelyingPartyPolicyObj (length (cs_evaluators s)))
                  (s\<lparr>cs_evaluators := cs_evaluators s @ [opt_string rego_str]\<rparr>)) (\<lambda>h.
      pure (if rp_policy then ret h else undefined_behaviour))))"

definition nvat_apply_relying_party_policy ::
  "('c, 'r, 'b, 'i, 'e, 'w) c_env \<Rightarrow> handle \<Rightarrow> handle \<Rightarrow> ('b, 'w, unit) c_fun" where
  "nvat_apply_relying_party_policy env policy claims = c_api
     (sguard BadArgument (claims \<noteq> None) (sguard BadArgument (policy \<noteq> None)
     (sbind (deref as_collection claims) (\<lambda>cpp_claims.
      sbind (deref as_rp_policy policy) (\<lambda>evaluator.
      sbind (on_world (at_evaluate (ce_attest env) evaluator cpp_claims)) (\<lambda>cpp_match.
      pure (guard RelyingPartyPolicyMismatch cpp_match (ret ()))))))))"

definition new_client :: "'b ocsp_client_object \<Rightarrow> (('b, 'w) c_state, handle) step" where
  "new_client ob s = allocate (OcspClientObj (Some (length (cs_clients s)))) (s\<lparr>cs_clients := cs_clients s @ [ob]\<rparr>)"

definition new_store :: "rim_store_object \<Rightarrow> (('b, 'w) c_state, handle) step" where
  "new_store ob s = allocate (RimStoreObj (Some (length (cs_stores s)))) (s\<lparr>cs_stores := cs_stores s @ [ob]\<rparr>)"

definition nvat_ocsp_client_create_default ::
  "('c, 'r, 'b, 'i, 'e, 'w) c_env \<Rightarrow> bool \<Rightarrow> string option \<Rightarrow> string option \<Rightarrow> handle \<Rightarrow> ('b, 'w, handle) c_fun" where
  "nvat_ocsp_client_create_default env out_client base_url service_key http_options = c_api
     (sguard BadArgument out_client
     (sbind (http_options_or_default env http_options) (\<lambda>options.
      new_client (HttpClientObject
        (resolve_base_url (at_env (ce_attest env)) (opt_string base_url) ''NVAT_OCSP_BASE_URL'' OCSP_DEFAULT_BASE_URL)
        \<lparr>hc_options = options, hc_service_key = opt_string service_key\<rparr>))))"

definition nvat_ocsp_client_create_raw_proofs ::
  "('c, 'r, 'b, 'i, 'e, 'w) c_env \<Rightarrow> bool \<Rightarrow> buffer option \<Rightarrow> int \<Rightarrow> ('b, 'w, handle) c_fun" where
  "nvat_ocsp_client_create_raw_proofs env out_client bundle_der verification_time_unix = c_api
     (sguard BadArgument out_client
     (case bundle_der of
        None \<Rightarrow> pure (fail BadArgument)
      | Some bundle \<Rightarrow>
          sguard BadArgument (bundle \<noteq> []) (sguard BadArgument (length bundle \<le> MAX_BUNDLE_BYTES)
          (sguard BadArgument (0 < verification_time_unix \<and> verification_time_unix \<le> MAX_VERIFICATION_TIME)
          (sbind (pure (raw_client_create_from_bundle (ce_ocsp env) bundle verification_time_unix)) (\<lambda>client.
           new_client (RawProofClientObject client)))))))"

definition nvat_ocsp_client_create_cached :: "bool \<Rightarrow> handle \<Rightarrow> u64 \<Rightarrow> int \<Rightarrow> ('b, 'w, handle) c_fun" where
  "nvat_ocsp_client_create_cached out_client inner_client max_size_bytes ttl_seconds = c_api
     (sguard BadArgument out_client (sguard BadArgument (inner_client \<noteq> None)
     (sbind (deref as_ocsp_client inner_client) (\<lambda>inner. new_client (CacheClientObject inner max_size_bytes ttl_seconds)))))"

definition nvat_rim_store_create_remote ::
  "('c, 'r, 'b, 'i, 'e, 'w) c_env \<Rightarrow> bool \<Rightarrow> string option \<Rightarrow> string option \<Rightarrow> handle \<Rightarrow> ('b, 'w, handle) c_fun" where
  "nvat_rim_store_create_remote env out_store base_url service_key http_options = c_api
     (sguard BadArgument out_store
     (sbind (http_options_or_default env http_options) (\<lambda>options.
      new_store (RemoteStoreObject
        (resolve_base_url (at_env (ce_attest env)) (opt_string base_url) ''NVAT_RIM_SERVICE_BASE_URL'' RIM_DEFAULT_BASE_URL)
        \<lparr>hc_options = options, hc_service_key = opt_string service_key\<rparr>))))"

definition nvat_rim_store_create_filesystem :: "bool \<Rightarrow> string option \<Rightarrow> ('b, 'w, handle) c_fun" where
  "nvat_rim_store_create_filesystem out_store base_path = c_api
     (sguard BadArgument out_store (sguard BadArgument (base_path \<noteq> None)
     (new_store (FilesystemStoreObject (opt_string base_path)))))"

definition nvat_rim_store_create_cached :: "bool \<Rightarrow> handle \<Rightarrow> u64 \<Rightarrow> int \<Rightarrow> ('b, 'w, handle) c_fun" where
  "nvat_rim_store_create_cached out_store inner_store max_size_bytes ttl_seconds = c_api
     (sguard BadArgument out_store (sguard BadArgument (inner_store \<noteq> None)
     (sbind (deref as_rim_store inner_store) (\<lambda>inner. new_store (CachingStoreObject inner max_size_bytes ttl_seconds)))))"

section \<open>The attestation context\<close>

definition nvat_attestation_ctx_create :: "('c, 'r, 'b, 'i, 'e, 'w) c_env \<Rightarrow> bool \<Rightarrow> ('b, 'w, handle) c_fun" where
  "nvat_attestation_ctx_create env ctx = c_api
     (sguard BadArgument ctx (allocate (AttestationCtxObj (new_context (default_http_options env)))))"

abbreviation with_ctx :: "handle \<Rightarrow> (attestation_ctx \<Rightarrow> attestation_ctx) \<Rightarrow> (('b, 'w) c_state, unit) step" where
  "with_ctx ctx f \<equiv> update_object as_ctx AttestationCtxObj ctx f"

definition nvat_attestation_ctx_set_device_type :: "handle \<Rightarrow> u32 \<Rightarrow> ('b, 'w, unit) c_fun" where
  "nvat_attestation_ctx_set_device_type ctx device_type = c_api
     (sguard BadArgument (ctx \<noteq> None) (with_ctx ctx (set_device_type device_type)))"

definition verifier_type_from_c :: "nat \<Rightarrow> verifier_type outcome" where
  "verifier_type_from_c c = (if c = 0 then ret LocalType else if c = 1 then ret RemoteType else fail BadArgument)"

definition nvat_attestation_ctx_set_verifier_type :: "handle \<Rightarrow> nat \<Rightarrow> ('b, 'w, unit) c_fun" where
  "nvat_attestation_ctx_set_verifier_type ctx c_type = c_api
     (sguard BadArgument (ctx \<noteq> None)
     (sbind (pure (verifier_type_from_c c_type)) (\<lambda>ty. with_ctx ctx (set_verifier_type ty))))"

definition nvat_attestation_ctx_set_default_http_options :: "handle \<Rightarrow> handle \<Rightarrow> ('b, 'w, unit) c_fun" where
  "nvat_attestation_ctx_set_default_http_options ctx http_options = c_api
     (sguard BadArgument (ctx \<noteq> None \<and> http_options \<noteq> None)
     (sbind (deref as_http_options http_options) (\<lambda>options. with_ctx ctx (set_default_http_options options))))"

text \<open>
  The policy object is deleted after it was copied; the argument points to the caller's handle variable, which
  is not cleared.
\<close>

definition nvat_attestation_ctx_set_evidence_policy :: "handle \<Rightarrow> handle option \<Rightarrow> ('b, 'w, unit) c_fun" where
  "nvat_attestation_ctx_set_evidence_policy ctx policy_var = c_api
     (sguard BadArgument (ctx \<noteq> None)
     (case policy_var of
        None \<Rightarrow> with_ctx ctx (set_evidence_policy default_evidence_policy)
      | Some None \<Rightarrow> with_ctx ctx (set_evidence_policy default_evidence_policy)
      | Some policy \<Rightarrow>
          sbind (deref as_policy policy) (\<lambda>p.
          sbind (with_ctx ctx (set_evidence_policy p)) (\<lambda>_. delete_object KEvidencePolicy policy))))"

definition nvat_attestation_ctx_set_relying_party_policy :: "handle \<Rightarrow> handle \<Rightarrow> ('b, 'w, unit) c_fun" where
  "nvat_attestation_ctx_set_relying_party_policy ctx rp_policy = c_api
     (sguard BadArgument (ctx \<noteq> None) (sguard BadArgument (rp_policy \<noteq> None)
     (sbind (deref as_rp_policy rp_policy) (\<lambda>evaluator. with_ctx ctx (set_claims_evaluator (Some evaluator))))))"

definition nvat_attestation_ctx_set_default_ocsp_url :: "handle \<Rightarrow> string option \<Rightarrow> ('b, 'w, unit) c_fun" where
  "nvat_attestation_ctx_set_default_ocsp_url ctx url = c_api
     (sguard BadArgument (ctx \<noteq> None) (sguard BadArgument (url \<noteq> None) (with_ctx ctx (set_default_ocsp_url (opt_string url)))))"

definition nvat_attestation_ctx_set_default_nras_url :: "handle \<Rightarrow> string option \<Rightarrow> ('b, 'w, unit) c_fun" where
  "nvat_attestation_ctx_set_default_nras_url ctx url = c_api
     (sguard BadArgument (ctx \<noteq> None) (sguard BadArgument (url \<noteq> None) (with_ctx ctx (set_default_nras_url (opt_string url)))))"

definition nvat_attestation_ctx_set_default_rim_store_url :: "handle \<Rightarrow> string option \<Rightarrow> ('b, 'w, unit) c_fun" where
  "nvat_attestation_ctx_set_default_rim_store_url ctx url = c_api
     (sguard BadArgument (ctx \<noteq> None) (sguard BadArgument (url \<noteq> None) (with_ctx ctx (set_default_rim_store_url (opt_string url)))))"

text \<open>The shared pointer is moved out of the caller's object, which holds null afterwards.\<close>

definition nvat_attestation_ctx_set_default_rim_store :: "handle \<Rightarrow> handle \<Rightarrow> ('b, 'w, unit) c_fun" where
  "nvat_attestation_ctx_set_default_rim_store ctx store_handle = c_api
     (sguard BadArgument (ctx \<noteq> None) (sguard BadArgument (store_handle \<noteq> None)
     (sbind (deref as_rim_store store_handle) (\<lambda>store.
      sbind (with_ctx ctx (set_default_rim_store store)) (\<lambda>_. assign store_handle (RimStoreObj None))))))"

definition nvat_attestation_ctx_set_default_ocsp_client :: "handle \<Rightarrow> handle \<Rightarrow> ('b, 'w, unit) c_fun" where
  "nvat_attestation_ctx_set_default_ocsp_client ctx client_handle = c_api
     (sguard BadArgument (ctx \<noteq> None) (sguard BadArgument (client_handle \<noteq> None)
     (sbind (deref as_ocsp_client client_handle) (\<lambda>client.
      sbind (with_ctx ctx (set_default_ocsp_client client)) (\<lambda>_. assign client_handle (OcspClientObj None))))))"

definition on_ctx :: "handle \<Rightarrow> (attestation_ctx, 'a) step \<Rightarrow> (('b, 'w) c_state, 'a) step" where
  "on_ctx ctx m =
     sbind (deref as_ctx ctx) (\<lambda>c. case m c of (r, c') \<Rightarrow> sbind (assign ctx (AttestationCtxObj c')) (\<lambda>_. pure r))"

definition nvat_attestation_ctx_set_gpu_evidence_source_json_file ::
  "('c, 'r, 'b, 'i, 'e, 'w) c_env \<Rightarrow> handle \<Rightarrow> string option \<Rightarrow> ('b, 'w, unit) c_fun" where
  "nvat_attestation_ctx_set_gpu_evidence_source_json_file env ctx path = c_api
     (sguard BadArgument (ctx \<noteq> None) (sguard BadArgument (path \<noteq> None)
     (on_ctx ctx (set_gpu_evidence_source_json_file (ce_read_file env) (ce_parse env) (ce_b64_decode env) (opt_string path)))))"

definition nvat_attestation_ctx_set_switch_evidence_source_json_file ::
  "('c, 'r, 'b, 'i, 'e, 'w) c_env \<Rightarrow> handle \<Rightarrow> string option \<Rightarrow> ('b, 'w, unit) c_fun" where
  "nvat_attestation_ctx_set_switch_evidence_source_json_file env ctx path = c_api
     (sguard BadArgument (ctx \<noteq> None) (sguard BadArgument (path \<noteq> None)
     (on_ctx ctx (set_switch_evidence_source_json_file (ce_read_file env) (ce_parse env) (ce_b64_decode env) (opt_string path)))))"

definition nvat_attestation_ctx_set_service_key :: "handle \<Rightarrow> string option \<Rightarrow> ('b, 'w, unit) c_fun" where
  "nvat_attestation_ctx_set_service_key ctx key = c_api
     (sguard BadArgument (ctx \<noteq> None) (sguard BadArgument (key \<noteq> None) (with_ctx ctx (set_service_key (opt_string key)))))"

definition nvat_attestation_ctx_set_detached_eat_options :: "handle \<Rightarrow> handle \<Rightarrow> ('b, 'w, unit) c_fun" where
  "nvat_attestation_ctx_set_detached_eat_options ctx eat_options = c_api
     (sguard BadArgument (ctx \<noteq> None) (sguard BadArgument (eat_options \<noteq> None)
     (sbind (deref as_eat_options eat_options) (\<lambda>options. with_ctx ctx (set_detached_eat_options options)))))"

text \<open>
  The attestation itself: the token's string object is created before the call and handed out only when the
  result is success, a false overall result or a policy mismatch; with any other result it is not released.
  The out-parameters are the handle of the token and the handle of the claims.
\<close>

definition run_attestation ::
  "('c, 'r, 'b, 'i, 'e, 'w) c_env \<Rightarrow> handle \<Rightarrow> buffer \<Rightarrow> bool \<Rightarrow> (('b, 'w) c_state, unit outcome \<times> string option \<times> claims list) step" where
  "run_attestation env ctx nonce want_eat =
     sbind (deref as_ctx ctx) (\<lambda>c s.
       case attest_device (ce_attest env) c nonce want_eat [] (cs_world s) of
         (status, token, claims, c', w) \<Rightarrow>
           sbind (assign ctx (AttestationCtxObj c')) (\<lambda>_. pure (ret (status, token, claims))) (s\<lparr>cs_world := w\<rparr>))"

definition reported_status :: "unit outcome \<Rightarrow> bool" where
  "reported_status status \<longleftrightarrow> status \<in> {ret (), fail OverallResultFalse, fail RelyingPartyPolicyMismatch}"

text \<open>The return code of a function that hands out results together with an error.\<close>

definition with_status ::
  "nat outcome \<times> (unit outcome \<times> handle option \<times> handle option) option \<times> 's \<Rightarrow> nat outcome \<times> (handle option \<times> handle option) \<times> 's" where
  "with_status x =
     (case x of
        (rc, None, s') \<Rightarrow> (rc, (None, None), s')
      | (_, Some (status, token_handle, claims_handle), s') \<Rightarrow> (rc_of_outcome status, (token_handle, claims_handle), s'))"

definition report_attestation ::
  "bool \<Rightarrow> bool \<Rightarrow> handle \<Rightarrow> unit outcome \<times> string option \<times> claims list
    \<Rightarrow> (('b, 'w) c_state, unit outcome \<times> handle option \<times> handle option) step" where
  "report_attestation out_detached_eat out_claims token_handle x =
     (case x of (status, token, claims) \<Rightarrow>
      sbind (case token of None \<Rightarrow> pure (ret ()) | Some text_token \<Rightarrow> assign token_handle (StrObj text_token)) (\<lambda>_.
      if \<not> reported_status status then pure (bind status (\<lambda>_. undefined_behaviour))
      else
        sbind (if out_claims then sbind (allocate (ClaimsCollectionObj claims)) (\<lambda>h. pure (ret (Some h))) else pure (ret None)) (\<lambda>claims_handle.
        pure (ret (status, if out_detached_eat then Some token_handle else None, claims_handle)))))"

definition nvat_attest_device ::
  "('c, 'r, 'b, 'i, 'e, 'w) c_env \<Rightarrow> handle \<Rightarrow> handle \<Rightarrow> bool \<Rightarrow> bool
    \<Rightarrow> ('b, 'w) c_state \<Rightarrow> nat outcome \<times> (handle option \<times> handle option) \<times> ('b, 'w) c_state" where
  "nvat_attest_device env ctx nonce out_detached_eat out_claims s = with_status (c_api
     (sguard BadArgument (ctx \<noteq> None)
     (sbind (if nonce = None then pure (ret []) else deref as_nonce nonce) (\<lambda>cpp_nonce.
      sbind (if out_detached_eat then allocate (StrObj []) else pure (ret None)) (\<lambda>token_handle.
      sbind (run_attestation env ctx cpp_nonce out_detached_eat)
        (report_attestation out_detached_eat out_claims token_handle))))) s)"

section \<open>Nonces\<close>

text \<open>A length of 0 is accepted, and then nothing is written.\<close>

definition nvat_nonce_create :: "('c, 'r, 'b, 'i, 'e, 'w) c_env \<Rightarrow> bool \<Rightarrow> nat \<Rightarrow> ('b, 'w, handle option) c_fun" where
  "nvat_nonce_create env out_nonce n = c_api
     (sguard BadArgument out_nonce
     (if n = 0 then pure (ret None)
      else sbind (\<lambda>s. case at_rand_bytes (ce_attest env) n (cs_world s) of
                   (bytes, w) \<Rightarrow> (generate_nonce (\<lambda>_. bytes) (replicate n 0), s\<lparr>cs_world := w\<rparr>)) (\<lambda>nonce.
           sbind (allocate (NonceObj nonce)) (\<lambda>h. pure (ret (Some h))))))"

definition nvat_nonce_get_length :: "handle \<Rightarrow> (('b, 'w) c_state, nat) step" where
  "nvat_nonce_get_length nonce = (if nonce = None then pure (ret 0) else sbind (deref as_nonce nonce) (\<lambda>n. pure (ret (length n))))"

definition nvat_nonce_get_bytes :: "handle \<Rightarrow> bool \<Rightarrow> nat \<Rightarrow> ('b, 'w, buffer) c_fun" where
  "nvat_nonce_get_bytes nonce bytes bytes_len = c_api
     (sguard BadArgument (nonce \<noteq> None) (sguard BadArgument bytes
     (sbind (deref as_nonce nonce) (\<lambda>n. pure (guard BadArgument (bytes_len = length n) (ret n))))))"

definition nvat_nonce_to_hex_string :: "handle \<Rightarrow> bool \<Rightarrow> ('b, 'w, handle) c_fun" where
  "nvat_nonce_to_hex_string nonce out_str = c_api
     (sguard BadArgument (nonce \<noteq> None) (sguard BadArgument out_str
     (sbind (deref as_nonce nonce) (\<lambda>n. allocate (StrObj (to_hex_string n))))))"

definition isxdigit :: "char \<Rightarrow> bool" where
  "isxdigit c \<longleftrightarrow> is_digit 16 c"

definition strip_hex_prefix :: "string \<Rightarrow> string" where
  "strip_hex_prefix s = (if take 2 s = ''0x'' \<or> take 2 s = ''0X'' then drop 2 s else s)"

definition hex_nonce :: "string \<Rightarrow> buffer outcome" where
  "hex_nonce s =
     (let digits = strip_hex_prefix s in
      guard BadArgument (digits \<noteq> [] \<and> length digits mod 2 = 0)
      (guard BadArgument (list_all isxdigit digits)
      (let bytes = hex_string_to_bytes digits in
       guard BadArgument (MIN_VALID_NONCE_LEN \<le> length bytes) (ret bytes))))"

definition nvat_nonce_from_hex :: "bool \<Rightarrow> string option \<Rightarrow> ('b, 'w, handle) c_fun" where
  "nvat_nonce_from_hex out_nonce hex_string = c_api
     (sguard BadArgument out_nonce (sguard BadArgument (hex_string \<noteq> None)
     (sbind (pure (hex_nonce (opt_string hex_string))) (\<lambda>bytes. allocate (NonceObj bytes)))))"

definition nvat_nonce_from_bytes :: "bool \<Rightarrow> buffer option \<Rightarrow> ('b, 'w, handle) c_fun" where
  "nvat_nonce_from_bytes out_nonce input_bytes = c_api
     (sguard BadArgument out_nonce
     (case input_bytes of
        None \<Rightarrow> pure (fail BadArgument)
      | Some bytes \<Rightarrow> sguard BadArgument (MIN_VALID_NONCE_LEN \<le> length bytes) (allocate (NonceObj bytes))))"

section \<open>Evidence\<close>

definition nvat_gpu_evidence_source_nvml_create :: "bool \<Rightarrow> ('b, 'w, handle) c_fun" where
  "nvat_gpu_evidence_source_nvml_create out_source = c_api
     (sguard BadArgument out_source (allocate (GpuEvidenceSourceObj NvmlEvidenceCollector)))"

definition nvat_gpu_evidence_source_corelib_create :: "bool \<Rightarrow> string option \<Rightarrow> ('b, 'w, handle) c_fun" where
  "nvat_gpu_evidence_source_corelib_create out_source architecture = c_api
     (sguard BadArgument out_source (sguard BadArgument (architecture \<noteq> None)
     (let arch = gpu_architecture_from_string (opt_string architecture) in
      sguard BadArgument (arch \<noteq> UnknownArch) (sguard GpuArchitectureNotSupported (arch = Blackwell)
      (allocate (GpuEvidenceSourceObj (CorelibEvidenceCollector arch)))))))"

text \<open>A source read from a file keeps the evidence a source read from a string keeps.\<close>

definition nvat_gpu_evidence_source_from_json_string ::
  "('c, 'r, 'b, 'i, 'e, 'w) c_env \<Rightarrow> bool \<Rightarrow> string option \<Rightarrow> ('b, 'w, handle) c_fun" where
  "nvat_gpu_evidence_source_from_json_string env out_source json_string = c_api
     (sguard BadArgument out_source (sguard BadArgument (json_string \<noteq> None)
     (sbind (pure (evidence_collection_from_json (ce_parse env) (ce_b64_decode env) (opt_string json_string))) (\<lambda>evs.
      allocate (GpuEvidenceSourceObj (GpuJsonFileSource evs))))))"

definition nvat_gpu_evidence_source_from_json_file ::
  "('c, 'r, 'b, 'i, 'e, 'w) c_env \<Rightarrow> bool \<Rightarrow> string option \<Rightarrow> ('b, 'w, handle) c_fun" where
  "nvat_gpu_evidence_source_from_json_file env out_source file_path = c_api
     (sguard BadArgument out_source (sguard BadArgument (file_path \<noteq> None)
     (sbind (pure (gpu_json_file_source_create (ce_read_file env) (ce_parse env) (ce_b64_decode env) (opt_string file_path))) (\<lambda>evs.
      allocate (GpuEvidenceSourceObj (GpuJsonFileSource evs))))))"

definition SWITCH_SPDM_REQ_NONCE_SIZE :: nat where
  "SWITCH_SPDM_REQ_NONCE_SIZE = 32"

text \<open>The caller's nonce, or a random one of the given length.\<close>

definition nonce_or_random :: "('c, 'r, 'b, 'i, 'e, 'w) c_env \<Rightarrow> nat \<Rightarrow> handle \<Rightarrow> (('b, 'w) c_state, buffer) step" where
  "nonce_or_random env n nonce =
     (if nonce \<noteq> None then deref as_nonce nonce
      else (\<lambda>s. case at_rand_bytes (ce_attest env) n (cs_world s) of
                   (bytes, w) \<Rightarrow> (generate_nonce (\<lambda>_. bytes) (replicate n 0), s\<lparr>cs_world := w\<rparr>)))"

fun allocate_all :: "('a \<Rightarrow> c_object) \<Rightarrow> 'a list \<Rightarrow> (('b, 'w) c_state, handle list) step" where
  "allocate_all con [] s = (ret [], s)"
| "allocate_all con (x # xs) s =
     sbind (allocate (con x)) (\<lambda>h. sbind (allocate_all con xs) (\<lambda>hs. pure (ret (h # hs)))) s"

definition new_array ::
  "(handle list \<Rightarrow> c_object) \<Rightarrow> ('a \<Rightarrow> c_object) \<Rightarrow> 'a list \<Rightarrow> (('b, 'w) c_state, handle \<times> nat) step" where
  "new_array array_con con xs =
     sbind (allocate (array_con (replicate (length xs) None))) (\<lambda>array.
     sbind (allocate_all con xs) (\<lambda>hs.
     sbind (assign array (array_con hs)) (\<lambda>_. pure (ret (array, length xs)))))"

text \<open>
  The array and its length; the out-parameters are set to a null pointer and 0 before the collection
  starts, and keep these values when it fails.
\<close>

definition nvat_gpu_evidence_collect ::
  "('c, 'r, 'b, 'i, 'e, 'w) c_env \<Rightarrow> handle \<Rightarrow> handle \<Rightarrow> bool \<Rightarrow> bool \<Rightarrow> ('b, 'w, handle \<times> nat) c_fun" where
  "nvat_gpu_evidence_collect env source nonce out_array out_num s =
     (if source = None \<or> \<not> out_array \<or> \<not> out_num then (ret (rc_of_error BadArgument), None, s)
      else case c_api
        (sbind (deref as_gpu_source source) (\<lambda>cpp_source.
         sbind (nonce_or_random env GPU_SPDM_REQ_NONCE_SIZE nonce) (\<lambda>cpp_nonce.
         sbind (on_world (get_gpu_evidence (ce_attest env) (Some cpp_source) cpp_nonce)) (\<lambda>evidence_list.
         new_array GpuEvidenceArrayObj GpuEvidenceObj evidence_list)))) s of
        (rc, None, s') \<Rightarrow> (rc, Some (None, 0), s')
      | (rc, Some out, s') \<Rightarrow> (rc, Some out, s'))"

text \<open>
  The evidence of the first elements of an array; a null element ends the function that reads it.
\<close>

fun read_elements :: "(c_object \<Rightarrow> 'a option) \<Rightarrow> handle list \<Rightarrow> nat \<Rightarrow> (('b, 'w) c_state, 'a list) step" where
  "read_elements sel hs 0 s = (ret [], s)"
| "read_elements sel [] (Suc n) s = (undefined_behaviour, s)"
| "read_elements sel (h # hs) (Suc n) s =
     sguard BadArgument (h \<noteq> None)
     (sbind (deref sel h) (\<lambda>x. sbind (read_elements sel hs n) (\<lambda>xs. pure (ret (x # xs))))) s"

definition nvat_gpu_evidence_serialize_json ::
  "('c, 'r, 'b, 'i, 'e, 'w) c_env \<Rightarrow> handle \<Rightarrow> nat \<Rightarrow> bool \<Rightarrow> ('b, 'w, handle) c_fun" where
  "nvat_gpu_evidence_serialize_json env array num_evidences out_str = c_api
     (sguard BadArgument (array \<noteq> None) (sguard BadArgument out_str
     (sbind (deref as_gpu_array array) (\<lambda>hs.
      sbind (read_elements as_gpu_evidence hs num_evidences) (\<lambda>evs.
      sbind (pure (evidence_collection_to_json (ce_dump env) (ce_b64_encode env) evs)) (\<lambda>j. allocate (StrObj j)))))))"

definition nvat_switch_evidence_source_nscq_create :: "bool \<Rightarrow> ('b, 'w, handle) c_fun" where
  "nvat_switch_evidence_source_nscq_create out_source = c_api
     (sguard BadArgument out_source (allocate (SwitchEvidenceSourceObj NscqEvidenceCollector)))"

definition nvat_switch_evidence_source_from_json_string ::
  "('c, 'r, 'b, 'i, 'e, 'w) c_env \<Rightarrow> bool \<Rightarrow> string option \<Rightarrow> ('b, 'w, handle) c_fun" where
  "nvat_switch_evidence_source_from_json_string env out_source json_string = c_api
     (sguard BadArgument out_source (sguard BadArgument (json_string \<noteq> None)
     (sbind (pure (switch_collection_from_json (ce_parse env) (ce_b64_decode env) (opt_string json_string))) (\<lambda>evs.
      allocate (SwitchEvidenceSourceObj (SwitchJsonFileSource evs))))))"

definition nvat_switch_evidence_source_from_json_file ::
  "('c, 'r, 'b, 'i, 'e, 'w) c_env \<Rightarrow> bool \<Rightarrow> string option \<Rightarrow> ('b, 'w, handle) c_fun" where
  "nvat_switch_evidence_source_from_json_file env out_source file_path = c_api
     (sguard BadArgument out_source (sguard BadArgument (file_path \<noteq> None)
     (sbind (pure (switch_json_file_source_create (ce_read_file env) (ce_parse env) (ce_b64_decode env) (opt_string file_path))) (\<lambda>evs.
      allocate (SwitchEvidenceSourceObj (SwitchJsonFileSource evs))))))"

text \<open>Unlike the function for GPUs this one leaves the out-parameters alone when it fails.\<close>

definition nvat_switch_evidence_collect ::
  "('c, 'r, 'b, 'i, 'e, 'w) c_env \<Rightarrow> handle \<Rightarrow> handle \<Rightarrow> bool \<Rightarrow> bool \<Rightarrow> ('b, 'w, handle \<times> nat) c_fun" where
  "nvat_switch_evidence_collect env source nonce out_array out_num = c_api
     (sguard BadArgument (source \<noteq> None) (sguard BadArgument out_array (sguard BadArgument out_num
     (sbind (deref as_switch_source source) (\<lambda>cpp_source.
      sbind (nonce_or_random env SWITCH_SPDM_REQ_NONCE_SIZE nonce) (\<lambda>cpp_nonce.
      sbind (on_world (get_switch_evidence (ce_attest env) (Some cpp_source) cpp_nonce)) (\<lambda>evidence_list.
      new_array SwitchEvidenceArrayObj SwitchEvidenceObj evidence_list)))))))"

definition nvat_switch_evidence_serialize_json ::
  "('c, 'r, 'b, 'i, 'e, 'w) c_env \<Rightarrow> handle \<Rightarrow> nat \<Rightarrow> bool \<Rightarrow> ('b, 'w, handle) c_fun" where
  "nvat_switch_evidence_serialize_json env array num_evidences out_str = c_api
     (sguard BadArgument (array \<noteq> None) (sguard BadArgument out_str
     (sbind (deref as_switch_array array) (\<lambda>hs.
      sbind (read_elements as_switch_evidence hs num_evidences) (\<lambda>evs.
      sbind (pure (switch_collection_to_json (ce_dump env) (ce_b64_encode env) evs)) (\<lambda>j. allocate (StrObj j)))))))"

section \<open>Claims and tokens\<close>

definition nvat_claims_serialize_json :: "('c, 'r, 'b, 'i, 'e, 'w) c_env \<Rightarrow> handle \<Rightarrow> bool \<Rightarrow> ('b, 'w, handle) c_fun" where
  "nvat_claims_serialize_json env claims_handle out_str = c_api
     (sguard BadArgument (claims_handle \<noteq> None) (sguard BadArgument out_str
     (sbind (deref as_claims claims_handle) (\<lambda>c.
      sbind (pure (serialize_to_json (ce_dump env) (\<lambda>c. ret (claims_to_json c)) c)) (\<lambda>j. allocate (StrObj j))))))"

definition nvat_claims_collection_serialize_json ::
  "('c, 'r, 'b, 'i, 'e, 'w) c_env \<Rightarrow> handle \<Rightarrow> bool \<Rightarrow> ('b, 'w, handle) c_fun" where
  "nvat_claims_collection_serialize_json env claims_handle out_str = c_api
     (sguard BadArgument (claims_handle \<noteq> None) (sguard BadArgument out_str
     (sbind (deref as_collection claims_handle) (\<lambda>cs.
      sbind (pure (collection_serialize_json (ce_dump env) cs)) (\<lambda>j. allocate (StrObj j))))))"

text \<open>The other collection is copied first, so that both handles may be the same.\<close>

definition nvat_claims_collection_extend :: "handle \<Rightarrow> handle \<Rightarrow> ('b, 'w, unit) c_fun" where
  "nvat_claims_collection_extend collection other = c_api
     (sguard BadArgument (collection \<noteq> None) (sguard BadArgument (other \<noteq> None)
     (sbind (deref as_collection other) (\<lambda>others.
      update_object as_collection ClaimsCollectionObj collection (\<lambda>cs. cs @ others)))))"

definition string_or :: "string \<Rightarrow> string option \<Rightarrow> string" where
  "string_or default_value s = (case s of None \<Rightarrow> default_value | Some t \<Rightarrow> t)"

definition nvat_detached_eat_options_create ::
  "bool \<Rightarrow> string option \<Rightarrow> string option \<Rightarrow> string option \<Rightarrow> ('b, 'w, handle) c_fun" where
  "nvat_detached_eat_options_create out_options private_key_pem issuer kid = c_api
     (sguard BadArgument out_options
     (allocate (DetachedEatOptionsObj
        \<lparr>eo_private_key_pem = string_or (eo_private_key_pem default_eat_options) private_key_pem,
         eo_issuer = string_or (eo_issuer default_eat_options) issuer,
         eo_kid = string_or (eo_kid default_eat_options) kid\<rparr>)))"

definition eat_options_or_default :: "handle \<Rightarrow> (('b, 'w) c_state, eat_options) step" where
  "eat_options_or_default h = (if h = None then pure (ret default_eat_options) else deref as_eat_options h)"

definition nvat_get_detached_eat_es384 ::
  "('c, 'r, 'b, 'i, 'e, 'w) c_env \<Rightarrow> handle \<Rightarrow> handle \<Rightarrow> bool \<Rightarrow> ('b, 'w, handle) c_fun" where
  "nvat_get_detached_eat_es384 env claims_handle options out_detached_eat = c_api
     (sguard BadArgument (claims_handle \<noteq> None) (sguard BadArgument out_detached_eat
     (sbind (deref as_collection claims_handle) (\<lambda>cs.
      sbind (eat_options_or_default options) (\<lambda>cpp_options.
      sbind (on_world (\<lambda>w. case get_detached_eat (ce_eat env) (ce_now env w) cpp_options cs w of
                (Inl f, _, w') \<Rightarrow> (Inl f, w')
              | (Inr _, token, w') \<Rightarrow> (ret (opt_string token), w'))) (\<lambda>token.
      allocate (StrObj token)))))))"

section \<open>Evidence policies\<close>

definition nvat_evidence_policy_create_default :: "bool \<Rightarrow> ('b, 'w, handle) c_fun" where
  "nvat_evidence_policy_create_default out_policy = c_api
     (sguard BadArgument out_policy (allocate (EvidencePolicyObj default_evidence_policy)))"

definition nvat_evidence_policy_set_verify_rim_signature :: "handle \<Rightarrow> bool \<Rightarrow> ('b, 'w) c_void" where
  "nvat_evidence_policy_set_verify_rim_signature policy v = c_api_void
     (if policy = None then pure (ret ())
      else update_object as_policy EvidencePolicyObj policy (\<lambda>p. p\<lparr>verify_rim_signature := v\<rparr>))"

definition nvat_evidence_policy_set_verify_rim_cert_chain :: "handle \<Rightarrow> bool \<Rightarrow> ('b, 'w) c_void" where
  "nvat_evidence_policy_set_verify_rim_cert_chain policy v = c_api_void
     (if policy = None then pure (ret ())
      else update_object as_policy EvidencePolicyObj policy (\<lambda>p. p\<lparr>verify_rim_cert_chain := v\<rparr>))"

definition gpu_claims_version_from_c :: "byte \<Rightarrow> gpu_claims_version outcome" where
  "gpu_claims_version_from_c v = (if v = 3 then ret GpuClaimsV3 else fail BadArgument)"

definition switch_claims_version_from_c :: "byte \<Rightarrow> switch_claims_version outcome" where
  "switch_claims_version_from_c v = (if v = 3 then ret SwitchClaimsV3 else fail BadArgument)"

definition nvat_evidence_policy_set_gpu_claims_version :: "handle \<Rightarrow> byte \<Rightarrow> ('b, 'w, unit) c_fun" where
  "nvat_evidence_policy_set_gpu_claims_version policy version = c_api
     (sguard BadArgument (policy \<noteq> None)
     (sbind (pure (gpu_claims_version_from_c version)) (\<lambda>v.
      update_object as_policy EvidencePolicyObj policy (\<lambda>p. p\<lparr>ep_gpu_claims_version := v\<rparr>))))"

definition nvat_evidence_policy_set_switch_claims_version :: "handle \<Rightarrow> byte \<Rightarrow> ('b, 'w, unit) c_fun" where
  "nvat_evidence_policy_set_switch_claims_version policy version = c_api
     (sguard BadArgument (policy \<noteq> None)
     (sbind (pure (switch_claims_version_from_c version)) (\<lambda>v.
      update_object as_policy EvidencePolicyObj policy (\<lambda>p. p\<lparr>ep_switch_claims_version := v\<rparr>))))"

section \<open>Verifiers\<close>

definition nvat_gpu_nras_verifier_create ::
  "('c, 'r, 'b, 'i, 'e, 'w) c_env \<Rightarrow> bool \<Rightarrow> string option \<Rightarrow> string option \<Rightarrow> handle \<Rightarrow> ('b, 'w, handle) c_fun" where
  "nvat_gpu_nras_verifier_create env out_verifier base_url service_key http_options = c_api
     (sguard BadArgument out_verifier
     (sbind (http_options_or_default env http_options) (\<lambda>options.
      allocate (GpuVerifierObj (RemoteVerifier (fst (remote_init_from_env (at_env (ce_attest env)) ''/v4/attest/gpu''
        base_url (opt_string service_key) options)))))))"

definition nvat_switch_nras_verifier_create ::
  "('c, 'r, 'b, 'i, 'e, 'w) c_env \<Rightarrow> bool \<Rightarrow> string option \<Rightarrow> string option \<Rightarrow> handle \<Rightarrow> ('b, 'w, handle) c_fun" where
  "nvat_switch_nras_verifier_create env out_verifier base_url service_key http_options = c_api
     (sguard BadArgument out_verifier
     (sbind (http_options_or_default env http_options) (\<lambda>options.
      allocate (SwitchVerifierObj (RemoteVerifier (fst (remote_init_from_env (at_env (ce_attest env)) ''/v4/attest/switch''
        base_url (opt_string service_key) options)))))))"

text \<open>\<^verbatim>\<open>create\<close> of the local verifiers, on shared pointers that may be null.\<close>

definition local_verifier :: "nat option \<Rightarrow> nat option \<Rightarrow> eat_options \<Rightarrow> verifier_ref outcome" where
  "local_verifier store client options =
     (case store of
        None \<Rightarrow> fail BadArgument
      | Some st \<Rightarrow> (case client of
                       None \<Rightarrow> fail BadArgument
                     | Some cl \<Rightarrow> ret (LocalVerifier (GivenRimStore st) (GivenOcspClient cl) options)))"

definition nvat_gpu_local_verifier_create :: "bool \<Rightarrow> handle \<Rightarrow> handle \<Rightarrow> handle \<Rightarrow> ('b, 'w, handle) c_fun" where
  "nvat_gpu_local_verifier_create out_verifier store_handle client_handle eat_handle = c_api
     (sguard BadArgument out_verifier (sguard BadArgument (store_handle \<noteq> None) (sguard BadArgument (client_handle \<noteq> None)
     (sbind (eat_options_or_default eat_handle) (\<lambda>options.
      sbind (deref as_rim_store store_handle) (\<lambda>store.
      sbind (deref as_ocsp_client client_handle) (\<lambda>client.
      sbind (pure (local_verifier store client options)) (\<lambda>v. allocate (GpuVerifierObj v)))))))))"

definition nvat_switch_local_verifier_create :: "bool \<Rightarrow> handle \<Rightarrow> handle \<Rightarrow> handle \<Rightarrow> ('b, 'w, handle) c_fun" where
  "nvat_switch_local_verifier_create out_verifier store_handle client_handle eat_handle = c_api
     (sguard BadArgument out_verifier (sguard BadArgument (store_handle \<noteq> None) (sguard BadArgument (client_handle \<noteq> None)
     (sbind (eat_options_or_default eat_handle) (\<lambda>options.
      sbind (deref as_rim_store store_handle) (\<lambda>store.
      sbind (deref as_ocsp_client client_handle) (\<lambda>client.
      sbind (pure (local_verifier store client options)) (\<lambda>v. allocate (SwitchVerifierObj v)))))))))"

text \<open>
  Verification: claims, and a token if one is wanted, are handed out when the verifier succeeds or the
  overall result is false.  The result is the verifier's status with the handles of the token and the claims.
\<close>

definition deliver ::
  "unit outcome \<times> string option \<times> claims list \<times> 'w \<Rightarrow> bool
    \<Rightarrow> (('b, 'w) c_state, unit outcome \<times> handle option \<times> handle option) step" where
  "deliver result out_detached_eat s =
     (case result of (status, token, claims, w) \<Rightarrow>
        if status \<noteq> ret () \<and> status \<noteq> fail OverallResultFalse then (bind status (\<lambda>_. undefined_behaviour), s\<lparr>cs_world := w\<rparr>)
        else
          sbind (allocate (ClaimsCollectionObj claims)) (\<lambda>claims_handle.
          sbind (if out_detached_eat then sbind (allocate (StrObj (opt_string token))) (\<lambda>h. pure (ret (Some h))) else pure (ret None)) (\<lambda>token_handle.
          pure (ret (status, token_handle, Some claims_handle)))) (s\<lparr>cs_world := w\<rparr>))"

definition nvat_verify_gpu_evidence ::
  "('c, 'r, 'b, 'i, 'e, 'w) c_env \<Rightarrow> handle \<Rightarrow> handle \<Rightarrow> nat \<Rightarrow> handle \<Rightarrow> bool \<Rightarrow> bool
    \<Rightarrow> ('b, 'w) c_state \<Rightarrow> nat outcome \<times> (handle option \<times> handle option) \<times> ('b, 'w) c_state" where
  "nvat_verify_gpu_evidence env verifier_handle array num_evidences policy out_detached_eat out_claims s = with_status (c_api
     (sguard BadArgument (verifier_handle \<noteq> None) (sguard BadArgument (array \<noteq> None)
     (sguard BadArgument (policy \<noteq> None) (sguard BadArgument out_claims
     (sbind (deref as_gpu_verifier verifier_handle) (\<lambda>v.
      sbind (deref as_gpu_array array) (\<lambda>hs.
      sbind (read_elements as_gpu_evidence hs num_evidences) (\<lambda>evs.
      sbind (deref as_policy policy) (\<lambda>p s'.
      deliver (at_gpu_verify (ce_attest env) v evs p out_detached_eat [] (cs_world s')) out_detached_eat s'))))))))) s)"

definition nvat_verify_switch_evidence ::
  "('c, 'r, 'b, 'i, 'e, 'w) c_env \<Rightarrow> handle \<Rightarrow> handle \<Rightarrow> nat \<Rightarrow> handle \<Rightarrow> bool \<Rightarrow> bool
    \<Rightarrow> ('b, 'w) c_state \<Rightarrow> nat outcome \<times> (handle option \<times> handle option) \<times> ('b, 'w) c_state" where
  "nvat_verify_switch_evidence env verifier_handle array num_evidences policy out_detached_eat out_claims s = with_status (c_api
     (sguard BadArgument (verifier_handle \<noteq> None) (sguard BadArgument (array \<noteq> None)
     (sguard BadArgument (policy \<noteq> None) (sguard BadArgument out_claims
     (sbind (deref as_switch_verifier verifier_handle) (\<lambda>v.
      sbind (deref as_switch_array array) (\<lambda>hs.
      sbind (read_elements as_switch_evidence hs num_evidences) (\<lambda>evs.
      sbind (deref as_policy policy) (\<lambda>p s'.
      deliver (at_switch_verify (ce_attest env) v evs p out_detached_eat [] (cs_world s')) out_detached_eat s'))))))))) s)"

end
