(* ===== verification/Cli_Options.thy ===== *)
theory Cli_Options
  imports C_Api
begin

text \<open>
  The options of the command line tool (\<^verbatim>\<open>nv-attestation-cli/src/nvattest_options.h\<close>, \<^verbatim>\<open>utils.cpp\<close>): their declarations,
  the checks that run when parsing is complete, and the readers of the two offline inputs (\<^verbatim>\<open>attest.cpp\<close>).
  Parsing itself is CLI11's; what the tool asks of it, the count and text of an option and the check that a file
  exists, is an argument.  A \<^verbatim>\<open>ValidationError\<close> is the option it names with its message.
\<close>

section \<open>Options\<close>

record evidence_collection_options =
  cli_nonce :: string
  cli_device :: string
  cli_gpu_evidence_source :: string
  cli_switch_evidence_source :: string
  cli_gpu_evidence_file :: string
  cli_switch_evidence_file :: string
  cli_gpu_architecture :: string

record evidence_policy_options =
  cli_verify_rim_signature :: bool
  cli_verify_rim_cert_chain :: bool

record evidence_verification_options =
  cli_verifier :: string
  cli_relying_party_policy :: string
  cli_rim_store :: string
  cli_rim_url :: string
  cli_rim_path :: string
  cli_ocsp_url :: string
  cli_nras_url :: string
  cli_service_key :: string
  cli_ca_bundle_path :: string
  cli_ocsp_proof_bundle :: string
  cli_ocsp_verification_time :: string

record common_options =
  cli_log_level_str :: string
  cli_format :: string

definition pretty_device :: "evidence_collection_options \<Rightarrow> string" where
  "pretty_device o1 =
     (if cli_device o1 = ''gpu'' then ''GPU'' else if cli_device o1 = ''nvswitch'' then ''NVSwitch'' else cli_device o1)"

definition offline_status_proofs :: "evidence_verification_options \<Rightarrow> bool" where
  "offline_status_proofs o1 \<longleftrightarrow> cli_ocsp_proof_bundle o1 \<noteq> []"

definition get_log_level :: "common_options \<Rightarrow> log_level" where
  "get_log_level o1 =
     (let l = cli_log_level_str o1 in
      if l = ''trace'' then TRACE else if l = ''debug'' then DEBUG else if l = ''info'' then INFO
      else if l = ''warn'' then WARNING else if l = ''error'' then ERROR else if l = ''off'' then OFF else INFO)"

section \<open>Declarations\<close>

text \<open>
  A declared option: its name, the environment variable that supplies it, its check and the value it has when it is not
  given.  The architecture is transformed to upper case before it is checked without regard to case.
\<close>

datatype option_check = Unchecked | IsMember "string list" | ExistingFile | ExistingDirectory

record option_decl =
  od_name :: string
  od_envname :: "string option"
  od_check :: option_check
  od_default :: string

definition collection_decls :: "option_decl list" where
  "collection_decls =
     [\<lparr>od_name = ''--nonce'', od_envname = None, od_check = Unchecked, od_default = ''''\<rparr>,
      \<lparr>od_name = ''--device'', od_envname = None, od_check = IsMember [''gpu'', ''nvswitch''], od_default = ''gpu''\<rparr>,
      \<lparr>od_name = ''--gpu-evidence-source'', od_envname = None, od_check = IsMember [''nvml'', ''corelib'', ''file''], od_default = ''nvml''\<rparr>,
      \<lparr>od_name = ''--gpu-architecture'', od_envname = None, od_check = IsMember [upper ''blackwell''], od_default = ''''\<rparr>,
      \<lparr>od_name = ''--gpu-evidence-file'', od_envname = None, od_check = Unchecked, od_default = ''''\<rparr>,
      \<lparr>od_name = ''--nvswitch-evidence-source'', od_envname = None, od_check = IsMember [''nscq'', ''file''], od_default = ''nscq''\<rparr>,
      \<lparr>od_name = ''--nvswitch-evidence-file'', od_envname = None, od_check = Unchecked, od_default = ''''\<rparr>]"

definition verification_decls :: "option_decl list" where
  "verification_decls =
     [\<lparr>od_name = ''--verifier'', od_envname = None, od_check = IsMember [''local'', ''remote''], od_default = ''local''\<rparr>,
      \<lparr>od_name = ''--relying-party-policy'', od_envname = None, od_check = ExistingFile, od_default = ''''\<rparr>,
      \<lparr>od_name = ''--rim-store'', od_envname = None, od_check = IsMember [''remote'', ''dir''], od_default = ''remote''\<rparr>,
      \<lparr>od_name = ''--rim-url'', od_envname = Some ''NVAT_RIM_SERVICE_BASE_URL'', od_check = Unchecked,
        od_default = ''https://rim.attestation.nvidia.com''\<rparr>,
      \<lparr>od_name = ''--rim-dir'', od_envname = None, od_check = ExistingDirectory, od_default = ''.''\<rparr>,
      \<lparr>od_name = ''--ocsp-url'', od_envname = Some ''NVAT_OCSP_BASE_URL'', od_check = Unchecked,
        od_default = ''https://ocsp.ndis.nvidia.com''\<rparr>,
      \<lparr>od_name = ''--nras-url'', od_envname = Some ''NVAT_NRAS_BASE_URL'', od_check = Unchecked,
        od_default = ''https://nras.attestation.nvidia.com''\<rparr>,
      \<lparr>od_name = ''--service-key'', od_envname = Some ''NV_ATTESTATION_SERVICE_KEY'', od_check = Unchecked, od_default = ''''\<rparr>,
      \<lparr>od_name = ''--ca-bundle'', od_envname = Some ''NVAT_CA_BUNDLE'', od_check = Unchecked, od_default = ''''\<rparr>,
      \<lparr>od_name = ''--ocsp-proof-bundle'', od_envname = None, od_check = ExistingFile, od_default = ''''\<rparr>,
      \<lparr>od_name = ''--ocsp-verification-time'', od_envname = None, od_check = Unchecked, od_default = ''''\<rparr>]"

definition common_decls :: "option_decl list" where
  "common_decls =
     [\<lparr>od_name = ''--log-level'', od_envname = Some ''NVAT_LOG_LEVEL'',
        od_check = IsMember [''trace'', ''debug'', ''info'', ''warn'', ''error'', ''off''], od_default = ''info''\<rparr>,
      \<lparr>od_name = ''--format'', od_envname = Some ''NVAT_FORMAT'', od_check = IsMember [''text'', ''json''], od_default = ''text''\<rparr>]"

text \<open>The text each option of a record holds, by the name it is declared with.\<close>

definition collection_values :: "evidence_collection_options \<Rightarrow> (string \<times> string) list" where
  "collection_values o1 =
     [(''--nonce'', cli_nonce o1), (''--device'', cli_device o1), (''--gpu-evidence-source'', cli_gpu_evidence_source o1),
      (''--gpu-architecture'', cli_gpu_architecture o1), (''--gpu-evidence-file'', cli_gpu_evidence_file o1),
      (''--nvswitch-evidence-source'', cli_switch_evidence_source o1), (''--nvswitch-evidence-file'', cli_switch_evidence_file o1)]"

definition verification_values :: "evidence_verification_options \<Rightarrow> (string \<times> string) list" where
  "verification_values o1 =
     [(''--verifier'', cli_verifier o1), (''--relying-party-policy'', cli_relying_party_policy o1), (''--rim-store'', cli_rim_store o1),
      (''--rim-url'', cli_rim_url o1), (''--rim-dir'', cli_rim_path o1), (''--ocsp-url'', cli_ocsp_url o1), (''--nras-url'', cli_nras_url o1),
      (''--service-key'', cli_service_key o1), (''--ca-bundle'', cli_ca_bundle_path o1), (''--ocsp-proof-bundle'', cli_ocsp_proof_bundle o1),
      (''--ocsp-verification-time'', cli_ocsp_verification_time o1)]"

text \<open>
  What CLI11 accepts: an option has its default, or a value that passes its check.  \<open>existing_file\<close> and \<open>existing_directory\<close> are
  \<^verbatim>\<open>CLI::ExistingFile\<close> and \<^verbatim>\<open>CLI::ExistingDirectory\<close>: the text of an error, empty when the path exists.
\<close>

definition passes :: "(string \<Rightarrow> string) \<Rightarrow> (string \<Rightarrow> string) \<Rightarrow> option_check \<Rightarrow> string \<Rightarrow> bool" where
  "passes existing_file existing_directory check v =
     (case check of
        Unchecked \<Rightarrow> True
      | IsMember ms \<Rightarrow> v \<in> set ms
      | ExistingFile \<Rightarrow> existing_file v = []
      | ExistingDirectory \<Rightarrow> existing_directory v = [])"

definition admitted ::
  "(string \<Rightarrow> string) \<Rightarrow> (string \<Rightarrow> string) \<Rightarrow> option_decl list \<Rightarrow> (string \<times> string) list \<Rightarrow> bool" where
  "admitted existing_file existing_directory decls vals \<longleftrightarrow>
     list_all (\<lambda>d. case map_of vals (od_name d) of
        None \<Rightarrow> False
      | Some v \<Rightarrow> v = od_default d \<or> passes existing_file existing_directory (od_check d) v) decls"

text \<open>The flags of the evidence policy, both set by default.\<close>

definition default_policy_options :: evidence_policy_options where
  "default_policy_options = \<lparr>cli_verify_rim_signature = True, cli_verify_rim_cert_chain = True\<rparr>"

section \<open>Checks when parsing is complete\<close>

type_synonym validation = "(string \<times> string) option"

definition check_evidence_file :: "(string \<Rightarrow> string) \<Rightarrow> string \<Rightarrow> string \<Rightarrow> string \<Rightarrow> validation" where
  "check_evidence_file existing_file name missing file =
     (if file = [] then Some (name, missing)
      else let result = existing_file file in if result \<noteq> [] then Some (name, result) else None)"

definition validate_evidence_collection_options :: "(string \<Rightarrow> string) \<Rightarrow> evidence_collection_options \<Rightarrow> validation" where
  "validate_evidence_collection_options existing_file o1 =
     (case (if cli_device o1 = ''gpu'' \<and> cli_gpu_evidence_source o1 = ''file''
            then check_evidence_file existing_file ''--gpu-evidence-file''
              ''--gpu-evidence-file must be provided when --gpu-evidence-source=file'' (cli_gpu_evidence_file o1)
            else None) of
        Some e \<Rightarrow> Some e
      | None \<Rightarrow>
          if cli_device o1 = ''gpu'' \<and> cli_gpu_evidence_source o1 = ''corelib'' \<and> cli_gpu_architecture o1 = []
          then Some (''--gpu-architecture'', ''--gpu-architecture is required when --gpu-evidence-source=corelib'')
          else if cli_device o1 = ''nvswitch'' \<and> cli_switch_evidence_source o1 = ''file''
          then check_evidence_file existing_file ''--nvswitch-evidence-file''
            ''--nvswitch-evidence-file must be provided when --nvswitch-evidence-source=file'' (cli_switch_evidence_file o1)
          else None)"

text \<open>
  An option counts as given on the command line when it has a value other than the one its environment variable
  supplies; \<open>app\<close> gives the count and the text of an option it knows.
\<close>

definition given_on_command_line ::
  "(string \<Rightarrow> (nat \<times> string) option) \<Rightarrow> (string \<Rightarrow> string option) \<Rightarrow> string \<Rightarrow> string \<Rightarrow> bool" where
  "given_on_command_line app env name envname =
     (case app name of
        None \<Rightarrow> False
      | Some (n, v) \<Rightarrow> if n = 0 then False else (case env envname of None \<Rightarrow> True | Some e \<Rightarrow> v \<noteq> e))"

definition network_options :: "(string \<times> string) list" where
  "network_options =
     [(''--ocsp-url'', ''NVAT_OCSP_BASE_URL''), (''--rim-url'', ''NVAT_RIM_SERVICE_BASE_URL''), (''--nras-url'', ''NVAT_NRAS_BASE_URL''),
      (''--service-key'', ''NV_ATTESTATION_SERVICE_KEY''), (''--ca-bundle'', ''NVAT_CA_BUNDLE'')]"

definition decimal :: "char \<Rightarrow> bool" where
  "decimal c \<longleftrightarrow> c \<in> set ''0123456789''"

definition validate_offline_status_options ::
  "(string \<Rightarrow> (nat \<times> string) option) \<Rightarrow> (string \<Rightarrow> string option) \<Rightarrow> evidence_verification_options \<Rightarrow> validation" where
  "validate_offline_status_options app env o1 =
     (let time = cli_ocsp_verification_time o1 in
      if time = [] \<or> 18 < length time \<or> \<not> list_all decimal time \<or> list_all (\<lambda>c. c = CHR ''0'') time
      then Some (''--ocsp-verification-time'', ''--ocsp-proof-bundle needs a positive decimal --ocsp-verification-time'')
      else if cli_verifier o1 \<noteq> ''local'' then Some (''--ocsp-proof-bundle'', ''requires --verifier local'')
      else if cli_rim_store o1 \<noteq> ''dir'' then Some (''--ocsp-proof-bundle'', ''requires --rim-store dir'')
      else case find (\<lambda>(name, envname). given_on_command_line app env name envname) network_options of
        Some (name, _) \<Rightarrow> Some (name, ''cannot be combined with --ocsp-proof-bundle, which contacts no service'')
      | None \<Rightarrow> None)"

text \<open>A C string ends at the first null character.\<close>

definition c_str :: "string \<Rightarrow> string" where
  "c_str s = takeWhile (\<lambda>c. c \<noteq> CHR 0x00) s"

text \<open>
  The check of the CA bundle: new HTTP options are made and released, and only the result of resolving the path is
  looked at.
\<close>

definition validate_ca_bundle :: "('c, 'r, 'b, 'i, 'e, 'w) c_env \<Rightarrow> evidence_verification_options \<Rightarrow> validation" where
  "validate_ca_bundle env o1 =
     (let path = cli_ca_bundle_path o1 in
      case resolve_ca env (c_str path) of
        (_, _, None) \<Rightarrow> None
      | (_, _, Some _) \<Rightarrow>
          if path \<noteq> []
          then Some (''--ca-bundle'', ''CA bundle path '' @ [CHR 0x27] @ path @ [CHR 0x27] @ '' from '' @
             (if at_env (ce_attest env) ''NVAT_CA_BUNDLE'' = Some path then ''--ca-bundle or NVAT_CA_BUNDLE'' else ''--ca-bundle'')
             @ '' does not exist or is not readable; provide a readable file with --ca-bundle or NVAT_CA_BUNDLE.'')
          else Some (''--ca-bundle'', ''No readable CA bundle was found; provide one with --ca-bundle or NVAT_CA_BUNDLE.''))"

text \<open>The callback of the \<^verbatim>\<open>attest\<close> subcommand.\<close>

definition attest_parse_complete ::
  "('c, 'r, 'b, 'i, 'e, 'w) c_env \<Rightarrow> (string \<Rightarrow> string) \<Rightarrow> (string \<Rightarrow> (nat \<times> string) option) \<Rightarrow> evidence_collection_options
    \<Rightarrow> evidence_verification_options \<Rightarrow> validation" where
  "attest_parse_complete env existing_file app collection o1 =
     (case validate_evidence_collection_options existing_file collection of
        Some e \<Rightarrow> Some e
      | None \<Rightarrow>
          if cli_ocsp_verification_time o1 \<noteq> [] \<and> \<not> offline_status_proofs o1
          then Some (''--ocsp-verification-time'', ''is only used with --ocsp-proof-bundle'')
          else if offline_status_proofs o1 then validate_offline_status_options app (at_env (ce_attest env)) o1
          else validate_ca_bundle env o1)"

section \<open>The offline inputs\<close>

text \<open>
  A file that could be opened: its bytes, and whether reading it fails.  At most one byte more than the limit is read;
  \<^verbatim>\<open>gcount\<close> counts the bytes that were read.
\<close>

definition read_status_proof_bundle :: "(string \<Rightarrow> (buffer \<times> bool) option) \<Rightarrow> string \<Rightarrow> nat + buffer" where
  "read_status_proof_bundle open_file path =
     (case open_file path of
        None \<Rightarrow> Inl (rc_of_error BadArgument)
      | Some (content, bad) \<Rightarrow>
          let bundle = take (MAX_BUNDLE_BYTES + 1) content in
          if bad \<or> length bundle \<le> 0 \<or> MAX_BUNDLE_BYTES < length bundle then Inl (rc_of_error BadArgument) else Inr bundle)"

text \<open>The digits are added up in an \<^verbatim>\<open>int64_t\<close>.\<close>

definition add_digit :: "64 word \<Rightarrow> char \<Rightarrow> 64 word" where
  "add_digit parsed digit = parsed * 10 + word_of_int (int (of_char digit) - 48)"

definition parse_verification_time :: "string \<Rightarrow> nat + int" where
  "parse_verification_time v =
     (if v = [] \<or> 18 < length v \<or> \<not> list_all decimal v then Inl (rc_of_error BadArgument)
      else let parsed = sint (foldl add_digit 0 v) in
        if parsed \<le> 0 then Inl (rc_of_error BadArgument) else Inr parsed)"

section \<open>The verification time\<close>

lemma decimal_digit: "decimal c \<Longrightarrow> \<exists>d < 10. digit_value c = Some d \<and> of_char c = 48 + d \<and> (d = 0 \<longleftrightarrow> c = CHR ''0'')"
  unfolding decimal_def by (simp, elim disjE) (simp_all add: digit_value_def)

lemma digits_value_snoc: "digits_value base (ds @ [c]) = digits_value base ds * base + the (digit_value c)"
  by (simp add: digits_value_def)

lemma digits_value_bound: "list_all decimal v \<Longrightarrow> digits_value 10 v < 10 ^ length v"
proof (induction v rule: rev_induct)
  case (snoc c v)
  have "decimal c" using snoc.prems by simp
  then obtain d where "d < 10" "digit_value c = Some d" using decimal_digit by blast
  then show ?case using snoc by (simp add: digits_value_snoc)
qed (simp add: digits_value_def)

lemma digits_value_zero: "list_all decimal v \<Longrightarrow> digits_value 10 v = 0 \<longleftrightarrow> list_all (\<lambda>c. c = CHR ''0'') v"
proof (induction v rule: rev_induct)
  case (snoc c v)
  have "decimal c" using snoc.prems by simp
  then obtain d where "digit_value c = Some d" "d = 0 \<longleftrightarrow> c = CHR ''0''" using decimal_digit by blast
  then show ?case using snoc by (auto simp: digits_value_snoc)
qed (simp add: digits_value_def)

lemma parsed_digits: "list_all decimal v \<Longrightarrow> foldl add_digit 0 v = word_of_nat (digits_value 10 v)"
proof (induction v rule: rev_induct)
  case (snoc c v)
  have "decimal c" using snoc.prems by simp
  then obtain d where "digit_value c = Some d" "of_char c = 48 + d" using decimal_digit by blast
  then show ?case using snoc by (simp add: digits_value_snoc add_digit_def)
qed (simp add: digits_value_def)

lemma network_option_found: "find P network_options = Some (name, envname) \<Longrightarrow> name \<noteq> ''--ocsp-verification-time''"
  by (auto simp: network_options_def split: if_splits)

lemma parsed_value:
  assumes "list_all decimal v" and "length v \<le> 18"
  shows "sint (foldl add_digit 0 v) = int (digits_value 10 v)"
proof -
  have "digits_value 10 v < 10 ^ 18"
    using digits_value_bound [OF assms(1)] power_increasing [OF assms(2), of "10 :: nat"] by linarith
  then have "int (digits_value 10 v) < 2 ^ 63" by simp
  then show ?thesis unfolding parsed_digits [OF assms(1)] by (simp add: signed_of_nat signed_take_bit_int_eq_self)
qed

text \<open>
  C23 (verification_time_exact): the time of the offline mode.  The parser accepts exactly the texts of 1 to 18 decimal digits that are not all
  zero and returns the number they spell, without overflow of the 64-bit sum; and the check of the command line rejects the option
  exactly when the parser would.
\<close>

theorem verification_time_exact:
  "parse_verification_time v
     = (if v \<noteq> [] \<and> length v \<le> 18 \<and> list_all decimal v \<and> 0 < digits_value 10 v then Inr (int (digits_value 10 v))
        else Inl (rc_of_error BadArgument))
   \<and> ((\<exists>msg. validate_offline_status_options app env o1 = Some (''--ocsp-verification-time'', msg))
      \<longleftrightarrow> parse_verification_time (cli_ocsp_verification_time o1) = Inl (rc_of_error BadArgument))"
proof -
  have parse: "parse_verification_time v
     = (if v \<noteq> [] \<and> length v \<le> 18 \<and> list_all decimal v \<and> 0 < digits_value 10 v then Inr (int (digits_value 10 v))
        else Inl (rc_of_error BadArgument))" for v
    using parsed_value [of v] by (auto simp: parse_verification_time_def Let_def simp del: rc_of_error.simps)
  show ?thesis
  proof
    show "(\<exists>msg. validate_offline_status_options app env o1 = Some (''--ocsp-verification-time'', msg))
      \<longleftrightarrow> parse_verification_time (cli_ocsp_verification_time o1) = Inl (rc_of_error BadArgument)"
      unfolding parse validate_offline_status_options_def Let_def
      using digits_value_zero [of "cli_ocsp_verification_time o1"]
      by (auto dest!: network_option_found split: option.splits if_splits simp del: rc_of_error.simps)
  qed (rule parse)
qed

end
