(* ===== verification/Cli.thy ===== *)
theory Cli
  imports Cli_Options
begin

text \<open>
  The command line tool (\<^verbatim>\<open>nv-attestation-cli/src\<close>): the subcommands \<^verbatim>\<open>attest\<close> and \<^verbatim>\<open>collect-evidence\<close> as clients of the C
  interface, what they print, and \<^verbatim>\<open>main\<close>.  A return code other than \<^verbatim>\<open>NVAT_RC_OK\<close> ends a function with that code; the
  destructors of the owning pointers release the objects on every way out.  Diagnostics sent to the log while a subcommand
  runs are left out; what is printed at its end is a list of lines.
\<close>

section \<open>Calls that end the function\<close>

type_synonym ('s, 'a) cli = "'s \<Rightarrow> (nat + 'a) outcome \<times> 's"

definition creturn :: "'a \<Rightarrow> ('s, 'a) cli" where
  "creturn x s = (ret (Inr x), s)"

definition cfail :: "nat \<Rightarrow> ('s, 'a) cli" where
  "cfail rc s = (ret (Inl rc), s)"

definition cbind :: "('s, 'a) cli \<Rightarrow> ('a \<Rightarrow> ('s, 'c) cli) \<Rightarrow> ('s, 'c) cli" where
  "cbind m k s =
     (case m s of
        (Inl f, s') \<Rightarrow> (Inl f, s')
      | (Inr (Inl rc), s') \<Rightarrow> (ret (Inl rc), s')
      | (Inr (Inr x), s') \<Rightarrow> k x s')"

text \<open>\<^verbatim>\<open>err = f(...); if (err != NVAT_RC_OK) return ...(err);\<close>\<close>

definition call :: "('b, 'w, 'a) c_fun \<Rightarrow> (('b, 'w) c_state, 'a option) cli" where
  "call f s =
     (case f s of
        (Inl x, _, s') \<Rightarrow> (Inl x, s')
      | (Inr rc, out, s') \<Rightarrow> (ret (if rc = 0 then Inr out else Inl rc), s'))"

definition run :: "('b, 'w, 'a) c_fun \<Rightarrow> (('b, 'w) c_state, unit) cli" where
  "run f = cbind (call f) (\<lambda>_. creturn ())"

text \<open>A call that writes a handle variable, which is null before.\<close>

definition create :: "('b, 'w, handle) c_fun \<Rightarrow> (('b, 'w) c_state, handle) cli" where
  "create f = cbind (call f) (\<lambda>out. creturn (case out of None \<Rightarrow> None | Some h \<Rightarrow> h))"

definition void :: "(('b, 'w) c_state \<Rightarrow> 'a outcome \<times> ('b, 'w) c_state) \<Rightarrow> (('b, 'w) c_state, unit) cli" where
  "void f s = (case f s of (Inl x, s') \<Rightarrow> (Inl x, s') | (Inr _, s') \<Rightarrow> (ret (Inr ()), s'))"

text \<open>The destructor of an owning pointer to the handle variable.\<close>

definition release :: "obj_kind \<Rightarrow> handle \<Rightarrow> (('b, 'w) c_state, 'a) cli \<Rightarrow> (('b, 'w) c_state, 'a) cli" where
  "release k h m s =
     (case m s of
        (Inl f, s') \<Rightarrow> (Inl f, s')
      | (Inr r, s') \<Rightarrow>
          (case nvat_free k (Some h) s' of (Inl f, s'') \<Rightarrow> (Inl f, s'') | (Inr _, s'') \<Rightarrow> (ret r, s'')))"

definition owned :: "obj_kind \<Rightarrow> (('b, 'w) c_state, handle) cli \<Rightarrow> (handle \<Rightarrow> (('b, 'w) c_state, 'a) cli) \<Rightarrow> (('b, 'w) c_state, 'a) cli" where
  "owned k acquire body = cbind acquire (\<lambda>h. release k h (body h))"

text \<open>The wrapper of an evidence array: the array is freed if there is one.\<close>

definition release_array ::
  "obj_kind \<Rightarrow> obj_kind \<Rightarrow> (c_object \<Rightarrow> handle list option) \<Rightarrow> handle \<Rightarrow> nat \<Rightarrow> (('b, 'w) c_state, 'a) cli \<Rightarrow> (('b, 'w) c_state, 'a) cli" where
  "release_array ak k sel h n m s =
     (case m s of
        (Inl f, s') \<Rightarrow> (Inl f, s')
      | (Inr r, s') \<Rightarrow>
          if h = None then (ret r, s')
          else (case nvat_array_free ak k sel (Some h) n s' of (Inl f, s'') \<Rightarrow> (Inl f, s'') | (Inr _, s'') \<Rightarrow> (ret r, s'')))"

definition on_failure :: "('s, 'a) cli \<Rightarrow> (nat \<Rightarrow> ('s, 'a) cli) \<Rightarrow> ('s, 'a) cli" where
  "on_failure m k s = (case m s of (Inr (Inl rc), s') \<Rightarrow> k rc s' | r \<Rightarrow> r)"

section \<open>The environment of the tool\<close>

record ('c, 'r, 'b, 'i, 'e, 'w) cli_env =
  cv_api :: "('c, 'r, 'b, 'i, 'e, 'w) c_env"
  cv_open_text :: "string \<Rightarrow> string option"
  cv_open_binary :: "string \<Rightarrow> (buffer \<times> bool) option"
  cv_dump4 :: "json \<Rightarrow> string outcome"
  cv_error_messages :: "'w \<Rightarrow> string list"
  cv_version :: string
  cv_help :: string

definition setenv :: "string \<Rightarrow> string \<Rightarrow> ('c, 'r, 'b, 'i, 'e, 'w) c_env \<Rightarrow> ('c, 'r, 'b, 'i, 'e, 'w) c_env" where
  "setenv name v env = env\<lparr>ce_attest := (ce_attest env)\<lparr>at_env := (at_env (ce_attest env))(name \<mapsto> v)\<rparr>\<rparr>"

definition init_sdk :: "('c, 'r, 'b, 'i, 'e, 'w) c_env \<Rightarrow> (('b, 'w) c_state, unit) cli" where
  "init_sdk env =
     owned KSdkOpts (create (nvat_sdk_opts_create True)) (\<lambda>opts.
     cbind (create (nvat_logger_callback_create True True True True)) (\<lambda>nvat_logger.
     cbind (void (nvat_sdk_opts_set_logger opts nvat_logger)) (\<lambda>_.
     cbind (void (nvat_free KLogger (Some nvat_logger))) (\<lambda>_.
     run (nvat_sdk_init env opts)))))"

section \<open>Attestation\<close>

record attest_output =
  ao_result_code :: nat
  ao_claims :: string
  ao_detached_eat :: string

definition set_relying_party_policy ::
  "('c, 'r, 'b, 'i, 'e, 'w) cli_env \<Rightarrow> handle \<Rightarrow> string \<Rightarrow> (('b, 'w) c_state, unit) cli" where
  "set_relying_party_policy cv ctx filename =
     (if filename = [] then creturn ()
      else case cv_open_text cv filename of
        None \<Rightarrow> cfail (rc_of_error BadArgument)
      | Some rego_str \<Rightarrow>
          owned KRelyingPartyPolicy (create (nvat_relying_party_policy_create_rego_from_str True (Some (c_str rego_str)))) (\<lambda>rp_policy.
          run (nvat_attestation_ctx_set_relying_party_policy ctx rp_policy)))"

text \<open>The parts of \<^verbatim>\<open>attest\<close>, in its order.  In offline mode there are no HTTP options.\<close>

definition with_http_options ::
  "('c, 'r, 'b, 'i, 'e, 'w) c_env \<Rightarrow> evidence_verification_options \<Rightarrow> (handle \<Rightarrow> (('b, 'w) c_state, 'a) cli) \<Rightarrow> (('b, 'w) c_state, 'a) cli" where
  "with_http_options env ver body =
     (if offline_status_proofs ver then body None
      else owned KHttpOptions (create (nvat_http_options_create_default env True)) (\<lambda>http_options.
        cbind (run (nvat_http_options_set_ca_bundle_path env http_options (Some (c_str (cli_ca_bundle_path ver))))) (\<lambda>_.
        body http_options)))"

definition apply_evidence_policy :: "evidence_policy_options \<Rightarrow> handle \<Rightarrow> (('b, 'w) c_state, unit) cli" where
  "apply_evidence_policy pol ctx =
     cbind (create (nvat_evidence_policy_create_default True)) (\<lambda>evidence_policy.
     cbind (void (nvat_evidence_policy_set_verify_rim_signature evidence_policy (cli_verify_rim_signature pol))) (\<lambda>_.
     cbind (void (nvat_evidence_policy_set_verify_rim_cert_chain evidence_policy (cli_verify_rim_cert_chain pol))) (\<lambda>_.
     on_failure (run (nvat_attestation_ctx_set_evidence_policy ctx (Some evidence_policy))) (\<lambda>err.
       cbind (void (nvat_free KEvidencePolicy (Some evidence_policy))) (\<lambda>_. cfail err)))))"

definition select_device ::
  "('c, 'r, 'b, 'i, 'e, 'w) c_env \<Rightarrow> evidence_collection_options \<Rightarrow> handle \<Rightarrow> (('b, 'w) c_state, unit) cli" where
  "select_device env col ctx =
     (if cli_device col = ''gpu''
      then cbind (run (nvat_attestation_ctx_set_device_type ctx 0)) (\<lambda>_.
        if cli_gpu_evidence_source col = ''corelib'' then cfail (rc_of_error BadArgument)
        else if cli_gpu_evidence_source col = ''file''
        then run (nvat_attestation_ctx_set_gpu_evidence_source_json_file env ctx (Some (c_str (cli_gpu_evidence_file col))))
        else creturn ())
      else if cli_device col = ''nvswitch''
      then cbind (run (nvat_attestation_ctx_set_device_type ctx 1)) (\<lambda>_.
        if cli_switch_evidence_source col = ''file''
        then run (nvat_attestation_ctx_set_switch_evidence_source_json_file env ctx (Some (c_str (cli_switch_evidence_file col))))
        else creturn ())
      else creturn ())"

definition service_key_arg :: "evidence_verification_options \<Rightarrow> string option" where
  "service_key_arg ver = (if cli_service_key ver = [] then None else Some (c_str (cli_service_key ver)))"

definition configure_rim_store ::
  "('c, 'r, 'b, 'i, 'e, 'w) c_env \<Rightarrow> evidence_verification_options \<Rightarrow> handle \<Rightarrow> handle \<Rightarrow> (('b, 'w) c_state, unit) cli" where
  "configure_rim_store env ver http_options ctx =
     (if cli_verifier ver \<noteq> ''local'' then creturn ()
      else owned KRimStore
        (if cli_rim_store ver = ''remote'' \<and> \<not> offline_status_proofs ver
         then create (nvat_rim_store_create_remote env True (Some (c_str (cli_rim_url ver))) (service_key_arg ver) http_options)
         else if cli_rim_store ver = ''dir''
         then create (nvat_rim_store_create_filesystem True (Some (c_str (cli_rim_path ver))))
         else cfail (rc_of_error BadArgument))
        (\<lambda>rim_store. run (nvat_attestation_ctx_set_default_rim_store ctx rim_store)))"

definition configure_status ::
  "('c, 'r, 'b, 'i, 'e, 'w) cli_env \<Rightarrow> evidence_verification_options \<Rightarrow> handle \<Rightarrow> handle \<Rightarrow> (('b, 'w) c_state, unit) cli" where
  "configure_status cv ver http_options ctx =
     (if offline_status_proofs ver
      then case read_status_proof_bundle (cv_open_binary cv) (cli_ocsp_proof_bundle ver) of
        Inl err \<Rightarrow> cfail err
      | Inr bundle \<Rightarrow>
          (case parse_verification_time (cli_ocsp_verification_time ver) of
             Inl err \<Rightarrow> cfail err
           | Inr verification_time \<Rightarrow>
               owned KOcspClient (create (nvat_ocsp_client_create_raw_proofs (cv_api cv) True (Some bundle) verification_time)) (\<lambda>ocsp_client.
               run (nvat_attestation_ctx_set_default_ocsp_client ctx ocsp_client)))
      else if cli_ocsp_url ver \<noteq> []
      then owned KOcspClient
        (create (nvat_ocsp_client_create_default (cv_api cv) True (Some (c_str (cli_ocsp_url ver))) (service_key_arg ver) http_options)) (\<lambda>ocsp_client.
        run (nvat_attestation_ctx_set_default_ocsp_client ctx ocsp_client))
      else creturn ())"

definition env_of_nras_url :: "evidence_verification_options \<Rightarrow> ('c, 'r, 'b, 'i, 'e, 'w) c_env \<Rightarrow> ('c, 'r, 'b, 'i, 'e, 'w) c_env" where
  "env_of_nras_url ver env =
     (if \<not> offline_status_proofs ver \<and> cli_nras_url ver \<noteq> [] then setenv ''NVAT_NRAS_BASE_URL'' (c_str (cli_nras_url ver)) env else env)"

definition select_verifier :: "evidence_verification_options \<Rightarrow> handle \<Rightarrow> (('b, 'w) c_state, unit) cli" where
  "select_verifier ver ctx =
     (if cli_verifier ver = ''local'' then run (nvat_attestation_ctx_set_verifier_type ctx 0)
      else if cli_verifier ver = ''remote'' then run (nvat_attestation_ctx_set_verifier_type ctx 1)
      else cfail (rc_of_error BadArgument))"

text \<open>The nonce object is never released.\<close>

definition attest_nonce :: "evidence_collection_options \<Rightarrow> (('b, 'w) c_state, handle) cli" where
  "attest_nonce col =
     (if cli_nonce col = [] then creturn None else create (nvat_nonce_from_hex True (Some (c_str (cli_nonce col)))))"

definition out_string :: "string option \<Rightarrow> string" where
  "out_string s = (case s of None \<Rightarrow> [] | Some t \<Rightarrow> c_str t)"

definition read_results ::
  "('c, 'r, 'b, 'i, 'e, 'w) c_env \<Rightarrow> nat \<Rightarrow> handle \<Rightarrow> handle \<Rightarrow> (('b, 'w) c_state, attest_output) cli" where
  "read_results env code detached_eat claims =
     owned KStr (create (nvat_claims_collection_serialize_json env claims True)) (\<lambda>serialized_claims.
     cbind (call (nvat_str_get_data serialized_claims True)) (\<lambda>claims_data.
     cbind (call (nvat_str_get_data detached_eat True)) (\<lambda>eat_data.
     creturn \<lparr>ao_result_code = code, ao_claims = out_string claims_data, ao_detached_eat = out_string eat_data\<rparr>)))"

definition run_attest_device ::
  "('c, 'r, 'b, 'i, 'e, 'w) c_env \<Rightarrow> handle \<Rightarrow> handle \<Rightarrow> (('b, 'w) c_state, attest_output) cli" where
  "run_attest_device env ctx nonce s =
     (case nvat_attest_device env ctx nonce True True s of
        (Inl f, _, s') \<Rightarrow> (Inl f, s')
      | (Inr err, (out_eat, out_claims), s') \<Rightarrow>
          if err \<noteq> 0 \<and> err \<noteq> rc_of_error RelyingPartyPolicyMismatch \<and> err \<noteq> rc_of_error OverallResultFalse then (ret (Inl err), s')
          else
            let detached_eat = (case out_eat of None \<Rightarrow> None | Some h \<Rightarrow> h);
                claims = (case out_claims of None \<Rightarrow> None | Some h \<Rightarrow> h) in
            release KClaimsCollection claims (release KStr detached_eat (read_results env err detached_eat claims)) s')"

definition attest_with_context ::
  "('c, 'r, 'b, 'i, 'e, 'w) cli_env \<Rightarrow> evidence_collection_options \<Rightarrow> evidence_verification_options \<Rightarrow> evidence_policy_options
    \<Rightarrow> handle \<Rightarrow> handle \<Rightarrow> (('b, 'w) c_state, attest_output) cli" where
  "attest_with_context cv col ver pol http_options ctx =
     cbind (if offline_status_proofs ver then creturn () else run (nvat_attestation_ctx_set_default_http_options ctx http_options)) (\<lambda>_.
     cbind (apply_evidence_policy pol ctx) (\<lambda>_.
     cbind (select_device (cv_api cv) col ctx) (\<lambda>_.
     cbind (if \<not> offline_status_proofs ver \<and> cli_service_key ver \<noteq> []
            then run (nvat_attestation_ctx_set_service_key ctx (Some (c_str (cli_service_key ver)))) else creturn ()) (\<lambda>_.
     cbind (configure_rim_store (cv_api cv) ver http_options ctx) (\<lambda>_.
     cbind (configure_status cv ver http_options ctx) (\<lambda>_.
     cbind (set_relying_party_policy cv ctx (cli_relying_party_policy ver)) (\<lambda>_.
     cbind (select_verifier ver ctx) (\<lambda>_.
     cbind (attest_nonce col) (\<lambda>nonce.
     run_attest_device (env_of_nras_url ver (cv_api cv)) ctx nonce)))))))))"

definition attest_steps ::
  "('c, 'r, 'b, 'i, 'e, 'w) cli_env \<Rightarrow> evidence_collection_options \<Rightarrow> evidence_verification_options \<Rightarrow> evidence_policy_options
    \<Rightarrow> (('b, 'w) c_state, attest_output) cli" where
  "attest_steps cv col ver pol =
     cbind (init_sdk (cv_api cv)) (\<lambda>_.
     if offline_status_proofs ver \<and> (cli_verifier ver \<noteq> ''local'' \<or> cli_rim_store ver \<noteq> ''dir'') then cfail (rc_of_error BadArgument)
     else with_http_options (cv_api cv) ver (\<lambda>http_options.
       owned KAttestationCtx (create (nvat_attestation_ctx_create (cv_api cv) True)) (\<lambda>ctx.
       attest_with_context cv col ver pol http_options ctx)))"

definition attest ::
  "('c, 'r, 'b, 'i, 'e, 'w) cli_env \<Rightarrow> evidence_collection_options \<Rightarrow> evidence_verification_options \<Rightarrow> evidence_policy_options
    \<Rightarrow> (('b, 'w) c_state, attest_output) step" where
  "attest cv col ver pol s =
     (case attest_steps cv col ver pol s of
        (Inl f, s') \<Rightarrow> (Inl f, s')
      | (Inr (Inl err), s') \<Rightarrow> (ret \<lparr>ao_result_code = err, ao_claims = [], ao_detached_eat = []\<rparr>, s')
      | (Inr (Inr out), s') \<Rightarrow> (ret out, s'))"

end
