(* ===== verification/C_Safety.thy ===== *)
theory C_Safety
  imports C_Api
begin

text \<open>
  Memory safety of the C interface.  A client that passes to a function only null pointers and handles it was
  given and has not given back never makes the interface read, write or delete anything else; what it was
  given stays alive and of the type it was given as.
\<close>

section \<open>Heaps\<close>

definition heap_ok :: "('b, 'w) c_state \<Rightarrow> bool" where
  "heap_ok s \<longleftrightarrow> (\<forall>a. cs_next s \<le> a \<longrightarrow> cs_objects s a = None)"

definition live :: "('b, 'w) c_state \<Rightarrow> obj_kind \<Rightarrow> handle \<Rightarrow> bool" where
  "live s k h \<longleftrightarrow> (\<exists>a ob. h = Some a \<and> cs_objects s a = Some ob \<and> kind_of ob = k)"

definition usable :: "('b, 'w) c_state \<Rightarrow> obj_kind \<Rightarrow> handle \<Rightarrow> bool" where
  "usable s k h \<longleftrightarrow> h = None \<or> live s k h"

text \<open>Objects outside the given set keep their type; new ones may appear.\<close>

definition extends :: "nat set \<Rightarrow> ('b, 'w) c_state \<Rightarrow> ('b, 'w) c_state \<Rightarrow> bool" where
  "extends D s s' \<longleftrightarrow> heap_ok s' \<and> (\<forall>a ob. a \<notin> D \<longrightarrow> cs_objects s a = Some ob \<longrightarrow>
     (\<exists>ob'. cs_objects s' a = Some ob' \<and> kind_of ob' = kind_of ob))"

lemma extends_refl [simp, intro]: "heap_ok s \<Longrightarrow> extends D s s"
  by (simp add: extends_def)

lemma extends_heap_ok: "extends D s s' \<Longrightarrow> heap_ok s'"
  by (simp add: extends_def)

lemma extends_trans: "extends {} s s' \<Longrightarrow> extends D s' s'' \<Longrightarrow> extends D s s''"
  unfolding extends_def by (metis empty_iff)

lemma live_mono: "live s k h \<Longrightarrow> extends {} s s' \<Longrightarrow> live s' k h"
  unfolding live_def extends_def by (metis empty_iff)

lemma usable_mono: "usable s k h \<Longrightarrow> extends {} s s' \<Longrightarrow> usable s' k h"
  unfolding usable_def by (metis live_mono)

lemma live_of_usable: "usable s k h \<Longrightarrow> h \<noteq> None \<Longrightarrow> live s k h"
  by (simp add: usable_def)

lemma usable_Some [simp]: "usable s k (Some a) = live s k (Some a)"
  by (simp add: usable_def)

lemma usable_None [simp]: "usable s k None"
  by (simp add: usable_def)

lemma extends_world [simp]:
  "extends {} s (s\<lparr>cs_world := w\<rparr>) \<longleftrightarrow> heap_ok s" "extends {} s (s\<lparr>cs_sdk := g, cs_world := w\<rparr>) \<longleftrightarrow> heap_ok s"
  "extends {} s (s\<lparr>cs_stores := st\<rparr>) \<longleftrightarrow> heap_ok s" "extends {} s (s\<lparr>cs_clients := cl\<rparr>) \<longleftrightarrow> heap_ok s"
  "extends {} s (s\<lparr>cs_evaluators := ev\<rparr>) \<longleftrightarrow> heap_ok s"
  by (simp_all add: extends_def heap_ok_def)

section \<open>Safe steps\<close>

text \<open>From the given state a step has a defined outcome, keeps the objects, and its value satisfies the predicate.\<close>

definition safe ::
  "('b, 'w) c_state \<Rightarrow> nat set \<Rightarrow> (('b, 'w) c_state, 'a) step \<Rightarrow> ('a \<Rightarrow> ('b, 'w) c_state \<Rightarrow> bool) \<Rightarrow> bool" where
  "safe s D m Q \<longleftrightarrow> (case m s of (r, s') \<Rightarrow> r \<noteq> Inl UB \<and> extends D s s' \<and> (\<forall>x. r = Inr x \<longrightarrow> Q x s'))"

text \<open>A selector that reads every object of one type.\<close>

definition selects :: "obj_kind \<Rightarrow> (c_object \<Rightarrow> 'a option) \<Rightarrow> bool" where
  "selects k sel \<longleftrightarrow> (\<forall>ob. kind_of ob = k \<longrightarrow> sel ob \<noteq> None)"

named_theorems safe_rules "decomposition of safety along the step combinators"

lemma selector_kinds [safe_rules]:
  "selects KLogger as_logger" "selects KSdkOpts as_sdk_opts" "selects KNonce as_nonce"
  "selects KGpuEvidence as_gpu_evidence" "selects KGpuEvidenceArray as_gpu_array" "selects KGpuEvidenceSource as_gpu_source"
  "selects KSwitchEvidence as_switch_evidence" "selects KSwitchEvidenceArray as_switch_array"
  "selects KSwitchEvidenceSource as_switch_source" "selects KEvidencePolicy as_policy" "selects KRelyingPartyPolicy as_rp_policy"
  "selects KHttpOptions as_http_options" "selects KOcspClient as_ocsp_client" "selects KRimStore as_rim_store"
  "selects KClaims as_claims" "selects KClaimsCollection as_collection" "selects KAttestationCtx as_ctx"
  "selects KGpuVerifier as_gpu_verifier" "selects KSwitchVerifier as_switch_verifier" "selects KStr as_str"
  "selects KDetachedEatOptions as_eat_options"
  by (auto simp: selects_def as_logger_def as_sdk_opts_def as_nonce_def as_gpu_evidence_def as_gpu_array_def as_gpu_source_def
      as_switch_evidence_def as_switch_array_def as_switch_source_def as_policy_def as_rp_policy_def as_http_options_def
      as_ocsp_client_def as_rim_store_def as_claims_def as_collection_def as_ctx_def as_gpu_verifier_def as_switch_verifier_def
      as_str_def as_eat_options_def split: c_object.splits)

lemma safe_sbind:
  assumes "safe s {} m R" and "\<And>x s'. extends {} s s' \<Longrightarrow> R x s' \<Longrightarrow> safe s' D (k x) Q"
  shows "safe s D (sbind m k) Q"
proof -
  obtain r s' where m: "m s = (r, s')" by (cases "m s")
  then have first: "r \<noteq> Inl UB" "extends {} s s'" "\<forall>x. r = Inr x \<longrightarrow> R x s'" using assms(1) by (simp_all add: safe_def)
  show ?thesis
  proof (cases r)
    case (Inl f)
    then have "extends D s s'" using first(2) unfolding extends_def by blast
    then show ?thesis using m first Inl by (simp add: safe_def sbind_def)
  next
    case (Inr x)
    then have "safe s' D (k x) Q" using assms(2) first by blast
    then show ?thesis using m Inr extends_trans [OF first(2)] by (auto simp: safe_def sbind_def)
  qed
qed

lemma safe_sguard [safe_rules]: "heap_ok s \<Longrightarrow> (c \<Longrightarrow> safe s D m Q) \<Longrightarrow> safe s D (sguard e c m) Q"
  by (simp add: safe_def sguard_def fail_def)

lemma safe_if [safe_rules]: "(c \<Longrightarrow> safe s D m Q) \<Longrightarrow> (\<not> c \<Longrightarrow> safe s D n Q) \<Longrightarrow> safe s D (if c then m else n) Q"
  by simp

lemma safe_pure [safe_rules]: "heap_ok s \<Longrightarrow> r \<noteq> Inl UB \<Longrightarrow> (\<And>x. r = Inr x \<Longrightarrow> Q x s) \<Longrightarrow> safe s D (pure r) Q"
  by (simp add: safe_def pure_def)

lemma bind_pure [safe_rules]: "heap_ok s \<Longrightarrow> r \<noteq> Inl UB \<Longrightarrow> (\<And>x. r = Inr x \<Longrightarrow> safe s D (k x) Q) \<Longrightarrow> safe s D (sbind (pure r) k) Q"
  by (cases r) (simp_all add: safe_def sbind_def pure_def)

text \<open>Reading an object.\<close>

lemma deref_live:
  assumes "selects k sel" and "live s k h"
  shows "\<exists>a ob x. h = Some a \<and> cs_objects s a = Some ob \<and> sel ob = Some x \<and> deref sel h s = (Inr x, s)"
  using assms by (force simp: selects_def live_def deref_def ret_def)

lemma bind_deref [safe_rules]:
  assumes "selects k sel" and "live s k h"
    and "\<And>a ob x. h = Some a \<Longrightarrow> cs_objects s a = Some ob \<Longrightarrow> sel ob = Some x \<Longrightarrow> safe s D (f x) Q"
  shows "safe s D (sbind (deref sel h) f) Q"
proof -
  obtain a ob x where x: "h = Some a" "cs_objects s a = Some ob" "sel ob = Some x" "deref sel h s = (Inr x, s)"
    using deref_live [OF assms(1,2)] by blast
  then have "sbind (deref sel h) f s = f x s" by (simp add: sbind_def)
  then show ?thesis using assms(3) [OF x(1-3)] by (simp add: safe_def)
qed

lemma safe_deref: "heap_ok s \<Longrightarrow> selects k sel \<Longrightarrow> live s k h \<Longrightarrow> safe s D (deref sel h) (\<lambda>_ _. True)"
  using deref_live [of k sel s h] by (auto simp: safe_def)

text \<open>Writing, creating and deleting.\<close>

lemma safe_assign:
  assumes "heap_ok s" and "live s (kind_of ob) h"
  shows "safe s D (assign h ob) (\<lambda>_ _. True)"
proof -
  obtain a ob' where a: "h = Some a" "cs_objects s a = Some ob'" "kind_of ob' = kind_of ob" using assms(2) by (auto simp: live_def)
  then have "a < cs_next s" using assms(1) unfolding heap_ok_def by (metis not_le option.distinct(1))
  then show ?thesis using a assms(1) by (auto simp: safe_def assign_def ret_def extends_def heap_ok_def)
qed

lemma safe_allocate:
  assumes "heap_ok s"
  shows "safe s D (allocate ob) (\<lambda>h s'. live s' (kind_of ob) h)"
  using assms by (auto simp: safe_def allocate_def ret_def extends_def heap_ok_def live_def)

lemma safe_allocate_as [safe_rules]: "heap_ok s \<Longrightarrow> kind_of ob = k \<Longrightarrow> safe s D (allocate ob) (\<lambda>h s'. live s' k h)"
  using safe_allocate by blast

lemma bind_allocate [safe_rules]:
  "heap_ok s \<Longrightarrow> (\<And>h s'. heap_ok s' \<Longrightarrow> extends {} s s' \<Longrightarrow> live s' (kind_of ob) h \<Longrightarrow> safe s' D (f h) Q) \<Longrightarrow> safe s D (sbind (allocate ob) f) Q"
  by (rule safe_sbind [OF safe_allocate]) (auto dest: extends_heap_ok)

lemma safe_assign_as [safe_rules]: "heap_ok s \<Longrightarrow> live s k h \<Longrightarrow> kind_of ob = k \<Longrightarrow> safe s D (assign h ob) (\<lambda>_ _. True)"
  using safe_assign by blast

lemma bind_assign [safe_rules]:
  "heap_ok s \<Longrightarrow> live s k h \<Longrightarrow> kind_of ob = k \<Longrightarrow> (\<And>s'. heap_ok s' \<Longrightarrow> extends {} s s' \<Longrightarrow> safe s' D (f ()) Q)
    \<Longrightarrow> safe s D (sbind (assign h ob) f) Q"
  by (rule safe_sbind [OF safe_assign]) (auto dest: extends_heap_ok)

lemma safe_delete [safe_rules]:
  assumes "heap_ok s" and "usable s k h" and "set_option h \<subseteq> D"
  shows "safe s D (delete_object k h) (\<lambda>_ _. True)"
  using assms by (auto simp: safe_def delete_object_def usable_def live_def ret_def extends_def heap_ok_def split: option.splits)

lemma safe_update:
  assumes "heap_ok s" and "selects k sel" and "live s k h" and "\<And>x. kind_of (con x) = k"
  shows "safe s D (update_object sel con h f) (\<lambda>_ _. True)"
  unfolding update_object_def using assms by (intro bind_deref [OF assms(2,3)] safe_assign_as [OF assms(1,3)]) simp

lemma bind_update [safe_rules]:
  assumes "heap_ok s" and "selects k sel" and "live s k h" and "\<And>x. kind_of (con x) = k"
    and "\<And>s'. heap_ok s' \<Longrightarrow> extends {} s s' \<Longrightarrow> safe s' D (g ()) Q"
  shows "safe s D (sbind (update_object sel con h f) g) Q"
  by (rule safe_sbind [OF safe_update [OF assms(1-4)]]) (use assms(5) extends_heap_ok in auto)

lemmas safe_update_rule [safe_rules] = safe_update

lemma safe_on_world: "heap_ok s \<Longrightarrow> fst (m (cs_world s)) \<noteq> Inl UB \<Longrightarrow> safe s D (on_world m) (\<lambda>_ _. True)"
  by (auto simp: safe_def on_world_def extends_def heap_ok_def split: prod.splits)

lemma bind_on_world [safe_rules]:
  "heap_ok s \<Longrightarrow> fst (m (cs_world s)) \<noteq> Inl UB \<Longrightarrow> (\<And>x s'. heap_ok s' \<Longrightarrow> extends {} s s' \<Longrightarrow> safe s' D (f x) Q)
    \<Longrightarrow> safe s D (sbind (on_world m) f) Q"
  by (rule safe_sbind [OF safe_on_world]) (auto dest: extends_heap_ok)

section \<open>Calls\<close>

text \<open>The handles a function hands out, with the types they are handed out as.\<close>

definition no_handles :: "nat outcome \<times> 'a option \<times> 's \<Rightarrow> nat outcome \<times> (obj_kind \<times> handle) list \<times> 's" where
  "no_handles t = (case t of (rc, _, s) \<Rightarrow> (rc, [], s))"

definition one_handle :: "obj_kind \<Rightarrow> nat outcome \<times> handle option \<times> 's \<Rightarrow> nat outcome \<times> (obj_kind \<times> handle) list \<times> 's" where
  "one_handle k t = (case t of (rc, x, s) \<Rightarrow> (rc, case x of None \<Rightarrow> [] | Some h \<Rightarrow> [(k, h)], s))"

definition maybe_handle :: "obj_kind \<Rightarrow> nat outcome \<times> handle option option \<times> 's \<Rightarrow> nat outcome \<times> (obj_kind \<times> handle) list \<times> 's" where
  "maybe_handle k t = (case t of (rc, x, s) \<Rightarrow> (rc, case x of Some (Some h) \<Rightarrow> [(k, h)] | _ \<Rightarrow> [], s))"

definition two_handles ::
  "nat outcome \<times> (handle option \<times> handle option) \<times> 's \<Rightarrow> nat outcome \<times> (obj_kind \<times> handle) list \<times> 's" where
  "two_handles t =
     (case t of (rc, (token, claims), s) \<Rightarrow>
      (rc, (case token of None \<Rightarrow> [] | Some h \<Rightarrow> [(KStr, h)]) @ (case claims of None \<Rightarrow> [] | Some h \<Rightarrow> [(KClaimsCollection, h)]), s))"

definition void_call :: "'a outcome \<times> 's \<Rightarrow> nat outcome \<times> (obj_kind \<times> handle) list \<times> 's" where
  "void_call t = (case t of (r, s) \<Rightarrow> (rc_of_outcome r, [], s))"

definition elements :: "(c_object \<Rightarrow> handle list option) \<Rightarrow> ('b, 'w) c_state \<Rightarrow> handle \<Rightarrow> handle list" where
  "elements sel s h = (case Option.bind (Option.bind h (cs_objects s)) sel of None \<Rightarrow> [] | Some hs \<Rightarrow> hs)"

definition array_handles ::
  "obj_kind \<Rightarrow> obj_kind \<Rightarrow> (c_object \<Rightarrow> handle list option) \<Rightarrow> nat outcome \<times> (handle \<times> nat) option \<times> ('b, 'w) c_state
    \<Rightarrow> nat outcome \<times> (obj_kind \<times> handle) list \<times> ('b, 'w) c_state" where
  "array_handles k ek sel t =
     (case t of (rc, x, s) \<Rightarrow>
      (rc, case x of Some (Some a, n) \<Rightarrow> (k, Some a) # map (Pair ek) (elements sel s (Some a)) | _ \<Rightarrow> [], s))"

text \<open>
  What may be passed as an array and a count: a null pointer, or a held array with at least as many
  elements, the counted ones held.
\<close>

definition array_arg ::
  "(obj_kind \<Rightarrow> handle \<Rightarrow> bool) \<Rightarrow> obj_kind \<Rightarrow> obj_kind \<Rightarrow> (c_object \<Rightarrow> handle list option) \<Rightarrow> ('b, 'w) c_state \<Rightarrow> handle \<Rightarrow> nat \<Rightarrow> bool" where
  "array_arg P k ek sel s h n \<longleftrightarrow> P k h \<and> (h \<noteq> None \<longrightarrow> n \<le> length (elements sel s h) \<and> (\<forall>x\<in>set (take n (elements sel s h)). P ek x))"

text \<open>
  The calls a client may make whose handles satisfy a predicate, the objects they give back, the return
  code and the handles they are given.  The out-pointers of the functions that do not check them are not null.
  Initialisation and shutdown are the subject of another theory.
\<close>

inductive c_call ::
  "('c, 'r, 'b, 'i, 'e, 'w) c_env \<Rightarrow> (obj_kind \<Rightarrow> handle \<Rightarrow> bool) \<Rightarrow> ('b, 'w) c_state \<Rightarrow> nat set
    \<Rightarrow> nat outcome \<times> (obj_kind \<times> handle) list \<times> ('b, 'w) c_state \<Rightarrow> bool" for env P s where
  "P k h \<Longrightarrow> c_call env P s (set_option h) (void_call (nvat_free k (Some h) s))"
| "c_call env P s {} (void_call (nvat_free k None s))"
| "array_arg P KGpuEvidenceArray KGpuEvidence as_gpu_array s h n \<Longrightarrow> h \<noteq> None \<or> n = 0 \<Longrightarrow> distinct (filter (\<lambda>x. x \<noteq> None) (take n (elements as_gpu_array s h)))
    \<Longrightarrow> c_call env P s (set_option h \<union> \<Union> (set_option ` set (take n (elements as_gpu_array s h))))
          (void_call (nvat_array_free KGpuEvidenceArray KGpuEvidence as_gpu_array (Some h) n s))"
| "array_arg P KSwitchEvidenceArray KSwitchEvidence as_switch_array s h n \<Longrightarrow> h \<noteq> None \<or> n = 0 \<Longrightarrow> distinct (filter (\<lambda>x. x \<noteq> None) (take n (elements as_switch_array s h)))
    \<Longrightarrow> c_call env P s (set_option h \<union> \<Union> (set_option ` set (take n (elements as_switch_array s h))))
          (void_call (nvat_array_free KSwitchEvidenceArray KSwitchEvidence as_switch_array (Some h) n s))"
| "P KStr h \<Longrightarrow> c_call env P s {} (no_handles (nvat_str_length h True s))"
| "P KStr h \<Longrightarrow> c_call env P s {} (no_handles (nvat_str_get_data h True s))"
| "c_call env P s {} (one_handle KSdkOpts (nvat_sdk_opts_create out s))"
| "P KSdkOpts h \<Longrightarrow> P KLogger l \<Longrightarrow> c_call env P s {} (void_call (nvat_sdk_opts_set_logger h l s))"
| "c_call env P s {} (one_handle KLogger (nvat_logger_spdlog_create env out name level s))"
| "c_call env P s {} (one_handle KLogger (nvat_logger_callback_create out f1 f2 f3 s))"
| "c_call env P s {} (one_handle KHttpOptions (nvat_http_options_create_default env out s))"
| "P KHttpOptions h \<Longrightarrow> c_call env P s {} (void_call (nvat_http_options_set_max_retry_count h i s))"
| "P KHttpOptions h \<Longrightarrow> c_call env P s {} (void_call (nvat_http_options_set_base_backoff_ms h i s))"
| "P KHttpOptions h \<Longrightarrow> c_call env P s {} (void_call (nvat_http_options_set_max_backoff_ms h i s))"
| "P KHttpOptions h \<Longrightarrow> c_call env P s {} (void_call (nvat_http_options_set_connection_timeout_ms h i s))"
| "P KHttpOptions h \<Longrightarrow> c_call env P s {} (void_call (nvat_http_options_set_request_timeout_ms h i s))"
| "P KHttpOptions h \<Longrightarrow> c_call env P s {} (no_handles (nvat_http_options_set_ca_bundle_path env h path s))"
| "c_call env P s {} (one_handle KRelyingPartyPolicy (nvat_relying_party_policy_create_rego_from_str True rego s))"
| "P KRelyingPartyPolicy h \<Longrightarrow> P KClaimsCollection g \<Longrightarrow> c_call env P s {} (no_handles (nvat_apply_relying_party_policy env h g s))"
| "P KHttpOptions h \<Longrightarrow> c_call env P s {} (one_handle KOcspClient (nvat_ocsp_client_create_default env out url key h s))"
| "c_call env P s {} (one_handle KOcspClient (nvat_ocsp_client_create_raw_proofs env out bundle_der t s))"
| "P KOcspClient h \<Longrightarrow> c_call env P s {} (one_handle KOcspClient (nvat_ocsp_client_create_cached out h sz ttl s))"
| "P KHttpOptions h \<Longrightarrow> c_call env P s {} (one_handle KRimStore (nvat_rim_store_create_remote env out url key h s))"
| "c_call env P s {} (one_handle KRimStore (nvat_rim_store_create_filesystem out path s))"
| "P KRimStore h \<Longrightarrow> c_call env P s {} (one_handle KRimStore (nvat_rim_store_create_cached out h sz ttl s))"
| "c_call env P s {} (one_handle KAttestationCtx (nvat_attestation_ctx_create env out s))"
| "P KAttestationCtx h \<Longrightarrow> c_call env P s {} (no_handles (nvat_attestation_ctx_set_device_type h dt s))"
| "P KAttestationCtx h \<Longrightarrow> c_call env P s {} (no_handles (nvat_attestation_ctx_set_verifier_type h vt s))"
| "P KAttestationCtx h \<Longrightarrow> P KHttpOptions g \<Longrightarrow> c_call env P s {} (no_handles (nvat_attestation_ctx_set_default_http_options h g s))"
| "P KAttestationCtx h \<Longrightarrow> P KEvidencePolicy g
    \<Longrightarrow> c_call env P s (set_option g) (no_handles (nvat_attestation_ctx_set_evidence_policy h (Some g) s))"
| "P KAttestationCtx h \<Longrightarrow> c_call env P s {} (no_handles (nvat_attestation_ctx_set_evidence_policy h None s))"
| "P KAttestationCtx h \<Longrightarrow> P KRelyingPartyPolicy g
    \<Longrightarrow> c_call env P s {} (no_handles (nvat_attestation_ctx_set_relying_party_policy h g s))"
| "P KAttestationCtx h \<Longrightarrow> c_call env P s {} (no_handles (nvat_attestation_ctx_set_default_ocsp_url h url s))"
| "P KAttestationCtx h \<Longrightarrow> c_call env P s {} (no_handles (nvat_attestation_ctx_set_default_nras_url h url s))"
| "P KAttestationCtx h \<Longrightarrow> c_call env P s {} (no_handles (nvat_attestation_ctx_set_default_rim_store_url h url s))"
| "P KAttestationCtx h \<Longrightarrow> P KRimStore g \<Longrightarrow> c_call env P s {} (no_handles (nvat_attestation_ctx_set_default_rim_store h g s))"
| "P KAttestationCtx h \<Longrightarrow> P KOcspClient g \<Longrightarrow> c_call env P s {} (no_handles (nvat_attestation_ctx_set_default_ocsp_client h g s))"
| "P KAttestationCtx h \<Longrightarrow> c_call env P s {} (no_handles (nvat_attestation_ctx_set_gpu_evidence_source_json_file env h path s))"
| "P KAttestationCtx h \<Longrightarrow> c_call env P s {} (no_handles (nvat_attestation_ctx_set_switch_evidence_source_json_file env h path s))"
| "P KAttestationCtx h \<Longrightarrow> c_call env P s {} (no_handles (nvat_attestation_ctx_set_service_key h key s))"
| "P KAttestationCtx h \<Longrightarrow> P KDetachedEatOptions g
    \<Longrightarrow> c_call env P s {} (no_handles (nvat_attestation_ctx_set_detached_eat_options h g s))"
| "P KAttestationCtx h \<Longrightarrow> P KNonce g \<Longrightarrow> c_call env P s {} (two_handles (nvat_attest_device env h g out1 out2 s))"
| "c_call env P s {} (maybe_handle KNonce (nvat_nonce_create env out n s))"
| "P KNonce h \<Longrightarrow> c_call env P s {} (void_call (nvat_nonce_get_length h s))"
| "P KNonce h \<Longrightarrow> c_call env P s {} (no_handles (nvat_nonce_get_bytes h out n s))"
| "P KNonce h \<Longrightarrow> c_call env P s {} (one_handle KStr (nvat_nonce_to_hex_string h out s))"
| "c_call env P s {} (one_handle KNonce (nvat_nonce_from_hex out str s))"
| "c_call env P s {} (one_handle KNonce (nvat_nonce_from_bytes out bytes s))"
| "c_call env P s {} (one_handle KGpuEvidenceSource (nvat_gpu_evidence_source_nvml_create out s))"
| "c_call env P s {} (one_handle KGpuEvidenceSource (nvat_gpu_evidence_source_corelib_create out arch s))"
| "c_call env P s {} (one_handle KGpuEvidenceSource (nvat_gpu_evidence_source_from_json_string env out str s))"
| "c_call env P s {} (one_handle KGpuEvidenceSource (nvat_gpu_evidence_source_from_json_file env out path s))"
| "P KGpuEvidenceSource h \<Longrightarrow> P KNonce g
    \<Longrightarrow> c_call env P s {} (array_handles KGpuEvidenceArray KGpuEvidence as_gpu_array (nvat_gpu_evidence_collect env h g out1 out2 s))"
| "array_arg P KGpuEvidenceArray KGpuEvidence as_gpu_array s h n
    \<Longrightarrow> (\<And>evs. fst (read_elements as_gpu_evidence (elements as_gpu_array s h) n s) = Inr evs
              \<Longrightarrow> evidence_collection_to_json (ce_dump env) (ce_b64_encode env) evs \<noteq> Inl UB)
    \<Longrightarrow> c_call env P s {} (one_handle KStr (nvat_gpu_evidence_serialize_json env h n out s))"
| "c_call env P s {} (one_handle KSwitchEvidenceSource (nvat_switch_evidence_source_nscq_create out s))"
| "c_call env P s {} (one_handle KSwitchEvidenceSource (nvat_switch_evidence_source_from_json_string env out str s))"
| "c_call env P s {} (one_handle KSwitchEvidenceSource (nvat_switch_evidence_source_from_json_file env out path s))"
| "P KSwitchEvidenceSource h \<Longrightarrow> P KNonce g
    \<Longrightarrow> c_call env P s {} (array_handles KSwitchEvidenceArray KSwitchEvidence as_switch_array (nvat_switch_evidence_collect env h g out1 out2 s))"
| "array_arg P KSwitchEvidenceArray KSwitchEvidence as_switch_array s h n
    \<Longrightarrow> (\<And>evs. fst (read_elements as_switch_evidence (elements as_switch_array s h) n s) = Inr evs
              \<Longrightarrow> switch_collection_to_json (ce_dump env) (ce_b64_encode env) evs \<noteq> Inl UB)
    \<Longrightarrow> c_call env P s {} (one_handle KStr (nvat_switch_evidence_serialize_json env h n out s))"
| "P KClaims h \<Longrightarrow> c_call env P s {} (one_handle KStr (nvat_claims_serialize_json env h out s))"
| "P KClaimsCollection h \<Longrightarrow> c_call env P s {} (one_handle KStr (nvat_claims_collection_serialize_json env h out s))"
| "P KClaimsCollection h \<Longrightarrow> P KClaimsCollection g \<Longrightarrow> c_call env P s {} (no_handles (nvat_claims_collection_extend h g s))"
| "c_call env P s {} (one_handle KDetachedEatOptions (nvat_detached_eat_options_create out key iss kid s))"
| "P KClaimsCollection h \<Longrightarrow> P KDetachedEatOptions g \<Longrightarrow> c_call env P s {} (one_handle KStr (nvat_get_detached_eat_es384 env h g out s))"
| "c_call env P s {} (one_handle KEvidencePolicy (nvat_evidence_policy_create_default out s))"
| "P KEvidencePolicy h \<Longrightarrow> c_call env P s {} (void_call (nvat_evidence_policy_set_verify_rim_signature h v s))"
| "P KEvidencePolicy h \<Longrightarrow> c_call env P s {} (void_call (nvat_evidence_policy_set_verify_rim_cert_chain h v s))"
| "P KEvidencePolicy h \<Longrightarrow> c_call env P s {} (no_handles (nvat_evidence_policy_set_gpu_claims_version h ver s))"
| "P KEvidencePolicy h \<Longrightarrow> c_call env P s {} (no_handles (nvat_evidence_policy_set_switch_claims_version h ver s))"
| "P KHttpOptions h \<Longrightarrow> c_call env P s {} (one_handle KGpuVerifier (nvat_gpu_nras_verifier_create env out base key h s))"
| "P KHttpOptions h \<Longrightarrow> c_call env P s {} (one_handle KSwitchVerifier (nvat_switch_nras_verifier_create env out base key h s))"
| "P KRimStore h \<Longrightarrow> P KOcspClient g \<Longrightarrow> P KDetachedEatOptions e
    \<Longrightarrow> c_call env P s {} (one_handle KGpuVerifier (nvat_gpu_local_verifier_create out h g e s))"
| "P KRimStore h \<Longrightarrow> P KOcspClient g \<Longrightarrow> P KDetachedEatOptions e
    \<Longrightarrow> c_call env P s {} (one_handle KSwitchVerifier (nvat_switch_local_verifier_create out h g e s))"
| "P KGpuVerifier h \<Longrightarrow> array_arg P KGpuEvidenceArray KGpuEvidence as_gpu_array s a n \<Longrightarrow> P KEvidencePolicy p
    \<Longrightarrow> c_call env P s {} (two_handles (nvat_verify_gpu_evidence env h a n p out1 out2 s))"
| "P KSwitchVerifier h \<Longrightarrow> array_arg P KSwitchEvidenceArray KSwitchEvidence as_switch_array s a n \<Longrightarrow> P KEvidencePolicy p
    \<Longrightarrow> c_call env P s {} (two_handles (nvat_verify_switch_evidence env h a n p out1 out2 s))"

text \<open>
  What the interface relies on: the evidence sources, the verifiers, the evaluator, the token builder, the file
  reader and the JSON library are defined, a verifier makes no token when none is wanted, and the base64 decoder
  writes at least one byte for every padding character.
\<close>

definition verify_ok :: "('v \<Rightarrow> 'ev list \<Rightarrow> evidence_policy \<Rightarrow> bool \<Rightarrow> claims list \<Rightarrow> 'w
    \<Rightarrow> unit outcome \<times> string option \<times> claims list \<times> 'w) \<Rightarrow> bool" where
  "verify_ok f \<longleftrightarrow> (\<forall>v evs p want cs w. fst (f v evs p want cs w) \<noteq> Inl UB
     \<and> (\<not> want \<longrightarrow> fst (snd (f v evs p want cs w)) = None))"

definition layer_defined :: "('c, 'r, 'b, 'i, 'e, 'w) c_env \<Rightarrow> bool" where
  "layer_defined env \<longleftrightarrow>
     (\<forall>src nonce w. fst (at_gpu_source (ce_attest env) src nonce w) \<noteq> Inl UB)
     \<and> (\<forall>src nonce w. fst (at_switch_source (ce_attest env) src nonce w) \<noteq> Inl UB)
     \<and> verify_ok (at_gpu_verify (ce_attest env)) \<and> verify_ok (at_switch_verify (ce_attest env))
     \<and> (\<forall>e cs w. fst (at_evaluate (ce_attest env) e cs w) \<noteq> Inl UB)
     \<and> (\<forall>path. ce_read_file env path \<noteq> Inl UB) \<and> (\<forall>j. ce_dump env j \<noteq> Inl UB)
     \<and> (\<forall>j. defined (ce_parse env j)) \<and> (\<forall>t bytes. ce_b64_decode env t = Some bytes \<longrightarrow> padding_of t \<le> length bytes)
     \<and> (\<forall>now options cs w. fst (get_detached_eat (ce_eat env) now options cs w) \<noteq> Inl UB)"

section \<open>Every call is safe\<close>

definition call_ok ::
  "('b, 'w) c_state \<Rightarrow> nat set \<Rightarrow> nat outcome \<times> (obj_kind \<times> handle) list \<times> ('b, 'w) c_state \<Rightarrow> bool" where
  "call_ok s D t = (case t of (rc, hs, s') \<Rightarrow> rc \<noteq> Inl UB \<and> extends D s s' \<and> (\<forall>(k, h)\<in>set hs. live s' k h))"

lemma rc_of_outcome_UB [simp]: "rc_of_outcome r = Inl UB \<longleftrightarrow> r = Inl UB"
  by (auto simp: rc_of_outcome_def ret_def split: sum.splits failure.splits)

lemma c_api_cases:
  assumes "safe s D m Q" and "c_api m s = (rc, x, s')"
  shows "rc \<noteq> Inl UB" "extends D s s'" "x = Some y \<Longrightarrow> Q y s'"
  using assms by (auto simp: safe_def c_api_def split: sum.splits)

lemma no_handles_ok: "safe s D m (\<lambda>_ _. True) \<Longrightarrow> call_ok s D (no_handles (c_api m s))"
  by (cases "c_api m s") (auto simp: call_ok_def no_handles_def dest: c_api_cases)

lemma one_handle_ok: "safe s D m (\<lambda>h s'. live s' k h) \<Longrightarrow> call_ok s D (one_handle k (c_api m s))"
  by (cases "c_api m s") (auto simp: call_ok_def one_handle_def dest: c_api_cases split: option.splits)

lemma maybe_handle_ok: "safe s D m (\<lambda>x s'. case x of None \<Rightarrow> True | Some h \<Rightarrow> live s' k h) \<Longrightarrow> call_ok s D (maybe_handle k (c_api m s))"
  by (cases "c_api m s") (auto simp: call_ok_def maybe_handle_def dest: c_api_cases split: option.splits)

lemma void_call_ok: "safe s D m (\<lambda>_ _. True) \<Longrightarrow> call_ok s D (void_call (c_api_void m s))"
  by (cases "m s") (auto simp: call_ok_def void_call_def c_api_void_def safe_def ret_def split: sum.splits failure.splits)

lemma void_step_ok: "safe s D m (\<lambda>_ _. True) \<Longrightarrow> call_ok s D (void_call (m s))"
  by (cases "m s") (auto simp: call_ok_def void_call_def safe_def)

lemmas report_rules = no_handles_ok one_handle_ok maybe_handle_ok void_call_ok

text \<open>Releasing an object, and an array with its elements.\<close>

lemma free_safe: "heap_ok s \<Longrightarrow> usable s k h \<Longrightarrow> safe s (set_option h) (nvat_free k (Some h)) (\<lambda>_ _. True)"
  by (cases h) (auto simp: nvat_free_def safe_def sbind_def delete_object_def usable_def live_def pure_def ret_def extends_def heap_ok_def)

lemma free_elements_safe:
  assumes "heap_ok s" and "n \<le> length hs" and "\<forall>x\<in>set (take n hs). usable s k x" and "distinct (filter (\<lambda>x. x \<noteq> None) (take n hs))"
  shows "safe s (\<Union> (set_option ` set (take n hs))) (free_elements k hs n) (\<lambda>_ s'. \<forall>a. a \<notin> \<Union> (set_option ` set (take n hs)) \<longrightarrow> cs_objects s' a = cs_objects s a)"
  using assms
proof (induction k hs n s rule: free_elements.induct)
  case (3 k h hs n s)
  show ?case
  proof (cases h)
    case None
    then have "delete_object k h s = (Inr (), s)" by (simp add: delete_object_def ret_def)
    then show ?thesis using 3 None by (simp add: safe_def)
  next
    case (Some a)
    let ?s = "s\<lparr>cs_objects := (cs_objects s)(a := None)\<rparr>"
    have del: "delete_object k h s = (Inr (), ?s)"
      using 3(4) Some by (auto simp: delete_object_def ret_def usable_def live_def)
    have "\<forall>x\<in>set (take n hs). usable ?s k x"
      using 3(4,5) Some by (fastforce simp: usable_def live_def)
    moreover have "heap_ok ?s" using 3(2) by (simp add: heap_ok_def)
    ultimately have "safe ?s (\<Union> (set_option ` set (take n hs))) (free_elements k hs n)
      (\<lambda>_ s'. \<forall>a. a \<notin> \<Union> (set_option ` set (take n hs)) \<longrightarrow> cs_objects s' a = cs_objects ?s a)"
      using 3(3,5) by (intro "3.IH") (simp_all split: if_splits)
    moreover have "free_elements k (h # hs) (Suc n) s = free_elements k hs n ?s" using del by simp
    ultimately show ?thesis using Some by (auto simp: safe_def extends_def split: if_splits)
  qed
qed (auto simp: safe_def ret_def)

lemma elements_live:
  assumes "selects k sel" and "live s k h"
  shows "deref sel h s = (Inr (elements sel s h), s)"
  using deref_live [OF assms] by (auto simp: elements_def)

lemma array_free_safe:
  assumes "heap_ok s" and "selects k sel" and "array_arg (usable s) k ek sel s h n" and "h \<noteq> None \<or> n = 0"
    and "distinct (filter (\<lambda>x. x \<noteq> None) (take n (elements sel s h)))" and "k \<noteq> ek"
  shows "safe s (set_option h \<union> \<Union> (set_option ` set (take n (elements sel s h)))) (nvat_array_free k ek sel (Some h) n) (\<lambda>_ _. True)"
proof (cases h)
  case None
  then show ?thesis using assms(1,4) by (simp add: nvat_array_free_def safe_def delete_object_def pure_def ret_def)
next
  case (Some a)
  let ?hs = "elements sel s h"
  let ?D = "\<Union> (set_option ` set (take n ?hs))"
  have arg: "usable s k h" "n \<le> length ?hs" "\<forall>x\<in>set (take n ?hs). usable s ek x" using assms(3) Some by (auto simp: array_arg_def)
  obtain r s' where run: "free_elements ek ?hs n s = (r, s')" by (cases "free_elements ek ?hs n s")
  have freed: "r \<noteq> Inl UB" "extends ?D s s'" "\<And>u a. r = Inr u \<Longrightarrow> a \<notin> ?D \<Longrightarrow> cs_objects s' a = cs_objects s a"
    using free_elements_safe [OF assms(1) arg(2,3) assms(5)] run by (auto simp: safe_def)
  have "a \<notin> ?D" using arg(1,3) Some assms(6) by (fastforce simp: usable_def live_def)
  have step: "sbind (deref sel h) (\<lambda>hs. free_elements ek hs n) s = (r, s')"
    using elements_live [OF assms(2) live_of_usable [OF arg(1)]] Some run by simp
  show ?thesis
  proof (cases r)
    case (Inl f)
    then have "nvat_array_free k ek sel (Some h) n s = (Inl f, s')"
      using step Some by (simp add: nvat_array_free_def sbind_fails)
    then show ?thesis using freed(1,2) Inl by (auto simp: safe_def extends_def)
  next
    case (Inr u)
    then have "cs_objects s' a = cs_objects s a" using freed(3) \<open>a \<notin> ?D\<close> by blast
    then have "delete_object k h s' = (Inr (), s'\<lparr>cs_objects := (cs_objects s')(a := None)\<rparr>)"
      using arg(1) Some by (auto simp: delete_object_def usable_def live_def ret_def)
    then have "nvat_array_free k ek sel (Some h) n s = (Inr (Some None), s'\<lparr>cs_objects := (cs_objects s')(a := None)\<rparr>)"
      using step Inr Some by (simp add: nvat_array_free_def pure_def ret_def)
    then show ?thesis using freed(2) Some by (auto simp: safe_def extends_def heap_ok_def)
  qed
qed

text \<open>Reading and creating arrays.\<close>

lemma read_elements_safe:
  assumes "selects k sel" and "n \<le> length hs" and "\<forall>x\<in>set (take n hs). usable s k x"
  shows "\<exists>r. read_elements sel hs n s = (r, s) \<and> r \<noteq> Inl UB"
  using assms
proof (induction sel hs n s rule: read_elements.induct)
  case (3 sel h hs n s)
  then obtain r where rest: "read_elements sel hs n s = (r, s)" "r \<noteq> Inl UB" by auto
  show ?case
  proof (cases h)
    case (Some a)
    then have "live s k h" using 3(4) by (simp add: usable_def)
    then obtain x where "deref sel h s = (Inr x, s)" using deref_live [OF 3(2)] by blast
    then show ?thesis using rest Some by (cases r) (auto simp: sbind_def pure_def ret_def)
  qed (simp add: sguard_def fail_def)
qed (simp_all add: ret_def)

lemma bind_read [safe_rules]:
  assumes "heap_ok s" and "selects k sel" and "n \<le> length hs" and "\<forall>x\<in>set (take n hs). usable s k x"
    and "\<And>xs. fst (read_elements sel hs n s) = Inr xs \<Longrightarrow> safe s D (f xs) Q"
  shows "safe s D (sbind (read_elements sel hs n) f) Q"
proof -
  obtain r where "read_elements sel hs n s = (r, s)" "r \<noteq> Inl UB" using read_elements_safe [OF assms(2-4)] by blast
  then show ?thesis using assms(1,5) by (cases r) (auto simp: safe_def sbind_def)
qed

lemma allocate_all_safe:
  assumes "heap_ok s" and "\<And>x. kind_of (con x) = k"
  shows "safe s {} (allocate_all con xs) (\<lambda>hs s'. length hs = length xs \<and> (\<forall>h\<in>set hs. live s' k h))"
  using assms(1)
proof (induction xs arbitrary: s)
  case Nil
  then show ?case by (simp add: safe_def ret_def)
next
  case (Cons x xs)
  have "safe s {} (sbind (allocate (con x)) (\<lambda>h. sbind (allocate_all con xs) (\<lambda>hs. pure (ret (h # hs)))))
     (\<lambda>hs s'. length hs = length (x # xs) \<and> (\<forall>h\<in>set hs. live s' k h))"
  proof (rule bind_allocate [OF Cons.prems])
    fix h s' assume new: "heap_ok s'" "extends {} s s'" "live s' (kind_of (con x)) h"
    show "safe s' {} (sbind (allocate_all con xs) (\<lambda>hs. pure (ret (h # hs)))) (\<lambda>hs s'. length hs = length (x # xs) \<and> (\<forall>h\<in>set hs. live s' k h))"
      by (rule safe_sbind [OF Cons.IH [OF new(1)]])
        (use live_mono [OF new(3)] assms(2) in \<open>auto intro!: safe_pure dest: extends_heap_ok simp: ret_def\<close>)
  qed
  then show ?case by (simp add: safe_def)
qed

text \<open>A new array is live, and so are its elements.\<close>

definition fresh_array :: "obj_kind \<Rightarrow> obj_kind \<Rightarrow> (c_object \<Rightarrow> handle list option) \<Rightarrow> handle \<times> nat \<Rightarrow> ('b, 'w) c_state \<Rightarrow> bool" where
  "fresh_array k ek sel x s \<longleftrightarrow> live s k (fst x) \<and> length (elements sel s (fst x)) = snd x \<and> (\<forall>h\<in>set (elements sel s (fst x)). live s ek h)"

lemma new_array_safe:
  assumes "heap_ok s" and "\<And>x. kind_of (con x) = ek" and "\<And>hs. kind_of (array_con hs) = k" and "\<And>hs. sel (array_con hs) = Some hs" and "k \<noteq> ek"
  shows "safe s {} (new_array array_con con xs) (fresh_array k ek sel)"
  unfolding new_array_def
proof (rule bind_allocate [OF assms(1)])
  fix h s1 assume h: "heap_ok s1" "extends {} s s1" "live s1 (kind_of (array_con (replicate (length xs) None))) h"
  show "safe s1 {} (sbind (allocate_all con xs) (\<lambda>hs. sbind (assign h (array_con hs)) (\<lambda>_. pure (ret (h, length xs))))) (fresh_array k ek sel)"
  proof (rule safe_sbind [OF allocate_all_safe [OF h(1) assms(2)]])
    fix hs s2 assume hs: "extends {} s1 s2" "length hs = length xs \<and> (\<forall>h\<in>set hs. live s2 ek h)"
    then have "live s2 k h" using live_mono h(3) assms(3) by simp
    then obtain a ob where a: "h = Some a" "cs_objects s2 a = Some ob" "kind_of ob = k" by (auto simp: live_def)
    then have other: "x \<noteq> h" if "x \<in> set hs" for x using hs(2) that assms(5) by (auto simp: live_def)
    let ?s = "s2\<lparr>cs_objects := (cs_objects s2)(a \<mapsto> array_con hs)\<rparr>"
    have assigned: "assign h (array_con hs) s2 = (Inr (), ?s)" using a by (simp add: assign_def ret_def)
    have "extends {} s2 ?s" using safe_assign [of s2 "array_con hs" h "{}"] extends_heap_ok [OF hs(1)] \<open>live s2 k h\<close> assms(3) assigned
      by (simp add: safe_def)
    moreover have "fresh_array k ek sel (h, length xs) ?s"
      using a hs(2) other assms(3,4) by (fastforce simp: fresh_array_def live_def elements_def)
    ultimately show "safe s2 {} (sbind (assign h (array_con hs)) (\<lambda>_. pure (ret (h, length xs)))) (fresh_array k ek sel)"
      using assigned by (simp add: safe_def pure_def ret_def)
  qed
qed

text \<open>Attestation: preparing the context sets every pointer that is used.\<close>

lemma init_gpu_complete:
  assumes "ac_default_rim_store c \<noteq> None" and "ac_default_ocsp_client c \<noteq> None"
  shows "fst (init_gpu e c) = Inr ()" "ac_default_rim_store (snd (init_gpu e c)) \<noteq> None" "ac_default_ocsp_client (snd (init_gpu e c)) \<noteq> None"
    "ac_gpu_enabled (snd (init_gpu e c)) \<Longrightarrow> ac_gpu_evidence_source (snd (init_gpu e c)) \<noteq> None \<and> ac_gpu_verifier (snd (init_gpu e c)) \<noteq> None"
proof -
  let ?c = "c\<lparr>ac_gpu_evidence_source := Some (or_new NvmlEvidenceCollector (ac_gpu_evidence_source c))\<rparr>"
  obtain v where "create_verifier e ''/v4/attest/gpu'' ?c = Inr v" using create_verifier_ok [of ?c] assms by auto
  then have run: "init_gpu e c = (Inr (), if ac_gpu_enabled c then (if ac_gpu_verifier c = None then ?c\<lparr>ac_gpu_verifier := Some v\<rparr> else ?c) else c)"
    by (auto simp: init_gpu_def Let_def ret_def split: option.splits)
  show "fst (init_gpu e c) = Inr ()" "ac_default_rim_store (snd (init_gpu e c)) \<noteq> None" "ac_default_ocsp_client (snd (init_gpu e c)) \<noteq> None"
    "ac_gpu_enabled (snd (init_gpu e c)) \<Longrightarrow> ac_gpu_evidence_source (snd (init_gpu e c)) \<noteq> None \<and> ac_gpu_verifier (snd (init_gpu e c)) \<noteq> None"
    using assms unfolding run by (auto split: if_splits)
qed

lemma init_switch_complete:
  assumes "ac_default_rim_store c \<noteq> None" and "ac_default_ocsp_client c \<noteq> None"
  shows "fst (init_switch e c) = Inr ()" "ac_gpu_enabled (snd (init_switch e c)) = ac_gpu_enabled c"
    "ac_gpu_evidence_source (snd (init_switch e c)) = ac_gpu_evidence_source c" "ac_gpu_verifier (snd (init_switch e c)) = ac_gpu_verifier c"
    "ac_switch_enabled (snd (init_switch e c)) \<Longrightarrow> ac_switch_evidence_source (snd (init_switch e c)) \<noteq> None \<and> ac_switch_verifier (snd (init_switch e c)) \<noteq> None"
proof -
  let ?c = "c\<lparr>ac_switch_evidence_source := Some (or_new NscqEvidenceCollector (ac_switch_evidence_source c))\<rparr>"
  obtain v where "create_verifier e ''/v4/attest/switch'' ?c = Inr v" using create_verifier_ok [of ?c] assms by auto
  then have run: "init_switch e c = (Inr (), if ac_switch_enabled c then (if ac_switch_verifier c = None then ?c\<lparr>ac_switch_verifier := Some v\<rparr> else ?c) else c)"
    by (auto simp: init_switch_def Let_def ret_def split: option.splits)
  show "fst (init_switch e c) = Inr ()" "ac_gpu_enabled (snd (init_switch e c)) = ac_gpu_enabled c"
    "ac_gpu_evidence_source (snd (init_switch e c)) = ac_gpu_evidence_source c" "ac_gpu_verifier (snd (init_switch e c)) = ac_gpu_verifier c"
    "ac_switch_enabled (snd (init_switch e c)) \<Longrightarrow> ac_switch_evidence_source (snd (init_switch e c)) \<noteq> None \<and> ac_switch_verifier (snd (init_switch e c)) \<noteq> None"
    using assms unfolding run by (auto split: if_splits)
qed

lemma ensure_init_complete:
  obtains d where "ensure_init e c = (Inr (), d)" "ac_gpu_enabled d \<Longrightarrow> ac_gpu_evidence_source d \<noteq> None \<and> ac_gpu_verifier d \<noteq> None"
    "ac_switch_enabled d \<Longrightarrow> ac_switch_evidence_source d \<noteq> None \<and> ac_switch_verifier d \<noteq> None"
proof -
  let ?c = "init_defaults e c"
  let ?g = "snd (init_gpu e ?c)"
  let ?d = "snd (init_switch e ?g)"
  have defaults: "ac_default_rim_store ?c \<noteq> None" "ac_default_ocsp_client ?c \<noteq> None" by (simp_all add: init_defaults_def)
  note gpu = init_gpu_complete [OF defaults, of e]
  note sw = init_switch_complete [OF gpu(2,3), of e]
  have "init_gpu e ?c = (Inr (), ?g)" "init_switch e ?g = (Inr (), ?d)" using gpu(1) sw(1) by (simp_all add: prod_eq_iff)
  then have "ensure_init e c = (Inr (), ?d)" by (simp add: ensure_init_def)
  moreover have "ac_gpu_enabled ?d \<Longrightarrow> ac_gpu_evidence_source ?d \<noteq> None \<and> ac_gpu_verifier ?d \<noteq> None" using gpu(4) sw(2-4) by simp
  ultimately show thesis using that sw(5) by blast
qed

lemma gpu_evidence_defined:
  assumes "layer_defined env" and "src \<noteq> None"
  shows "fst (get_gpu_evidence (ce_attest env) src nonce w) \<noteq> Inl UB"
  using assms by (auto simp: layer_defined_def get_gpu_evidence_def json_source_get_evidence_def pure_def ret_def fail_def
      split: option.splits gpu_source_ref.splits)

lemma switch_evidence_defined:
  assumes "layer_defined env" and "src \<noteq> None"
  shows "fst (get_switch_evidence (ce_attest env) src nonce w) \<noteq> Inl UB"
  using assms by (auto simp: layer_defined_def get_switch_evidence_def switch_json_source_get_evidence_def pure_def ret_def fail_def
      split: option.splits switch_source_ref.splits)

lemma verify_okD:
  assumes "verify_ok f" and "f v evs p want cs w = (status, token, claims, w')"
  shows "status \<noteq> Inl UB" "\<not> want \<Longrightarrow> token = None"
  using assms unfolding verify_ok_def by (metis fst_conv, metis fst_conv snd_conv)

lemma nonce_defined: "generate_nonce f bs \<noteq> Inl UB"
  by (auto simp: generate_nonce_def fail_def ret_def split: option.splits)

lemma attest_gpus_defined:
  assumes "layer_defined env" and "ac_gpu_evidence_source c \<noteq> None" and "ac_gpu_verifier c \<noteq> None"
    and "attest_gpus (ce_attest env) c nonce want cs w = (status, token, claims, w')"
  shows "status \<noteq> Inl UB \<and> (\<not> want \<longrightarrow> token = None)"
proof (cases "get_gpu_evidence (ce_attest env) (ac_gpu_evidence_source c) nonce w")
  case (Pair r w1)
  then have "r \<noteq> Inl UB" using gpu_evidence_defined [OF assms(1,2), of nonce w] by simp
  then show ?thesis
    using assms(3,4) Pair verify_okD [of "at_gpu_verify (ce_attest env)"] assms(1)
    by (cases r) (fastforce simp: attest_gpus_def layer_defined_def)+
qed

lemma attest_switches_defined:
  assumes "layer_defined env" and "ac_switch_evidence_source c \<noteq> None" and "ac_switch_verifier c \<noteq> None"
    and "attest_switches (ce_attest env) c nonce want cs w = (status, token, claims, w')"
  shows "status \<noteq> Inl UB \<and> (\<not> want \<longrightarrow> token = None)"
proof (cases "get_switch_evidence (ce_attest env) (ac_switch_evidence_source c) nonce w")
  case (Pair r w1)
  then have "r \<noteq> Inl UB" using switch_evidence_defined [OF assms(1,2), of nonce w] by simp
  then show ?thesis
    using assms(3,4) Pair verify_okD [of "at_switch_verify (ce_attest env)"] assms(1)
    by (cases r) (fastforce simp: attest_switches_def layer_defined_def)+
qed

lemma judge_defined:
  assumes "layer_defined env" and "status \<noteq> Inl UB" and "judge_claims (ce_attest env) e status cs w = (r, w')"
  shows "r \<noteq> Inl UB"
proof (cases e)
  case None
  then show ?thesis using assms(2,3) by (auto simp: judge_claims_def ret_def split: if_splits)
next
  case (Some f)
  obtain q w1 where q: "at_evaluate (ce_attest env) f cs w = (q, w1)" by fastforce
  then have "q \<noteq> Inl UB" using assms(1) unfolding layer_defined_def by (metis fst_conv)
  then show ?thesis using assms(2,3) Some q by (auto simp: judge_claims_def ret_def fail_def split: if_splits sum.splits)
qed

lemma attest_device_defined:
  assumes "layer_defined env" and run: "attest_device (ce_attest env) c nonce want cs w = (status, token, claims, c', w')"
  shows "status \<noteq> Inl UB \<and> (\<not> want \<longrightarrow> token = None)"
proof -
  obtain d where d: "ensure_init (at_env (ce_attest env)) c = (Inr (), d)"
    "ac_gpu_enabled d \<Longrightarrow> ac_gpu_evidence_source d \<noteq> None \<and> ac_gpu_verifier d \<noteq> None"
    "ac_switch_enabled d \<Longrightarrow> ac_switch_evidence_source d \<noteq> None \<and> ac_switch_verifier d \<noteq> None"
    using ensure_init_complete [of "at_env (ce_attest env)" c] by blast
  obtain r w1 where n: "choose_nonce (ce_attest env) nonce w = (r, w1)" by fastforce
  then have "r \<noteq> Inl UB" using nonce_defined by (auto simp: choose_nonce_def ret_def split: if_splits prod.splits)
  show ?thesis
  proof (cases r)
    case (Inl f)
    then show ?thesis using run d(1) n \<open>r \<noteq> Inl UB\<close> by (auto simp: attest_device_def)
  next
    case (Inr nonce')
    let ?res = "if ac_gpu_enabled d then attest_gpus (ce_attest env) d nonce' want [] w1
                 else if ac_switch_enabled d then attest_switches (ce_attest env) d nonce' want [] w1
                 else (fail InternalError, None, [], w1)"
    obtain st tok cl w2 where res: "?res = (st, tok, cl, w2)" by (cases ?res)
    then have st: "st \<noteq> Inl UB \<and> (\<not> want \<longrightarrow> tok = None)"
      using attest_gpus_defined [OF assms(1), of d nonce' want "[]" w1] attest_switches_defined [OF assms(1), of d nonce' want "[]" w1] d(2,3)
      by (auto simp: fail_def split: if_splits)
    obtain q w3 where q: "judge_claims (ce_attest env) (ac_claims_evaluator d) st cl w2 = (q, w3)" by fastforce
    then have "status = q" "token = tok" using run d(1) n Inr res by (auto simp: attest_device_def)
    then show ?thesis using st judge_defined [OF assms(1) _ q] by simp
  qed
qed

lemma bind_run_attestation:
  assumes "layer_defined env" and "heap_ok s" and "live s KAttestationCtx h"
    and "\<And>status token claims s'. heap_ok s' \<Longrightarrow> extends {} s s' \<Longrightarrow> status \<noteq> Inl UB \<Longrightarrow> (\<not> want \<Longrightarrow> token = None)
      \<Longrightarrow> safe s' D (f (status, token, claims)) Q"
  shows "safe s D (sbind (run_attestation env h nonce want) f) Q"
proof (rule safe_sbind)
  obtain a ob c where c: "h = Some a" "cs_objects s a = Some ob" "deref as_ctx h s = (Inr c, s)"
    using deref_live [OF _ assms(3)] selector_kinds by blast
  obtain status token claims c' w where run: "attest_device (ce_attest env) c nonce want [] (cs_world s) = (status, token, claims, c', w)"
    by (cases "attest_device (ce_attest env) c nonce want [] (cs_world s)")
  let ?s = "s\<lparr>cs_world := w\<rparr>"
  have live: "live ?s KAttestationCtx h" "heap_ok ?s" using assms(2,3) by (simp_all add: live_def heap_ok_def)
  have "safe ?s {} (sbind (assign h (AttestationCtxObj c')) (\<lambda>_. pure (ret (status, token, claims))))
     (\<lambda>(status, token, claims) s'. status \<noteq> Inl UB \<and> (\<not> want \<longrightarrow> token = None))"
    using live attest_device_defined [OF assms(1) run] by (intro bind_assign safe_pure) (auto simp: ret_def)
  then show "safe s {} (run_attestation env h nonce want) (\<lambda>(status, token, claims) s'. status \<noteq> Inl UB \<and> (\<not> want \<longrightarrow> token = None))"
    using c run by (auto simp: safe_def run_attestation_def extends_def)
qed (auto intro!: assms(4) dest: extends_heap_ok)

text \<open>A defined status, with live handles of a token and of claims.\<close>

abbreviation results_live :: "unit outcome \<times> handle option \<times> handle option \<Rightarrow> ('b, 'w) c_state \<Rightarrow> bool" where
  "results_live \<equiv> (\<lambda>(status, token, claims) s'. status \<noteq> Inl UB \<and> (\<forall>h. token = Some h \<longrightarrow> live s' KStr h)
    \<and> (\<forall>h. claims = Some h \<longrightarrow> live s' KClaimsCollection h))"

lemma two_handles_ok:
  assumes "safe s D m results_live"
  shows "call_ok s D (two_handles (with_status (c_api m s)))"
proof -
  obtain rc x s' where run: "c_api m s = (rc, x, s')" by (cases "c_api m s")
  show ?thesis
    using c_api_cases [OF assms run] run
    by (cases x) (auto simp: call_ok_def two_handles_def with_status_def split: prod.splits option.splits)
qed

lemma deliver_safe:
  assumes "verify_ok f" and "heap_ok s"
  shows "safe s {} (\<lambda>s'. deliver (f v evs p want [] (cs_world s')) want s') results_live"
proof -
  obtain status token claims w where run: "f v evs p want [] (cs_world s) = (status, token, claims, w)"
    by (cases "f v evs p want [] (cs_world s)")
  have status: "status \<noteq> Inl UB" using verify_okD [OF assms(1) run] by simp
  let ?s = "s\<lparr>cs_world := w\<rparr>"
  have ok: "heap_ok ?s" using assms(2) by (simp add: heap_ok_def)
  have handed: "safe ?s {} (sbind (allocate (ClaimsCollectionObj claims)) (\<lambda>claims_handle.
          sbind (if want then sbind (allocate (StrObj (opt_string token))) (\<lambda>h. pure (ret (Some h))) else pure (ret None)) (\<lambda>token_handle.
          pure (ret (status, token_handle, Some claims_handle))))) results_live" (is "safe ?s {} ?m _")
    using ok status
    by (cases want) (auto intro!: bind_allocate safe_sbind [of _ _ "\<lambda>x s'. \<forall>h. x = Some h \<longrightarrow> live s' KStr h"] safe_pure
        dest: extends_heap_ok elim: live_mono simp: ret_def)
  show ?thesis
  proof (cases "status \<noteq> ret () \<and> status \<noteq> fail OverallResultFalse")
    case True
    then obtain e where "status = Inl e" by (cases status) (auto simp: ret_def)
    then show ?thesis using True status run assms(2) by (simp add: safe_def deliver_def bind_def)
  next
    case False
    then have "deliver (f v evs p want [] (cs_world s)) want s = ?m ?s" using run by (auto simp: deliver_def)
    then show ?thesis using handed by (auto simp: safe_def extends_def)
  qed
qed

lemma safe_keep: "safe s {} m (\<lambda>_ _. True) \<Longrightarrow> live s k h \<Longrightarrow> safe s {} m (\<lambda>_ s'. live s' k h)"
  using live_mono by (fastforce simp: safe_def)

lemma maybe_allocate_safe:
  "heap_ok s \<Longrightarrow> safe s {} (if c then sbind (allocate ob) (\<lambda>h. pure (ret (Some h))) else pure (ret None))
     (\<lambda>x s'. \<forall>h. x = Some h \<longrightarrow> live s' (kind_of ob) h)"
  by (cases c) (auto intro!: bind_allocate safe_pure simp: ret_def)

lemma report_attestation_safe:
  assumes "heap_ok s" and "status \<noteq> Inl UB" and "\<not> out1 \<Longrightarrow> token = None" and "out1 \<Longrightarrow> live s KStr th"
  shows "safe s {} (report_attestation out1 out2 th (status, token, claims)) results_live"
  unfolding report_attestation_def prod.case
proof (rule safe_sbind [where R = "\<lambda>_ s'. out1 \<longrightarrow> live s' KStr th"])
  show "safe s {} (case token of None \<Rightarrow> pure (ret ()) | Some t \<Rightarrow> assign th (StrObj t)) (\<lambda>_ s'. out1 \<longrightarrow> live s' KStr th)"
  proof (cases token)
    case None
    then show ?thesis using assms(1,4) by (auto intro!: safe_pure simp: ret_def)
  next
    case (Some t)
    then have "out1" "live s KStr th" using assms(3,4) by auto
    then show ?thesis using Some safe_keep [OF safe_assign_as [OF assms(1)]] by simp
  qed
next
  fix x s1 assume s1: "extends {} s s1" "out1 \<longrightarrow> live s1 KStr th"
  note ok = extends_heap_ok [OF s1(1)]
  show "safe s1 {} (if \<not> reported_status status then pure (bind status (\<lambda>_. undefined_behaviour))
      else sbind (if out2 then sbind (allocate (ClaimsCollectionObj claims)) (\<lambda>h. pure (ret (Some h))) else pure (ret None)) (\<lambda>claims_handle.
        pure (ret (status, if out1 then Some th else None, claims_handle)))) results_live"
  proof (rule safe_if)
    assume "\<not> reported_status status"
    then show "safe s1 {} (pure (bind status (\<lambda>_. undefined_behaviour))) results_live"
      using assms(2) ok by (cases status) (auto intro!: safe_pure simp: reported_status_def ret_def)
  next
    show "safe s1 {} (sbind (if out2 then sbind (allocate (ClaimsCollectionObj claims)) (\<lambda>h. pure (ret (Some h))) else pure (ret None)) (\<lambda>claims_handle.
        pure (ret (status, if out1 then Some th else None, claims_handle)))) results_live"
      by (rule safe_sbind [OF maybe_allocate_safe [OF ok]])
        (use s1(2) assms(2) in \<open>auto intro!: safe_pure dest: extends_heap_ok live_mono simp: ret_def\<close>)
  qed
qed

lemma attest_device_safe:
  assumes "layer_defined env" and "heap_ok s" and "usable s KAttestationCtx h" and "usable s KNonce g"
  shows "call_ok s {} (two_handles (nvat_attest_device env h g out1 out2 s))"
  unfolding nvat_attest_device_def
proof (rule two_handles_ok, rule safe_sguard [OF assms(2)], rule safe_sbind [where R = "\<lambda>_ _. True"])
  show "safe s {} (if g = None then pure (ret []) else deref as_nonce g) (\<lambda>_ _. True)"
    using assms(2,4) safe_deref [OF assms(2) selector_kinds(3), of g] by (auto intro!: safe_pure live_of_usable simp: ret_def)
next
  fix nonce s1 assume "h \<noteq> None" and s1: "extends {} s s1"
  have ctx: "live s1 KAttestationCtx h" using live_mono [OF live_of_usable [OF assms(3) \<open>h \<noteq> None\<close>] s1] .
  show "safe s1 {} (sbind (if out1 then allocate (StrObj []) else pure (ret None)) (\<lambda>token_handle.
      sbind (run_attestation env h nonce out1) (report_attestation out1 out2 token_handle))) results_live"
  proof (rule safe_sbind [where R = "\<lambda>th s'. out1 \<longrightarrow> live s' KStr th"])
    show "safe s1 {} (if out1 then allocate (StrObj []) else pure (ret None)) (\<lambda>th s'. out1 \<longrightarrow> live s' KStr th)"
      using extends_heap_ok [OF s1] safe_allocate [of s1 "{}" "StrObj []"] by (auto intro!: safe_pure simp: ret_def)
  next
    fix th s2 assume s2: "extends {} s1 s2" "out1 \<longrightarrow> live s2 KStr th"
    show "safe s2 {} (sbind (run_attestation env h nonce out1) (report_attestation out1 out2 th)) results_live"
      by (rule bind_run_attestation [OF assms(1) extends_heap_ok [OF s2(1)] live_mono [OF ctx s2(1)]])
        (use s2(2) live_mono in \<open>blast intro: report_attestation_safe\<close>)
  qed
qed

text \<open>Verification and collection.\<close>

lemma array_arg_live:
  assumes "array_arg (usable s) k ek sel s h n" and "h \<noteq> None"
  shows "live s k h" "n \<le> length (elements sel s h)" "\<forall>x\<in>set (take n (elements sel s h)). usable s ek x"
  using assms by (auto simp: array_arg_def intro: live_of_usable)

lemma bind_array:
  assumes "selects k sel" and "live s k h" and "safe s D (f (elements sel s h)) Q"
  shows "safe s D (sbind (deref sel h) f) Q"
  using assms(3) elements_live [OF assms(1,2)] by (simp add: safe_def)

lemma verify_gpu_safe:
  assumes "layer_defined env" and "heap_ok s" and "usable s KGpuVerifier h"
    and "array_arg (usable s) KGpuEvidenceArray KGpuEvidence as_gpu_array s a n" and "usable s KEvidencePolicy p"
  shows "call_ok s {} (two_handles (nvat_verify_gpu_evidence env h a n p out1 out2 s))"
  unfolding nvat_verify_gpu_evidence_def
  by (rule two_handles_ok, (rule safe_sguard [OF assms(2)])+, rule bind_deref [OF selector_kinds(18) live_of_usable [OF assms(3)]], assumption,
      rule bind_array [OF selector_kinds(5) array_arg_live(1) [OF assms(4)]], assumption,
      rule bind_read [OF assms(2) selector_kinds(4) array_arg_live(2,3) [OF assms(4)]], assumption, assumption,
      rule bind_deref [OF selector_kinds(10) live_of_usable [OF assms(5)]], assumption, rule deliver_safe [OF _ assms(2)])
    (use assms(1) in \<open>simp add: layer_defined_def\<close>)

lemma verify_switch_safe:
  assumes "layer_defined env" and "heap_ok s" and "usable s KSwitchVerifier h"
    and "array_arg (usable s) KSwitchEvidenceArray KSwitchEvidence as_switch_array s a n" and "usable s KEvidencePolicy p"
  shows "call_ok s {} (two_handles (nvat_verify_switch_evidence env h a n p out1 out2 s))"
  unfolding nvat_verify_switch_evidence_def
  by (rule two_handles_ok, (rule safe_sguard [OF assms(2)])+, rule bind_deref [OF selector_kinds(19) live_of_usable [OF assms(3)]], assumption,
      rule bind_array [OF selector_kinds(8) array_arg_live(1) [OF assms(4)]], assumption,
      rule bind_read [OF assms(2) selector_kinds(7) array_arg_live(2,3) [OF assms(4)]], assumption, assumption,
      rule bind_deref [OF selector_kinds(10) live_of_usable [OF assms(5)]], assumption, rule deliver_safe [OF _ assms(2)])
    (use assms(1) in \<open>simp add: layer_defined_def\<close>)

lemma gpu_serialize_safe:
  assumes "heap_ok s" and "array_arg (usable s) KGpuEvidenceArray KGpuEvidence as_gpu_array s h n"
    and "\<And>evs. fst (read_elements as_gpu_evidence (elements as_gpu_array s h) n s) = Inr evs
              \<Longrightarrow> evidence_collection_to_json (ce_dump env) (ce_b64_encode env) evs \<noteq> Inl UB"
  shows "call_ok s {} (one_handle KStr (nvat_gpu_evidence_serialize_json env h n out s))"
  unfolding nvat_gpu_evidence_serialize_json_def
  by (rule one_handle_ok, (rule safe_sguard [OF assms(1)])+, rule bind_array [OF selector_kinds(5) array_arg_live(1) [OF assms(2)]], assumption,
      rule bind_read [OF assms(1) selector_kinds(4) array_arg_live(2,3) [OF assms(2)]], assumption, assumption,
      rule bind_pure [OF assms(1) assms(3)], assumption, rule safe_allocate_as [OF assms(1)]) simp

lemma switch_serialize_safe:
  assumes "heap_ok s" and "array_arg (usable s) KSwitchEvidenceArray KSwitchEvidence as_switch_array s h n"
    and "\<And>evs. fst (read_elements as_switch_evidence (elements as_switch_array s h) n s) = Inr evs
              \<Longrightarrow> switch_collection_to_json (ce_dump env) (ce_b64_encode env) evs \<noteq> Inl UB"
  shows "call_ok s {} (one_handle KStr (nvat_switch_evidence_serialize_json env h n out s))"
  unfolding nvat_switch_evidence_serialize_json_def
  by (rule one_handle_ok, (rule safe_sguard [OF assms(1)])+, rule bind_array [OF selector_kinds(8) array_arg_live(1) [OF assms(2)]], assumption,
      rule bind_read [OF assms(1) selector_kinds(7) array_arg_live(2,3) [OF assms(2)]], assumption, assumption,
      rule bind_pure [OF assms(1) assms(3)], assumption, rule safe_allocate_as [OF assms(1)]) simp

lemma nonce_or_random_safe:
  assumes "heap_ok s" and "usable s KNonce g"
  shows "safe s {} (nonce_or_random env n g) (\<lambda>_ _. True)"
proof (cases g)
  case None
  then show ?thesis using assms(1) nonce_defined
    by (auto simp: nonce_or_random_def safe_def extends_def heap_ok_def split: prod.splits)
next
  case (Some a)
  then show ?thesis using safe_deref [OF assms(1) selector_kinds(3) live_of_usable [OF assms(2)]] by (simp add: nonce_or_random_def)
qed

lemma gpu_collect_step:
  assumes "layer_defined env" and "heap_ok s" and "live s KGpuEvidenceSource h" and "usable s KNonce g"
  shows "safe s {} (sbind (deref as_gpu_source h) (\<lambda>cpp_source.
         sbind (nonce_or_random env m g) (\<lambda>cpp_nonce.
         sbind (on_world (get_gpu_evidence (ce_attest env) (Some cpp_source) cpp_nonce)) (\<lambda>evidence_list.
         new_array GpuEvidenceArrayObj GpuEvidenceObj evidence_list)))) (fresh_array KGpuEvidenceArray KGpuEvidence as_gpu_array)"
proof (rule bind_deref [OF selector_kinds(6) assms(3)], rule safe_sbind [OF nonce_or_random_safe [OF assms(2,4)]])
  fix src nonce s1 assume s1: "extends {} s s1"
  show "safe s1 {} (sbind (on_world (get_gpu_evidence (ce_attest env) (Some src) nonce)) (\<lambda>evidence_list.
         new_array GpuEvidenceArrayObj GpuEvidenceObj evidence_list)) (fresh_array KGpuEvidenceArray KGpuEvidence as_gpu_array)"
    by (rule bind_on_world [OF extends_heap_ok [OF s1] gpu_evidence_defined [OF assms(1)]])
      (simp_all add: new_array_safe as_gpu_array_def)
qed

lemma switch_collect_step:
  assumes "layer_defined env" and "heap_ok s" and "live s KSwitchEvidenceSource h" and "usable s KNonce g"
  shows "safe s {} (sbind (deref as_switch_source h) (\<lambda>cpp_source.
         sbind (nonce_or_random env m g) (\<lambda>cpp_nonce.
         sbind (on_world (get_switch_evidence (ce_attest env) (Some cpp_source) cpp_nonce)) (\<lambda>evidence_list.
         new_array SwitchEvidenceArrayObj SwitchEvidenceObj evidence_list)))) (fresh_array KSwitchEvidenceArray KSwitchEvidence as_switch_array)"
proof (rule bind_deref [OF selector_kinds(9) assms(3)], rule safe_sbind [OF nonce_or_random_safe [OF assms(2,4)]])
  fix src nonce s1 assume s1: "extends {} s s1"
  show "safe s1 {} (sbind (on_world (get_switch_evidence (ce_attest env) (Some src) nonce)) (\<lambda>evidence_list.
         new_array SwitchEvidenceArrayObj SwitchEvidenceObj evidence_list)) (fresh_array KSwitchEvidenceArray KSwitchEvidence as_switch_array)"
    by (rule bind_on_world [OF extends_heap_ok [OF s1] switch_evidence_defined [OF assms(1)]])
      (simp_all add: new_array_safe as_switch_array_def)
qed

lemma array_handles_ok:
  assumes "safe s D m (fresh_array k ek sel)"
  shows "call_ok s D (array_handles k ek sel (c_api m s))"
proof -
  obtain rc x s' where run: "c_api m s = (rc, x, s')" by (cases "c_api m s")
  then show ?thesis
    using c_api_cases [OF assms run]
    by (cases x) (auto simp: call_ok_def array_handles_def fresh_array_def split: option.splits)
qed

lemma switch_collect_safe:
  assumes "layer_defined env" and "heap_ok s" and "usable s KSwitchEvidenceSource h" and "usable s KNonce g"
  shows "call_ok s {} (array_handles KSwitchEvidenceArray KSwitchEvidence as_switch_array (nvat_switch_evidence_collect env h g out1 out2 s))"
  unfolding nvat_switch_evidence_collect_def
  by (intro array_handles_ok safe_sguard assms(2) switch_collect_step [OF assms(1,2)] live_of_usable [OF assms(3)] assms(4))

lemma gpu_collect_safe:
  assumes "layer_defined env" and "heap_ok s" and "usable s KGpuEvidenceSource h" and "usable s KNonce g"
  shows "call_ok s {} (array_handles KGpuEvidenceArray KGpuEvidence as_gpu_array (nvat_gpu_evidence_collect env h g out1 out2 s))"
proof (cases "h = None \<or> \<not> out1 \<or> \<not> out2")
  case True
  then show ?thesis using assms(2) by (auto simp: nvat_gpu_evidence_collect_def call_ok_def array_handles_def ret_def)
next
  case False
  then have "h \<noteq> None" by simp
  let ?m = "sbind (deref as_gpu_source h) (\<lambda>cpp_source.
         sbind (nonce_or_random env GPU_SPDM_REQ_NONCE_SIZE g) (\<lambda>cpp_nonce.
         sbind (on_world (get_gpu_evidence (ce_attest env) (Some cpp_source) cpp_nonce)) (\<lambda>evidence_list.
         new_array GpuEvidenceArrayObj GpuEvidenceObj evidence_list)))"
  have "call_ok s {} (array_handles KGpuEvidenceArray KGpuEvidence as_gpu_array (c_api ?m s))"
    by (rule array_handles_ok, rule gpu_collect_step [OF assms(1,2) live_of_usable [OF assms(3) \<open>h \<noteq> None\<close>] assms(4)])
  then show ?thesis
    using False by (cases "c_api ?m s") (auto simp: nvat_gpu_evidence_collect_def call_ok_def array_handles_def split: option.splits)
qed

text \<open>Steps that the interface shares.\<close>

lemma http_options_safe: "heap_ok s \<Longrightarrow> usable s KHttpOptions h \<Longrightarrow> safe s {} (http_options_or_default env h) (\<lambda>_ _. True)"
  using safe_deref [OF _ selector_kinds(12)] by (auto simp: http_options_or_default_def ret_def intro!: safe_pure live_of_usable)

lemma eat_options_safe: "heap_ok s \<Longrightarrow> usable s KDetachedEatOptions h \<Longrightarrow> safe s {} (eat_options_or_default h) (\<lambda>_ _. True)"
  using safe_deref [OF _ selector_kinds(21)] by (auto simp: eat_options_or_default_def ret_def intro!: safe_pure live_of_usable)

lemma bind_http_options [safe_rules]:
  "heap_ok s \<Longrightarrow> usable s KHttpOptions h \<Longrightarrow> (\<And>x s'. heap_ok s' \<Longrightarrow> extends {} s s' \<Longrightarrow> safe s' D (f x) Q)
    \<Longrightarrow> safe s D (sbind (http_options_or_default env h) f) Q"
  by (rule safe_sbind [OF http_options_safe]) (auto dest: extends_heap_ok)

lemma bind_eat_options [safe_rules]:
  "heap_ok s \<Longrightarrow> usable s KDetachedEatOptions h \<Longrightarrow> (\<And>x s'. heap_ok s' \<Longrightarrow> extends {} s s' \<Longrightarrow> safe s' D (f x) Q)
    \<Longrightarrow> safe s D (sbind (eat_options_or_default h) f) Q"
  by (rule safe_sbind [OF eat_options_safe]) (auto dest: extends_heap_ok)

lemma new_client_safe [safe_rules]: "heap_ok s \<Longrightarrow> safe s {} (new_client ob) (\<lambda>h s'. live s' KOcspClient h)"
  by (auto simp: new_client_def safe_def allocate_def ret_def extends_def heap_ok_def live_def)

lemma new_store_safe [safe_rules]: "heap_ok s \<Longrightarrow> safe s {} (new_store ob) (\<lambda>h s'. live s' KRimStore h)"
  by (auto simp: new_store_def safe_def allocate_def ret_def extends_def heap_ok_def live_def)

lemma on_ctx_safe [safe_rules]:
  assumes "heap_ok s" and "live s KAttestationCtx h" and "\<And>c. fst (m c) \<noteq> Inl UB"
  shows "safe s D (on_ctx h m) (\<lambda>_ _. True)"
  unfolding on_ctx_def
proof (rule bind_deref [OF selector_kinds(17) assms(2)])
  fix c
  obtain r c' where m: "m c = (r, c')" by fastforce
  then have "r \<noteq> Inl UB" using assms(3) [of c] by simp
  then show "safe s D (case m c of (r, c') \<Rightarrow> sbind (assign h (AttestationCtxObj c')) (\<lambda>_. pure r)) (\<lambda>_ _. True)"
    using m assms(1,2) by (auto intro!: bind_assign safe_pure)
qed

lemmas constructor_defs = nvat_sdk_opts_create_def nvat_logger_callback_create_def nvat_http_options_create_default_def
  nvat_attestation_ctx_create_def nvat_gpu_evidence_source_nvml_create_def nvat_gpu_evidence_source_corelib_create_def
  nvat_switch_evidence_source_nscq_create_def nvat_detached_eat_options_create_def nvat_evidence_policy_create_default_def
  nvat_nonce_from_bytes_def nvat_rim_store_create_filesystem_def

lemma constructors_safe:
  assumes "heap_ok s"
  shows "call_ok s {} (one_handle KSdkOpts (nvat_sdk_opts_create out s))"
    "call_ok s {} (one_handle KLogger (nvat_logger_callback_create out f1 f2 f3 s))"
    "call_ok s {} (one_handle KHttpOptions (nvat_http_options_create_default env out s))"
    "call_ok s {} (one_handle KAttestationCtx (nvat_attestation_ctx_create env out s))"
    "call_ok s {} (one_handle KGpuEvidenceSource (nvat_gpu_evidence_source_nvml_create out s))"
    "call_ok s {} (one_handle KGpuEvidenceSource (nvat_gpu_evidence_source_corelib_create out arch s))"
    "call_ok s {} (one_handle KSwitchEvidenceSource (nvat_switch_evidence_source_nscq_create out s))"
    "call_ok s {} (one_handle KDetachedEatOptions (nvat_detached_eat_options_create out key iss kid s))"
    "call_ok s {} (one_handle KEvidencePolicy (nvat_evidence_policy_create_default out s))"
    "call_ok s {} (one_handle KRimStore (nvat_rim_store_create_filesystem out path s))"
    "call_ok s {} (one_handle KNonce (nvat_nonce_from_bytes out bytes s))"
  unfolding constructor_defs Let_def
  by (auto intro!: report_rules safe_rules assms simp: fail_def split: option.splits)

lemma context_setters_safe:
  assumes "heap_ok s" and "usable s KAttestationCtx h"
  shows "call_ok s {} (no_handles (nvat_attestation_ctx_set_device_type h dt s))"
    "call_ok s {} (no_handles (nvat_attestation_ctx_set_default_ocsp_url h url s))"
    "call_ok s {} (no_handles (nvat_attestation_ctx_set_default_nras_url h url s))"
    "call_ok s {} (no_handles (nvat_attestation_ctx_set_default_rim_store_url h url s))"
    "call_ok s {} (no_handles (nvat_attestation_ctx_set_service_key h key s))"
    "call_ok s {} (no_handles (nvat_attestation_ctx_set_evidence_policy h None s))"
    "call_ok s {} (no_handles (nvat_attestation_ctx_set_verifier_type h vt s))"
  unfolding nvat_attestation_ctx_set_device_type_def nvat_attestation_ctx_set_default_ocsp_url_def
    nvat_attestation_ctx_set_default_nras_url_def nvat_attestation_ctx_set_default_rim_store_url_def
    nvat_attestation_ctx_set_service_key_def nvat_attestation_ctx_set_evidence_policy_def nvat_attestation_ctx_set_verifier_type_def
  using assms by (auto intro!: report_rules safe_rules simp: verifier_type_from_c_def ret_def fail_def)

text \<open>Setters of the context that take a second object.\<close>

lemma context_links_safe:
  assumes "heap_ok s" and "usable s KAttestationCtx h"
  shows "usable s KHttpOptions g \<Longrightarrow> call_ok s {} (no_handles (nvat_attestation_ctx_set_default_http_options h g s))"
    "usable s KRelyingPartyPolicy g \<Longrightarrow> call_ok s {} (no_handles (nvat_attestation_ctx_set_relying_party_policy h g s))"
    "usable s KDetachedEatOptions g \<Longrightarrow> call_ok s {} (no_handles (nvat_attestation_ctx_set_detached_eat_options h g s))"
    "usable s KRimStore g \<Longrightarrow> call_ok s {} (no_handles (nvat_attestation_ctx_set_default_rim_store h g s))"
    "usable s KOcspClient g \<Longrightarrow> call_ok s {} (no_handles (nvat_attestation_ctx_set_default_ocsp_client h g s))"
  unfolding nvat_attestation_ctx_set_default_http_options_def nvat_attestation_ctx_set_relying_party_policy_def
    nvat_attestation_ctx_set_detached_eat_options_def nvat_attestation_ctx_set_default_rim_store_def
    nvat_attestation_ctx_set_default_ocsp_client_def
  using assms by (auto intro!: report_rules safe_rules elim: live_mono)

lemma set_policy_safe:
  assumes "heap_ok s" and "usable s KAttestationCtx h" and "usable s KEvidencePolicy g"
  shows "call_ok s (set_option g) (no_handles (nvat_attestation_ctx_set_evidence_policy h (Some g) s))"
  unfolding nvat_attestation_ctx_set_evidence_policy_def
  using assms by (cases g) (auto intro!: report_rules safe_rules elim: live_mono)

lemma catch_all_defined: "defined m \<Longrightarrow> catch_all m \<noteq> Inl UB"
  by (auto simp: catch_all_def defined_def fail_def split: sum.splits failure.splits)

lemma traverse_defined: "(\<And>x. defined (f x)) \<Longrightarrow> defined (traverse f xs)"
  by (induction xs) (auto intro!: defined_intros)

lemma or_throw_defined: "defined m \<Longrightarrow> defined (or_throw m)"
  by (auto simp: or_throw_def defined_def throw_def split: sum.splits failure.splits)

lemma member_string_defined: "defined (member_string j k)"
  by (auto simp: member_string_def json_at_def get_string_def intro!: defined_intros split: json.splits option.splits)

lemma decode_defined:
  assumes "layer_defined env"
  shows "defined (decode_base64 (ce_b64_decode env) t)" "defined (decode_base64_string (ce_b64_decode env) t)"
  using assms by (auto simp: layer_defined_def decode_base64_string_def decode_base64_def intro!: defined_intros split: option.splits)

lemma from_json_defined:
  assumes "layer_defined env"
  shows "defined (gpu_evidence_from_json (ce_b64_decode env) j)" "defined (switch_evidence_from_json (ce_b64_decode env) j)"
  by (auto simp: gpu_evidence_from_json_def switch_evidence_from_json_def Let_def
      intro!: defined_intros member_string_defined or_throw_defined decode_defined [OF assms])

lemma evidence_json_defined:
  assumes "layer_defined env"
  shows "evidence_collection_from_json (ce_parse env) (ce_b64_decode env) j \<noteq> Inl UB"
    "switch_collection_from_json (ce_parse env) (ce_b64_decode env) j \<noteq> Inl UB"
proof -
  have "defined (get_array (gpu_evidence_from_json (ce_b64_decode env)) v)" "defined (get_array (switch_evidence_from_json (ce_b64_decode env)) v)" for v
    using traverse_defined from_json_defined [OF assms] by (auto simp: get_array_def intro!: defined_intros split: json.splits)
  then have "defined (bind (ce_parse env j) (get_array (gpu_evidence_from_json (ce_b64_decode env))))"
    "defined (bind (ce_parse env j) (get_array (switch_evidence_from_json (ce_b64_decode env))))"
    using assms by (auto simp: layer_defined_def intro!: defined_bind)
  then show "evidence_collection_from_json (ce_parse env) (ce_b64_decode env) j \<noteq> Inl UB"
    "switch_collection_from_json (ce_parse env) (ce_b64_decode env) j \<noteq> Inl UB"
    unfolding evidence_collection_from_json_def switch_collection_from_json_def deserialize_from_json_def by (simp_all add: catch_all_defined)
qed

lemma raw_client_defined [simp]: "raw_client_create_from_bundle api b t \<noteq> Inl UB"
proof -
  have "defined (parse_basic_response api d)" for d
    by (auto simp: parse_basic_response_def Let_def intro!: defined_intros split: option.splits)
  then have "defined (parse_proofs api ds acc)" for ds acc
    by (induction ds arbitrary: acc) (auto intro!: defined_intros)
  then have "defined (raw_client_create_from_bundle api b t)"
    by (auto simp: raw_client_create_from_bundle_def raw_client_create_def intro!: defined_intros decode_bundle_defined)
  then show ?thesis by (simp add: defined_def)
qed

lemma evidence_file_defined:
  assumes "layer_defined env"
  shows "gpu_json_file_source_create (ce_read_file env) (ce_parse env) (ce_b64_decode env) path \<noteq> Inl UB"
    "switch_json_file_source_create (ce_read_file env) (ce_parse env) (ce_b64_decode env) path \<noteq> Inl UB"
  using assms evidence_json_defined [OF assms]
  by (auto simp: layer_defined_def gpu_json_file_source_create_def switch_json_file_source_create_def guard_def bind_def fail_def
      split: sum.splits)

lemma context_files_safe:
  assumes "layer_defined env" and "heap_ok s" and "usable s KAttestationCtx h"
  shows "call_ok s {} (no_handles (nvat_attestation_ctx_set_gpu_evidence_source_json_file env h path s))"
    "call_ok s {} (no_handles (nvat_attestation_ctx_set_switch_evidence_source_json_file env h path s))"
  unfolding nvat_attestation_ctx_set_gpu_evidence_source_json_file_def nvat_attestation_ctx_set_switch_evidence_source_json_file_def
  using assms(2,3) evidence_file_defined [OF assms(1)]
  by (auto intro!: report_rules safe_rules split: sum.splits
      simp: set_gpu_evidence_source_json_file_def set_switch_evidence_source_json_file_def ret_def)

text \<open>The remaining functions, by the object they are about.\<close>

lemma options_safe:
  assumes "heap_ok s" and "usable s KHttpOptions h"
  shows "call_ok s {} (void_call (nvat_http_options_set_max_retry_count h i s))"
    "call_ok s {} (void_call (nvat_http_options_set_base_backoff_ms h i s))"
    "call_ok s {} (void_call (nvat_http_options_set_max_backoff_ms h i s))"
    "call_ok s {} (void_call (nvat_http_options_set_connection_timeout_ms h i s))"
    "call_ok s {} (void_call (nvat_http_options_set_request_timeout_ms h i s))"
    "call_ok s {} (no_handles (nvat_http_options_set_ca_bundle_path env h path s))"
    "call_ok s {} (one_handle KOcspClient (nvat_ocsp_client_create_default env out url key h s))"
    "call_ok s {} (one_handle KRimStore (nvat_rim_store_create_remote env out url key h s))"
    "call_ok s {} (one_handle KGpuVerifier (nvat_gpu_nras_verifier_create env out base key h s))"
    "call_ok s {} (one_handle KSwitchVerifier (nvat_switch_nras_verifier_create env out base key h s))"
  unfolding nvat_http_options_set_max_retry_count_def nvat_http_options_set_base_backoff_ms_def nvat_http_options_set_max_backoff_ms_def
    nvat_http_options_set_connection_timeout_ms_def nvat_http_options_set_request_timeout_ms_def nvat_http_options_set_ca_bundle_path_def
    nvat_ocsp_client_create_default_def nvat_rim_store_create_remote_def nvat_gpu_nras_verifier_create_def nvat_switch_nras_verifier_create_def
    set_http_option_def
  using assms by (auto intro!: report_rules safe_rules simp: ret_def fail_def split: prod.splits option.splits)

lemma policy_safe:
  assumes "heap_ok s" and "usable s KEvidencePolicy h"
  shows "call_ok s {} (void_call (nvat_evidence_policy_set_verify_rim_signature h v s))"
    "call_ok s {} (void_call (nvat_evidence_policy_set_verify_rim_cert_chain h v s))"
    "call_ok s {} (no_handles (nvat_evidence_policy_set_gpu_claims_version h ver s))"
    "call_ok s {} (no_handles (nvat_evidence_policy_set_switch_claims_version h ver s))"
  unfolding nvat_evidence_policy_set_verify_rim_signature_def nvat_evidence_policy_set_verify_rim_cert_chain_def
    nvat_evidence_policy_set_gpu_claims_version_def nvat_evidence_policy_set_switch_claims_version_def
  using assms by (auto intro!: report_rules safe_rules simp: gpu_claims_version_from_c_def switch_claims_version_from_c_def ret_def fail_def)

lemma wrappers_safe:
  assumes "heap_ok s"
  shows "usable s KOcspClient h \<Longrightarrow> call_ok s {} (one_handle KOcspClient (nvat_ocsp_client_create_cached out h sz ttl s))"
    "usable s KRimStore h \<Longrightarrow> call_ok s {} (one_handle KRimStore (nvat_rim_store_create_cached out h sz ttl s))"
    "usable s KRimStore h \<Longrightarrow> usable s KOcspClient g \<Longrightarrow> usable s KDetachedEatOptions e
      \<Longrightarrow> call_ok s {} (one_handle KGpuVerifier (nvat_gpu_local_verifier_create out h g e s))"
    "usable s KRimStore h \<Longrightarrow> usable s KOcspClient g \<Longrightarrow> usable s KDetachedEatOptions e
      \<Longrightarrow> call_ok s {} (one_handle KSwitchVerifier (nvat_switch_local_verifier_create out h g e s))"
  unfolding nvat_ocsp_client_create_cached_def nvat_rim_store_create_cached_def nvat_gpu_local_verifier_create_def nvat_switch_local_verifier_create_def
  using assms by (auto intro!: report_rules safe_rules elim: live_mono simp: local_verifier_def ret_def fail_def split: option.splits)

lemma rego_safe:
  assumes "heap_ok s"
  shows "call_ok s {} (one_handle KRelyingPartyPolicy (nvat_relying_party_policy_create_rego_from_str True rego s))"
proof -
  have "safe s {} (\<lambda>s. allocate (RelyingPartyPolicyObj (length (cs_evaluators s))) (s\<lparr>cs_evaluators := cs_evaluators s @ [opt_string rego]\<rparr>))
     (\<lambda>h s'. live s' KRelyingPartyPolicy h)"
    using assms by (auto simp: safe_def allocate_def ret_def extends_def heap_ok_def live_def)
  then show ?thesis
    unfolding nvat_relying_party_policy_create_rego_from_str_def
    by (intro one_handle_ok safe_sguard assms safe_sbind [of s _ "\<lambda>h s'. live s' KRelyingPartyPolicy h"])
      (auto intro!: safe_pure dest: extends_heap_ok simp: ret_def)
qed

lemma spdlog_safe:
  assumes "heap_ok s"
  shows "call_ok s {} (one_handle KLogger (nvat_logger_spdlog_create env out name level s))"
  unfolding nvat_logger_spdlog_create_def
  using assms by (auto intro!: report_rules safe_rules simp: spdlog_logger_def ret_def throw_def split: prod.splits if_splits)

lemma nonce_create_safe:
  assumes "heap_ok s"
  shows "call_ok s {} (maybe_handle KNonce (nvat_nonce_create env out n s))"
proof -
  have "safe s {} (\<lambda>s. case at_rand_bytes (ce_attest env) n (cs_world s) of
       (bytes, w) \<Rightarrow> (generate_nonce (\<lambda>_. bytes) (replicate n 0), s\<lparr>cs_world := w\<rparr>)) (\<lambda>_ _. True)"
    using assms nonce_defined by (auto simp: safe_def extends_def heap_ok_def split: prod.splits)
  then show ?thesis
    unfolding nvat_nonce_create_def
    by (intro maybe_handle_ok safe_sguard assms safe_if safe_sbind [of s _ "\<lambda>_ _. True"])
      (auto intro!: safe_pure bind_allocate assms dest: extends_heap_ok simp: ret_def)
qed

lemma nonce_safe:
  assumes "heap_ok s" and "usable s KNonce h"
  shows "call_ok s {} (void_call (nvat_nonce_get_length h s))"
    "call_ok s {} (no_handles (nvat_nonce_get_bytes h out n s))"
    "call_ok s {} (one_handle KStr (nvat_nonce_to_hex_string h out s))"
  using assms by (auto intro!: report_rules void_step_ok safe_rules simp: guard_def ret_def fail_def
      nvat_nonce_get_length_def nvat_nonce_get_bytes_def nvat_nonce_to_hex_string_def split: if_splits)

lemma nonce_from_hex_safe:
  assumes "heap_ok s"
  shows "call_ok s {} (one_handle KNonce (nvat_nonce_from_hex out str s))"
  using assms by (auto intro!: report_rules safe_rules simp: guard_def ret_def fail_def nvat_nonce_from_hex_def hex_nonce_def Let_def)

lemma strings_safe:
  assumes "heap_ok s" and "usable s KStr h"
  shows "call_ok s {} (no_handles (nvat_str_length h True s))" "call_ok s {} (no_handles (nvat_str_get_data h True s))"
  using assms by (auto intro!: report_rules safe_rules simp: ret_def nvat_str_length_def nvat_str_get_data_def)

lemma set_logger_safe:
  assumes "heap_ok s" and "usable s KSdkOpts h" and "usable s KLogger l"
  shows "call_ok s {} (void_call (nvat_sdk_opts_set_logger h l s))"
  using assms by (auto intro!: report_rules safe_rules simp: ret_def nvat_sdk_opts_set_logger_def)

lemma sources_safe:
  assumes "layer_defined env" and "heap_ok s"
  shows "call_ok s {} (one_handle KGpuEvidenceSource (nvat_gpu_evidence_source_from_json_string env out str s))"
    "call_ok s {} (one_handle KGpuEvidenceSource (nvat_gpu_evidence_source_from_json_file env out path s))"
    "call_ok s {} (one_handle KSwitchEvidenceSource (nvat_switch_evidence_source_from_json_string env out str s))"
    "call_ok s {} (one_handle KSwitchEvidenceSource (nvat_switch_evidence_source_from_json_file env out path s))"
    "call_ok s {} (one_handle KOcspClient (nvat_ocsp_client_create_raw_proofs env out bundle_der t s))"
  unfolding nvat_gpu_evidence_source_from_json_string_def nvat_gpu_evidence_source_from_json_file_def
    nvat_switch_evidence_source_from_json_string_def nvat_switch_evidence_source_from_json_file_def nvat_ocsp_client_create_raw_proofs_def
  using assms(2) evidence_file_defined [OF assms(1)] evidence_json_defined [OF assms(1)]
  by (auto intro!: report_rules safe_rules simp: fail_def split: option.splits)

lemma serialize_defined:
  assumes "layer_defined env"
  shows "serialize_to_json (ce_dump env) (\<lambda>c. ret (claims_to_json c)) c \<noteq> Inl UB" "collection_serialize_json (ce_dump env) cs \<noteq> Inl UB"
  using assms by (auto simp: layer_defined_def serialize_to_json_def collection_serialize_json_def catch_all_def fail_def
      split: sum.splits failure.splits)

lemma claims_safe:
  assumes "layer_defined env" and "heap_ok s"
  shows "usable s KClaims h \<Longrightarrow> call_ok s {} (one_handle KStr (nvat_claims_serialize_json env h out s))"
    "usable s KClaimsCollection h \<Longrightarrow> call_ok s {} (one_handle KStr (nvat_claims_collection_serialize_json env h out s))"
    "usable s KClaimsCollection h \<Longrightarrow> usable s KClaimsCollection g \<Longrightarrow> call_ok s {} (no_handles (nvat_claims_collection_extend h g s))"
  unfolding nvat_claims_serialize_json_def nvat_claims_collection_serialize_json_def nvat_claims_collection_extend_def
  using assms(2) serialize_defined [OF assms(1)] by (auto intro!: report_rules safe_rules)

lemma apply_policy_safe:
  assumes "layer_defined env" and "heap_ok s" and "usable s KRelyingPartyPolicy h" and "usable s KClaimsCollection g"
  shows "call_ok s {} (no_handles (nvat_apply_relying_party_policy env h g s))"
  unfolding nvat_apply_relying_party_policy_def
  using assms(2-4) assms(1) [unfolded layer_defined_def]
  by (auto intro!: report_rules safe_rules simp: guard_def ret_def fail_def split: if_splits)

lemma detached_eat_safe:
  assumes "layer_defined env" and "heap_ok s" and "usable s KClaimsCollection h" and "usable s KDetachedEatOptions g"
  shows "call_ok s {} (one_handle KStr (nvat_get_detached_eat_es384 env h g out s))"
proof -
  have "fst (case get_detached_eat (ce_eat env) now options cs w of (Inl f, _, w') \<Rightarrow> (Inl f, w')
      | (Inr _, token, w') \<Rightarrow> (ret (opt_string token), w')) \<noteq> Inl UB" for now options cs w
  proof -
    obtain r token w' where run: "get_detached_eat (ce_eat env) now options cs w = (r, token, w')" by (cases "get_detached_eat (ce_eat env) now options cs w")
    then have "r \<noteq> Inl UB" using assms(1) unfolding layer_defined_def by (metis fst_conv)
    then show ?thesis using run by (cases r) (simp_all add: ret_def)
  qed
  then show ?thesis
    unfolding nvat_get_detached_eat_es384_def
    using assms(2-4) by (auto intro!: report_rules safe_rules)
qed

lemmas call_safety = constructors_safe context_setters_safe context_links_safe set_policy_safe context_files_safe options_safe policy_safe
  wrappers_safe rego_safe spdlog_safe nonce_create_safe nonce_safe nonce_from_hex_safe strings_safe set_logger_safe sources_safe
  claims_safe apply_policy_safe detached_eat_safe attest_device_safe verify_gpu_safe verify_switch_safe gpu_serialize_safe
  switch_serialize_safe gpu_collect_safe switch_collect_safe

lemma c_call_safe:
  assumes "layer_defined env" and "heap_ok s" and "c_call env (usable s) s D t"
  shows "call_ok s D t"
  using assms(3)
proof induction
  case (1 k h)
  then show ?case by (rule void_step_ok [OF free_safe [OF assms(2)]])
next
  case (2 k)
  then show ?case using assms(2) by (simp add: void_call_def nvat_free_def pure_def call_ok_def ret_def)
next
  case (3 h n)
  then show ?case by (intro void_step_ok array_free_safe [OF assms(2) selector_kinds(5)]) simp_all
next
  case (4 h n)
  then show ?case by (intro void_step_ok array_free_safe [OF assms(2) selector_kinds(8)]) simp_all
qed (rule call_safety; (rule assms(1,2) | assumption | blast))+

section \<open>Clients\<close>

text \<open>A client passes null pointers and handles it holds.\<close>

definition held :: "(obj_kind \<times> nat) set \<Rightarrow> obj_kind \<Rightarrow> handle \<Rightarrow> bool" where
  "held H k h \<longleftrightarrow> (\<forall>a. h = Some a \<longrightarrow> (k, a) \<in> H)"

text \<open>The handles after a call: those given back are gone, those handed out are new.\<close>

definition handles_after :: "(obj_kind \<times> nat) set \<Rightarrow> nat set \<Rightarrow> (obj_kind \<times> handle) list \<Rightarrow> (obj_kind \<times> nat) set" where
  "handles_after H D outs = {(k, a). (k, a) \<in> H \<and> a \<notin> D} \<union> {(k, a). (k, Some a) \<in> set outs}"

inductive c_client :: "('c, 'r, 'b, 'i, 'e, 'w) c_env \<Rightarrow> (obj_kind \<times> nat) set \<Rightarrow> ('b, 'w) c_state \<Rightarrow> bool" for env where
  start: "cs_objects s = (\<lambda>_. None) \<Longrightarrow> c_client env {} s"
| call: "c_client env H s \<Longrightarrow> c_call env (held H) s D (rc, outs, s') \<Longrightarrow> c_client env (handles_after H D outs) s'"
| elsewhere: "c_client env H s \<Longrightarrow> c_client env H (s\<lparr>cs_sdk := g, cs_world := w\<rparr>)"

text \<open>A weaker condition on the handles admits the same calls.\<close>

lemma array_arg_mono: "\<forall>k h. P k h \<longrightarrow> Q k h \<Longrightarrow> array_arg P k ek sel s h n \<Longrightarrow> array_arg Q k ek sel s h n"
  by (simp add: array_arg_def)

lemma c_call_mono:
  assumes "c_call env P s D t" and "\<forall>k h. P k h \<longrightarrow> Q k h"
  shows "c_call env Q s D t"
  using assms(1)
  by induction (rule c_call.intros; (erule assms(2) [rule_format] | erule array_arg_mono [OF assms(2)] | assumption | blast))+

definition holds_live :: "(obj_kind \<times> nat) set \<Rightarrow> ('b, 'w) c_state \<Rightarrow> bool" where
  "holds_live H s \<longleftrightarrow> heap_ok s \<and> (\<forall>(k, a)\<in>H. live s k (Some a))"

lemma held_usable: "holds_live H s \<Longrightarrow> held H k h \<Longrightarrow> usable s k h"
  by (cases h) (auto simp: holds_live_def held_def)

lemma client_call:
  assumes "layer_defined env" and "holds_live H s" and "c_call env (held H) s D (rc, outs, s')"
  shows "rc \<noteq> Inl UB" "holds_live (handles_after H D outs) s'" "\<And>k h. (k, h) \<in> set outs \<Longrightarrow> live s' k h"
proof -
  have "c_call env (usable s) s D (rc, outs, s')" using c_call_mono [OF assms(3)] held_usable [OF assms(2)] by blast
  then have ok: "rc \<noteq> Inl UB" "extends D s s'" "\<And>k h. (k, h) \<in> set outs \<Longrightarrow> live s' k h"
    using c_call_safe [OF assms(1), of s D "(rc, outs, s')"] assms(2) by (auto simp: call_ok_def holds_live_def)
  show "rc \<noteq> Inl UB" "\<And>k h. (k, h) \<in> set outs \<Longrightarrow> live s' k h" by (fact ok)+
  have "live s' k (Some a)" if "(k, a) \<in> H" "a \<notin> D" for k a
    using assms(2) ok(2) that by (fastforce simp: holds_live_def live_def extends_def)
  then show "holds_live (handles_after H D outs) s'"
    using ok(2,3) by (auto simp: holds_live_def handles_after_def dest: extends_heap_ok)
qed

lemma client_holds_live:
  assumes "layer_defined env" and "c_client env H s"
  shows "holds_live H s"
  using assms(2)
proof induction
  case (call H s D rc outs s')
  then show ?case using client_call [OF assms(1)] by blast
qed (auto simp: holds_live_def heap_ok_def live_def)

section \<open>Memory safety\<close>


text \<open>A client that creates a nonce, prints it and frees it.\<close>

definition demo_c_env :: "(nat, nat, nat single_resp list, nat, json, unit) c_env" where
  "demo_c_env = \<lparr>ce_attest = demo_attest_env, ce_sdk = demo_sdk_env, ce_regular = (\<lambda>p. False), ce_compiled_ca = [],
     ce_ocsp = demo_ocsp, ce_read_file = (\<lambda>p. fail InternalError), ce_dump = (\<lambda>j. ret []), ce_parse = (\<lambda>t. ret JNull),
     ce_b64_encode = (\<lambda>b. None), ce_b64_decode = (\<lambda>t. None),
     ce_eat = demo_eat_env\<lparr>ee_rand_bytes := (\<lambda>n g. (None, g))\<rparr>, ce_now = (\<lambda>w. 0)\<rparr>"

definition demo_c_start :: "(nat single_resp list, unit) c_state" where
  "demo_c_start = \<lparr>cs_objects = (\<lambda>a. None), cs_next = 1, cs_stores = [], cs_clients = [], cs_evaluators = [],
     cs_sdk = sdk_start, cs_world = ()\<rparr>"

lemma demo_layer: "layer_defined demo_c_env"
  by (simp add: layer_defined_def demo_c_env_def demo_attest_env_def verify_ok_def demo_eat_env_def get_detached_eat_def
      build_detached_eat_def get_current_times_def draw_jti_def generate_nonce_def sbind_def ret_def fail_def JTI_SIZE_BYTES_def
      MIN_VALID_NONCE_LEN_def bind_def)

lemma demo_nonce_call:
  "nvat_nonce_from_bytes True (Some (replicate 32 7)) demo_c_start
     = (ret 0, Some (Some 1), demo_c_start\<lparr>cs_objects := (\<lambda>a. None)(1 \<mapsto> NonceObj (replicate 32 7)), cs_next := 2\<rparr>)"
  by (simp add: nvat_nonce_from_bytes_def c_api_def allocate_def demo_c_start_def MIN_VALID_NONCE_LEN_def ret_def rc_of_outcome_def)


end
