(* ===== verification/C_Results.thy ===== *)
theory C_Results
  imports C_Safety
begin

text \<open>
  What a caller of the C interface observes: the result of an attestation through return code and
  handles, and nonces in hexadecimal form.
\<close>

section \<open>Attestation\<close>

text \<open>The token object that is created before the attestation runs, when a token is wanted.\<close>

definition reserve_token :: "bool \<Rightarrow> ('b, 'w) c_state \<Rightarrow> ('b, 'w) c_state" where
  "reserve_token want s = (if want then snd (allocate (StrObj []) s) else s)"

lemma attest_device_unfold:
  fixes s :: "('b, 'w) c_state"
  assumes "heap_ok s" and ctx: "cs_objects s a = Some (AttestationCtxObj c)"
    and nonce: "g = None \<and> n = [] \<or> (\<exists>b. g = Some b \<and> cs_objects s b = Some (NonceObj n))"
    and run: "attest_device (ce_attest env) c n want [] (cs_world s) = (status, token, claims, c', w')"
  shows "nvat_attest_device env (Some a) g want out s
    = with_status (c_api (\<lambda>_. report_attestation want out (if want then Some (cs_next s) else None) (status, token, claims)
        ((reserve_token want s)\<lparr>cs_objects := (cs_objects (reserve_token want s))(a \<mapsto> AttestationCtxObj c'), cs_world := w'\<rparr>)) s)"
proof -
  let ?s = "reserve_token want s"
  have "a \<noteq> cs_next s" using assms(1) ctx unfolding heap_ok_def by (metis le_refl option.distinct(1))
  then have kept: "cs_objects ?s a = Some (AttestationCtxObj c)" "cs_world ?s = cs_world s"
    using ctx by (simp_all add: reserve_token_def allocate_def)
  have read: "sbind (if g = None then pure (ret []) else deref as_nonce g) k s = k n s"
    for k :: "buffer \<Rightarrow> (('b, 'w) c_state, unit outcome \<times> handle option \<times> handle option) step"
    using nonce by (auto simp: deref_def as_nonce_def sbind_def pure_def ret_def)
  have reserve: "sbind (if want then allocate (StrObj []) else pure (ret None)) k s = k (if want then Some (cs_next s) else None) ?s"
    for k :: "handle \<Rightarrow> (('b, 'w) c_state, unit outcome \<times> handle option \<times> handle option) step"
    by (simp add: reserve_token_def allocate_def sbind_def ret_def pure_def)
  have attest: "run_attestation env (Some a) n want ?s
    = (Inr (status, token, claims), ?s\<lparr>cs_objects := (cs_objects ?s)(a \<mapsto> AttestationCtxObj c'), cs_world := w'\<rparr>)"
    using kept run by (simp add: run_attestation_def deref_def as_ctx_def assign_def sbind_def pure_def ret_def)
  show ?thesis
    unfolding nvat_attest_device_def c_api_def sguard_holds [OF option.distinct(2)] read reserve sbind_step [of "run_attestation env (Some a) n want", OF attest]
    by (rule refl)
qed

text \<open>
  C8 (attest_device_refines): the C function reports exactly what \<^verbatim>\<open>AttestationContext::attest_device\<close> computes.
  On a live context and a live or null nonce its return code is that of the status; claims are handed out exactly
  when they are wanted and the status is success, a false overall result or a policy mismatch, and the object
  behind the handle holds the claims the context produced; the same holds of the token.  The context keeps what the
  attestation created in it, and no other object changes.
\<close>

theorem attest_device_refines:
  assumes "heap_ok s" and "cs_objects s a = Some (AttestationCtxObj c)"
    and "g = None \<and> n = [] \<or> (\<exists>b. g = Some b \<and> cs_objects s b = Some (NonceObj n))"
    and "attest_device (ce_attest env) c n want [] (cs_world s) = (status, token, claims, c', w')"
    and "status \<noteq> Inl UB" and "\<not> want \<longrightarrow> token = None"
    and "nvat_attest_device env (Some a) g want out s = (rc, (token_handle, claims_handle), s')"
  shows "rc = rc_of_outcome status \<and> (rc = Inr 0 \<longleftrightarrow> status = Inr ())
    \<and> (claims_handle \<noteq> None \<longleftrightarrow> out \<and> reported_status status)
    \<and> (\<forall>h. claims_handle = Some h \<longrightarrow> (\<exists>b. h = Some b \<and> cs_objects s' b = Some (ClaimsCollectionObj claims)))
    \<and> (token_handle \<noteq> None \<longleftrightarrow> want \<and> reported_status status)
    \<and> (\<forall>h. token_handle = Some h \<longrightarrow> (\<exists>b. h = Some b \<and> cs_objects s' b = Some (StrObj (opt_string token))))
    \<and> cs_objects s' a = Some (AttestationCtxObj c') \<and> cs_world s' = w'
    \<and> (\<forall>b ob. cs_objects s b = Some ob \<and> b \<noteq> a \<longrightarrow> cs_objects s' b = Some ob)"
proof -
  have fresh: "cs_objects s b = None" if "cs_next s \<le> b" for b using assms(1) that by (simp add: heap_ok_def)
  have a: "a < cs_next s" using fresh [of a] assms(2) by (metis not_le option.distinct(1))
  have other: "b \<noteq> cs_next s" "b \<noteq> Suc (cs_next s)" if "cs_objects s b = Some ob" for b ob
    using that fresh by auto
  have code: "rc_of_outcome status = Inr 0 \<longleftrightarrow> status = Inr ()"
    by (auto simp: rc_of_outcome_def ret_def rc_of_error_nonzero split: sum.splits failure.splits)
  note run = attest_device_unfold [OF assms(1-4), of out]
  show ?thesis
  proof (cases "reported_status status")
    case True
    then show ?thesis
      using assms(6,7) a fresh code unfolding run
      by (cases want; cases out; cases token)
        (auto simp: report_attestation_def with_status_def c_api_def reserve_token_def allocate_def assign_def sbind_def pure_def ret_def
          opt_string_def dest: other)
  next
    case False
    then obtain f where "status = Inl f" by (cases status) (auto simp: reported_status_def ret_def)
    then show ?thesis
      using False assms(5-7) a fresh code unfolding run
      by (cases want; cases token)
        (auto simp: report_attestation_def with_status_def c_api_def reserve_token_def allocate_def assign_def sbind_def pure_def ret_def
          opt_string_def rc_of_outcome_def bind_def dest: other split: failure.splits)
  qed
qed

definition demo_ctx_state :: "(nat single_resp list, unit) c_state" where
  "demo_ctx_state = demo_c_start\<lparr>cs_objects := (\<lambda>a. None)(1 \<mapsto> AttestationCtxObj (new_context (hc_options demo_client))), cs_next := 2\<rparr>"

theorem attest_device_refines_witness:
  "\<exists>rc th h s'. nvat_attest_device demo_c_env (Some 1) None True True demo_ctx_state = (rc, (Some th, Some (Some h)), s')
     \<and> rc = rc_of_outcome (fail OverallResultFalse :: unit outcome) \<and> cs_objects s' h = Some (ClaimsCollectionObj [])"
proof -
  let ?c = "new_context (hc_options demo_client)"
  obtain status token claims c' w' where run: "attest_device (ce_attest demo_c_env) ?c [] True [] (cs_world demo_ctx_state) = (status, token, claims, c', w')"
    by (cases "attest_device (ce_attest demo_c_env) ?c [] True [] (cs_world demo_ctx_state)")
  moreover have "\<exists>d. attest_device demo_attest_env ?c [] True [] () = (fail OverallResultFalse, None, [], d, ())"
    by (simp add: attest_device_def ensure_init_def init_defaults_def init_gpu_def init_switch_def new_context_def create_verifier_def
        sbind_def Let_def ret_def or_new_def choose_nonce_def demo_attest_env_def generate_nonce_def GPU_SPDM_REQ_NONCE_SIZE_def
        MIN_VALID_NONCE_LEN_def attest_gpus_def get_gpu_evidence_def judge_claims_def fail_def)
  ultimately have vals: "status = fail OverallResultFalse" "token = None" "claims = []" by (auto simp: demo_c_env_def)
  obtain rc th ch s' where call: "nvat_attest_device demo_c_env (Some 1) None True True demo_ctx_state = (rc, (th, ch), s')"
    by (cases "nvat_attest_device demo_c_env (Some 1) None True True demo_ctx_state") auto
  have "heap_ok demo_ctx_state" "cs_objects demo_ctx_state 1 = Some (AttestationCtxObj ?c)"
    by (simp_all add: demo_ctx_state_def heap_ok_def)
  from attest_device_refines [OF this _ run _ _ call] vals
  have "rc = rc_of_outcome (fail OverallResultFalse :: unit outcome)" "ch \<noteq> None" "th \<noteq> None"
    "\<forall>h. ch = Some h \<longrightarrow> (\<exists>b. h = Some b \<and> cs_objects s' b = Some (ClaimsCollectionObj []))"
    by (auto simp: reported_status_def fail_def)
  then show ?thesis using call by fastforce
qed

text \<open>With any other status the token object that was reserved is not handed out, and stays allocated.\<close>

lemma token_object_leaks:
  assumes "heap_ok s" and "cs_objects s a = Some (AttestationCtxObj c)"
    and "attest_device (ce_attest env) c [] True [] (cs_world s) = (fail e, None, claims, c', w')"
    and "e \<notin> {OverallResultFalse, RelyingPartyPolicyMismatch}"
    and "nvat_attest_device env (Some a) None True out s = (rc, (token_handle, claims_handle), s')"
  shows "token_handle = None \<and> cs_objects s' (cs_next s) = Some (StrObj [])"
proof -
  have "a \<noteq> cs_next s" using assms(1,2) unfolding heap_ok_def by (metis le_refl option.distinct(1))
  then show ?thesis
    using assms(4,5) unfolding attest_device_unfold [OF assms(1,2) disjI1 assms(3), of None out, simplified]
    by (auto simp: report_attestation_def reported_status_def with_status_def c_api_def reserve_token_def allocate_def pure_def ret_def
        fail_def bind_def sbind_def rc_of_outcome_def)
qed

section \<open>Nonces\<close>

lemma hex_digits_of_bytes: "list_all isxdigit (to_hex_string bs)"
proof (induction bs)
  case (Cons b bs)
  have "unat b < 256" using unsigned_less [of b] by simp
  then have "unat b div 16 < 16" "unat b mod 16 < 16" by simp_all
  then show ?case using Cons by (simp add: to_hex_string_def byte_to_hex_string_def isxdigit_def hex_digit_plain)
qed (simp add: to_hex_string_def)

lemma no_hex_prefix: "list_all isxdigit t \<Longrightarrow> strip_hex_prefix t = t"
  by (cases t; cases "tl t") (auto simp: strip_hex_prefix_def isxdigit_def is_digit_def digit_value_def)

lemma strip_prefix:
  assumes "list_all isxdigit t" and "p \<in> {[], ''0x'', ''0X''}"
  shows "strip_hex_prefix (p @ t) = t"
  using assms(2) no_hex_prefix [OF assms(1)] by (auto simp: strip_hex_prefix_def)

text \<open>
  C40 (nonce_hex_round_trip): printing a nonce and reading it back.  The hexadecimal string that the C interface
  makes of a nonce object, with or without the prefix 0x or 0X in front, is read back as a new nonce object with
  the same bytes if the nonce has at least 32 bytes, and is refused as a bad argument, with nothing allocated, if
  it is shorter.
\<close>

theorem nonce_hex_round_trip:
  fixes s :: "('b, 'w) c_state"
  assumes "cs_objects s a = Some (NonceObj bs)" and "p \<in> {[], ''0x'', ''0X''}"
  shows "\<exists>h t s1. nvat_nonce_to_hex_string (Some a) True s = (Inr 0, Some (Some h), s1) \<and> cs_objects s1 h = Some (StrObj t)
    \<and> (if 32 \<le> length bs
       then \<exists>h' s2. nvat_nonce_from_hex True (Some (p @ t)) s1 = (Inr 0, Some (Some h'), s2) \<and> cs_objects s2 h' = Some (NonceObj bs)
       else nvat_nonce_from_hex True (Some (p @ t)) s1 = (Inr (rc_of_error BadArgument), None, s1))"
proof -
  let ?t = "to_hex_string bs"
  let ?s = "s\<lparr>cs_objects := (cs_objects s)(cs_next s \<mapsto> StrObj ?t), cs_next := cs_next s + 1\<rparr>"
  have printed: "nvat_nonce_to_hex_string (Some a) True s = (Inr 0, Some (Some (cs_next s)), ?s)"
    using assms(1) by (simp add: nvat_nonce_to_hex_string_def c_api_def deref_def as_nonce_def allocate_def sbind_def ret_def rc_of_outcome_def)
  have strip: "strip_hex_prefix (p @ ?t) = ?t" using strip_prefix [OF hex_digits_of_bytes assms(2)] .
  have "?t = [] \<longleftrightarrow> bs = []" using length_to_hex_string [of bs] by (cases bs) auto
  then have "hex_nonce (p @ ?t) = (if 32 \<le> length bs then Inr bs else fail BadArgument)"
    by (simp add: hex_nonce_def Let_def strip hex_digits_of_bytes guard_def length_to_hex_string MIN_VALID_NONCE_LEN_def ret_def)
  then have "nvat_nonce_from_hex True (Some (p @ ?t)) u
    = (if 32 \<le> length bs
       then (Inr 0, Some (Some (cs_next u)), u\<lparr>cs_objects := (cs_objects u)(cs_next u \<mapsto> NonceObj bs), cs_next := cs_next u + 1\<rparr>)
       else (Inr (rc_of_error BadArgument), None, u))" for u :: "('b, 'w) c_state"
    by (simp add: nvat_nonce_from_hex_def c_api_def opt_string_def sbind_def pure_def allocate_def ret_def fail_def rc_of_outcome_def)
  then show ?thesis using printed by auto
qed

theorem nonce_hex_round_trip_witness:
  "\<exists>h h' t s1 s2. nvat_nonce_to_hex_string (Some 1) True (demo_c_start\<lparr>cs_objects := (\<lambda>a. None)(1 \<mapsto> NonceObj (replicate 32 7))\<rparr>) = (Inr 0, Some (Some h), s1)
     \<and> cs_objects s1 h = Some (StrObj t) \<and> nvat_nonce_from_hex True (Some (''0x'' @ t)) s1 = (Inr 0, Some (Some h'), s2)
     \<and> cs_objects s2 h' = Some (NonceObj (replicate 32 7))"
  using nonce_hex_round_trip [of "demo_c_start\<lparr>cs_objects := (\<lambda>a. None)(1 \<mapsto> NonceObj (replicate 32 7))\<rparr>" 1 "replicate 32 7" "''0x''"]
  by auto

end
