(* ===== verification/Cli_Refinement.thy ===== *)
theory Cli_Refinement
  imports Cli C_Results
begin

text \<open>
  What the \<^verbatim>\<open>attest\<close> subcommand computes.  The abstract program has no handles and no heap: it sets up one attestation
  context, runs it and prints the result.  The subcommand, a client of the C interface, is shown to compute the same.
\<close>

section \<open>The abstract program\<close>

record ('b, 'w) app_state =
  ap_ctx :: attestation_ctx
  ap_stores :: "rim_store_object list"
  ap_clients :: "'b ocsp_client_object list"
  ap_evaluators :: "string list"
  ap_sdk :: sdk_globals
  ap_world :: 'w

definition code_of :: "'a outcome \<Rightarrow> (nat + 'a) outcome" where
  "code_of r = (case r of Inr x \<Rightarrow> Inr (Inr x) | Inl _ \<Rightarrow> (case rc_of_outcome r of Inl f \<Rightarrow> Inl f | Inr rc \<Rightarrow> Inr (Inl rc)))"

definition amodify :: "(attestation_ctx \<Rightarrow> attestation_ctx) \<Rightarrow> (('b, 'w) app_state, unit) cli" where
  "amodify f t = (Inr (Inr ()), t\<lparr>ap_ctx := f (ap_ctx t)\<rparr>)"

definition spec_init :: "('c, 'r, 'b, 'i, 'e, 'w) c_env \<Rightarrow> (('b, 'w) app_state, unit) cli" where
  "spec_init env t =
     (case sbind (sdk_init (ce_sdk env) (Some (Some (CallbackLogger True True True)))) (\<lambda>_.
        log_macro (ce_sdk env) DEBUG ''Successfully initialized NVIDIA Attestation SDK'') (ap_sdk t, ap_world t) of
        (r, (g, w)) \<Rightarrow> (code_of r, t\<lparr>ap_sdk := g, ap_world := w\<rparr>))"

definition spec_policy :: "evidence_policy_options \<Rightarrow> evidence_policy" where
  "spec_policy pol = default_evidence_policy\<lparr>verify_rim_signature := cli_verify_rim_signature pol,
     verify_rim_cert_chain := cli_verify_rim_cert_chain pol\<rparr>"

definition on_actx :: "(attestation_ctx, unit) step \<Rightarrow> (('b, 'w) app_state, unit) cli" where
  "on_actx m t = (case m (ap_ctx t) of (r, c) \<Rightarrow> (code_of r, t\<lparr>ap_ctx := c\<rparr>))"

definition spec_device :: "('c, 'r, 'b, 'i, 'e, 'w) c_env \<Rightarrow> evidence_collection_options \<Rightarrow> (('b, 'w) app_state, unit) cli" where
  "spec_device env col =
     (if cli_device col = ''gpu''
      then cbind (amodify (set_device_type 0)) (\<lambda>_.
        if cli_gpu_evidence_source col = ''corelib'' then cfail (rc_of_error BadArgument)
        else if cli_gpu_evidence_source col = ''file''
        then on_actx (set_gpu_evidence_source_json_file (ce_read_file env) (ce_parse env) (ce_b64_decode env) (c_str (cli_gpu_evidence_file col)))
        else creturn ())
      else if cli_device col = ''nvswitch''
      then cbind (amodify (set_device_type 1)) (\<lambda>_.
        if cli_switch_evidence_source col = ''file''
        then on_actx (set_switch_evidence_source_json_file (ce_read_file env) (ce_parse env) (ce_b64_decode env) (c_str (cli_switch_evidence_file col)))
        else creturn ())
      else creturn ())"

definition add_store :: "rim_store_object \<Rightarrow> (('b, 'w) app_state, unit) cli" where
  "add_store ob t = (Inr (Inr ()), t\<lparr>ap_stores := ap_stores t @ [ob],
     ap_ctx := set_default_rim_store (Some (length (ap_stores t))) (ap_ctx t)\<rparr>)"

definition add_client :: "'b ocsp_client_object \<Rightarrow> (('b, 'w) app_state, unit) cli" where
  "add_client ob t = (Inr (Inr ()), t\<lparr>ap_clients := ap_clients t @ [ob],
     ap_ctx := set_default_ocsp_client (Some (length (ap_clients t))) (ap_ctx t)\<rparr>)"

definition spec_rim_store ::
  "('c, 'r, 'b, 'i, 'e, 'w) c_env \<Rightarrow> evidence_verification_options \<Rightarrow> http_options \<Rightarrow> (('b, 'w) app_state, unit) cli" where
  "spec_rim_store env ver options =
     (if cli_verifier ver \<noteq> ''local'' then creturn ()
      else if cli_rim_store ver = ''remote'' \<and> \<not> offline_status_proofs ver
      then add_store (RemoteStoreObject
        (resolve_base_url (at_env (ce_attest env)) (c_str (cli_rim_url ver)) ''NVAT_RIM_SERVICE_BASE_URL'' RIM_DEFAULT_BASE_URL)
        \<lparr>hc_options = options, hc_service_key = c_str (cli_service_key ver)\<rparr>)
      else if cli_rim_store ver = ''dir'' then add_store (FilesystemStoreObject (c_str (cli_rim_path ver)))
      else cfail (rc_of_error BadArgument))"

definition spec_status ::
  "('c, 'r, 'b, 'i, 'e, 'w) cli_env \<Rightarrow> evidence_verification_options \<Rightarrow> http_options \<Rightarrow> (('b, 'w) app_state, unit) cli" where
  "spec_status cv ver options =
     (if offline_status_proofs ver
      then case read_status_proof_bundle (cv_open_binary cv) (cli_ocsp_proof_bundle ver) of
        Inl err \<Rightarrow> cfail err
      | Inr bundle \<Rightarrow>
          (case parse_verification_time (cli_ocsp_verification_time ver) of
             Inl err \<Rightarrow> cfail err
           | Inr verification_time \<Rightarrow>
               if MAX_VERIFICATION_TIME < verification_time then cfail (rc_of_error BadArgument)
               else cbind (\<lambda>t. (code_of (raw_client_create_from_bundle (ce_ocsp (cv_api cv)) bundle verification_time), t))
                      (\<lambda>client. add_client (RawProofClientObject client)))
      else if cli_ocsp_url ver \<noteq> []
      then add_client (HttpClientObject
        (resolve_base_url (at_env (ce_attest (cv_api cv))) (c_str (cli_ocsp_url ver)) ''NVAT_OCSP_BASE_URL'' OCSP_DEFAULT_BASE_URL)
        \<lparr>hc_options = options, hc_service_key = c_str (cli_service_key ver)\<rparr>)
      else creturn ())"

definition spec_relying_party :: "('c, 'r, 'b, 'i, 'e, 'w) cli_env \<Rightarrow> string \<Rightarrow> (('b, 'w) app_state, unit) cli" where
  "spec_relying_party cv filename =
     (if filename = [] then creturn ()
      else case cv_open_text cv filename of
        None \<Rightarrow> cfail (rc_of_error BadArgument)
      | Some rego_str \<Rightarrow> (\<lambda>t. (Inr (Inr ()), t\<lparr>ap_evaluators := ap_evaluators t @ [c_str rego_str],
          ap_ctx := set_claims_evaluator (Some (length (ap_evaluators t))) (ap_ctx t)\<rparr>)))"

definition spec_verifier :: "evidence_verification_options \<Rightarrow> (('b, 'w) app_state, unit) cli" where
  "spec_verifier ver =
     (if cli_verifier ver = ''local'' then amodify (set_verifier_type LocalType)
      else if cli_verifier ver = ''remote'' then amodify (set_verifier_type RemoteType)
      else cfail (rc_of_error BadArgument))"

definition spec_nonce :: "evidence_collection_options \<Rightarrow> (('b, 'w) app_state, buffer) cli" where
  "spec_nonce col t =
     (if cli_nonce col = [] then Inr (Inr []) else code_of (hex_nonce (c_str (cli_nonce col))), t)"

definition spec_run :: "('c, 'r, 'b, 'i, 'e, 'w) c_env \<Rightarrow> buffer \<Rightarrow> (('b, 'w) app_state, attest_output) cli" where
  "spec_run env nonce t =
     (case attest_device (ce_attest env) (ap_ctx t) nonce True [] (ap_world t) of
        (status, token, claims, c, w) \<Rightarrow>
          (case rc_of_outcome status of
             Inl f \<Rightarrow> Inl f
           | Inr code \<Rightarrow>
               if \<not> reported_status status then Inr (Inl code)
               else case code_of (collection_serialize_json (ce_dump env) claims) of
                 Inl f \<Rightarrow> Inl f
               | Inr (Inl err) \<Rightarrow> Inr (Inl err)
               | Inr (Inr j) \<Rightarrow> Inr (Inr \<lparr>ao_result_code = code, ao_claims = c_str j, ao_detached_eat = c_str (opt_string token)\<rparr>),
           t\<lparr>ap_ctx := c, ap_world := w\<rparr>))"

definition spec_configure ::
  "('c, 'r, 'b, 'i, 'e, 'w) cli_env \<Rightarrow> evidence_collection_options \<Rightarrow> evidence_verification_options \<Rightarrow> evidence_policy_options
    \<Rightarrow> http_options \<Rightarrow> (('b, 'w) app_state, unit) cli" where
  "spec_configure cv col ver pol options =
     cbind (if offline_status_proofs ver then creturn () else amodify (set_default_http_options options)) (\<lambda>_.
     cbind (amodify (set_evidence_policy (spec_policy pol))) (\<lambda>_.
     cbind (spec_device (cv_api cv) col) (\<lambda>_.
     cbind (if \<not> offline_status_proofs ver \<and> cli_service_key ver \<noteq> [] then amodify (set_service_key (c_str (cli_service_key ver)))
            else creturn ()) (\<lambda>_.
     cbind (spec_rim_store (cv_api cv) ver options) (\<lambda>_.
     cbind (spec_status cv ver options) (\<lambda>_.
     cbind (spec_relying_party cv (cli_relying_party_policy ver)) (\<lambda>_.
     spec_verifier ver)))))))"

definition spec_http_options :: "('c, 'r, 'b, 'i, 'e, 'w) c_env \<Rightarrow> evidence_verification_options \<Rightarrow> nat + http_options" where
  "spec_http_options env ver =
     (if offline_status_proofs ver then Inr (default_http_options env)
      else case resolve_ca env (c_str (cli_ca_bundle_path ver)) of
        (path, tier, None) \<Rightarrow> Inr ((default_http_options env)\<lparr>ca_bundle_path := path, ca_bundle_path_tier := tier, ca_bundle_path_error := None\<rparr>)
      | (_, _, Some e) \<Rightarrow> Inl (rc_of_error e))"

definition spec_attest ::
  "('c, 'r, 'b, 'i, 'e, 'w) cli_env \<Rightarrow> evidence_collection_options \<Rightarrow> evidence_verification_options \<Rightarrow> evidence_policy_options
    \<Rightarrow> (('b, 'w) app_state, attest_output) cli" where
  "spec_attest cv col ver pol =
     cbind (spec_init (cv_api cv)) (\<lambda>_.
     if offline_status_proofs ver \<and> (cli_verifier ver \<noteq> ''local'' \<or> cli_rim_store ver \<noteq> ''dir'') then cfail (rc_of_error BadArgument)
     else case spec_http_options (cv_api cv) ver of
       Inl err \<Rightarrow> cfail err
     | Inr options \<Rightarrow>
         cbind (amodify (\<lambda>_. new_context (default_http_options (cv_api cv)))) (\<lambda>_.
         cbind (spec_configure cv col ver pol options) (\<lambda>_.
         cbind (spec_nonce col) (\<lambda>nonce.
         spec_run (env_of_nras_url ver (cv_api cv)) nonce))))"

section \<open>Simulation\<close>

text \<open>
  The heap holds the abstract context at address \<open>a\<close>, and the HTTP options at the given handle, if any.
\<close>

definition http_at :: "handle \<Rightarrow> http_options \<Rightarrow> ('b, 'w) c_state \<Rightarrow> bool" where
  "http_at h options s \<longleftrightarrow> (\<forall>b. h = Some b \<longrightarrow> cs_objects s b = Some (HttpOptionsObj options))"

definition view :: "attestation_ctx \<Rightarrow> ('b, 'w) c_state \<Rightarrow> ('b, 'w) app_state" where
  "view c s = \<lparr>ap_ctx = c, ap_stores = cs_stores s, ap_clients = cs_clients s, ap_evaluators = cs_evaluators s,
     ap_sdk = cs_sdk s, ap_world = cs_world s\<rparr>"

definition ctx_rel :: "nat \<Rightarrow> handle \<Rightarrow> http_options \<Rightarrow> ('b, 'w) c_state \<Rightarrow> ('b, 'w) app_state \<Rightarrow> bool" where
  "ctx_rel a h options s t \<longleftrightarrow> heap_ok s \<and> cs_objects s a = Some (AttestationCtxObj (ap_ctx t)) \<and> http_at h options s
     \<and> t = view (ap_ctx t) s"

definition sim :: "('s \<Rightarrow> 't \<Rightarrow> bool) \<Rightarrow> ('s, 'a) cli \<Rightarrow> ('t, 'a) cli \<Rightarrow> bool" where
  "sim R m n \<longleftrightarrow> (\<forall>s t. R s t \<longrightarrow> fst (m s) = fst (n t) \<and> R (snd (m s)) (snd (n t)))"

named_theorems sim_intros "the steps of the subcommand and of the abstract program that correspond"

lemma sim_cbind [sim_intros]: "sim R m n \<Longrightarrow> (\<And>x. sim R (k x) (l x)) \<Longrightarrow> sim R (cbind m k) (cbind n l)"
  unfolding sim_def cbind_def by (fastforce split: prod.splits sum.splits)

lemma simI: "(\<And>s t. R s t \<Longrightarrow> fst (m s) = fst (n t) \<and> R (snd (m s)) (snd (n t))) \<Longrightarrow> sim R m n"
  by (simp add: sim_def)

lemma sim_return [sim_intros]: "sim R (creturn x) (creturn x)" "sim R (cfail rc) (cfail rc)"
  by (simp_all add: sim_def creturn_def cfail_def)

lemma sim_if [sim_intros]: "(c \<Longrightarrow> sim R m n) \<Longrightarrow> (\<not> c \<Longrightarrow> sim R m' n') \<Longrightarrow> sim R (if c then m else m') (if c then n else n')"
  by simp

lemmas cli_defs = run_def create_def void_def call_def cbind_def creturn_def cfail_def owned_def release_def on_failure_def

lemmas heap_defs = c_api_def c_api_void_def allocate_def assign_def deref_def update_object_def delete_object_def nvat_free_def sbind_def pure_def
  ret_def rc_of_outcome_def kind_of.simps

lemmas selector_defs = as_sdk_opts_def as_logger_def as_nonce_def as_policy_def as_rp_policy_def as_http_options_def as_ocsp_client_def
  as_rim_store_def as_collection_def as_ctx_def as_str_def

section \<open>The steps correspond\<close>

lemma ctx_rel_fresh:
  assumes "ctx_rel a h options s t"
  shows "cs_objects s (cs_next s) = None" "a \<noteq> cs_next s" "h \<noteq> Some (cs_next s)" "a \<noteq> Suc (cs_next s)" "h \<noteq> Some (Suc (cs_next s))"
  using assms unfolding ctx_rel_def heap_ok_def http_at_def by (metis le_refl le_Suc_eq option.distinct(1))+

lemma ctx_rel_update:
  assumes "ctx_rel a h options s t" and "h \<noteq> Some a"
  shows "ctx_rel a h options (s\<lparr>cs_objects := (cs_objects s)(a \<mapsto> AttestationCtxObj c)\<rparr>) (t\<lparr>ap_ctx := c\<rparr>)"
  using assms by (cases t) (auto simp: ctx_rel_def heap_ok_def http_at_def view_def)

lemma sim_with_ctx:
  assumes "h \<noteq> Some a"
  shows "sim (ctx_rel a h options) (run (c_api (with_ctx (Some a) f))) (amodify f)"
  proof (rule simI)
  fix s t
  assume rel: "ctx_rel a h options s t"
  then have "run (c_api (with_ctx (Some a) f)) s = (Inr (Inr ()), s\<lparr>cs_objects := (cs_objects s)(a \<mapsto> AttestationCtxObj (f (ap_ctx t)))\<rparr>)"
    by (simp add: ctx_rel_def cli_defs heap_defs selector_defs)
  then show "fst (run (c_api (with_ctx (Some a) f)) s) = fst (amodify f t)
    \<and> ctx_rel a h options (snd (run (c_api (with_ctx (Some a) f)) s)) (snd (amodify f t))"
    using ctx_rel_update [OF rel assms] by (simp add: amodify_def)
qed

lemma sguard_True: "sguard e True m = m"
  by (rule ext) (simp add: sguard_def)

lemma sbind_pure_eq: "sbind (pure (Inr x)) k = k x"
  by (rule ext) simp

lemma sim_setters [sim_intros]:
  assumes "h \<noteq> Some a"
  shows "sim (ctx_rel a h options) (run (nvat_attestation_ctx_set_device_type (Some a) d)) (amodify (set_device_type d))"
    "sim (ctx_rel a h options) (run (nvat_attestation_ctx_set_service_key (Some a) (Some key))) (amodify (set_service_key key))"
    "sim (ctx_rel a h options) (run (nvat_attestation_ctx_set_verifier_type (Some a) 0)) (amodify (set_verifier_type LocalType))"
    "sim (ctx_rel a h options) (run (nvat_attestation_ctx_set_verifier_type (Some a) 1)) (amodify (set_verifier_type RemoteType))"
  using sim_with_ctx [OF assms]
  by (simp_all add: nvat_attestation_ctx_set_device_type_def nvat_attestation_ctx_set_service_key_def nvat_attestation_ctx_set_verifier_type_def
      verifier_type_from_c_def opt_string_def sguard_True sbind_pure_eq ret_def)

lemma sim_http [sim_intros]:
  assumes "h = Some b" "h \<noteq> Some a"
  shows "sim (ctx_rel a h options) (run (nvat_attestation_ctx_set_default_http_options (Some a) h)) (amodify (set_default_http_options options))"
  proof (rule simI)
  fix s t
  let ?m = "run (nvat_attestation_ctx_set_default_http_options (Some a) h)"
  assume rel: "ctx_rel a h options s t"
  then have "?m s = (Inr (Inr ()), s\<lparr>cs_objects := (cs_objects s)(a \<mapsto> AttestationCtxObj (set_default_http_options options (ap_ctx t)))\<rparr>)"
    using assms by (simp add: ctx_rel_def http_at_def nvat_attestation_ctx_set_default_http_options_def cli_defs heap_defs selector_defs)
  then show "fst (?m s) = fst (amodify (set_default_http_options options) t)
    \<and> ctx_rel a h options (snd (?m s)) (snd (amodify (set_default_http_options options) t))"
    using ctx_rel_update [OF rel assms(2)] by (simp add: amodify_def)
qed

lemma sim_policy [sim_intros]:
  assumes "h \<noteq> Some a"
  shows "sim (ctx_rel a h options) (apply_evidence_policy pol (Some a)) (amodify (set_evidence_policy (spec_policy pol)))"
  proof (rule simI)
  fix s t
  assume rel: "ctx_rel a h options s t"
  note fresh = ctx_rel_fresh [OF rel]
  have "apply_evidence_policy pol (Some a) s
    = (Inr (Inr ()), s\<lparr>cs_objects := (cs_objects s)(a \<mapsto> AttestationCtxObj (set_evidence_policy (spec_policy pol) (ap_ctx t))), cs_next := cs_next s + 1\<rparr>)"
    using rel fresh by (simp add: ctx_rel_def apply_evidence_policy_def nvat_evidence_policy_create_default_def spec_policy_def
        nvat_evidence_policy_set_verify_rim_signature_def nvat_evidence_policy_set_verify_rim_cert_chain_def
        nvat_attestation_ctx_set_evidence_policy_def cli_defs heap_defs selector_defs fun_upd_twist fun_upd_idem)
  then show "fst (apply_evidence_policy pol (Some a) s) = fst (amodify (set_evidence_policy (spec_policy pol)) t)
    \<and> ctx_rel a h options (snd (apply_evidence_policy pol (Some a) s)) (snd (amodify (set_evidence_policy (spec_policy pol)) t))"
    using rel assms by (cases t) (auto simp: amodify_def ctx_rel_def heap_ok_def http_at_def view_def)
qed

lemma sim_on_ctx:
  assumes "h \<noteq> Some a"
  shows "sim (ctx_rel a h options) (run (c_api (on_ctx (Some a) m))) (on_actx m)"
proof (rule simI)
  fix s t
  assume rel: "ctx_rel a h options s t"
  obtain r c where m: "m (ap_ctx t) = (r, c)" by fastforce
  have "run (c_api (on_ctx (Some a) m)) s = (code_of r, s\<lparr>cs_objects := (cs_objects s)(a \<mapsto> AttestationCtxObj c)\<rparr>)"
    using rel m by (cases r) (auto simp: ctx_rel_def on_ctx_def code_of_def cli_defs heap_defs selector_defs split: failure.splits)
  then show "fst (run (c_api (on_ctx (Some a) m)) s) = fst (on_actx m t)
    \<and> ctx_rel a h options (snd (run (c_api (on_ctx (Some a) m)) s)) (snd (on_actx m t))"
    using ctx_rel_update [OF rel assms] by (simp add: on_actx_def m)
qed

lemma sim_device [sim_intros]:
  assumes "h \<noteq> Some a"
  shows "sim (ctx_rel a h options) (select_device env col (Some a)) (spec_device env col)"
proof -
  note files = sim_on_ctx [OF assms] and types = sim_setters(1) [OF assms]
  show ?thesis
    unfolding select_device_def spec_device_def nvat_attestation_ctx_set_gpu_evidence_source_json_file_def
      nvat_attestation_ctx_set_switch_evidence_source_json_file_def
    by (auto simp: sguard_True opt_string_def intro!: sim_cbind sim_return files types)
qed

text \<open>A new object that the context takes over.\<close>

lemma sim_store:
  fixes f :: "('b, 'w, handle) c_fun"
  assumes "h \<noteq> Some a" and "\<And>s. http_at h options s \<Longrightarrow> f s = c_api (new_store ob) s"
  shows "sim (ctx_rel a h options) (owned KRimStore (create f) (\<lambda>st. run (nvat_attestation_ctx_set_default_rim_store (Some a) st))) (add_store ob)"
    (is "sim _ ?m _")
proof (rule simI)
  fix s :: "('b, 'w) c_state" and t
  assume rel: "ctx_rel a h options s t"
  note fresh = ctx_rel_fresh [OF rel]
  have "?m s = (Inr (Inr ()), s\<lparr>cs_objects := (cs_objects s)(a \<mapsto> AttestationCtxObj (set_default_rim_store (Some (length (cs_stores s))) (ap_ctx t))),
      cs_next := cs_next s + 1, cs_stores := cs_stores s @ [ob]\<rparr>)"
    using rel fresh assms(2) [of s]
    by (simp add: ctx_rel_def new_store_def nvat_attestation_ctx_set_default_rim_store_def cli_defs heap_defs selector_defs fun_upd_twist fun_upd_idem)
  then show "fst (?m s) = fst (add_store ob t) \<and> ctx_rel a h options (snd (?m s)) (snd (add_store ob t))"
    using rel assms(1) by (cases t) (auto simp: add_store_def ctx_rel_def heap_ok_def http_at_def view_def)
qed

lemma sim_client:
  fixes f :: "('b, 'w, handle) c_fun"
  assumes "h \<noteq> Some a" and "\<And>s. http_at h options s \<Longrightarrow> f s = c_api (new_client ob) s"
  shows "sim (ctx_rel a h options) (owned KOcspClient (create f) (\<lambda>cl. run (nvat_attestation_ctx_set_default_ocsp_client (Some a) cl))) (add_client ob)"
    (is "sim _ ?m _")
proof (rule simI)
  fix s :: "('b, 'w) c_state" and t
  assume rel: "ctx_rel a h options s t"
  note fresh = ctx_rel_fresh [OF rel]
  have "?m s = (Inr (Inr ()), s\<lparr>cs_objects := (cs_objects s)(a \<mapsto> AttestationCtxObj (set_default_ocsp_client (Some (length (cs_clients s))) (ap_ctx t))),
      cs_next := cs_next s + 1, cs_clients := cs_clients s @ [ob]\<rparr>)"
    using rel fresh assms(2) [of s]
    by (simp add: ctx_rel_def new_client_def nvat_attestation_ctx_set_default_ocsp_client_def cli_defs heap_defs selector_defs fun_upd_twist fun_upd_idem)
  then show "fst (?m s) = fst (add_client ob t) \<and> ctx_rel a h options (snd (?m s)) (snd (add_client ob t))"
    using rel assms(1) by (cases t) (auto simp: add_client_def ctx_rel_def heap_ok_def http_at_def view_def)
qed

lemma owned_fail [simp]: "owned k (cfail rc) body = cfail rc"
  by (rule ext) (simp add: owned_def cbind_def cfail_def ret_def)

lemma opt_service_key [simp]: "opt_string (service_key_arg ver) = c_str (cli_service_key ver)"
  by (simp add: service_key_arg_def opt_string_def c_str_def)

lemma read_http: "http_at (Some b) options s \<Longrightarrow> sbind (http_options_or_default env (Some b)) k s = k options s"
  by (simp add: http_options_or_default_def http_at_def deref_def as_http_options_def sbind_def ret_def)

lemma opt_string_Some [simp]: "opt_string (Some s) = s"
  by (simp add: opt_string_def)

lemma sim_rim_store [sim_intros]:
  fixes env :: "('c, 'r, 'b, 'i, 'e, 'w) c_env"
  assumes "h \<noteq> Some a" and "\<not> offline_status_proofs ver \<Longrightarrow> \<exists>b. h = Some b"
  shows "sim (ctx_rel a h options) (configure_rim_store env ver h (Some a)) (spec_rim_store env ver options)"
proof -
  have "nvat_rim_store_create_remote env True (Some url) key (Some b) s
    = c_api (new_store (RemoteStoreObject (resolve_base_url (at_env (ce_attest env)) url ''NVAT_RIM_SERVICE_BASE_URL'' RIM_DEFAULT_BASE_URL)
        \<lparr>hc_options = options, hc_service_key = opt_string key\<rparr>)) s"
    if "http_at (Some b) options s" for url key b and s :: "('b, 'w) c_state"
    unfolding nvat_rim_store_create_remote_def c_api_def sguard_True opt_string_Some read_http [OF that] by (rule refl)
  moreover have "nvat_rim_store_create_filesystem True (Some path) s = c_api (new_store (FilesystemStoreObject path)) s"
    for path and s :: "('b, 'w) c_state"
    by (simp add: nvat_rim_store_create_filesystem_def sguard_True)
  ultimately show ?thesis
    using assms unfolding configure_rim_store_def spec_rim_store_def
    by (auto intro!: sim_return sim_store)
qed

lemma bundle_bounds: "read_status_proof_bundle open_file path = Inr bundle \<Longrightarrow> bundle \<noteq> [] \<and> length bundle \<le> MAX_BUNDLE_BYTES"
  by (auto simp: read_status_proof_bundle_def Let_def split: option.splits prod.splits if_splits)

lemma time_positive: "parse_verification_time v = Inr time \<Longrightarrow> 0 < time"
  by (auto simp: parse_verification_time_def Let_def split: if_splits)

lemma create_fails: "f s = (Inr rc, None, s) \<Longrightarrow> rc \<noteq> 0 \<Longrightarrow> owned k (create f) body s = cfail rc s"
  by (simp add: cli_defs ret_def)

lemma create_undefined: "f s = (Inl x, None, s) \<Longrightarrow> owned k (create f) body s = (Inl x, s)"
  by (simp add: cli_defs ret_def)

lemma sim_raw_client:
  fixes env :: "('c, 'r, 'b, 'i, 'e, 'w) c_env"
  assumes "h \<noteq> Some a" and "bundle \<noteq> []" "length bundle \<le> MAX_BUNDLE_BYTES" "0 < time"
  shows "sim (ctx_rel a h options)
    (owned KOcspClient (create (nvat_ocsp_client_create_raw_proofs env True (Some bundle) time)) (\<lambda>cl. run (nvat_attestation_ctx_set_default_ocsp_client (Some a) cl)))
    (if MAX_VERIFICATION_TIME < time then cfail (rc_of_error BadArgument)
     else cbind (\<lambda>t. (code_of (raw_client_create_from_bundle (ce_ocsp env) bundle time), t)) (\<lambda>client. add_client (RawProofClientObject client)))"
    (is "sim ?R ?m ?n")
proof -
  let ?f = "nvat_ocsp_client_create_raw_proofs env True (Some bundle) time :: ('b, 'w, handle) c_fun"
  have f: "?f = c_api (sguard BadArgument (time \<le> MAX_VERIFICATION_TIME)
      (sbind (pure (raw_client_create_from_bundle (ce_ocsp env) bundle time)) (\<lambda>client. new_client (RawProofClientObject client))))"
    using assms(2-4) by (simp add: nvat_ocsp_client_create_raw_proofs_def sguard_True)
  show ?thesis
  proof (cases "raw_client_create_from_bundle (ce_ocsp env) bundle time")
    case (Inr client)
    then show ?thesis
      using sim_client [OF assms(1), of options ?f "RawProofClientObject client"]
      by (cases "time \<le> MAX_VERIFICATION_TIME")
        (auto simp: f sguard_True sbind_pure_eq code_of_def cbind_def sguard_def c_api_def fail_def rc_of_outcome_def ret_def sim_def cfail_def
          create_fails)
  next
    case (Inl x)
    then have "?m s = (if MAX_VERIFICATION_TIME < time then cfail (rc_of_error BadArgument) s else (case rc_of_outcome (Inl x :: unit outcome) of Inl y \<Rightarrow> (Inl y, s) | Inr rc \<Rightarrow> cfail rc s))" for s
      by (cases "time \<le> MAX_VERIFICATION_TIME"; cases x)
        (simp_all add: f sguard_def c_api_def fail_def rc_of_outcome_def ret_def create_fails create_undefined sbind_def pure_def)
    then show ?thesis
      using Inl by (cases x) (auto simp: sim_def code_of_def cbind_def cfail_def ret_def rc_of_outcome_def)
  qed
qed

lemma sim_status [sim_intros]:
  fixes cv :: "('c, 'r, 'b, 'i, 'e, 'w) cli_env"
  assumes "h \<noteq> Some a" and "\<not> offline_status_proofs ver \<Longrightarrow> \<exists>b. h = Some b"
  shows "sim (ctx_rel a h options) (configure_status cv ver h (Some a)) (spec_status cv ver options)"
proof (cases "offline_status_proofs ver")
  case True
  let ?read = "read_status_proof_bundle (cv_open_binary cv) (cli_ocsp_proof_bundle ver)"
  let ?time = "parse_verification_time (cli_ocsp_verification_time ver)"
  consider (no_bundle) err where "?read = Inl err" | (no_time) bytes err where "?read = Inr bytes" "?time = Inl err"
    | (inputs) bytes time where "?read = Inr bytes" "?time = Inr time"
    by (cases ?read; cases ?time) auto
  then show ?thesis
  proof cases
    case inputs
    then show ?thesis
      unfolding configure_status_def spec_status_def if_P [OF True] inputs sum.case
      using sim_raw_client [OF assms(1)] bundle_bounds [OF inputs(1)] time_positive [OF inputs(2)] by blast
  qed (simp_all add: configure_status_def spec_status_def True sim_return)
next
  case False
  then obtain b where b: "h = Some b" using assms(2) by blast
  have "nvat_ocsp_client_create_default (cv_api cv) True (Some url) key (Some b) s
    = c_api (new_client (HttpClientObject (resolve_base_url (at_env (ce_attest (cv_api cv))) url ''NVAT_OCSP_BASE_URL'' OCSP_DEFAULT_BASE_URL)
        \<lparr>hc_options = options, hc_service_key = opt_string key\<rparr>)) s"
    if "http_at (Some b) options s" for url key and s :: "('b, 'w) c_state"
    unfolding nvat_ocsp_client_create_default_def c_api_def sguard_True opt_string_Some read_http [OF that] by (rule refl)
  then show ?thesis
    using False b assms(1) unfolding configure_status_def spec_status_def by (auto intro!: sim_return sim_client)
qed

lemma sim_relying_party [sim_intros]:
  fixes cv :: "('c, 'r, 'b, 'i, 'e, 'w) cli_env"
  assumes "h \<noteq> Some a"
  shows "sim (ctx_rel a h options) (set_relying_party_policy cv (Some a) filename) (spec_relying_party cv filename)"
proof (rule simI)
  fix s :: "('b, 'w) c_state" and t
  let ?m = "set_relying_party_policy cv (Some a) filename" and ?n = "spec_relying_party cv filename :: (('b, 'w) app_state, unit) cli"
  assume rel: "ctx_rel a h options s t"
  note fresh = ctx_rel_fresh [OF rel]
  show "fst (?m s) = fst (?n t) \<and> ctx_rel a h options (snd (?m s)) (snd (?n t))"
  proof (cases "filename = [] \<or> cv_open_text cv filename = None")
    case True
    then show ?thesis using rel by (auto simp: set_relying_party_policy_def spec_relying_party_def creturn_def cfail_def)
  next
    case False
    then obtain rego where rego: "filename \<noteq> []" "cv_open_text cv filename = Some rego" by auto
    have "?m s = (Inr (Inr ()), s\<lparr>cs_objects := (cs_objects s)(a \<mapsto> AttestationCtxObj (set_claims_evaluator (Some (length (cs_evaluators s))) (ap_ctx t))),
        cs_next := cs_next s + 1, cs_evaluators := cs_evaluators s @ [c_str rego]\<rparr>)"
      using rel fresh rego
      by (simp add: ctx_rel_def set_relying_party_policy_def nvat_relying_party_policy_create_rego_from_str_def
          nvat_attestation_ctx_set_relying_party_policy_def cli_defs heap_defs selector_defs fun_upd_twist fun_upd_idem)
    then show ?thesis
      using rel assms rego by (cases t) (auto simp: spec_relying_party_def ctx_rel_def heap_ok_def http_at_def view_def)
  qed
qed

lemma sim_verifier [sim_intros]: "h \<noteq> Some a \<Longrightarrow> sim (ctx_rel a h options) (select_verifier ver (Some a)) (spec_verifier ver)"
  using sim_setters(3,4) unfolding select_verifier_def spec_verifier_def by (auto intro!: sim_return)

text \<open>The attestation itself: what the results leave on the heap is released, or out of reach.\<close>

lemma reported_code:
  assumes "rc_of_outcome status = Inr code"
  shows "reported_status status \<longleftrightarrow> code = 0 \<or> code = rc_of_error RelyingPartyPolicyMismatch \<or> code = rc_of_error OverallResultFalse"
proof -
  have codes: "rc_of_error e = 11 \<longleftrightarrow> e = RelyingPartyPolicyMismatch" "rc_of_error e = 12 \<longleftrightarrow> e = OverallResultFalse" for e
    by (cases e; simp)+
  show ?thesis
    using assms by (auto simp: reported_status_def rc_of_outcome_def ret_def fail_def codes split: sum.splits failure.splits)
qed

lemma read_results_run:
  fixes u :: "('b, 'w) c_state"
  assumes "heap_ok u" and "cs_objects u b = Some (StrObj token)" and "cs_objects u d = Some (ClaimsCollectionObj claims)"
  shows "\<exists>v. release KClaimsCollection (Some d) (release KStr (Some b) (read_results env code (Some b) (Some d))) u
      = (case code_of (collection_serialize_json (ce_dump env) claims) of
           Inl f \<Rightarrow> Inl f
         | Inr (Inl err) \<Rightarrow> Inr (Inl err)
         | Inr (Inr j) \<Rightarrow> Inr (Inr \<lparr>ao_result_code = code, ao_claims = c_str j, ao_detached_eat = c_str token\<rparr>), v)
    \<and> (\<forall>c. c \<noteq> b \<and> c \<noteq> d \<longrightarrow> cs_objects v c = cs_objects u c) \<and> cs_next u \<le> cs_next v \<and> heap_ok v \<and> view x v = view x u"
proof -
  have fresh: "b \<noteq> cs_next u" "d \<noteq> cs_next u" "cs_objects u (cs_next u) = None" "b \<noteq> d"
    using assms unfolding heap_ok_def by auto
  show ?thesis
  proof (cases "collection_serialize_json (ce_dump env) claims")
    case (Inr j)
    then show ?thesis
      using assms fresh
      by (auto simp: read_results_def nvat_claims_collection_serialize_json_def nvat_str_get_data_def out_string_def code_of_def
          cli_defs heap_defs selector_defs view_def heap_ok_def)
  next
    case (Inl f)
    then show ?thesis
      using assms fresh
      by (cases f) (auto simp: read_results_def nvat_claims_collection_serialize_json_def code_of_def
          cli_defs heap_defs selector_defs view_def heap_ok_def)
  qed
qed

lemma sim_run:
  fixes s :: "('b, 'w) c_state"
  assumes rel: "ctx_rel a h options s t" and "h \<noteq> Some a"
    and nonce: "g = None \<and> n = [] \<or> (\<exists>b. g = Some b \<and> cs_objects s b = Some (NonceObj n))"
  shows "fst (run_attest_device env (Some a) g s) = fst (spec_run env n t)
    \<and> ctx_rel a h options (snd (run_attest_device env (Some a) g s)) (snd (spec_run env n t))"
proof -
  obtain status token claims c w where att: "attest_device (ce_attest env) (ap_ctx t) n True [] (cs_world s) = (status, token, claims, c, w)"
    by (metis prod.exhaust)
  have world: "ap_world t = cs_world s" using rel by (cases t) (simp add: ctx_rel_def view_def)
  note fresh = ctx_rel_fresh [OF rel]
  have heap: "heap_ok s" "cs_objects s a = Some (AttestationCtxObj (ap_ctx t))" using rel by (simp_all add: ctx_rel_def)
  define u where "u = s\<lparr>cs_objects := (cs_objects s)(cs_next s \<mapsto> StrObj (opt_string token), a \<mapsto> AttestationCtxObj c),
      cs_next := cs_next s + 1, cs_world := w\<rparr>"
  have u: "heap_ok u" "cs_objects u a = Some (AttestationCtxObj c)" "http_at h options u" "view c u = t\<lparr>ap_ctx := c, ap_world := w\<rparr>"
      "cs_objects u (cs_next s) = Some (StrObj (opt_string token))"
    using rel fresh assms(2) by (cases t, auto simp: u_def ctx_rel_def heap_ok_def http_at_def view_def)+
  have run: "nvat_attest_device env (Some a) g True True s
    = (if reported_status status
       then (rc_of_outcome status, (Some (Some (cs_next s)), Some (Some (cs_next u))), snd (allocate (ClaimsCollectionObj claims) u))
       else (rc_of_outcome status, (None, None), u))"
    using rel fresh unfolding attest_device_unfold [OF heap nonce att, of True]
    by (cases token; cases status)
      (auto simp: report_attestation_def with_status_def c_api_def reserve_token_def allocate_def assign_def sbind_def pure_def ret_def
        opt_string_def u_def fun_upd_twist reported_status_def rc_of_outcome_def bind_def fail_def split: failure.splits)
  show ?thesis
  proof (cases "rc_of_outcome status")
    case (Inl f)
    then have "\<not> reported_status status" by (auto simp: reported_status_def rc_of_outcome_def ret_def fail_def)
    then show ?thesis
      using u Inl by (simp add: run_attest_device_def run spec_run_def world att ctx_rel_def)
  next
    case (Inr code)
    note reported = reported_code [OF Inr]
    show ?thesis
    proof (cases "reported_status status")
      case False
      then show ?thesis
        using u Inr reported by (simp add: run_attest_device_def run spec_run_def world att ctx_rel_def ret_def)
    next
      case True
      define v where "v = snd (allocate (ClaimsCollectionObj claims) u)"
      have nx: "cs_next u = cs_next s + 1" by (simp add: u_def)
      have v: "heap_ok v" "cs_objects v (cs_next s) = Some (StrObj (opt_string token))" "cs_objects v (cs_next u) = Some (ClaimsCollectionObj claims)"
        "view c v = view c u" "\<And>b. b \<noteq> cs_next u \<Longrightarrow> cs_objects v b = cs_objects u b"
        using u nx by (simp_all add: v_def allocate_def heap_ok_def view_def)
      from read_results_run [OF v(1-3), of env code c] obtain x where x:
        "release KClaimsCollection (Some (cs_next u)) (release KStr (Some (cs_next s)) (read_results env code (Some (cs_next s)) (Some (cs_next u)))) v
          = (case code_of (collection_serialize_json (ce_dump env) claims) of
               Inl f \<Rightarrow> Inl f
             | Inr (Inl err) \<Rightarrow> Inr (Inl err)
             | Inr (Inr j) \<Rightarrow> Inr (Inr \<lparr>ao_result_code = code, ao_claims = c_str j, ao_detached_eat = c_str (opt_string token)\<rparr>), x)"
        "\<And>b. b \<noteq> cs_next s \<Longrightarrow> b \<noteq> cs_next u \<Longrightarrow> cs_objects x b = cs_objects v b" "heap_ok x" "view c x = view c v" by blast
      have "ctx_rel a h options x (t\<lparr>ap_ctx := c, ap_world := w\<rparr>)"
        using u v(4,5) x(2-4) fresh nx by (cases h) (simp_all add: ctx_rel_def http_at_def)
      then show ?thesis
        using Inr True reported x(1) by (auto simp: run_attest_device_def run spec_run_def world att v_def [symmetric])
    qed
  qed
qed

lemma ctx_rel_allocate:
  assumes "ctx_rel a h options s t"
  shows "ctx_rel a h options (s\<lparr>cs_objects := (cs_objects s)(cs_next s \<mapsto> ob), cs_next := cs_next s + 1\<rparr>) t"
  using assms ctx_rel_fresh [OF assms] by (cases h) (auto simp: ctx_rel_def heap_ok_def http_at_def view_def)

lemma sim_attest_tail [sim_intros]:
  fixes env :: "('c, 'r, 'b, 'i, 'e, 'w) c_env"
  assumes "h \<noteq> Some a"
  shows "sim (ctx_rel a h options) (cbind (attest_nonce col) (run_attest_device env (Some a))) (cbind (spec_nonce col) (spec_run env))"
    (is "sim ?R ?m ?n")
proof (rule simI)
  fix s :: "('b, 'w) c_state" and t
  assume rel: "?R s t"
  show "fst (?m s) = fst (?n t) \<and> ?R (snd (?m s)) (snd (?n t))"
  proof (cases "cli_nonce col = []")
    case True
    then show ?thesis
      using sim_run [OF rel assms, of None "[]" env] by (simp add: attest_nonce_def spec_nonce_def cbind_def creturn_def ret_def)
  next
    case False
    let ?hex = "hex_nonce (c_str (cli_nonce col))"
    show ?thesis
    proof (cases ?hex)
      case (Inl f)
      then show ?thesis
        using False rel by (cases f) (simp_all add: attest_nonce_def spec_nonce_def nvat_nonce_from_hex_def code_of_def cli_defs heap_defs)
    next
      case (Inr n)
      let ?s = "s\<lparr>cs_objects := (cs_objects s)(cs_next s \<mapsto> NonceObj n), cs_next := cs_next s + 1\<rparr>"
      have "?m s = run_attest_device env (Some a) (Some (cs_next s)) ?s" "?n t = spec_run env n t"
        using False Inr by (simp_all add: attest_nonce_def spec_nonce_def nvat_nonce_from_hex_def code_of_def cli_defs heap_defs)
      then show ?thesis
        using sim_run [OF ctx_rel_allocate [OF rel] assms, of "Some (cs_next s)" n "NonceObj n" env] by simp
    qed
  qed
qed

lemma cbind_assoc: "cbind (cbind m k) l = cbind m (\<lambda>x. cbind (k x) l)"
  by (rule ext) (auto simp: cbind_def ret_def split: prod.splits sum.splits)

lemma sim_with_context:
  fixes cv :: "('c, 'r, 'b, 'i, 'e, 'w) cli_env"
  assumes "h \<noteq> Some a" and "\<not> offline_status_proofs ver \<Longrightarrow> \<exists>b. h = Some b"
  shows "sim (ctx_rel a h options) (attest_with_context cv col ver pol h (Some a))
    (cbind (spec_configure cv col ver pol options) (\<lambda>_. cbind (spec_nonce col) (spec_run (env_of_nras_url ver (cv_api cv)))))"
proof -
  have http: "sim (ctx_rel a h options)
      (if offline_status_proofs ver then creturn () else run (nvat_attestation_ctx_set_default_http_options (Some a) h))
      (if offline_status_proofs ver then creturn () else amodify (set_default_http_options options))"
    using assms sim_http by (auto intro: sim_return)
  show ?thesis
    unfolding attest_with_context_def spec_configure_def cbind_assoc
    by (intro sim_cbind sim_if sim_return http sim_policy sim_device sim_setters(2) sim_rim_store sim_status sim_relying_party sim_verifier
        sim_attest_tail assms)
qed

section \<open>The whole subcommand\<close>

lemma init_sdk_run:
  fixes s :: "('b, 'w) c_state" and env :: "('c, 'r, 'b, 'i, 'e, 'w) c_env"
  assumes "heap_ok s"
  shows "\<exists>s'. init_sdk env s = (fst (spec_init env (view c s)), s') \<and> heap_ok s' \<and> view c s' = snd (spec_init env (view c s))"
proof -
  let ?run = "sbind (sdk_init (ce_sdk env) (Some (Some (CallbackLogger True True True)))) (\<lambda>_.
      log_macro (ce_sdk env) DEBUG ''Successfully initialized NVIDIA Attestation SDK'')"
  obtain r g w where run: "?run (cs_sdk s, cs_world s) = (r, (g, w))" by (metis prod.exhaust)
  have api: "sbind (on_sdk m) (\<lambda>_. on_sdk k) u = on_sdk (sbind m (\<lambda>_. k)) u" for m :: "(sdk_globals \<times> 'w, unit) step"
      and k :: "(sdk_globals \<times> 'w, unit) step" and u :: "('b, 'w) c_state"
    by (auto simp: sbind_def on_sdk_def split: prod.splits sum.splits)
  define u where "u = s\<lparr>cs_next := cs_next s + 2, cs_objects := (cs_objects s)(cs_next s \<mapsto> SdkOptsObj (Some (CallbackLogger True True True)))\<rparr>"
  have fresh: "cs_objects s (cs_next s) = None" "cs_objects s (Suc (cs_next s)) = None" using assms by (auto simp: heap_ok_def)
  have "nvat_sdk_init env (Some (cs_next s)) u = (rc_of_outcome r, case r of Inr x \<Rightarrow> Some x | Inl _ \<Rightarrow> None, u\<lparr>cs_sdk := g, cs_world := w\<rparr>)"
    using run by (simp add: nvat_sdk_init_def c_api_def deref_def as_sdk_opts_def u_def sbind_step api on_sdk_def pure_def ret_def split: sum.splits)
  moreover have "init_sdk env s = release KSdkOpts (Some (cs_next s)) (run (nvat_sdk_init env (Some (cs_next s)))) u"
    using fresh by (simp add: init_sdk_def nvat_sdk_opts_create_def nvat_logger_callback_create_def nvat_sdk_opts_set_logger_def cli_defs heap_defs
        selector_defs u_def fun_upd_twist fun_upd_idem)
  ultimately show ?thesis
    using run assms by (cases r; cases "projl r") (auto simp: spec_init_def view_def u_def code_of_def heap_ok_def cli_defs heap_defs fun_upd_twist fun_upd_idem fresh)
qed

text \<open>The result of a run and of the abstract program agree, and so does everything but the heap.\<close>

definition agrees :: "((nat + 'a) outcome \<times> ('b, 'w) c_state) \<Rightarrow> ((nat + 'a) outcome \<times> ('b, 'w) app_state) \<Rightarrow> bool" where
  "agrees x y \<longleftrightarrow> fst x = fst y \<and> heap_ok (snd x) \<and> view (ap_ctx (snd y)) (snd x) = snd y"

lemma view_fields: "view c s = t \<Longrightarrow> ap_stores t = cs_stores s" "view c s = t \<Longrightarrow> ap_clients t = cs_clients s"
    "view c s = t \<Longrightarrow> ap_world t = cs_world s"
  by (auto simp: view_def)

lemma release_kept:
  assumes "m s = (r, s')" and "agrees (r, s') y" and "cs_objects s' a = Some ob" "kind_of ob = k"
  shows "agrees (release k (Some a) m s) y"
  using assms by (cases y; cases r) (auto simp: agrees_def release_def nvat_free_def delete_object_def sbind_def pure_def ret_def heap_ok_def view_def)

lemma context_scope:
  fixes cv :: "('c, 'r, 'b, 'i, 'e, 'w) cli_env" and s :: "('b, 'w) c_state"
    and col :: evidence_collection_options and pol :: evidence_policy_options
  assumes "heap_ok s" and "http_at h options s" and "\<not> offline_status_proofs ver \<Longrightarrow> \<exists>b. h = Some b"
  defines "m \<equiv> owned KAttestationCtx (create (nvat_attestation_ctx_create (cv_api cv) True)) (attest_with_context cv col ver pol h)"
  defines "n \<equiv> cbind (amodify (\<lambda>_. new_context (default_http_options (cv_api cv)))) (\<lambda>_.
    cbind (spec_configure cv col ver pol options) (\<lambda>_. cbind (spec_nonce col) (spec_run (env_of_nras_url ver (cv_api cv)))))"
  shows "agrees (m s) (n (view c s)) \<and> http_at h options (snd (m s))"
proof -
  let ?c = "new_context (default_http_options (cv_api cv))" and ?a = "cs_next s"
  let ?s = "s\<lparr>cs_objects := (cs_objects s)(?a \<mapsto> AttestationCtxObj ?c), cs_next := ?a + 1\<rparr>"
  let ?body = "attest_with_context cv col ver pol h (Some ?a)"
  let ?n = "cbind (spec_configure cv col ver pol options) (\<lambda>_. cbind (spec_nonce col) (spec_run (env_of_nras_url ver (cv_api cv))))"
  have h: "h \<noteq> Some ?a" using assms(1,2) by (auto simp: heap_ok_def http_at_def)
  then have "ctx_rel ?a h options ?s (view ?c s)" using assms(1,2) by (auto simp: ctx_rel_def heap_ok_def http_at_def view_def)
  then have sim: "fst (?body ?s) = fst (?n (view ?c s))" "ctx_rel ?a h options (snd (?body ?s)) (snd (?n (view ?c s)))"
    using sim_with_context [OF h assms(3)] unfolding sim_def by blast+
  have m: "m s = release KAttestationCtx (Some ?a) ?body ?s"
    by (simp add: m_def owned_def nvat_attestation_ctx_create_def create_def call_def cbind_def creturn_def c_api_def allocate_def rc_of_outcome_def ret_def)
  have n: "n (view c s) = ?n (view ?c s)" by (simp add: n_def cbind_def amodify_def view_def)
  obtain r u where body: "?body ?s = (r, u)" by fastforce
  then have ctx: "cs_objects u ?a = Some (AttestationCtxObj (ap_ctx (snd (?n (view ?c s)))))" and ag: "agrees (r, u) (?n (view ?c s))"
    using sim by (auto simp: ctx_rel_def agrees_def)
  have "agrees (m s) (n (view c s))" unfolding m n by (rule release_kept [where m = ?body and s = ?s, OF body ag ctx]) simp
  moreover have "http_at h options (snd (m s))"
    using h sim(2) ctx unfolding m body release_def
    by (cases r) (auto simp: body ctx_rel_def http_at_def nvat_free_def delete_object_def sbind_def pure_def ret_def)
  ultimately show ?thesis by blast
qed

lemma http_scope:
  fixes cv :: "('c, 'r, 'b, 'i, 'e, 'w) cli_env" and s :: "('b, 'w) c_state"
  assumes "heap_ok s"
  shows "agrees (with_http_options (cv_api cv) ver (\<lambda>http_options.
      owned KAttestationCtx (create (nvat_attestation_ctx_create (cv_api cv) True)) (attest_with_context cv col ver pol http_options)) s)
    ((case spec_http_options (cv_api cv) ver of
        Inl err \<Rightarrow> cfail err
      | Inr options \<Rightarrow> cbind (amodify (\<lambda>_. new_context (default_http_options (cv_api cv)))) (\<lambda>_.
          cbind (spec_configure cv col ver pol options) (\<lambda>_. cbind (spec_nonce col) (spec_run (env_of_nras_url ver (cv_api cv)))))) (view c s))"
    (is "agrees (with_http_options _ _ ?body s) (?n (view c s))")
proof (cases "offline_status_proofs ver")
  case True
  then show ?thesis
    using context_scope [OF assms, of None "default_http_options (cv_api cv)" ver cv col pol c]
    by (simp add: with_http_options_def spec_http_options_def http_at_def)
next
  case False
  obtain path tier err where ca: "resolve_ca (cv_api cv) (c_str (cli_ca_bundle_path ver)) = (path, tier, err)" by (metis prod.exhaust)
  define options where "options = (default_http_options (cv_api cv))\<lparr>ca_bundle_path := path, ca_bundle_path_tier := tier, ca_bundle_path_error := err\<rparr>"
  define u where "u = s\<lparr>cs_next := cs_next s + 1, cs_objects := (cs_objects s)(cs_next s \<mapsto> HttpOptionsObj options)\<rparr>"
  have u: "heap_ok u" "http_at (Some (cs_next s)) options u" "view c u = view c s"
    using assms by (auto simp: u_def heap_ok_def http_at_def view_def)
  have run: "with_http_options (cv_api cv) ver ?body s = release KHttpOptions (Some (cs_next s))
      (case err of None \<Rightarrow> ?body (Some (cs_next s)) | Some e \<Rightarrow> cfail (rc_of_error e)) u"
    using False ca
    by (cases err) (simp_all add: with_http_options_def nvat_http_options_create_default_def nvat_http_options_set_ca_bundle_path_def cli_defs heap_defs
        selector_defs u_def options_def fail_def)
  show ?thesis
  proof (cases err)
    case None
    have spec: "?n = cbind (amodify (\<lambda>_. new_context (default_http_options (cv_api cv)))) (\<lambda>_.
        cbind (spec_configure cv col ver pol options) (\<lambda>_. cbind (spec_nonce col) (spec_run (env_of_nras_url ver (cv_api cv)))))"
      using False ca None by (simp add: spec_http_options_def options_def)
    obtain r v where body: "?body (Some (cs_next s)) u = (r, v)" by fastforce
    from context_scope [OF u(1,2), of ver cv col pol c]
    have "agrees (r, v) (?n (view c s))" "cs_objects v (cs_next s) = Some (HttpOptionsObj options)"
      unfolding spec using body u(3) by (simp_all add: http_at_def)
    then show ?thesis unfolding run None by (intro release_kept [where ob = "HttpOptionsObj options"]) (simp_all add: body)
  next
    case (Some e)
    then show ?thesis
      unfolding run using False ca u
      by (intro release_kept [of _ _ "Inr (Inl (rc_of_error e))" u _ _ "HttpOptionsObj options"])
        (simp_all add: spec_http_options_def agrees_def cfail_def ret_def http_at_def view_def)
  qed
qed

lemma attest_refines:
  fixes cv :: "('c, 'r, 'b, 'i, 'e, 'w) cli_env" and s :: "('b, 'w) c_state"
  assumes "heap_ok s"
  shows "agrees (attest_steps cv col ver pol s) (spec_attest cv col ver pol (view c s))"
proof -
  from init_sdk_run [OF assms, of "cv_api cv" c] obtain s1 where
    init: "init_sdk (cv_api cv) s = (fst (spec_init (cv_api cv) (view c s)), s1)" "heap_ok s1" "view c s1 = snd (spec_init (cv_api cv) (view c s))"
    by blast
  obtain r t where r: "spec_init (cv_api cv) (view c s) = (r, t)" by fastforce
  have ctx: "ap_ctx t = c" using init(3) r by (auto simp: view_def)
  show ?thesis
  proof (cases "\<exists>x. r = Inr (Inr x)")
    case True
    show ?thesis
    proof (cases "offline_status_proofs ver \<and> (cli_verifier ver \<noteq> ''local'' \<or> cli_rim_store ver \<noteq> ''dir'')")
      case bad: True
      then show ?thesis using True init r ctx by (auto simp: attest_steps_def spec_attest_def cbind_def cfail_def agrees_def)
    next
      case good: False
      have "attest_steps cv col ver pol s = with_http_options (cv_api cv) ver (\<lambda>http_options.
          owned KAttestationCtx (create (nvat_attestation_ctx_create (cv_api cv) True)) (attest_with_context cv col ver pol http_options)) s1"
        using True good init(1) r unfolding attest_steps_def by (auto simp: cbind_def)
      moreover have "spec_attest cv col ver pol (view c s) = (case spec_http_options (cv_api cv) ver of
          Inl err \<Rightarrow> cfail err
        | Inr options \<Rightarrow> cbind (amodify (\<lambda>_. new_context (default_http_options (cv_api cv)))) (\<lambda>_.
            cbind (spec_configure cv col ver pol options) (\<lambda>_. cbind (spec_nonce col) (spec_run (env_of_nras_url ver (cv_api cv)))))) (view c s1)"
        using True good init(3) r unfolding spec_attest_def by (auto simp: cbind_def [of "spec_init (cv_api cv)"])
      ultimately show ?thesis using http_scope [OF init(2), of cv ver col pol c] by simp
    qed
  next
    case False
    then show ?thesis
      using init r ctx by (cases r; cases "projr r") (auto simp: attest_steps_def spec_attest_def cbind_def agrees_def ret_def)
  qed
qed

section \<open>The result of the subcommand\<close>

text \<open>
  C9 (cli_attest_refines): the \<^verbatim>\<open>attest\<close> subcommand computes what the abstract program computes.  From any
  consistent heap it ends with the same output: the result code, the claims and the token of an attestation with a context
  that is set up by the options in the given order, or the code of the first step that fails; the created stores, clients and
  policies, the state of the SDK and the world are the same, and the heap is consistent.
\<close>

theorem cli_attest_refines:
  assumes "heap_ok s" and "spec_attest cv col ver pol (view c s) = (r, t)"
  shows "\<exists>s'. attest cv col ver pol s
      = (case r of
           Inl f \<Rightarrow> Inl f
         | Inr (Inl err) \<Rightarrow> Inr \<lparr>ao_result_code = err, ao_claims = [], ao_detached_eat = []\<rparr>
         | Inr (Inr out) \<Rightarrow> Inr out, s')
    \<and> heap_ok s' \<and> view (ap_ctx t) s' = t"
  using attest_refines [OF assms(1), of cv col ver pol c] assms(2)
  by (cases "attest_steps cv col ver pol s") (auto simp: agrees_def attest_def ret_def split: sum.splits)

section \<open>Offline mode\<close>

lemma cbind_ok: "cbind m k s = (Inr (Inr y), t) \<longleftrightarrow> (\<exists>x u. m s = (Inr (Inr x), u) \<and> k x u = (Inr (Inr y), t))"
  by (auto simp: cbind_def ret_def split: prod.splits sum.splits)

definition leaves :: "('s \<Rightarrow> bool) \<Rightarrow> ('s, 'a) cli \<Rightarrow> bool" where
  "leaves P m \<longleftrightarrow> (\<forall>t. P t \<longrightarrow> P (snd (m t)))"

lemma leavesD: "leaves P m \<Longrightarrow> P t \<Longrightarrow> P (snd (m t))"
  by (simp add: leaves_def)

lemma leaves_cbind: "leaves P m \<Longrightarrow> (\<And>x. leaves P (k x)) \<Longrightarrow> leaves P (cbind m k)"
  unfolding leaves_def cbind_def by (fastforce split: prod.splits sum.splits)

lemma leaves_return: "leaves P (creturn x)" "leaves P (cfail rc)"
  by (simp_all add: leaves_def creturn_def cfail_def)

text \<open>The proofs of the bundle, when the two inputs can be read.\<close>

definition offline_client :: "('c, 'r, 'b, 'i, 'e, 'w) cli_env \<Rightarrow> evidence_verification_options \<Rightarrow> 'b ocsp_client_object \<Rightarrow> bool" where
  "offline_client cv ver ob \<longleftrightarrow> (\<exists>bytes time client. read_status_proof_bundle (cv_open_binary cv) (cli_ocsp_proof_bundle ver) = Inr bytes
     \<and> parse_verification_time (cli_ocsp_verification_time ver) = Inr time
     \<and> raw_client_create_from_bundle (ce_ocsp (cv_api cv)) bytes time = Inr client \<and> ob = RawProofClientObject client)"

definition offline_objects ::
  "('c, 'r, 'b, 'i, 'e, 'w) cli_env \<Rightarrow> evidence_verification_options \<Rightarrow> rim_store_object list \<Rightarrow> 'b ocsp_client_object list
    \<Rightarrow> ('b, 'w) app_state \<Rightarrow> bool" where
  "offline_objects cv ver stores clients t \<longleftrightarrow>
     set (ap_stores t) \<subseteq> set stores \<union> {FilesystemStoreObject (c_str (cli_rim_path ver))}
     \<and> (\<forall>ob \<in> set (ap_clients t). ob \<in> set clients \<or> offline_client cv ver ob)"

lemma leaves_offline:
  fixes cv :: "('c, 'r, 'b, 'i, 'e, 'w) cli_env" and stores :: "rim_store_object list" and clients :: "'b ocsp_client_object list"
  assumes "offline_status_proofs ver"
  defines "P \<equiv> offline_objects cv ver stores clients"
  shows "leaves P (amodify f)" "leaves P (spec_init env)" "leaves P (spec_device env col)" "leaves P (spec_rim_store env ver options)"
    "leaves P (spec_status cv ver options)" "leaves P (spec_relying_party cv filename)" "leaves P (spec_verifier ver)"
    "leaves P (spec_nonce col)" "leaves P (spec_run env n)"
proof -
  show modify: "leaves P (amodify f)" for f by (simp add: leaves_def amodify_def P_def offline_objects_def)
  show "leaves P (spec_init env)" by (auto simp: leaves_def spec_init_def P_def offline_objects_def split: prod.splits)
  have "leaves P (on_actx m)" for m by (auto simp: leaves_def on_actx_def P_def offline_objects_def split: prod.splits)
  then show "leaves P (spec_device env col)" unfolding spec_device_def by (auto intro!: leaves_cbind leaves_return modify)
  have "leaves P (add_store (FilesystemStoreObject (c_str (cli_rim_path ver))))"
    by (auto simp: leaves_def add_store_def P_def offline_objects_def)
  then show "leaves P (spec_rim_store env ver options)" using assms(1) by (auto simp: spec_rim_store_def leaves_return)
  have client: "leaves P (add_client ob)" if "offline_client cv ver ob" for ob
    using that by (auto simp: leaves_def add_client_def P_def offline_objects_def)
  have "leaves P (cbind (\<lambda>t. (code_of m, t)) (\<lambda>client. add_client (RawProofClientObject client)))"
    if "\<And>client. m = Inr client \<Longrightarrow> offline_client cv ver (RawProofClientObject client)" for m
    using client [OF that] by (cases m) (auto simp: leaves_def cbind_def code_of_def split: sum.splits)
  then show "leaves P (spec_status cv ver options)"
    using assms(1) by (auto simp: spec_status_def offline_client_def leaves_return split: sum.splits)
  show "leaves P (spec_relying_party cv filename)"
    by (auto simp: spec_relying_party_def leaves_def creturn_def cfail_def P_def offline_objects_def split: option.splits)
  show "leaves P (spec_verifier ver)" by (simp add: spec_verifier_def modify leaves_return)
  show "leaves P (spec_nonce col)" by (simp add: leaves_def spec_nonce_def)
  show "leaves P (spec_run env n)" by (auto simp: leaves_def spec_run_def P_def offline_objects_def split: prod.splits)
qed

text \<open>Choosing the device and its evidence leaves the other settings alone.\<close>

lemma spec_device_frame:
  assumes "spec_device env col t = (r, u)"
  shows "ap_stores u = ap_stores t" "ap_clients u = ap_clients t" "ap_world u = ap_world t"
    "ac_gpu_verifier (ap_ctx u) = ac_gpu_verifier (ap_ctx t)" "ac_switch_verifier (ap_ctx u) = ac_switch_verifier (ap_ctx t)"
    "ac_evidence_policy (ap_ctx u) = ac_evidence_policy (ap_ctx t)" "ac_eat_options (ap_ctx u) = ac_eat_options (ap_ctx t)"
  using assms
  by (auto simp: spec_device_def cbind_def amodify_def on_actx_def creturn_def cfail_def set_device_type_def
      set_gpu_evidence_source_json_file_def set_switch_evidence_source_json_file_def ret_def code_of_def
      split: if_splits sum.splits prod.splits)

lemma offline_configured:
  assumes "offline_status_proofs ver" and "cli_verifier ver = ''local''" "cli_rim_store ver = ''dir''"
    and "spec_configure cv col ver pol options t = (Inr (Inr ()), t')" and "ac_gpu_verifier (ap_ctx t) = None" "ac_switch_verifier (ap_ctx t) = None"
  shows "\<exists>client. offline_client cv ver client \<and> ap_stores t' = ap_stores t @ [FilesystemStoreObject (c_str (cli_rim_path ver))]
    \<and> ap_clients t' = ap_clients t @ [client] \<and> ap_world t' = ap_world t
    \<and> ac_default_verifier_type (ap_ctx t') = LocalType \<and> ac_gpu_verifier (ap_ctx t') = None \<and> ac_switch_verifier (ap_ctx t') = None
    \<and> ac_default_rim_store (ap_ctx t') = Some (GivenRimStore (length (ap_stores t)))
    \<and> ac_default_ocsp_client (ap_ctx t') = Some (GivenOcspClient (length (ap_clients t)))
    \<and> ac_evidence_policy (ap_ctx t') = spec_policy pol \<and> ac_eat_options (ap_ctx t') = ac_eat_options (ap_ctx t)"
proof -
  from assms(4) obtain t1 t2 t3 t4 where
    dev: "spec_device (cv_api cv) col (t\<lparr>ap_ctx := set_evidence_policy (spec_policy pol) (ap_ctx t)\<rparr>) = (Inr (Inr ()), t1)"
    and store: "t2 = t1\<lparr>ap_stores := ap_stores t1 @ [FilesystemStoreObject (c_str (cli_rim_path ver))],
      ap_ctx := set_default_rim_store (Some (length (ap_stores t1))) (ap_ctx t1)\<rparr>"
    and status: "spec_status cv ver options t2 = (Inr (Inr ()), t3)"
    and party: "spec_relying_party cv (cli_relying_party_policy ver) t3 = (Inr (Inr ()), t4)"
    and last: "t' = t4\<lparr>ap_ctx := set_verifier_type LocalType (ap_ctx t4)\<rparr>"
    using assms(1-3) unfolding spec_configure_def
    by (auto simp: cbind_ok creturn_def amodify_def ret_def spec_rim_store_def add_store_def spec_verifier_def)
  from status obtain client where client: "offline_client cv ver client"
    "t3 = t2\<lparr>ap_clients := ap_clients t2 @ [client], ap_ctx := set_default_ocsp_client (Some (length (ap_clients t2))) (ap_ctx t2)\<rparr>"
    using assms(1) by (auto simp: spec_status_def offline_client_def cbind_ok cfail_def ret_def add_client_def code_of_def
        split: sum.splits if_splits)
  from party have "t4 = t3 \<or> (\<exists>e x. t4 = t3\<lparr>ap_evaluators := e, ap_ctx := set_claims_evaluator x (ap_ctx t3)\<rparr>)"
    by (auto simp: spec_relying_party_def creturn_def cfail_def ret_def split: if_splits option.splits)
  then show ?thesis
    using client spec_device_frame [OF dev] assms(5,6) unfolding last store client(2)
    by (auto simp: set_evidence_policy_def set_default_rim_store_def set_default_ocsp_client_def set_claims_evaluator_def set_verifier_type_def
        wipe_verifiers_def)
qed

text \<open>The verifier a context creates on first use from a store and a client that were supplied.\<close>

lemma local_verifier_created:
  assumes "attest_device env c n want out w = (status, token, claims, d, w')"
    and "ac_default_verifier_type c = LocalType" "ac_gpu_verifier c = None" "ac_switch_verifier c = None"
    and "ac_default_rim_store c = Some st" "ac_default_ocsp_client c = Some cl"
  defines "v \<equiv> LocalVerifier st cl (ac_eat_options c)"
  shows "(ac_gpu_enabled d \<longrightarrow> ac_gpu_verifier d = Some v) \<and> (ac_switch_enabled d \<longrightarrow> ac_switch_verifier d = Some v)
    \<and> ac_evidence_policy d = ac_evidence_policy c \<and> ac_default_rim_store d = Some st \<and> ac_default_ocsp_client d = Some cl"
proof -
  have "d = snd (ensure_init (at_env env) c)"
    using assms(1) by (auto simp: attest_device_def split: prod.splits sum.splits)
  then show ?thesis
    using assms(2-6) by (auto simp: ensure_init_def init_defaults_def init_gpu_def init_switch_def create_verifier_def or_new_def sbind_def
        ret_def Let_def v_def)
qed

lemma spec_nonce_state: "spec_nonce col t = (r, u) \<Longrightarrow> u = t"
  by (simp add: spec_nonce_def)

lemma offline_env: "offline_status_proofs ver \<Longrightarrow> env_of_nras_url ver env = env"
  by (simp add: env_of_nras_url_def)

lemma spec_init_frame: "spec_init env t = (r, u) \<Longrightarrow> ap_stores u = ap_stores t \<and> ap_clients u = ap_clients t"
  by (auto simp: spec_init_def split: prod.splits)

lemma offline_spec:
  assumes "offline_status_proofs ver" and "spec_attest cv col ver pol t = (Inr (Inr out), t')"
  shows "\<exists>client c n w status token claims. offline_client cv ver client
    \<and> ap_stores t' = ap_stores t @ [FilesystemStoreObject (c_str (cli_rim_path ver))] \<and> ap_clients t' = ap_clients t @ [client]
    \<and> attest_device (ce_attest (cv_api cv)) c n True [] w = (status, token, claims, ap_ctx t', ap_world t')
    \<and> rc_of_outcome status = Inr (ao_result_code out) \<and> ac_default_verifier_type c = LocalType
    \<and> ac_gpu_verifier c = None \<and> ac_switch_verifier c = None \<and> ac_default_rim_store c = Some (GivenRimStore (length (ap_stores t)))
    \<and> ac_default_ocsp_client c = Some (GivenOcspClient (length (ap_clients t))) \<and> ac_evidence_policy c = spec_policy pol
    \<and> ac_eat_options c = default_eat_options"
proof -
  let ?c = "new_context (default_http_options (cv_api cv))"
  have options: "spec_http_options (cv_api cv) ver = Inr (default_http_options (cv_api cv))"
    using assms(1) by (simp add: spec_http_options_def)
  from assms(2) obtain t1 t2 n where
    init: "spec_init (cv_api cv) t = (Inr (Inr ()), t1)" and ok: "cli_verifier ver = ''local''" "cli_rim_store ver = ''dir''"
    and conf: "spec_configure cv col ver pol (default_http_options (cv_api cv)) (t1\<lparr>ap_ctx := ?c\<rparr>) = (Inr (Inr ()), t2)"
    and run: "spec_run (cv_api cv) n t2 = (Inr (Inr out), t')"
    using assms(1) unfolding spec_attest_def options
    by (auto simp: cbind_ok amodify_def cfail_def ret_def offline_env dest!: spec_nonce_state split: if_splits)
  from offline_configured [OF assms(1) ok conf] obtain client where client: "offline_client cv ver client"
    "ap_stores t2 = ap_stores t1 @ [FilesystemStoreObject (c_str (cli_rim_path ver))]" "ap_clients t2 = ap_clients t1 @ [client]"
    "ac_default_verifier_type (ap_ctx t2) = LocalType" "ac_gpu_verifier (ap_ctx t2) = None" "ac_switch_verifier (ap_ctx t2) = None"
    "ac_default_rim_store (ap_ctx t2) = Some (GivenRimStore (length (ap_stores t1)))"
    "ac_default_ocsp_client (ap_ctx t2) = Some (GivenOcspClient (length (ap_clients t1)))"
    "ac_evidence_policy (ap_ctx t2) = spec_policy pol" "ac_eat_options (ap_ctx t2) = default_eat_options"
    by (auto simp: new_context_def)
  obtain status token claims d w where att: "attest_device (ce_attest (cv_api cv)) (ap_ctx t2) n True [] (ap_world t2) = (status, token, claims, d, w)"
    by (metis prod.exhaust)
  have "t' = t2\<lparr>ap_ctx := d, ap_world := w\<rparr>" "rc_of_outcome status = Inr (ao_result_code out)"
    using run by (auto simp: spec_run_def att split: sum.splits if_splits)
  then show ?thesis
    using client att spec_init_frame [OF init]
    by (intro exI [of _ client] exI [of _ "ap_ctx t2"] exI [of _ n] exI [of _ "ap_world t2"] exI [of _ status] exI [of _ token] exI [of _ claims]) simp
qed

text \<open>
  C10 (offline_mode_contacts_no_service): with \<^verbatim>\<open>--ocsp-proof-bundle\<close> the \<^verbatim>\<open>attest\<close> subcommand makes nothing that talks to a
  service.  Whatever happens, the only RIM store it creates is the directory of \<^verbatim>\<open>--rim-dir\<close>, and the only OCSP client the one on the
  proofs of the bundle at the given verification time.  When it gets as far as printing results, these are the
  results of an attestation whose verifier, for the chosen device, is the local one over exactly that store and that client, under the
  policy of the options.
\<close>

theorem offline_mode_contacts_no_service:
  assumes "heap_ok s" and "offline_status_proofs ver" and "attest_steps cv col ver pol s = (r, s')"
  shows "set (cs_stores s') \<subseteq> set (cs_stores s) \<union> {FilesystemStoreObject (c_str (cli_rim_path ver))}
    \<and> (\<forall>ob \<in> set (cs_clients s'). ob \<in> set (cs_clients s) \<or> offline_client cv ver ob)
    \<and> (\<forall>out. r = Inr (Inr out) \<longrightarrow>
        cs_stores s' = cs_stores s @ [FilesystemStoreObject (c_str (cli_rim_path ver))]
        \<and> (\<exists>client. cs_clients s' = cs_clients s @ [client] \<and> offline_client cv ver client)
        \<and> (\<exists>c d n w status token claims v.
             attest_device (ce_attest (cv_api cv)) c n True [] w = (status, token, claims, d, cs_world s')
             \<and> rc_of_outcome status = Inr (ao_result_code out)
             \<and> v = LocalVerifier (GivenRimStore (length (cs_stores s))) (GivenOcspClient (length (cs_clients s))) default_eat_options
             \<and> (ac_gpu_enabled d \<longrightarrow> ac_gpu_verifier d = Some v) \<and> (ac_switch_enabled d \<longrightarrow> ac_switch_verifier d = Some v)
             \<and> ac_evidence_policy d = spec_policy pol))"
proof -
  let ?t = "view (new_context (default_http_options (cv_api cv))) s"
  obtain t' where spec: "spec_attest cv col ver pol ?t = (r, t')" and agree: "view (ap_ctx t') s' = t'"
    using attest_refines [OF assms(1), of cv col ver pol "new_context (default_http_options (cv_api cv))"] assms(3)
    by (cases "spec_attest cv col ver pol ?t") (auto simp: agrees_def)
  note t' = view_fields [OF agree]
  have options: "spec_http_options (cv_api cv) ver = Inr (default_http_options (cv_api cv))"
    using assms(2) by (simp add: spec_http_options_def)
  note steps = leaves_offline [OF assms(2), of cv "cs_stores s" "cs_clients s"]
  have "leaves (offline_objects cv ver (cs_stores s) (cs_clients s)) (spec_attest cv col ver pol)"
    unfolding spec_attest_def spec_configure_def options sum.case
    by (simp add: assms(2) leaves_cbind leaves_return steps)
  then have objects: "offline_objects cv ver (cs_stores s) (cs_clients s) t'"
    using spec leavesD [of _ _ ?t] by (fastforce simp: offline_objects_def view_def)
  show ?thesis
  proof (intro conjI allI impI)
    show "set (cs_stores s') \<subseteq> set (cs_stores s) \<union> {FilesystemStoreObject (c_str (cli_rim_path ver))}"
      "\<forall>ob \<in> set (cs_clients s'). ob \<in> set (cs_clients s) \<or> offline_client cv ver ob"
      using objects by (simp_all add: offline_objects_def t')
    fix out
    assume "r = Inr (Inr out)"
    from offline_spec [OF assms(2) spec [unfolded this]] obtain client c n w status token claims where run:
      "offline_client cv ver client" "cs_stores s' = cs_stores s @ [FilesystemStoreObject (c_str (cli_rim_path ver))]"
      "cs_clients s' = cs_clients s @ [client]"
      "attest_device (ce_attest (cv_api cv)) c n True [] w = (status, token, claims, ap_ctx t', cs_world s')"
      "rc_of_outcome status = Inr (ao_result_code out)" "ac_default_verifier_type c = LocalType" "ac_gpu_verifier c = None"
      "ac_switch_verifier c = None" "ac_default_rim_store c = Some (GivenRimStore (length (cs_stores s)))"
      "ac_default_ocsp_client c = Some (GivenOcspClient (length (cs_clients s)))" "ac_evidence_policy c = spec_policy pol"
      "ac_eat_options c = default_eat_options"
      by (auto simp: t' view_def)
    show "cs_stores s' = cs_stores s @ [FilesystemStoreObject (c_str (cli_rim_path ver))]"
      "\<exists>client. cs_clients s' = cs_clients s @ [client] \<and> offline_client cv ver client" using run(1-3) by auto
    show "\<exists>c d n w status token claims v.
         attest_device (ce_attest (cv_api cv)) c n True [] w = (status, token, claims, d, cs_world s')
         \<and> rc_of_outcome status = Inr (ao_result_code out)
         \<and> v = LocalVerifier (GivenRimStore (length (cs_stores s))) (GivenOcspClient (length (cs_clients s))) default_eat_options
         \<and> (ac_gpu_enabled d \<longrightarrow> ac_gpu_verifier d = Some v) \<and> (ac_switch_enabled d \<longrightarrow> ac_switch_verifier d = Some v)
         \<and> ac_evidence_policy d = spec_policy pol"
      using local_verifier_created [OF run(4,6-10)] run(4,5,11,12) by metis
  qed
qed

section \<open>A run\<close>

text \<open>Offline, with a bundle of one proof and an evidence file without entries.\<close>

definition demo_cli_env :: "(nat, nat, nat single_resp list, nat, json, unit) cli_env" where
  "demo_cli_env = \<lparr>cv_api = demo_c_env\<lparr>ce_ocsp := demo_ocsp\<lparr>i2d_response := (\<lambda>r. Some [7, 7]), response_get1_basic := (\<lambda>r. Some []),
       response_create := (\<lambda>b. Some 2)\<rparr>, ce_read_file := (\<lambda>p. ret []),
       ce_parse := (\<lambda>t. ret (JArray []))\<rparr>,
     cv_open_text = (\<lambda>p. None), cv_open_binary = (\<lambda>p. Some (encode_bundle [[7, 7]], False)), cv_dump4 = (\<lambda>j. ret []),
     cv_error_messages = (\<lambda>w. []), cv_version = [], cv_help = []\<rparr>"

definition demo_collection :: evidence_collection_options where
  "demo_collection = \<lparr>cli_nonce = '''', cli_device = ''gpu'', cli_gpu_evidence_source = ''file'', cli_switch_evidence_source = ''nscq'',
     cli_gpu_evidence_file = ''e'', cli_switch_evidence_file = '''', cli_gpu_architecture = ''''\<rparr>"

definition demo_verification :: evidence_verification_options where
  "demo_verification = \<lparr>cli_verifier = ''local'', cli_relying_party_policy = '''', cli_rim_store = ''dir'', cli_rim_url = '''',
     cli_rim_path = ''rims'', cli_ocsp_url = '''', cli_nras_url = '''', cli_service_key = '''', cli_ca_bundle_path = '''',
     cli_ocsp_proof_bundle = ''b'', cli_ocsp_verification_time = ''1700000000''\<rparr>"

definition demo_policy_options :: evidence_policy_options where
  "demo_policy_options = \<lparr>cli_verify_rim_signature = True, cli_verify_rim_cert_chain = True\<rparr>"

definition result_code :: "(nat + attest_output) outcome \<Rightarrow> nat option" where
  "result_code r = (case r of Inr (Inr out) \<Rightarrow> Some (ao_result_code out) | _ \<Rightarrow> None)"

lemma demo_inputs:
  "read_status_proof_bundle (cv_open_binary demo_cli_env) (cli_ocsp_proof_bundle demo_verification) = Inr (encode_bundle [[7, 7]])"
  "parse_verification_time (cli_ocsp_verification_time demo_verification) = Inr 1700000000"
  "raw_client_create_from_bundle (ce_ocsp (cv_api demo_cli_env)) (encode_bundle [[7, 7]]) 1700000000
    = Inr \<lparr>rc_responses = [[]], rc_verification_time = 1700000000\<rparr>"
proof -
  have len: "length (encode_bundle [[7, 7]]) = 11" by (simp add: encode_bundle_def encode_responses_def der_tlv_def der_length_def)
  then show "read_status_proof_bundle (cv_open_binary demo_cli_env) (cli_ocsp_proof_bundle demo_verification) = Inr (encode_bundle [[7, 7]])"
    by (auto simp: read_status_proof_bundle_def demo_cli_env_def Let_def MAX_BUNDLE_BYTES_def)
  show "parse_verification_time (cli_ocsp_verification_time demo_verification) = Inr 1700000000"
    by (simp add: parse_verification_time_def demo_verification_def decimal_def add_digit_def)
  have "decode_bundle (encode_bundle [[7, 7]]) = Inr [[7, 7]]"
    using decode_bundle_iff [of "encode_bundle [[7, 7]]" "[[7, 7]]"] len by (simp add: valid_bundle_def)
  then show "raw_client_create_from_bundle (ce_ocsp (cv_api demo_cli_env)) (encode_bundle [[7, 7]]) 1700000000
    = Inr \<lparr>rc_responses = [[]], rc_verification_time = 1700000000\<rparr>"
    by (simp add: raw_client_create_from_bundle_def raw_client_create_def parse_basic_response_def demo_cli_env_def demo_c_env_def demo_ocsp_def
        ocsp_limits bundle_limits map_error_def Let_def ret_def)
qed

lemma demo_sdk_started:
  "fst (spec_init (cv_api demo_cli_env) (view c demo_c_start)) = Inr (Inr ())"
  by (simp add: spec_init_def demo_cli_env_def demo_c_env_def demo_c_start_def view_def sdk_init_def run_initializer_def handle_init_logger_def handle_init_xmlsec_def
      xmlsec_call_def demo_sdk_env_def sbind_def ret_def sdk_start_def log_macro_def get_logger_def set_logger_def code_of_def Let_def)

lemma demo_spec_run:
  "\<exists>out t'. spec_attest demo_cli_env demo_collection demo_verification demo_policy_options (view c demo_c_start) = (Inr (Inr out), t')
     \<and> ao_result_code out = rc_of_error OverallResultFalse"
proof -
  obtain t where init: "spec_init (cv_api demo_cli_env) (view c demo_c_start) = (Inr (Inr ()), t)"
    using demo_sdk_started [of c] by (metis prod.collapse)
  have off: "offline_status_proofs demo_verification" by (simp add: offline_status_proofs_def demo_verification_def)
  have dev: "spec_device (cv_api demo_cli_env) demo_collection u
      = (Inr (Inr ()), u\<lparr>ap_ctx := (set_device_type 0 (ap_ctx u))\<lparr>ac_gpu_evidence_source := Some (GpuJsonFileSource [])\<rparr>\<rparr>)" for u
    by (simp add: spec_device_def demo_collection_def cbind_def amodify_def on_actx_def set_gpu_evidence_source_json_file_def
        gpu_json_file_source_create_def evidence_collection_from_json_def demo_cli_env_def c_str_def deserialize_from_json_def get_array_def
        catch_all_def code_of_def ret_def)
  have rim: "spec_rim_store env demo_verification o1 u = add_store (FilesystemStoreObject ''rims'') u" for u o1 and env :: "('c, 'r, 'b, 'i, 'e, 'w) c_env"
    using off by (simp add: spec_rim_store_def demo_verification_def c_str_def)
  have status: "spec_status demo_cli_env demo_verification o1 u = add_client (RawProofClientObject \<lparr>rc_responses = [[]], rc_verification_time = 1700000000\<rparr>) u"
    for u o1 using off demo_inputs by (simp add: spec_status_def code_of_def cbind_def MAX_VERIFICATION_TIME_def)
  have party: "spec_relying_party demo_cli_env (cli_relying_party_policy demo_verification) = creturn ()"
    by (simp add: spec_relying_party_def demo_verification_def)
  have last: "spec_verifier demo_verification = amodify (set_verifier_type LocalType)" by (simp add: spec_verifier_def demo_verification_def)
  have att: "\<exists>d. attest_device (ce_attest (cv_api demo_cli_env)) ctx [] True [] () = (fail OverallResultFalse, None, [], d, ())"
    if "ac_gpu_enabled ctx" "ac_gpu_evidence_source ctx = Some (GpuJsonFileSource [])" "ac_claims_evaluator ctx = None"
      "ac_default_verifier_type ctx = LocalType" for ctx
    using that
    by (simp add: attest_device_def ensure_init_def init_defaults_def init_gpu_def init_switch_def create_verifier_def
        sbind_def Let_def ret_def or_new_def choose_nonce_def demo_cli_env_def demo_c_env_def demo_attest_env_def generate_nonce_def GPU_SPDM_REQ_NONCE_SIZE_def
        MIN_VALID_NONCE_LEN_def attest_gpus_def get_gpu_evidence_def json_source_get_evidence_def judge_claims_def fail_def pure_def split: option.splits)
  have run: "\<exists>out t'. spec_run (cv_api demo_cli_env) [] u = (Inr (Inr out), t') \<and> ao_result_code out = rc_of_error OverallResultFalse"
    if "ac_gpu_enabled (ap_ctx u)" "ac_gpu_evidence_source (ap_ctx u) = Some (GpuJsonFileSource [])" "ac_claims_evaluator (ap_ctx u) = None"
      "ac_default_verifier_type (ap_ctx u) = LocalType" for u
    using att [OF that] by (cases u) (auto simp: spec_run_def reported_status_def rc_of_outcome_def fail_def collection_serialize_json_def catch_all_def demo_cli_env_def
        demo_c_env_def code_of_def ret_def)
  have ok: "cli_verifier demo_verification = ''local''" "cli_rim_store demo_verification = ''dir''" "spec_nonce demo_collection u = (Inr (Inr []), u)" for u
    by (simp_all add: demo_verification_def spec_nonce_def demo_collection_def)
  show ?thesis
    unfolding spec_attest_def spec_configure_def
    by (simp add: cbind_def init off ok spec_http_options_def amodify_def creturn_def ret_def dev rim add_store_def status add_client_def party last offline_env)
      (rule run [simplified]; simp add: new_context_def set_evidence_policy_def set_device_type_def set_default_rim_store_def set_default_ocsp_client_def wipe_verifiers_def
        set_verifier_type_def)
qed

lemma demo_heap: "heap_ok demo_c_start"
  by (simp add: demo_c_start_def heap_ok_def)

theorem cli_attest_refines_witness:
  "\<exists>out s'. attest demo_cli_env demo_collection demo_verification demo_policy_options demo_c_start = (Inr out, s')
     \<and> ao_result_code out = rc_of_error OverallResultFalse \<and> heap_ok s'"
proof -
  fix c :: attestation_ctx
  obtain out t' where run: "spec_attest demo_cli_env demo_collection demo_verification demo_policy_options (view c demo_c_start) = (Inr (Inr out), t')"
    "ao_result_code out = rc_of_error OverallResultFalse"
    using demo_spec_run by blast
  from cli_attest_refines [OF demo_heap run(1)] show ?thesis using run(2) by auto
qed

theorem offline_mode_contacts_no_service_witness:
  "\<exists>out s'. attest_steps demo_cli_env demo_collection demo_verification demo_policy_options demo_c_start = (Inr (Inr out), s')
     \<and> cs_stores s' = [FilesystemStoreObject ''rims''] \<and> length (cs_clients s') = 1"
proof -
  fix c :: attestation_ctx
  let ?run = "attest_steps demo_cli_env demo_collection demo_verification demo_policy_options demo_c_start"
  obtain out t' where "spec_attest demo_cli_env demo_collection demo_verification demo_policy_options (view c demo_c_start) = (Inr (Inr out), t')"
    using demo_spec_run by blast
  then obtain s' where run: "?run = (Inr (Inr out), s')"
    using attest_refines [OF demo_heap, of demo_cli_env demo_collection demo_verification demo_policy_options c]
    by (cases ?run) (simp add: agrees_def)
  have "offline_status_proofs demo_verification" by (simp add: offline_status_proofs_def demo_verification_def)
  from offline_mode_contacts_no_service [OF demo_heap this run] show ?thesis
    using run by (auto simp: demo_c_start_def demo_verification_def c_str_def)
qed

end
