(* ===== verification/Cli_Main.thy ===== *)
theory Cli_Main
  imports Cli_Refinement
begin

text \<open>
  The rest of the command line tool: evidence collection (\<^verbatim>\<open>collect_evidence.cpp\<close>), the logger (\<^verbatim>\<open>logging.cpp\<close>), the printed results
  and \<^verbatim>\<open>main\<close> (\<^verbatim>\<open>main.cpp\<close>), with the exit status of the process.
\<close>

section \<open>Collecting evidence\<close>

record collect_output =
  co_result_code :: nat
  co_evidences :: string

definition collect_nonce :: "evidence_collection_options \<Rightarrow> (handle \<Rightarrow> (('b, 'w) c_state, 'a) cli) \<Rightarrow> (('b, 'w) c_state, 'a) cli" where
  "collect_nonce col body =
     owned KNonce (if cli_nonce col = [] then creturn None else create (nvat_nonce_from_hex True (Some (c_str (cli_nonce col))))) body"

text \<open>An array the collection wrote; serialising it fails with an internal error, whatever the cause.\<close>

definition array_out :: "(handle \<times> nat) option \<Rightarrow> handle \<times> nat" where
  "array_out x = (case x of None \<Rightarrow> (None, 0) | Some p \<Rightarrow> p)"

definition gpu_source :: "('c, 'r, 'b, 'i, 'e, 'w) c_env \<Rightarrow> evidence_collection_options \<Rightarrow> (('b, 'w) c_state, handle) cli" where
  "gpu_source env col =
     (if cli_gpu_evidence_source col = ''file''
      then create (nvat_gpu_evidence_source_from_json_file env True (Some (c_str (cli_gpu_evidence_file col))))
      else if cli_gpu_evidence_source col = ''corelib''
      then create (nvat_gpu_evidence_source_corelib_create True (Some (c_str (cli_gpu_architecture col))))
      else create (nvat_gpu_evidence_source_nvml_create True))"

definition collect_gpu :: "('c, 'r, 'b, 'i, 'e, 'w) c_env \<Rightarrow> evidence_collection_options \<Rightarrow> handle \<Rightarrow> (('b, 'w) c_state, handle) cli" where
  "collect_gpu env col nonce =
     (if cli_gpu_evidence_source col = ''corelib'' \<and> cli_gpu_architecture col = [] then cfail (rc_of_error BadArgument)
      else owned KGpuEvidenceSource (gpu_source env col) (\<lambda>source.
        cbind (call (nvat_gpu_evidence_collect env source nonce True True)) (\<lambda>out.
        case array_out out of (evidences, num_evidences) \<Rightarrow>
        release_array KGpuEvidenceArray KGpuEvidence as_gpu_array evidences num_evidences
          (on_failure (create (nvat_gpu_evidence_serialize_json env evidences num_evidences True)) (\<lambda>_. cfail (rc_of_error InternalError))))))"

definition collect_switch :: "('c, 'r, 'b, 'i, 'e, 'w) c_env \<Rightarrow> evidence_collection_options \<Rightarrow> handle \<Rightarrow> (('b, 'w) c_state, handle) cli" where
  "collect_switch env col nonce =
     owned KSwitchEvidenceSource
       (if cli_switch_evidence_source col = ''file''
        then create (nvat_switch_evidence_source_from_json_file env True (Some (c_str (cli_switch_evidence_file col))))
        else create (nvat_switch_evidence_source_nscq_create True)) (\<lambda>source.
       cbind (call (nvat_switch_evidence_collect env source nonce True True)) (\<lambda>out.
       case array_out out of (evidences, num_evidences) \<Rightarrow>
       release_array KSwitchEvidenceArray KSwitchEvidence as_switch_array evidences num_evidences
         (on_failure (create (nvat_switch_evidence_serialize_json env evidences num_evidences True)) (\<lambda>_. cfail (rc_of_error InternalError)))))"

definition collect_steps ::
  "('c, 'r, 'b, 'i, 'e, 'w) c_env \<Rightarrow> evidence_collection_options \<Rightarrow> (('b, 'w) c_state, collect_output) cli" where
  "collect_steps env col =
     cbind (init_sdk env) (\<lambda>_.
     collect_nonce col (\<lambda>nonce.
     owned KStr
       (if cli_device col = ''gpu'' then collect_gpu env col nonce
        else if cli_device col = ''nvswitch'' then collect_switch env col nonce
        else creturn None) (\<lambda>serialized_evidence.
     cbind (call (nvat_str_get_data serialized_evidence True)) (\<lambda>evidences_data.
     creturn \<lparr>co_result_code = 0, co_evidences = out_string evidences_data\<rparr>))))"

definition collect_evidence ::
  "('c, 'r, 'b, 'i, 'e, 'w) c_env \<Rightarrow> evidence_collection_options \<Rightarrow> (('b, 'w) c_state, collect_output) step" where
  "collect_evidence env col s =
     (case collect_steps env col s of
        (Inl f, s') \<Rightarrow> (Inl f, s')
      | (Inr (Inl err), s') \<Rightarrow> (ret \<lparr>co_result_code = err, co_evidences = []\<rparr>, s')
      | (Inr (Inr out), s') \<Rightarrow> (ret out, s'))"

section \<open>The logger\<close>

text \<open>
  The state behind the callbacks the tool gives to the SDK: the lines sent to the console, with the level spdlog is asked to use,
  and the error messages kept for the final report.  A null user pointer is \<open>None\<close>.
\<close>

record cli_logger =
  cl_min_level :: nat
  cl_sdk_lines :: "(spd_level \<times> string) list"
  cl_error_messages :: "string list"

definition new_cli_logger :: "nat \<Rightarrow> cli_logger" where
  "new_cli_logger level = \<lparr>cl_min_level = level, cl_sdk_lines = [], cl_error_messages = []\<rparr>"

definition to_spdlog_level :: "nat \<Rightarrow> spd_level" where
  "to_spdlog_level level =
     (if level = 1 then spd_trace else if level = 2 then spd_debug else if level = 3 then spd_info else if level = 4 then spd_warn
      else if level = 5 then spd_err else if level = 0 then spd_off else spd_info)"

definition should_log_impl :: "cli_logger \<Rightarrow> nat \<Rightarrow> bool" where
  "should_log_impl l level \<longleftrightarrow> cl_min_level l \<le> level"

definition should_log_callback :: "cli_logger option \<Rightarrow> nat \<Rightarrow> bool" where
  "should_log_callback user_data level = (case user_data of None \<Rightarrow> False | Some l \<Rightarrow> should_log_impl l level)"

definition log_impl :: "nat \<Rightarrow> string \<Rightarrow> cli_logger \<Rightarrow> cli_logger" where
  "log_impl level message l =
     (let l = l\<lparr>cl_sdk_lines := cl_sdk_lines l @ [(to_spdlog_level level, message)]\<rparr> in
      if 5 \<le> level then l\<lparr>cl_error_messages := cl_error_messages l @ [message]\<rparr> else l)"

definition log_callback :: "nat \<Rightarrow> string \<Rightarrow> cli_logger option \<Rightarrow> cli_logger option" where
  "log_callback level message user_data = (case user_data of None \<Rightarrow> None | Some l \<Rightarrow> Some (log_impl level message l))"

definition clear_error_messages :: "cli_logger \<Rightarrow> cli_logger" where
  "clear_error_messages l = l\<lparr>cl_error_messages := []\<rparr>"

section \<open>Printed results\<close>

datatype cli_line = Critical string | Info string | Stdout string

definition parse_or_empty :: "('c, 'r, 'b, 'i, 'e, 'w) c_env \<Rightarrow> json \<Rightarrow> string \<Rightarrow> json" where
  "parse_or_empty env empty_value t = (case ce_parse env t of Inr j \<Rightarrow> j | Inl _ \<Rightarrow> empty_value)"

definition attest_output_to_json :: "('c, 'r, 'b, 'i, 'e, 'w) c_env \<Rightarrow> attest_output \<Rightarrow> json" where
  "attest_output_to_json env out =
     (let rc = ao_result_code out;
          reported = (rc = 0 \<or> rc = rc_of_error RelyingPartyPolicyMismatch \<or> rc = rc_of_error OverallResultFalse);
          claims_json = (if reported then parse_or_empty env (JObject []) (ao_claims out) else JObject []);
          detached_eat_json = (if reported then parse_or_empty env (JObject []) (ao_detached_eat out) else JObject []) in
      JObject [(''result_code'', JInt (int rc)), (''result_message'', JString (nvat_rc_to_string rc)), (''claims'', claims_json),
        (''detached_eat'', detached_eat_json)])"

definition collect_output_to_json :: "('c, 'r, 'b, 'i, 'e, 'w) c_env \<Rightarrow> collect_output \<Rightarrow> json" where
  "collect_output_to_json env out =
     (let rc = co_result_code out;
          evidences_json = (if rc = 0 then parse_or_empty env JNull (co_evidences out) else JNull) in
      JObject [(''result_code'', JInt (int rc)), (''result_message'', JString (nvat_rc_to_string rc)), (''evidences'', evidences_json)])"

text \<open>The local functions of \<^verbatim>\<open>print_device_claims\<close>.\<close>

definition member :: "json \<Rightarrow> string \<Rightarrow> json option" where
  "member j k = (case j of JObject m \<Rightarrow> map_of m k | _ \<Rightarrow> None)"

definition shown_string :: "json \<Rightarrow> string \<Rightarrow> string" where
  "shown_string j k =
     (case member j k of
        Some (JString v) \<Rightarrow> if v = [] then ''[blank]'' else v
      | Some JNull \<Rightarrow> ''[not set]''
      | _ \<Rightarrow> ''[unknown]'')"

definition string_key_not_blank :: "json \<Rightarrow> string \<Rightarrow> bool" where
  "string_key_not_blank j k = (case member j k of Some (JString v) \<Rightarrow> v \<noteq> [] | _ \<Rightarrow> False)"

definition print_cert_chain :: "json \<Rightarrow> string \<Rightarrow> string \<Rightarrow> cli_line list" where
  "print_cert_chain device_claims k caption =
     (case member device_claims k of
        None \<Rightarrow> []
      | Some (JObject m) \<Rightarrow>
          let cert_chain = JObject m in
          [Critical (''    '' @ caption @ '':''),
           Critical (''        Status: '' @ shown_string cert_chain ''x-nvidia-cert-status'' @ '', OCSP: ''
             @ shown_string cert_chain ''x-nvidia-cert-ocsp-status''),
           Critical (''        Expires: '' @ shown_string cert_chain ''x-nvidia-cert-expiration-date'')]
          @ (if string_key_not_blank cert_chain ''x-nvidia-cert-revocation-reason''
             then [Critical (''        Revocation Reason: '' @ shown_string cert_chain ''x-nvidia-cert-revocation-reason'')] else [])
      | Some _ \<Rightarrow> [Critical (''    '' @ caption @ '': [invalid]'')])"

definition string_member_or :: "string \<Rightarrow> json \<Rightarrow> string \<Rightarrow> string" where
  "string_member_or default_value j k = (case member j k of Some (JString v) \<Rightarrow> v | _ \<Rightarrow> default_value)"

definition print_mismatch :: "json \<Rightarrow> cli_line list" where
  "print_mismatch mismatch =
     (case mismatch of
        JObject _ \<Rightarrow>
          let index = (case member mismatch ''index'' of Some (JInt n) \<Rightarrow> unat (word_of_int n :: u32) | _ \<Rightarrow> 0) in
          [Critical (''      - Index '' @ to_string index @ '': source='' @ string_member_or ''unknown'' mismatch ''measurementSource''),
           Critical (''          Golden:  '' @ string_member_or ''N/A'' mismatch ''goldenValue''),
           Critical (''          Runtime: '' @ string_member_or ''N/A'' mismatch ''runtimeValue'')]
      | _ \<Rightarrow> [Critical ''      - [invalid mismatch record]''])"

definition print_mismatches :: "json \<Rightarrow> cli_line list" where
  "print_mismatches device_claims =
     (case member device_claims ''x-nvidia-mismatch-measurement-records'' of
        None \<Rightarrow> []
      | Some JNull \<Rightarrow> []
      | Some (JArray ms) \<Rightarrow>
          if ms = [] then []
          else Critical (''    Measurement Mismatches ('' @ to_string (length ms) @ ''):'') # concat (map print_mismatch ms)
      | Some _ \<Rightarrow> [Critical ''    Measurement Mismatches: [invalid record]''])"

definition print_device :: "nat \<Rightarrow> json \<Rightarrow> cli_line list" where
  "print_device idx device_claims =
     (case device_claims of
        JObject _ \<Rightarrow>
          let device_type = shown_string device_claims ''x-nvidia-device-type'';
              is_gpu = (device_type = ''gpu''); is_switch = (device_type = ''nvswitch'') in
          [Critical (''- Device '' @ to_string idx @ '':''),
           Critical (''    Device Type: '' @ device_type),
           Critical (''    Hardware Model: '' @ shown_string device_claims ''hwmodel''),
           Critical (''    UEID: '' @ shown_string device_claims ''ueid'')]
          @ (if is_gpu
             then [Critical (''    VBIOS Version: '' @ shown_string device_claims ''x-nvidia-gpu-vbios-version''),
                   Critical (''    Driver Version: '' @ shown_string device_claims ''x-nvidia-gpu-driver-version'')]
             else if is_switch then [Critical (''    BIOS Version: '' @ shown_string device_claims ''x-nvidia-switch-bios-version'')] else [])
          @ [Critical (''    Measurement Result: '' @ shown_string device_claims ''measres'')]
          @ (if is_gpu \<and> string_key_not_blank device_claims ''x-nvidia-gpu-mode''
             then [Critical (''    GPU Mode: '' @ shown_string device_claims ''x-nvidia-gpu-mode'')] else [])
          @ (if is_gpu
             then print_cert_chain device_claims ''x-nvidia-gpu-attestation-report-cert-chain'' ''Attestation Report Cert Chain''
               @ print_cert_chain device_claims ''x-nvidia-gpu-driver-rim-cert-chain'' ''Driver RIM Cert Chain''
               @ print_cert_chain device_claims ''x-nvidia-gpu-vbios-rim-cert-chain'' ''VBIOS RIM Cert Chain''
             else if is_switch
             then print_cert_chain device_claims ''x-nvidia-switch-attestation-report-cert-chain'' ''Attestation Report Cert Chain''
               @ print_cert_chain device_claims ''x-nvidia-switch-bios-rim-cert-chain'' ''BIOS RIM Cert Chain''
             else [])
          @ print_mismatches device_claims
      | _ \<Rightarrow> [Critical (''- Device '' @ to_string idx @ '': [invalid claims format]'')])"

definition print_device_claims :: "('c, 'r, 'b, 'i, 'e, 'w) c_env \<Rightarrow> string \<Rightarrow> cli_line list" where
  "print_device_claims env claims_json =
     Critical ''Devices: '' #
     (if claims_json = [] then [Critical ''[no device claims]'']
      else case ce_parse env claims_json of
        Inl _ \<Rightarrow> [Critical ''[failed to parse device JSON claims]'']
      | Inr (JArray ds) \<Rightarrow> concat (map (\<lambda>(idx, d). print_device idx d) (enumerate 0 ds)) @ [Critical '''']
      | Inr _ \<Rightarrow> [Critical ''[expected array of device claims]''])"

text \<open>\<^verbatim>\<open>std::getline\<close> until it fails: a final newline starts no further line.\<close>

function getlines :: "string \<Rightarrow> string list" where
  "getlines s =
     (if s = [] then []
      else takeWhile (\<lambda>c. c \<noteq> CHR 0x0A) s # getlines (drop 1 (dropWhile (\<lambda>c. c \<noteq> CHR 0x0A) s)))"
  by pat_completeness auto
termination
proof (relation "measure length")
  fix s :: string
  assume "s \<noteq> []"
  moreover have "length (dropWhile (\<lambda>c. c \<noteq> CHR 0x0A) s) \<le> length s" by (rule length_dropWhile_le)
  ultimately show "(drop 1 (dropWhile (\<lambda>c. c \<noteq> CHR 0x0A) s), s) \<in> measure length" by (cases s) auto
qed simp

definition backtrace_lines :: "string \<Rightarrow> cli_line list" where
  "backtrace_lines message =
     (case getlines message of
        [] \<Rightarrow> []
      | first_line # others \<Rightarrow> Critical (''  | '' @ first_line) # map (\<lambda>l. Critical (''    '' @ l)) others)"

text \<open>\<^verbatim>\<open>{:03d}\<close>.\<close>

definition three_digits :: "nat \<Rightarrow> string" where
  "three_digits n = (let t = to_string n in replicate (3 - length t) CHR ''0'' @ t)"

definition error_hint :: "nat \<Rightarrow> cli_line list" where
  "error_hint rc =
     (if rc = rc_of_error RelyingPartyPolicyMismatch
      then [Critical ''Submitted evidence was appraised by the verifier, but did not match the relying party policy.'',
            Critical ''Review the attestation results against the supplied relying party policy.'']
      else if rc = rc_of_error OverallResultFalse
      then [Critical ''Submitted evidence did not match the verifier evidence appraisal policy.'']
      else if rc = rc_of_error NvmlInitFailed then [Critical ''Ensure the NVIDIA Driver is installed and initialized.'']
      else if rc = rc_of_error NscqInitFailed
      then [Critical ''Ensure libnvidia-nscq is installed and an NVSwitch is available on this node.'']
      else if rc = rc_of_error CorelibInitFailed
      then [Critical ''Ensure libcorelib.so.1 is installed and available in the library search path.'']
      else [])"

definition print_error_help :: "string list \<Rightarrow> nat \<Rightarrow> cli_line list" where
  "print_error_help errors rc =
     (if rc = 0 then []
      else error_hint rc
        @ [Critical '''', Critical (''Error '' @ three_digits rc @ '': '' @ nvat_rc_to_string rc), Critical ''Backtrace:'']
        @ concat (map backtrace_lines (rev errors))
        @ (if rc = rc_of_error BadArgument then [] else [Critical '''', Critical ''Run with --log-level=debug for more information.'']))"

section \<open>Subcommands and main\<close>

definition handle_attest_subcommand ::
  "('c, 'r, 'b, 'i, 'e, 'w) cli_env \<Rightarrow> evidence_collection_options \<Rightarrow> evidence_verification_options \<Rightarrow> evidence_policy_options
    \<Rightarrow> common_options \<Rightarrow> (('b, 'w) c_state, nat \<times> cli_line list) step" where
  "handle_attest_subcommand cv col ver pol com =
     sbind (attest cv col ver pol) (\<lambda>output.
     sbind (nvat_sdk_shutdown (cv_api cv)) (\<lambda>_ s.
     let rc = ao_result_code output in
     (if cli_format com = ''text''
      then ret (rc, print_device_claims (cv_api cv) (ao_claims output)
        @ (if rc = 0 then [Info (pretty_device col @ '' attestation was successful'')]
           else [Critical '''', Critical (pretty_device col @ '' attestation failed!'')] @ print_error_help (cv_error_messages cv (cs_world s)) rc))
      else if cli_format com = ''json''
      then bind (cv_dump4 cv (attest_output_to_json (cv_api cv) output)) (\<lambda>t. ret (rc, [Stdout t]))
      else ret (rc, []), s)))"

definition handle_collect_evidence_subcommand ::
  "('c, 'r, 'b, 'i, 'e, 'w) cli_env \<Rightarrow> evidence_collection_options \<Rightarrow> common_options \<Rightarrow> (('b, 'w) c_state, nat \<times> cli_line list) step" where
  "handle_collect_evidence_subcommand cv col com =
     sbind (collect_evidence (cv_api cv) col) (\<lambda>output.
     sbind (nvat_sdk_shutdown (cv_api cv)) (\<lambda>_ s.
     let rc = co_result_code output in
     (if cli_format com = ''text''
      then ret (rc, if rc = 0
        then [Info (pretty_device col @ '' evidence collection was successful.''), Info ''Re-run with --format=json to print the collected evidence.'']
        else [Critical '''', Critical (pretty_device col @ '' evidence collection failed!'')] @ print_error_help (cv_error_messages cv (cs_world s)) rc)
      else if cli_format com = ''json''
      then bind (cv_dump4 cv (collect_output_to_json (cv_api cv) output)) (\<lambda>t. ret (rc, [Stdout t]))
      else ret (rc, []), s)))"

text \<open>The version, the system name and the processor come from the build.\<close>

definition handle_version_subcommand :: "('c, 'r, 'b, 'i, 'e, 'w) cli_env \<Rightarrow> nat \<times> cli_line list" where
  "handle_version_subcommand cv = (0, [Info (''nvattest '' @ cv_version cv)])"

text \<open>Which subcommands were parsed; CLI11 admits several at once.\<close>

record subcommands =
  sub_version :: bool
  sub_attest :: bool
  sub_collect_evidence :: bool

text \<open>A verification-only build refuses requests that would collect evidence from hardware or verify remotely.\<close>

definition requests_hardware_collection :: "subcommands \<Rightarrow> evidence_collection_options \<Rightarrow> evidence_verification_options \<Rightarrow> bool" where
  "requests_hardware_collection sub col ver =
     (if sub_collect_evidence sub then True
      else if \<not> sub_attest sub then False
      else if cli_verifier ver \<noteq> ''local'' then True
      else if cli_device col = ''gpu'' then cli_gpu_evidence_source col \<noteq> ''file''
      else if cli_device col = ''nvswitch'' then cli_switch_evidence_source col \<noteq> ''file''
      else True)"

definition refusal :: string where
  "refusal = ''{\"result_code\":'' @ to_string (rc_of_error FeatureNotEnabled) @
     '',\"result_message\":\"this build verifies evidence files locally; hardware evidence collection and remote verification are not available\"}''"

definition nvattest_main ::
  "bool \<Rightarrow> ('c, 'r, 'b, 'i, 'e, 'w) cli_env \<Rightarrow> subcommands \<Rightarrow> evidence_collection_options \<Rightarrow> evidence_verification_options
    \<Rightarrow> evidence_policy_options \<Rightarrow> common_options \<Rightarrow> (('b, 'w) c_state, nat \<times> cli_line list) step" where
  "nvattest_main verification_only cv sub col ver pol com =
     (if verification_only \<and> requests_hardware_collection sub col ver
      then pure (ret (rc_of_error FeatureNotEnabled, [Stdout refusal]))
      else if sub_version sub then pure (ret (handle_version_subcommand cv))
      else if sub_attest sub then handle_attest_subcommand cv col ver pol com
      else if sub_collect_evidence sub then handle_collect_evidence_subcommand cv col com
      else pure (ret (0, [Stdout (cv_help cv)])))"

text \<open>The exit status of a process is the low byte of what \<^verbatim>\<open>main\<close> returns.\<close>

definition exit_status :: "nat \<Rightarrow> byte" where
  "exit_status rc = word_of_nat rc"

section \<open>Exit status\<close>

text \<open>No two return codes have the same low byte.\<close>

lemma exit_status_table:
  "distinct (map (\<lambda>e. rc_of_error e mod 256) all_errors)" "list_all (\<lambda>e. rc_of_error e mod 256 \<noteq> 0) all_errors"
  by code_simp+

lemma exit_status_eq: "exit_status rc = exit_status rc' \<longleftrightarrow> rc mod 256 = rc' mod 256"
  by (simp add: exit_status_def word_of_nat_eq_iff take_bit_eq_mod)

lemma exit_status_inj: "exit_status (nvat_rc_from_cpp e) = exit_status (nvat_rc_from_cpp e') \<longleftrightarrow> e = e'"
proof -
  have inj: "rc_of_error a mod 256 = rc_of_error b mod 256 \<Longrightarrow> a = b" for a b
    using exit_status_table(1) all_errors_complete by (auto simp: distinct_map inj_on_def)
  have nonzero: "rc_of_error a mod 256 \<noteq> 0" for a
    using exit_status_table(2) all_errors_complete [of a] by (auto simp: list_all_iff)
  show ?thesis
    unfolding exit_status_eq nvat_rc_from_cpp_def
    using nonzero by (cases e; cases e') (auto dest: inj simp: nonzero [THEN not_sym])
qed

text \<open>The abstract program fails with the code of an error only.\<close>

definition error_codes :: "('s, 'a) cli \<Rightarrow> bool" where
  "error_codes m \<longleftrightarrow> (\<forall>t rc. fst (m t) = Inr (Inl rc) \<longrightarrow> (\<exists>e. rc = rc_of_error e))"

lemma error_codes_cbind: "error_codes m \<Longrightarrow> (\<And>x. error_codes (k x)) \<Longrightarrow> error_codes (cbind m k)"
  unfolding error_codes_def cbind_def by (auto simp: ret_def split: prod.splits sum.splits) (metis fst_conv)+

lemma error_codes_return: "error_codes (creturn x)" "error_codes (cfail (rc_of_error e))"
  by (auto simp: error_codes_def creturn_def cfail_def ret_def)

lemma code_of_error: "code_of r = Inr (Inl rc) \<Longrightarrow> \<exists>e. rc = rc_of_error e"
  by (auto simp: code_of_def rc_of_outcome_def ret_def simp del: rc_of_error.simps split: sum.splits failure.splits)

lemma error_codes_steps:
  "error_codes (amodify f)" "error_codes (spec_init env)" "error_codes (on_actx m)" "error_codes (add_store st)" "error_codes (add_client cl)"
  "error_codes (\<lambda>t. (code_of r, t))" "error_codes (spec_nonce col)"
  by (auto simp: error_codes_def amodify_def spec_init_def on_actx_def add_store_def add_client_def spec_nonce_def
      dest: code_of_error split: prod.splits if_splits)

lemma input_codes:
  "read_status_proof_bundle f p = Inl rc \<Longrightarrow> rc = rc_of_error BadArgument" "parse_verification_time v = Inl rc \<Longrightarrow> rc = rc_of_error BadArgument"
  "spec_http_options env ver = Inl rc \<Longrightarrow> \<exists>e. rc = rc_of_error e"
  by (auto simp: read_status_proof_bundle_def parse_verification_time_def spec_http_options_def Let_def
      split: option.splits prod.splits if_splits)

lemma error_codes_configure: "error_codes (spec_configure cv col ver pol options)"
proof -
  note rules = error_codes_cbind error_codes_return error_codes_steps
  have "error_codes (spec_device (cv_api cv) col)" unfolding spec_device_def by (auto intro!: rules simp del: rc_of_error.simps)
  moreover have "error_codes (spec_rim_store (cv_api cv) ver options)" unfolding spec_rim_store_def by (auto intro!: rules simp del: rc_of_error.simps)
  moreover have "error_codes (spec_status cv ver options)"
    unfolding spec_status_def by (auto intro!: rules dest!: input_codes(1,2) split: sum.splits simp del: rc_of_error.simps)
  moreover have "error_codes (spec_relying_party cv filename)" for filename
    unfolding spec_relying_party_def by (auto intro!: rules split: option.splits simp del: rc_of_error.simps) (simp add: error_codes_def)
  moreover have "error_codes (spec_verifier ver)" unfolding spec_verifier_def by (auto intro!: rules simp del: rc_of_error.simps)
  ultimately show ?thesis unfolding spec_configure_def by (auto intro!: rules)
qed

lemma error_codes_run: "error_codes (spec_run env n)"
proof -
  have "\<exists>e. rc = rc_of_error e" if "rc_of_outcome status = Inr rc" "\<not> reported_status status" for status rc
    using that by (auto simp: rc_of_outcome_def reported_status_def ret_def simp del: rc_of_error.simps split: sum.splits failure.splits)
  then show ?thesis
    by (auto simp: error_codes_def spec_run_def dest: code_of_error split: prod.splits sum.splits if_splits)
qed

lemma error_codes_attest: "error_codes (spec_attest cv col ver pol)"
proof -
  have "error_codes (case spec_http_options (cv_api cv) ver of
      Inl err \<Rightarrow> cfail err
    | Inr options \<Rightarrow> cbind (amodify (\<lambda>_. new_context (default_http_options (cv_api cv)))) (\<lambda>_.
        cbind (spec_configure cv col ver pol options) (\<lambda>_. cbind (spec_nonce col) (spec_run (env_of_nras_url ver (cv_api cv))))))"
    by (auto intro!: error_codes_cbind error_codes_steps error_codes_configure error_codes_run dest!: input_codes(3) split: sum.splits
        simp: error_codes_return)
  then show ?thesis
    unfolding spec_attest_def by (auto intro!: error_codes_cbind error_codes_steps error_codes_return simp del: rc_of_error.simps)
qed

text \<open>Results that are reported come from an attestation that ran.\<close>

lemma spec_reported:
  assumes "spec_attest cv col ver pol t = (Inr (Inr out), t')"
  shows "\<exists>options t1 t2 n status token claims d. spec_configure cv col ver pol options t1 = (Inr (Inr ()), t2)
    \<and> attest_device (ce_attest (env_of_nras_url ver (cv_api cv))) (ap_ctx t2) n True [] (ap_world t2) = (status, token, claims, d, ap_world t')
    \<and> rc_of_outcome status = Inr (ao_result_code out)"
proof -
  from assms obtain options t1 t2 n where conf: "spec_configure cv col ver pol options t1 = (Inr (Inr ()), t2)"
    and run: "spec_run (env_of_nras_url ver (cv_api cv)) n t2 = (Inr (Inr out), t')"
    unfolding spec_attest_def by (auto simp: cbind_ok cfail_def ret_def dest!: spec_nonce_state split: if_splits sum.splits)
  obtain status token claims d w where att:
    "attest_device (ce_attest (env_of_nras_url ver (cv_api cv))) (ap_ctx t2) n True [] (ap_world t2) = (status, token, claims, d, w)"
    by (metis prod.exhaust)
  then have "rc_of_outcome status = Inr (ao_result_code out)" "ap_world t' = w"
    using run by (auto simp: spec_run_def split: sum.splits if_splits)
  then show ?thesis using conf att by blast
qed

lemma code_zero: "rc_of_outcome status = Inr 0 \<longleftrightarrow> status = Inr (u :: unit)"
  by (auto simp: rc_of_outcome_def ret_def split: sum.splits failure.splits)

lemma outcome_code: "rc_of_outcome status = Inr code \<Longrightarrow> \<exists>e. code = nvat_rc_from_cpp e"
  unfolding nvat_rc_from_cpp_def rc_of_outcome_def
  by (cases status; cases "projl status") (auto simp: ret_def simp del: rc_of_error.simps intro: exI [of _ None] exI [of _ "Some _"])

text \<open>What the subcommand prints and returns: its result code is that of its output.\<close>

lemma handle_attest_code:
  assumes "handle_attest_subcommand cv col ver pol com s = (Inr (rc, lines), s')"
  shows "\<exists>output s1. attest cv col ver pol s = (Inr output, s1) \<and> rc = ao_result_code output"
  using assms unfolding handle_attest_subcommand_def
  by (auto simp: sbind_ok Let_def ret_def bind_eq_Inr split: if_splits)


text \<open>The offline run with a text format ends with the code of a false overall result.\<close>

definition demo_common :: common_options where
  "demo_common = \<lparr>cli_log_level_str = ''info'', cli_format = ''none''\<rparr>"

abbreviation attest_only :: subcommands where
  "attest_only \<equiv> \<lparr>sub_version = False, sub_attest = True, sub_collect_evidence = False\<rparr>"

lemma demo_main_run:
  "\<exists>s'. nvattest_main True demo_cli_env attest_only demo_collection demo_verification demo_policy_options demo_common demo_c_start
     = (Inr (rc_of_error OverallResultFalse, []), s')"
proof -
  fix c :: attestation_ctx
  obtain out t' where run: "spec_attest demo_cli_env demo_collection demo_verification demo_policy_options (view c demo_c_start) = (Inr (Inr out), t')"
    "ao_result_code out = rc_of_error OverallResultFalse"
    using demo_spec_run by blast
  then obtain u where steps: "attest_steps demo_cli_env demo_collection demo_verification demo_policy_options demo_c_start = (Inr (Inr out), u)"
    using attest_refines [OF demo_heap, of demo_cli_env demo_collection demo_verification demo_policy_options c]
    by (cases "attest_steps demo_cli_env demo_collection demo_verification demo_policy_options demo_c_start") (simp add: agrees_def)
  have "\<not> requests_hardware_collection attest_only demo_collection demo_verification"
    by (simp add: requests_hardware_collection_def demo_collection_def demo_verification_def)
  then show ?thesis
    using run(2) steps
    by (simp add: nvattest_main_def handle_attest_subcommand_def attest_def sbind_def nvat_sdk_shutdown_def c_api_void_def on_sdk_def Let_def ret_def
        demo_common_def split: prod.splits)
qed


section \<open>Verification-only builds\<close>

text \<open>
  Two environments that differ only in the evidence collected from hardware and in what verifiers other than local ones do.
\<close>

definition same_local :: "'w attest_env \<Rightarrow> 'w attest_env \<Rightarrow> bool" where
  "same_local env env' \<longleftrightarrow> at_env env' = at_env env \<and> at_rand_bytes env' = at_rand_bytes env \<and> at_evaluate env' = at_evaluate env
     \<and> (\<forall>st cl eat. at_gpu_verify env' (LocalVerifier st cl eat) = at_gpu_verify env (LocalVerifier st cl eat))
     \<and> (\<forall>st cl eat. at_switch_verify env' (LocalVerifier st cl eat) = at_switch_verify env (LocalVerifier st cl eat))"

text \<open>A context that reads the evidence of its device from a file.\<close>

definition file_ctx :: "attestation_ctx \<Rightarrow> bool" where
  "file_ctx c \<longleftrightarrow> ac_gpu_verifier c = None \<and> ac_switch_verifier c = None
     \<and> (if ac_gpu_enabled c then \<exists>evs. ac_gpu_evidence_source c = Some (GpuJsonFileSource evs)
        else \<exists>evs. ac_switch_evidence_source c = Some (SwitchJsonFileSource evs))"

lemma attest_device_local:
  assumes "same_local env env'" and "file_ctx c" and "ac_default_verifier_type c = LocalType"
  shows "attest_device env' c n want out w = attest_device env c n want out w"
proof -
  obtain d where init: "ensure_init (at_env env) c = (Inr (), d)"
    and d: "ac_gpu_enabled d = ac_gpu_enabled c" "ac_switch_enabled d = ac_switch_enabled c"
      "ac_gpu_enabled d \<Longrightarrow> (\<exists>evs. ac_gpu_evidence_source d = Some (GpuJsonFileSource evs)) \<and> (\<exists>st cl eat. ac_gpu_verifier d = Some (LocalVerifier st cl eat))"
      "\<not> ac_gpu_enabled d \<Longrightarrow> ac_switch_enabled d \<Longrightarrow>
        (\<exists>evs. ac_switch_evidence_source d = Some (SwitchJsonFileSource evs)) \<and> (\<exists>st cl eat. ac_switch_verifier d = Some (LocalVerifier st cl eat))"
    using assms(2,3)
    by (cases "ac_gpu_enabled c"; cases "ac_switch_enabled c")
      (auto simp: file_ctx_def ensure_init_def init_defaults_def init_gpu_def init_switch_def create_verifier_def or_new_def sbind_def ret_def Let_def)
  have gpus: "attest_gpus env' d k want [] v = attest_gpus env d k want [] v" if "ac_gpu_enabled d" for k v
    using assms(1) d(3) [OF that] by (auto simp: attest_gpus_def get_gpu_evidence_def same_local_def split: prod.splits sum.splits)
  have switches: "attest_switches env' d k want [] v = attest_switches env d k want [] v" if "\<not> ac_gpu_enabled d" "ac_switch_enabled d" for k v
    using assms(1) d(4) [OF that] by (auto simp: attest_switches_def get_switch_evidence_def same_local_def split: prod.splits sum.splits)
  have parts: "at_env env' = at_env env" "at_rand_bytes env' = at_rand_bytes env" "at_evaluate env' = at_evaluate env"
    using assms(1) by (simp_all add: same_local_def)
  have same: "choose_nonce env' n w = choose_nonce env n w" "judge_claims env' e st cs v = judge_claims env e st cs v"
    for e st cs v unfolding choose_nonce_def judge_claims_def parts by (rule refl)+
  show ?thesis
    unfolding attest_device_def parts same init using gpus switches by (auto split: prod.splits sum.splits)
qed

lemma file_ctx_wipe:
  assumes "file_ctx c" and "ac_gpu_enabled c' = ac_gpu_enabled c" "ac_gpu_evidence_source c' = ac_gpu_evidence_source c"
    "ac_switch_evidence_source c' = ac_switch_evidence_source c"
  shows "file_ctx (wipe_verifiers c')"
  using assms by (simp add: file_ctx_def wipe_verifiers_def)

lemma leaves_pure: "leaves P (Pair r)"
  by (simp add: leaves_def)

lemma leaves_file_add: "leaves (\<lambda>t. file_ctx (ap_ctx t)) (add_store st)" "leaves (\<lambda>t. file_ctx (ap_ctx t)) (add_client cl)"
  by (auto simp: leaves_def add_store_def add_client_def set_default_rim_store_def set_default_ocsp_client_def intro: file_ctx_wipe)

lemma leaves_file_modify: "(\<And>c. file_ctx c \<Longrightarrow> file_ctx (f c)) \<Longrightarrow> leaves (\<lambda>t. file_ctx (ap_ctx t)) (amodify f)"
  by (simp add: leaves_def amodify_def)

lemma leaves_file:
  "leaves (\<lambda>t. file_ctx (ap_ctx t)) (amodify (set_service_key key))" "leaves (\<lambda>t. file_ctx (ap_ctx t)) (spec_rim_store env ver options)"
  "leaves (\<lambda>t. file_ctx (ap_ctx t)) (spec_status cv ver options)" "leaves (\<lambda>t. file_ctx (ap_ctx t)) (spec_relying_party cv filename)"
  "leaves (\<lambda>t. file_ctx (ap_ctx t)) (spec_verifier ver)"
proof -
  have type: "file_ctx (set_verifier_type ty c)" if "file_ctx c" for ty c
    using that by (auto simp: set_verifier_type_def file_ctx_def wipe_verifiers_def)
  show "leaves (\<lambda>t. file_ctx (ap_ctx t)) (amodify (set_service_key key))"
    by (rule leaves_file_modify) (auto simp: set_service_key_def intro: file_ctx_wipe)
  show "leaves (\<lambda>t. file_ctx (ap_ctx t)) (spec_rim_store env ver options)" by (simp add: spec_rim_store_def leaves_return leaves_file_add)
  show "leaves (\<lambda>t. file_ctx (ap_ctx t)) (spec_status cv ver options)"
    unfolding spec_status_def by (auto intro!: leaves_cbind leaves_return leaves_pure leaves_file_add split: sum.splits)
  show "leaves (\<lambda>t. file_ctx (ap_ctx t)) (spec_relying_party cv filename)"
    by (auto simp: spec_relying_party_def leaves_def creturn_def cfail_def set_claims_evaluator_def file_ctx_def split: option.splits)
  show "leaves (\<lambda>t. file_ctx (ap_ctx t)) (spec_verifier ver)"
    unfolding spec_verifier_def by (auto simp: leaves_return intro!: leaves_file_modify type)
qed

text \<open>The options a verification-only build accepts for an attestation.\<close>

definition from_files :: "evidence_collection_options \<Rightarrow> bool" where
  "from_files col \<longleftrightarrow> cli_device col = ''gpu'' \<and> cli_gpu_evidence_source col = ''file''
     \<or> cli_device col = ''nvswitch'' \<and> cli_switch_evidence_source col = ''file''"

lemma spec_device_file:
  assumes "from_files col" and "spec_device env col t = (Inr (Inr ()), u)" and "ac_gpu_verifier (ap_ctx t) = None" "ac_switch_verifier (ap_ctx t) = None"
  shows "file_ctx (ap_ctx u)"
  using assms
  by (auto simp: from_files_def spec_device_def cbind_ok amodify_def on_actx_def set_gpu_evidence_source_json_file_def set_switch_evidence_source_json_file_def
      set_device_type_def file_ctx_def code_of_def rc_of_outcome_def ret_def split: sum.splits prod.splits failure.splits)

lemma spec_configure_file:
  assumes "from_files col" and "cli_verifier ver = ''local''" and "spec_configure cv col ver pol options t = (Inr (Inr ()), t')"
  shows "file_ctx (ap_ctx t') \<and> ac_default_verifier_type (ap_ctx t') = LocalType"
proof -
  let ?key = "if \<not> offline_status_proofs ver \<and> cli_service_key ver \<noteq> [] then amodify (set_service_key (c_str (cli_service_key ver))) else creturn ()"
  from assms(3) obtain u t1 t2 t3 t4 t5 where
    dev: "spec_device (cv_api cv) col (u\<lparr>ap_ctx := set_evidence_policy (spec_policy pol) (ap_ctx u)\<rparr>) = (Inr (Inr ()), t1)"
    and rest: "?key t1 = (Inr (Inr ()), t2)" "spec_rim_store (cv_api cv) ver options t2 = (Inr (Inr ()), t3)"
      "spec_status cv ver options t3 = (Inr (Inr ()), t4)" "spec_relying_party cv (cli_relying_party_policy ver) t4 = (Inr (Inr ()), t5)"
      "spec_verifier ver t5 = (Inr (Inr ()), t')"
    unfolding spec_configure_def cbind_ok by (auto simp: amodify_def)
  have "file_ctx (ap_ctx t1)" by (rule spec_device_file [OF assms(1) dev]) (simp_all add: set_evidence_policy_def wipe_verifiers_def)
  moreover have key: "leaves (\<lambda>t. file_ctx (ap_ctx t)) ?key" using leaves_file(1) leaves_return by auto
  ultimately have "file_ctx (ap_ctx t')"
    using leavesD [OF key, of t1] leavesD [OF leaves_file(2), of t2 "cv_api cv" ver options] leavesD [OF leaves_file(3), of t3 cv ver options]
      leavesD [OF leaves_file(4), of t4 cv "cli_relying_party_policy ver"] leavesD [OF leaves_file(5), of t5 ver] rest
    by simp
  moreover have "ac_default_verifier_type (ap_ctx t') = LocalType"
    using rest(5) assms(2) by (auto simp: spec_verifier_def amodify_def set_verifier_type_def)
  ultimately show ?thesis by blast
qed

lemma cbind_cong: "m s = m' s \<Longrightarrow> (\<And>x u. m s = (Inr (Inr x), u) \<Longrightarrow> k x u = l x u) \<Longrightarrow> cbind m k s = cbind m' l s"
  by (auto simp: cbind_def split: prod.splits sum.splits)

lemma same_local_setenv:
  "same_local (ce_attest env) att \<Longrightarrow> same_local (ce_attest (env_of_nras_url ver env)) (ce_attest (env_of_nras_url ver (env\<lparr>ce_attest := att\<rparr>)))"
  by (auto simp: same_local_def env_of_nras_url_def setenv_def)

lemma dump_setenv: "ce_dump (env_of_nras_url ver env) = ce_dump env"
  by (simp add: env_of_nras_url_def setenv_def)

lemma spec_attest_local:
  fixes cv :: "('c, 'r, 'b, 'i, 'e, 'w) cli_env"
  assumes "same_local (ce_attest (cv_api cv)) att" and "from_files col" and "cli_verifier ver = ''local''"
  defines "cv' \<equiv> cv\<lparr>cv_api := (cv_api cv)\<lparr>ce_attest := att\<rparr>\<rparr>"
  shows "spec_attest cv' col ver pol t = spec_attest cv col ver pol t"
proof -
  have env: "at_env att = at_env (ce_attest (cv_api cv))" using assms(1) by (simp add: same_local_def)
  have http: "default_http_options (cv_api cv') = default_http_options (cv_api cv)" "resolve_ca (cv_api cv') = resolve_ca (cv_api cv)"
    by (simp_all add: default_http_options_def resolve_ca_def cv'_def env)
  have parts: "at_env (ce_attest (cv_api cv')) = at_env (ce_attest (cv_api cv))" "ce_read_file (cv_api cv') = ce_read_file (cv_api cv)"
    "ce_parse (cv_api cv') = ce_parse (cv_api cv)" "ce_b64_decode (cv_api cv') = ce_b64_decode (cv_api cv)"
    "ce_ocsp (cv_api cv') = ce_ocsp (cv_api cv)" "cv_open_binary cv' = cv_open_binary cv" "cv_open_text cv' = cv_open_text cv"
    by (simp_all add: cv'_def env)
  have conf: "spec_configure cv' col ver pol options = spec_configure cv col ver pol options" for options
    unfolding spec_configure_def spec_device_def spec_rim_store_def spec_status_def spec_relying_party_def parts by (rule refl)
  have run: "spec_run (env_of_nras_url ver (cv_api cv')) n u = spec_run (env_of_nras_url ver (cv_api cv)) n u"
    if "spec_configure cv col ver pol options t1 = (Inr (Inr ()), u)" for options t1 n u
  proof -
    from spec_configure_file [OF assms(2,3) that] have att: "attest_device (ce_attest (env_of_nras_url ver (cv_api cv'))) (ap_ctx u) n True [] (ap_world u)
        = attest_device (ce_attest (env_of_nras_url ver (cv_api cv))) (ap_ctx u) n True [] (ap_world u)"
      unfolding cv'_def using attest_device_local [OF same_local_setenv [OF assms(1)]] by simp
    have dump: "ce_dump (cv_api cv') = ce_dump (cv_api cv)" by (simp add: cv'_def)
    show ?thesis unfolding spec_run_def dump_setenv dump att by (rule refl)
  qed
  have tail: "cbind (spec_configure cv' col ver pol options) (\<lambda>_. cbind (spec_nonce col) (spec_run (env_of_nras_url ver (cv_api cv'))))
      = cbind (spec_configure cv col ver pol options) (\<lambda>_. cbind (spec_nonce col) (spec_run (env_of_nras_url ver (cv_api cv))))" for options
    unfolding conf by (rule ext, intro cbind_cong refl) (auto dest!: spec_nonce_state simp: run)
  have init: "spec_init (cv_api cv') = (spec_init (cv_api cv) :: (('b, 'w) app_state, unit) cli)"
    by (rule ext) (simp add: spec_init_def cv'_def)
  have options: "spec_http_options (cv_api cv') ver = spec_http_options (cv_api cv) ver" by (simp add: spec_http_options_def http)
  show ?thesis
    unfolding spec_attest_def init options http tail by (rule refl)
qed

text \<open>
  C12 (verification_only_ignores_hardware): a verification-only build never uses hardware evidence or a remote verifier.  For every
  command line, what \<^verbatim>\<open>main\<close> prints and returns stays the same when the sources that collect evidence from devices, and the verifiers other than
  local ones, are replaced by anything else.
\<close>

theorem verification_only_ignores_hardware:
  fixes cv :: "('c, 'r, 'b, 'i, 'e, 'w) cli_env"
  assumes "heap_ok s" and "same_local (ce_attest (cv_api cv)) att"
  shows "fst (nvattest_main True (cv\<lparr>cv_api := (cv_api cv)\<lparr>ce_attest := att\<rparr>\<rparr>) sub col ver pol com s)
    = fst (nvattest_main True cv sub col ver pol com s)"
proof (cases "requests_hardware_collection sub col ver \<or> sub_version sub \<or> \<not> sub_attest sub")
  case True
  then show ?thesis by (auto simp: nvattest_main_def pure_def requests_hardware_collection_def handle_version_subcommand_def)
next
  case False
  let ?cv = "cv\<lparr>cv_api := (cv_api cv)\<lparr>ce_attest := att\<rparr>\<rparr>"
  fix c :: attestation_ctx
  have files: "from_files col" "cli_verifier ver = ''local''"
    using False by (auto simp: requests_hardware_collection_def from_files_def split: if_splits)
  obtain r u r' u' where runs: "attest_steps cv col ver pol s = (r, u)" "attest_steps ?cv col ver pol s = (r', u')" by fastforce
  have "spec_attest ?cv col ver pol (view c s) = spec_attest cv col ver pol (view c s)" by (rule spec_attest_local [OF assms(2) files])
  then have "r' = r" and "view (ap_ctx (snd (spec_attest cv col ver pol (view c s)))) u' = view (ap_ctx (snd (spec_attest cv col ver pol (view c s)))) u"
    using attest_refines [OF assms(1), of cv col ver pol c] attest_refines [OF assms(1), of ?cv col ver pol c] runs
    by (simp_all add: agrees_def)
  then have same: "r' = r" "cs_sdk u' = cs_sdk u" "cs_world u' = cs_world u" by (auto simp: view_def)
  then have "fst (handle_attest_subcommand ?cv col ver pol com s) = fst (handle_attest_subcommand cv col ver pol com s)"
    by (simp add: handle_attest_subcommand_def attest_def runs sbind_def nvat_sdk_shutdown_def c_api_void_def on_sdk_def Let_def ret_def
        print_device_claims_def attest_output_to_json_def parse_or_empty_def split: prod.splits sum.splits)
  then show ?thesis using False by (simp add: nvattest_main_def)
qed

text \<open>The run of the offline command line, with devices that always fail.\<close>

theorem verification_only_ignores_hardware_witness:
  "fst (nvattest_main True (demo_cli_env\<lparr>cv_api := (cv_api demo_cli_env)\<lparr>ce_attest := demo_attest_env\<lparr>at_gpu_source := (\<lambda>r n w. (fail NvmlError, w)),
        at_switch_source := (\<lambda>r n w. (fail NscqError, w))\<rparr>\<rparr>\<rparr>)
       attest_only demo_collection demo_verification demo_policy_options demo_common demo_c_start)
     = Inr (12, [])"
proof -
  let ?att = "demo_attest_env\<lparr>at_gpu_source := (\<lambda>r n w. (fail NvmlError, w)), at_switch_source := (\<lambda>r n w. (fail NscqError, w))\<rparr>"
  have "same_local (ce_attest (cv_api demo_cli_env)) ?att"
    by (simp add: same_local_def demo_cli_env_def demo_c_env_def)
  from verification_only_ignores_hardware [OF demo_heap this, of attest_only demo_collection demo_verification demo_policy_options demo_common]
  show ?thesis using demo_main_run by auto
qed

section \<open>Options that pass the checks\<close>

lemma admitted_cases:
  assumes "admitted ef ed collection_decls (collection_values col)" and "admitted ef ed verification_decls (verification_values ver)"
  shows "cli_device col = ''gpu'' \<or> cli_device col = ''nvswitch''" "cli_verifier ver = ''local'' \<or> cli_verifier ver = ''remote''"
    "cli_rim_store ver = ''remote'' \<or> cli_rim_store ver = ''dir''"
  using assms by (auto simp: admitted_def passes_def collection_decls_def collection_values_def verification_decls_def verification_values_def)

lemma accepted_offline:
  assumes "attest_parse_complete env ef app col ver = None" and "offline_status_proofs ver"
  shows "cli_verifier ver = ''local''" "cli_rim_store ver = ''dir''" "\<exists>t > 0. parse_verification_time (cli_ocsp_verification_time ver) = Inr t"
proof -
  have ok: "validate_offline_status_options app (at_env (ce_attest env)) ver = None"
    using assms by (auto simp: attest_parse_complete_def split: option.splits if_splits)
  then show "cli_verifier ver = ''local''" "cli_rim_store ver = ''dir''"
    by (auto simp: validate_offline_status_options_def Let_def split: if_splits)
  let ?v = "cli_ocsp_verification_time ver"
  have v: "?v \<noteq> []" "length ?v \<le> 18" "list_all decimal ?v" "\<not> list_all (\<lambda>c. c = CHR ''0'') ?v"
    using ok by (auto simp: validate_offline_status_options_def Let_def split: if_splits)
  then have "0 < digits_value 10 ?v" using digits_value_zero [of ?v] by blast
  then show "\<exists>t > 0. parse_verification_time ?v = Inr t"
    using v parsed_value [of ?v] by (intro exI [of _ "int (digits_value 10 ?v)"]) (simp add: parse_verification_time_def Let_def)
qed

text \<open>
  C22 (accepted_options_typed): a command line that CLI11 and the final checks accept leaves every fallback of \<^verbatim>\<open>attest\<close> unreachable.  The
  combination of offline mode with another verifier or store does not occur, the RIM store is the remote one exactly when the option says so
  and a directory otherwise, the verifier type is one of the two, and in offline mode the verification time is a positive number.
\<close>

theorem accepted_options_typed:
  assumes "admitted ef ed collection_decls (collection_values col)" and "admitted ef ed verification_decls (verification_values ver)"
    and "attest_parse_complete (cv_api cv) ef app col ver = None"
  shows "attest_steps cv col ver pol = cbind (init_sdk (cv_api cv)) (\<lambda>_.
      with_http_options (cv_api cv) ver (\<lambda>http_options.
      owned KAttestationCtx (create (nvat_attestation_ctx_create (cv_api cv) True)) (\<lambda>ctx.
      attest_with_context cv col ver pol http_options ctx)))
    \<and> configure_rim_store (cv_api cv) ver http ctx = (if cli_verifier ver = ''remote'' then creturn ()
      else owned KRimStore
        (if cli_rim_store ver = ''remote''
         then create (nvat_rim_store_create_remote (cv_api cv) True (Some (c_str (cli_rim_url ver))) (service_key_arg ver) http)
         else create (nvat_rim_store_create_filesystem True (Some (c_str (cli_rim_path ver)))))
        (\<lambda>store. run (nvat_attestation_ctx_set_default_rim_store ctx store)))
    \<and> select_verifier ver ctx = run (nvat_attestation_ctx_set_verifier_type ctx (if cli_verifier ver = ''local'' then 0 else 1))
    \<and> (offline_status_proofs ver \<longrightarrow> (\<exists>t > 0. parse_verification_time (cli_ocsp_verification_time ver) = Inr t))
    \<and> cli_device col \<in> {''gpu'', ''nvswitch''}"
  using admitted_cases [OF assms(1,2)] accepted_offline [OF assms(3)]
  by (auto simp: attest_steps_def configure_rim_store_def select_verifier_def)

text \<open>The offline command line of the run above, with files that exist and no other option given.\<close>

theorem accepted_options_typed_witness:
  "offline_status_proofs demo_verification \<and> (\<exists>t > 0. parse_verification_time (cli_ocsp_verification_time demo_verification) = Inr t)"
proof -
  have 1: "admitted (\<lambda>_. []) (\<lambda>_. []) collection_decls (collection_values demo_collection)"
    "admitted (\<lambda>_. []) (\<lambda>_. []) verification_decls (verification_values demo_verification)"
    by (simp_all add: admitted_def passes_def collection_decls_def collection_values_def verification_decls_def verification_values_def
        demo_collection_def demo_verification_def)
  have 2: "attest_parse_complete (cv_api demo_cli_env) (\<lambda>_. []) (\<lambda>_. None) demo_collection demo_verification = None"
    by (simp add: attest_parse_complete_def validate_evidence_collection_options_def check_evidence_file_def validate_offline_status_options_def
        network_options_def given_on_command_line_def offline_status_proofs_def decimal_def demo_collection_def demo_verification_def)
  have "offline_status_proofs demo_verification" by (simp add: offline_status_proofs_def demo_verification_def)
  then show ?thesis using accepted_options_typed [OF 1 2, of demo_policy_options None None] by blast
qed

end
