(* ===== verification/Spec2Isabelle.thy ===== *)
theory Spec2Isabelle
  imports Attestation Cli_Main
begin

text \<open>
  \<^bold>\<open>The NVIDIA attestation SDK: a verification development.\<close>

  The program (\<^verbatim>\<open>src/nv-attestation-sdk-cpp\<close>) decides whether the GPUs and NVSwitches of a machine are genuine, run
  known firmware and are in the right mode.  An \<^emph>\<open>evidence source\<close> asks the device library for a signed SPDM
  report over a fresh nonce and for the device's certificate chain.  A \<^emph>\<open>verifier\<close> checks the chain (with OCSP),
  the signature and the nonce, fetches reference integrity manifests (RIMs) for the reported versions, compares
  the measurements with the golden values, and writes \<^emph>\<open>claims\<close>; the remote verifier leaves this to the attestation
  service (NRAS) and checks its tokens.  A Rego policy reduces the claims to an overall result, which a detached
  token (EAT) records.  The \<^emph>\<open>attestation context\<close> wires these objects together, and the C interface hands them out
  behind opaque handles.  The command line tool (\<^verbatim>\<open>src/nv-attestation-cli\<close>) is a client of that interface.

  \<^bold>\<open>Conventions.\<close>  Fallible code returns an \<open>outcome\<close> (\<open>Prelude\<close>): a value, an error code of the SDK, a C++
  exception, undefined behaviour, or an exhausted iteration budget; nothing that the code does on an error path
  is left out.  Stateful code is a \<open>step\<close> (\<open>Effects\<close>), a function from a state to an outcome and a state.  Machine
  integers are words where their width matters.  A buffer is a list of bytes; the readers take the offsets and
  lengths of the code as 64-bit words.  Code that is not in the repository is a parameter: OpenSSL (\<open>x509_api\<close>,
  \<open>ocsp_api\<close>, signing and hashing), libxml and xmlsec (\<open>xml_api\<close>), libcurl, jwt-cpp (\<open>jwt_api\<close>), the Rego
  engine (\<open>rego_api\<close>), the text form of JSON, NVML, NSCQ and Corelib (\<open>nvml_api\<close>, \<open>nscq_api\<close>,
  \<open>corelib_api\<close>), the dynamic linker (\<open>lib_env\<close>), spdlog (\<open>sdk_env\<close>), CLI11 (the parsed options are arguments), the clock and the random generator.
  What a theorem needs of them is a named hypothesis with a concrete instance in its witness.

  \<^bold>\<open>Theories, and what they model and show.\<close>

  \<^item> \<open>Prelude\<close>, \<open>Error_Codes\<close>, \<open>Effects\<close>, \<open>Codec\<close>: outcomes and steps, the error codes with their C values and texts
    (\<^verbatim>\<open>error.h\<close>), and the locale of a decoder that inverts an encoder.
  \<^item> \<open>Bytes\<close>, \<open>Utils\<close>, \<open>Json\<close> (\<^verbatim>\<open>utils.h\<close>): bounded reads and copies, with the exact inputs on which they are in
    bounds; hexadecimal and base64 conversion; JSON values and the wrappers around the JSON library.
  \<^item> \<open>Spdm_Request\<close>, \<open>Spdm_Measurements\<close>, \<open>Spdm_Opaque\<close>, \<open>Spdm_Response\<close>, \<open>Gpu_Opaque\<close>, \<open>Switch_Opaque\<close> (\<^verbatim>\<open>src/spdm\<close>,
    \<^verbatim>\<open>src/gpu/spdm\<close>, \<^verbatim>\<open>src/switch/spdm\<close>): the parsers, each related to an encoder or to an abstract view of the wire
    format: a parser accepts exactly the encodings, never reads out of bounds, and terminates.  Loops over a
    record have the length of the data as budget; every iteration consumes at least one byte, and the theorems
    show that the budget is not exhausted.
  \<^item> \<open>Nv_Cache\<close> (\<^verbatim>\<open>nv_cache.cpp\<close>): the size-bounded LRU cache, its invariant under every operation, what is evicted
    and what a lookup returns.
  \<^item> \<open>Http\<close>, \<open>Status_Bundle\<close>, \<open>Ocsp\<close>, \<open>X509_Chain\<close> (\<^verbatim>\<open>nv_http.cpp\<close>, \<^verbatim>\<open>nv_ocsp.cpp\<close>, \<^verbatim>\<open>nv_x509.cpp\<close>): retries (how many, and that
    a request gets through when the service answers in time) and CA bundle resolution, the strict DER bundle of revocation proofs, the online, raw-proof and caching OCSP clients, and the
    claims about a certificate chain: which certificates they cover and where a status comes from.
  \<^item> \<open>Gpu_Report\<close>, \<open>Rim\<close>, \<open>Claims\<close>, \<open>Policy\<close>, \<open>Detached_Eat\<close>, \<open>Measurement_Match\<close>, \<open>Gpu_Verify\<close>, \<open>Switch_Report\<close>,
    \<open>Switch_Verify\<close>: evidence and reports, manifests and their stores, claims and their JSON form both ways, the
    built-in policy, the token, and the local verifiers.  The main lemmas say what stands behind a set of claims: an
    authentic report over the nonce, accepted manifests, equal measurements.
  \<^item> \<open>Jwk_Store\<close>, \<open>Nras\<close> (\<^verbatim>\<open>nv_jwt.cpp\<close>, \<^verbatim>\<open>verify.cpp\<close>): the key store with its expiry, token validation and the exchange with
    the attestation service.
  \<^item> \<open>Attestation\<close> (\<^verbatim>\<open>attestation.cpp\<close>): the context as a state machine of setters and lazily created objects, the
    invariant that these follow the settings, and when an attestation is accepted.
  \<^item> \<open>Device_Library\<close>, \<open>Nvml\<close>, \<open>Nscq\<close>, \<open>Corelib\<close>: loading of the device libraries as a protocol (a locale, interpreted
    for each library, and a step relation for several threads) and the collection of evidence: one piece per
    device, from that device, over the given nonce, and every acquired object released.
  \<^item> \<open>Sdk_Init\<close> (\<^verbatim>\<open>init.cpp\<close>, \<^verbatim>\<open>log.cpp\<close>): initialisation and shutdown, the loggers, and the invariant of the global state.
  \<^item> \<open>C_Objects\<close>, \<open>C_Api\<close>, \<open>C_Safety\<close>, \<open>C_Results\<close> (\<^verbatim>\<open>nvat.cpp\<close>, \<^verbatim>\<open>nvat_private.hpp\<close>): a heap of typed objects behind handles,
    every function of the interface on it, memory safety for clients that use handles they hold, the refinement of
    the context's attestation by the C function, and nonces in hexadecimal form.
  \<^item> \<open>Cli_Options\<close>, \<open>Cli\<close>, \<open>Cli_Refinement\<close>, \<open>Cli_Main\<close> (\<^verbatim>\<open>nv-attestation-cli/src\<close>): the options with their checks, the subcommands
    as programs over the C interface with the destructors of their owning pointers, the printed results and \<^verbatim>\<open>main\<close>.  The
    \<^verbatim>\<open>attest\<close> subcommand refines an abstract program on one attestation context, without handles, by a simulation; from it
    follow what offline mode does not use, when the exit status is 0, that a verification-only build is independent of hardware and of
    remote verifiers, and that accepted options reach no fallback.
  \<^item> This theory composes the context, the local verifier and a RIM store: what an accepted local attestation of
    GPUs guarantees.

  \<^bold>\<open>Interfaces.\<close>  The contracts between components are locales that the model's own definitions interpret: decoders
  (\<open>Codec\<close>), the cache as a finite map with a bound, RIM stores and OCSP clients with what they promise of a
  document or a status, and the device libraries' loading protocol.

  \<^bold>\<open>Abstractions.\<close>  Unordered maps are association lists in one fixed iteration order.  Memory is unbounded, so that
  \<^verbatim>\<open>bad_alloc\<close> does not occur.  Shared pointers are references by number.  Log messages are left out of the components
  (they matter only where no logger is set, in \<open>Sdk_Init\<close>); the C interface is called while one is set.  Numbers in JSON
  are integers.

  \<^bold>\<open>Not modelled.\<close>  The Windows branches and the compatibility headers; stream printers and the texts of third-party
  error codes; the text layer of JSON, XML and X.509 (library code); the Rego engine behind the built-in policy,
  whose rules are predicates on JSON; the parsing of the command line (CLI11), the log lines the tool writes while a subcommand runs and the
  flushing of streams; the helpers of \<^verbatim>\<open>utils.h\<close> that only wrap the operating system or are used by printers alone (\<^verbatim>\<open>format_time\<close>) or not at
  all (\<^verbatim>\<open>parse_uri\<close>); tests, examples and the language bindings.
\<close>

section \<open>A local GPU attestation from end to end\<close>

text \<open>
  What stands behind one set of GPU claims: \<open>published\<close> is the relation between manifest identifiers
  and texts that the RIM store guarantees.
\<close>

definition gpu_claims_backed ::
  "('c, 'd, 'n, 'o, 'r) verifier \<Rightarrow> evidence_policy \<Rightarrow> (string \<Rightarrow> string \<Rightarrow> bool) \<Rightarrow> buffer \<Rightarrow> gpu_evidence \<Rightarrow> gpu_claims \<Rightarrow> bool" where
  "gpu_claims_backed v policy published nonce ev c \<longleftrightarrow>
     ge_nonce ev = nonce \<and> gc_nonce c = to_hex_string nonce
     \<and> (\<exists>rep driver_id driver_rim vbios_id vbios_rim driver vbios.
         get_parsed_attestation_report (lv_x509 v) (lv_device_root_cert v) ev = Inr rep
         \<and> signature_ok (lv_x509 v) (gr_attestation_cert_chain rep)
             (encode_request (gr_spdm_request rep) @ unsigned_response (gr_spdm_response rep))
             (resp_signature (gr_spdm_response rep))
         \<and> req_nonce (gr_spdm_request rep) = nonce
         \<and> get_driver_rim_id rep (ge_gpu_architecture ev) = Inr driver_id \<and> get_vbios_rim_id rep = Inr vbios_id
         \<and> wf_document (lv_xml v) driver_rim \<and> published driver_id (rd_rim_data driver_rim)
         \<and> wf_document (lv_xml v) vbios_rim \<and> published vbios_id (rd_rim_data vbios_rim)
         \<and> rim_accepted v policy driver_rim (gc_driver_rim_cert_chain c)
         \<and> rim_accepted v policy vbios_rim (gc_vbios_rim_cert_chain c)
         \<and> rim_measurements (lv_xml v) driver_rim = Inr driver \<and> rim_measurements (lv_xml v) vbios_rim = Inr vbios
         \<and> (gc_measurements_matching c = MeasSuccess \<longrightarrow>
              (\<forall>(i, m) \<in> set driver \<union> set vbios. i \<noteq> 35 \<longrightarrow> matches (get_measurements rep) i m)))"

text \<open>A verifier that fetches its manifests from a store that fulfils the contract.\<close>

context rim_store
begin

lemma item_backed:
  assumes "inv (snd s)" and "lv_rim_store v = get_rim" and "lv_xml v = xml"
    and "wf_buffer (ge_attestation_report ev)" and "verify_gpu_item v policy ev s = (Inr c, s')"
  shows "gpu_claims_backed v policy published (ge_nonce ev) ev c \<and> inv (snd s')"
proof -
  obtain rep driver_id driver_rim vbios_id vbios_rim r1 r2 driver vbios where
    a: "get_parsed_attestation_report (lv_x509 v) (lv_device_root_cert v) ev = Inr rep"
      "signature_ok (lv_x509 v) (gr_attestation_cert_chain rep)
         (encode_request (gr_spdm_request rep) @ unsigned_response (gr_spdm_response rep)) (resp_signature (gr_spdm_response rep))"
      "req_nonce (gr_spdm_request rep) = ge_nonce ev" "gc_nonce c = to_hex_string (ge_nonce ev)"
      "get_driver_rim_id rep (ge_gpu_architecture ev) = Inr driver_id" "get_vbios_rim_id rep = Inr vbios_id"
      "rim_accepted v policy driver_rim (gc_driver_rim_cert_chain c)" "rim_accepted v policy vbios_rim (gc_vbios_rim_cert_chain c)"
      "rim_measurements (lv_xml v) driver_rim = Inr driver" "rim_measurements (lv_xml v) vbios_rim = Inr vbios"
      "gc_measurements_matching c = MeasSuccess \<longrightarrow>
         (\<forall>(i, m) \<in> set driver \<union> set vbios. i \<noteq> 35 \<longrightarrow> matches (get_measurements rep) i m)"
    and d: "lv_rim_store v (snd s) driver_id = (Inr driver_rim, r1)"
    and w: "lv_rim_store v r1 vbios_id = (Inr vbios_rim, r2)" "snd s' = r2"
    using gpu_item_justified [OF assms(4,5)] by (elim exE conjE) (rule that; assumption)
  have "inv r1" using usable [OF assms(1) d [unfolded assms(2)]] .
  then have docs: "wf_document xml driver_rim" "published driver_id (rd_rim_data driver_rim)"
    "wf_document xml vbios_rim" "published vbios_id (rd_rim_data vbios_rim)" "inv r2"
    using genuine [OF assms(1) d [unfolded assms(2)]] genuine [OF _ w(1) [unfolded assms(2)]]
      usable [OF _ w(1) [unfolded assms(2)]] by blast+
  show ?thesis
    unfolding gpu_claims_backed_def using a docs w(2) unfolding assms(3) by blast
qed

text \<open>The claims that were appended, also when a later piece of evidence was refused.\<close>

lemma loop_backed:
  assumes "inv (snd s)" and "lv_rim_store v = get_rim" and "lv_xml v = xml"
    and "\<forall>ev \<in> set evs. wf_buffer (ge_attestation_report ev)"
    and "verify_gpu_loop v policy evs out s = (r, out', s')"
  shows "\<exists>cs. out' = out @ map GpuClaims cs \<and> (is_ok r \<longrightarrow> length cs = length evs)
    \<and> list_all2 (\<lambda>ev. gpu_claims_backed v policy published (ge_nonce ev) ev) (take (length cs) evs) cs"
  using assms(1,4,5)
proof (induction evs arbitrary: out s)
  case (Cons ev evs)
  obtain x s1 where step: "verify_gpu_item v policy ev s = (x, s1)" by (meson surj_pair)
  show ?case
  proof (cases x)
    case (Inl f)
    then show ?thesis using Cons.prems(3) step by (auto simp: is_ok_def)
  next
    case (Inr c)
    then have item: "verify_gpu_item v policy ev s = (Inr c, s1)" using step by simp
    have rest: "verify_gpu_loop v policy evs (out @ [GpuClaims c]) s1 = (r, out', s')" using Cons.prems(3) item by simp
    have one: "gpu_claims_backed v policy published (ge_nonce ev) ev c" "inv (snd s1)"
      using item_backed [OF Cons.prems(1) assms(2,3) _ item] Cons.prems(2) by simp_all
    obtain cs where "out' = (out @ [GpuClaims c]) @ map GpuClaims cs" "is_ok r \<longrightarrow> length cs = length evs"
      "list_all2 (\<lambda>ev. gpu_claims_backed v policy published (ge_nonce ev) ev) (take (length cs) evs) cs"
      using Cons.IH [OF one(2) _ rest] Cons.prems(2) by auto
    then show ?thesis using one(1) by (intro exI [of _ "c # cs"]) simp
  qed
qed simp

lemma verifier_backed:
  assumes "inv (snd (fst w))" and "lv_rim_store v = get_rim" and "lv_xml v = xml"
    and "\<forall>ev \<in> set evs. wf_buffer (ge_attestation_report ev)" and "ep_gpu_claims_version policy = GpuClaimsV3"
    and "local_gpu_verify_evidence v eat_env now want_eat evs policy [] w = (status, token, claims, w')"
  shows "\<exists>cs. claims = map GpuClaims cs \<and> (is_ok status \<longrightarrow> length cs = length evs)
    \<and> list_all2 (\<lambda>ev. gpu_claims_backed v policy published (ge_nonce ev) ev) (take (length cs) evs) cs"
proof -
  obtain r out s' where loop: "verify_gpu_loop v policy evs [] (fst w) = (r, out, s')" using prod_cases3 by blast
  moreover have "claims = out" "is_ok status \<longrightarrow> is_ok r"
    using assms(5,6) loop unfolding local_gpu_verify_evidence_def generate_claims_v3_def
    by (auto simp: is_ok_def split: sum.splits if_splits prod.splits)
  ultimately show ?thesis using loop_backed [OF assms(1-4) loop] by auto
qed

end

text \<open>
  C1 (local_gpu_attestation_end_to_end): in an attestation that succeeds, with the local verifier
  over evidence read from a file and any RIM store that fulfils the store contract, the claims
  handed out belong, in order, to the pieces of evidence; each was collected for the caller's nonce,
  and its report is signed over that nonce; the manifests it was compared with were published under
  the identifiers its report determines and were judged as the policy asks; and matching
  measurements are claimed only if the report matches every golden measurement, index 35 aside.
  Without a relying party's policy no piece of evidence is left out.
\<close>

theorem local_gpu_attestation_end_to_end:
  assumes "rim_store (lv_rim_store v) (lv_xml v) published ok" and "ok (snd (fst w))"
    and "\<forall>r evs policy out s. at_gpu_verify env r evs policy want_eat out s
        = local_gpu_verify_evidence v eat_env now want_eat evs policy out s"
    and "ensure_init (at_env env) c = (Inr (), d)" and "ac_gpu_enabled d"
    and "ac_gpu_evidence_source d = Some (GpuJsonFileSource evs)"
    and "ep_gpu_claims_version (ac_evidence_policy d) = GpuClaimsV3"
    and "\<forall>ev \<in> set evs. wf_buffer (ge_attestation_report ev)" and "nonce \<noteq> []"
    and "attest_device env c nonce want_eat out w = (Inr u, token, claims, d', w')"
  shows "\<exists>cs. claims = map GpuClaims cs \<and> (ac_claims_evaluator d = None \<longrightarrow> length cs = length evs)
    \<and> list_all2 (gpu_claims_backed v (ac_evidence_policy d) published nonce) (take (length cs) evs) cs"
proof -
  have choose: "choose_nonce env nonce w = (Inr nonce, w)" using assms(9) by (simp add: choose_nonce_def ret_def)
  obtain status w2 where run: "attest_gpus env d nonce want_eat [] w = (status, token, claims, w2)"
    and judged: "judge_claims env (ac_claims_evaluator d) status claims w2 = (Inr u, w')"
    using assms(10) unfolding attest_device_def assms(4) by (auto simp: choose assms(5) split: prod.splits)
  have ok_status: "ac_claims_evaluator d = None \<longrightarrow> is_ok status"
    using judged by (auto simp: judge_claims_ok is_ok_def)
  show ?thesis
  proof (cases "\<forall>ev \<in> set evs. ge_nonce ev = nonce")
    case True
    then have "get_gpu_evidence env (ac_gpu_evidence_source d) nonce w = (Inr evs, w)"
      by (simp add: get_gpu_evidence_def assms(6) pure_def json_source_get_evidence_def list_all_iff ret_def)
    moreover have "at_gpu_verify env r evs (ac_evidence_policy d) want_eat [] w
        = local_gpu_verify_evidence v eat_env now want_eat evs (ac_evidence_policy d) [] w" for r
      using assms(3) by blast
    ultimately have "(\<exists>r. ac_gpu_verifier d = Some r \<and> local_gpu_verify_evidence v eat_env now want_eat evs (ac_evidence_policy d) [] w
        = (status, token, claims, w2)) \<or> claims = [] \<and> \<not> is_ok status"
      using run by (auto simp: attest_gpus_def is_ok_def undefined_behaviour_def split: option.splits)
    then show ?thesis
    proof (elim disjE exE conjE)
      fix r
      assume "local_gpu_verify_evidence v eat_env now want_eat evs (ac_evidence_policy d) [] w = (status, token, claims, w2)"
      then obtain cs where cs: "claims = map GpuClaims cs" "is_ok status \<longrightarrow> length cs = length evs"
        "list_all2 (\<lambda>ev. gpu_claims_backed v (ac_evidence_policy d) published (ge_nonce ev) ev) (take (length cs) evs) cs"
        using rim_store.verifier_backed [OF assms(1,2) refl refl assms(8,7)] by blast
      from cs(3) have "list_all2 (gpu_claims_backed v (ac_evidence_policy d) published nonce) (take (length cs) evs) cs"
        by (rule list.rel_mono_strong) (use True in \<open>auto dest: in_set_takeD\<close>)
      then show ?thesis using cs(1,2) ok_status by (intro exI [of _ cs]) simp
    qed (use ok_status in auto)
  next
    case False
    then have "get_gpu_evidence env (ac_gpu_evidence_source d) nonce w = (fail GpuEvidenceNonceMismatch, w)"
      by (auto simp: get_gpu_evidence_def assms(6) pure_def json_source_get_evidence_def list_all_iff)
    then have "claims = []" "\<not> is_ok status" using run by (auto simp: attest_gpus_def fail_def is_ok_def)
    then show ?thesis using ok_status by auto
  qed
qed

text \<open>A store that publishes for every identifier the text it gives out.\<close>

definition demo_store_verifier :: "(nat, string, (string \<times> string) list, unit, unit) verifier" where
  "demo_store_verifier = demo_verifier\<lparr>lv_rim_store := (\<lambda>r i. (Inr \<lparr>rd_rim_id = i,
     rd_doc = (if i = ''NV_GPU_DRIVER_GH100_A'' then ''A'' else ''01.02''),
     rd_rim_data = (if i = ''NV_GPU_DRIVER_GH100_A'' then ''A'' else ''01.02'')\<rparr>, r))\<rparr>"

definition demo_file_env :: "((unit \<times> unit) \<times> unit) attest_env" where
  "demo_file_env = \<lparr>at_env = (\<lambda>n. None), at_rand_bytes = (\<lambda>n w. (None, w)),
     at_gpu_source = (\<lambda>r n w. (Inr [], w)), at_switch_source = (\<lambda>r n w. (Inr [], w)),
     at_gpu_verify = (\<lambda>r evs policy want_eat out w.
       local_gpu_verify_evidence demo_store_verifier demo_eat_env 5 want_eat evs policy out w),
     at_switch_verify = (\<lambda>r evs policy want_eat out w. (ret (), None, out, w)), at_evaluate = (\<lambda>e cs w. (Inr True, w))\<rparr>"

definition demo_file_context :: attestation_ctx where
  "demo_file_context = (set_verifier_type LocalType (new_context (hc_options demo_client)))
     \<lparr>ac_gpu_evidence_source := Some (GpuJsonFileSource [demo_gpu_evidence])\<rparr>"

lemma demo_item_verified:
  "is_ok (fst (verify_gpu_item demo_store_verifier default_evidence_policy demo_gpu_evidence ((), ())))"
proof -
  have sel: "lv_x509 demo_store_verifier = demo_x509" "lv_device_root_cert demo_store_verifier = []"
    by (simp_all add: demo_store_verifier_def demo_verifier_def)
  show ?thesis
    unfolding verify_gpu_item_def sel demo_report_parsed pure_bind by code_simp
qed

lemma demo_file_init:
  "\<exists>d v. ensure_init (at_env demo_file_env) demo_file_context = (Inr (), d) \<and> ac_gpu_enabled d
     \<and> ac_gpu_evidence_source d = Some (GpuJsonFileSource [demo_gpu_evidence]) \<and> ac_gpu_verifier d = Some v
     \<and> ac_evidence_policy d = default_evidence_policy \<and> ac_claims_evaluator d = None"
  by (simp add: ensure_init_def init_defaults_def init_gpu_def init_switch_def demo_file_context_def setting_defs new_context_def
      create_verifier_def sbind_def Let_def ret_def or_new_def)

theorem local_gpu_attestation_end_to_end_witness:
  "\<exists>cs d w'. attest_device demo_file_env demo_file_context (replicate 32 7) False [] (((), ()), ())
      = (Inr (), None, map GpuClaims cs, d, w') \<and> length cs = 1
    \<and> list_all2 (gpu_claims_backed demo_store_verifier default_evidence_policy (\<lambda>i t. t \<in> {''A'', ''01.02''}) (replicate 32 7))
        [demo_gpu_evidence] cs"
proof -
  let ?w = "(((), ()), ())" and ?n = "replicate 32 7 :: buffer"
  obtain d r where d: "ensure_init (at_env demo_file_env) demo_file_context = (Inr (), d)" "ac_gpu_enabled d"
    "ac_gpu_evidence_source d = Some (GpuJsonFileSource [demo_gpu_evidence])" "ac_gpu_verifier d = Some r"
    "ac_evidence_policy d = default_evidence_policy" "ac_claims_evaluator d = None"
    using demo_file_init by blast
  obtain c s where item: "verify_gpu_item demo_store_verifier default_evidence_policy demo_gpu_evidence ((), ()) = (Inr c, s)"
    using is_ok_step [OF demo_item_verified] by blast
  have nonce: "ge_nonce demo_gpu_evidence = ?n" by (simp add: demo_gpu_evidence_def)
  have v3: "ep_gpu_claims_version default_evidence_policy = GpuClaimsV3" by (simp add: default_evidence_policy_def)
  have run: "attest_device demo_file_env demo_file_context ?n False [] ?w = (Inr (), None, [GpuClaims c], d, (s, ()))"
    unfolding attest_device_def d(1)
    by (simp add: choose_nonce_def d attest_gpus_def get_gpu_evidence_def json_source_get_evidence_def nonce pure_def
        demo_file_env_def local_gpu_verify_evidence_def v3 generate_claims_v3_def item judge_claims_def ret_def)
  have texts: "remove_null_terminators ''A'' = ''A''" "remove_null_terminators ''01.02'' = ''01.02''" by code_simp+
  have store: "rim_store (lv_rim_store demo_store_verifier) (lv_xml demo_store_verifier) (\<lambda>i t. t \<in> {''A'', ''01.02''}) (\<lambda>_. True)"
    by unfold_locales (auto simp: demo_store_verifier_def demo_verifier_def demo_rim_xml_def wf_document_def texts)
  have "wf_buffer (ge_attestation_report demo_gpu_evidence)"
    by (simp add: wf_buffer_def demo_gpu_evidence_def length_demo_report)
  then have "gpu_claims_backed demo_store_verifier default_evidence_policy (\<lambda>i t. t = ''A'' \<or> t = ''01.02'') ?n demo_gpu_evidence c"
    using local_gpu_attestation_end_to_end [OF store _ _ d(1,2,3) _ _ _ run, of demo_eat_env 5]
    by (auto simp: demo_file_env_def d v3)
  then show ?thesis using run by (intro exI [of _ "[c]"] exI [of _ d] exI [of _ "(s, ())"]) simp
qed

end
